(* ===== verification/Trtp_Prelude.thy ===== *)
theory Trtp_Prelude
  imports Main "HOL-Library.Word" "HOL-Library.Monad_Syntax"
begin

text \<open>
  What every component of the TRTP receiver shares: the fixed-width integers of
  \<^verbatim>\<open>stdint.h\<close> as words, the constants of \<^verbatim>\<open>headers/global.h\<close>, the error numbers of
  \<^verbatim>\<open>headers/errors.h\<close>, byte order conversion, memory reads that may leave their array, and
  the generic lemmas on lists and words used by the component theories.

  The collections: \<open>byte_order\<close> gathers the laws of the byte order functions,
  \<open>mem_simps\<close> the facts about bounded reads.
\<close>

unbundle bit_operations_syntax

named_theorems byte_order "laws of network byte order conversion"
named_theorems mem_simps "bounded reads and block copies"

section \<open>Types\<close>

type_synonym u8 = "8 word"
type_synonym u16 = "16 word"
type_synonym u32 = "32 word"
type_synonym u64 = "64 word"
type_synonym bytes = "u8 list"

lemma unat_u8_less: "unat (x::u8) < 256"
  using unsigned_less [of x] by simp

lemma unat_u16_less: "unat (x::u16) < 65536"
  using unsigned_less [of x] by simp

section \<open>Constants of global.h\<close>

definition MIN_PACKET_SIZE :: nat where [simp]: "MIN_PACKET_SIZE = 11"
definition MAX_PACKET_SIZE :: nat where [simp]: "MAX_PACKET_SIZE = 528"
definition MAX_PAYLOAD_SIZE :: nat where [simp]: "MAX_PAYLOAD_SIZE = 512"
definition MAX_WINDOW_SIZE :: nat where [simp]: "MAX_WINDOW_SIZE = 31"
definition MAX_BUFFER_SIZE :: nat where [simp]: "MAX_BUFFER_SIZE = 32"

section \<open>Error numbers\<close>

text \<open>
  The \<^verbatim>\<open>Errors\<close> enumeration. A C function that fails returns \<open>-1\<close> and leaves one of these
  in \<^verbatim>\<open>errno\<close>; the models return the constructor.
\<close>

datatype errors_t =
    NULL_ARGUMENT | ALREADY_ALLOCATED | ALREADY_DEALLOCATED | FAILED_TO_ALLOCATE
  | FAILED_TO_COPY | FAILED_TO_OPEN | PACKET_TOO_SHORT | PACKET_TOO_LONG
  | PACKET_INCORRECT_LENGTH | TYPE_IS_WRONG | NON_DATA_TRUNCATED | CRC_VALIDATION_FAILED
  | PAYLOAD_VALIDATION_FAILED | PAYLOAD_TOO_LONG | REGEX_COMPILATION_FAILED
  | CLI_O_VALUE_MISSING | CLI_UNKNOWN_OPTION | CLI_IP_MISSING | CLI_PORT_MISSING
  | CLI_TOO_MANY_ARGUMENTS | CLI_FORMAT_VALIDATION_FAILED | CLI_IP_INVALID | CLI_MAX_INVALID
  | CLI_PORT_INVALID | CLI_HANDLE_INVALID | CLI_WINDOW_INVALID | STR2INT_INCONVERTIBLE
  | STR2INT_OVERFLOW | STR2INT_UNDERFLOW | STR2INT_NOT_END | FAILED_TO_INIT_MUTEX
  | FAILED_TO_INIT_COND | FAILED_TO_RESIZE | UNKNOWN

fun errno_of :: "errors_t \<Rightarrow> int" where
  "errno_of NULL_ARGUMENT = 0"
| "errno_of ALREADY_ALLOCATED = 1"
| "errno_of ALREADY_DEALLOCATED = 2"
| "errno_of FAILED_TO_ALLOCATE = 3"
| "errno_of FAILED_TO_COPY = 4"
| "errno_of FAILED_TO_OPEN = 5"
| "errno_of PACKET_TOO_SHORT = 6"
| "errno_of PACKET_TOO_LONG = 7"
| "errno_of PACKET_INCORRECT_LENGTH = 8"
| "errno_of TYPE_IS_WRONG = 9"
| "errno_of NON_DATA_TRUNCATED = 10"
| "errno_of CRC_VALIDATION_FAILED = 11"
| "errno_of PAYLOAD_VALIDATION_FAILED = 12"
| "errno_of PAYLOAD_TOO_LONG = 13"
| "errno_of REGEX_COMPILATION_FAILED = 14"
| "errno_of CLI_O_VALUE_MISSING = 15"
| "errno_of CLI_UNKNOWN_OPTION = 16"
| "errno_of CLI_IP_MISSING = 17"
| "errno_of CLI_PORT_MISSING = 18"
| "errno_of CLI_TOO_MANY_ARGUMENTS = 19"
| "errno_of CLI_FORMAT_VALIDATION_FAILED = 20"
| "errno_of CLI_IP_INVALID = 21"
| "errno_of CLI_MAX_INVALID = 22"
| "errno_of CLI_PORT_INVALID = 23"
| "errno_of CLI_HANDLE_INVALID = 24"
| "errno_of CLI_WINDOW_INVALID = 25"
| "errno_of STR2INT_INCONVERTIBLE = 26"
| "errno_of STR2INT_OVERFLOW = 27"
| "errno_of STR2INT_UNDERFLOW = 28"
| "errno_of STR2INT_NOT_END = 29"
| "errno_of FAILED_TO_INIT_MUTEX = 30"
| "errno_of FAILED_TO_INIT_COND = 31"
| "errno_of FAILED_TO_RESIZE = 32"
| "errno_of UNKNOWN = 255"

lemma errno_of_inject [simp]: "errno_of a = errno_of b \<longleftrightarrow> a = b"
  by (cases a; cases b) simp_all

section \<open>Byte order\<close>

text \<open>
  \<^verbatim>\<open>ntohs\<close>, \<^verbatim>\<open>htons\<close>, \<^verbatim>\<open>ntohl\<close> and \<^verbatim>\<open>htonl\<close> on a little-endian host, where each swaps the
  bytes of its argument. The sources assemble and write integers least significant byte
  first and convert them with these functions, which is right on little-endian hosts only.
\<close>

definition ntohs :: "u16 \<Rightarrow> u16" where
  "ntohs x = push_bit 8 x OR drop_bit 8 x"

definition ntohl :: "u32 \<Rightarrow> u32" where
  "ntohl x = push_bit 24 x OR (push_bit 8 x AND 0xFF0000) OR (drop_bit 8 x AND 0xFF00) OR drop_bit 24 x"

abbreviation htons :: "u16 \<Rightarrow> u16" where "htons \<equiv> ntohs"
abbreviation htonl :: "u32 \<Rightarrow> u32" where "htonl \<equiv> ntohl"

text \<open>The network representation of a 32-bit value: its bytes, most significant first.\<close>

definition be32 :: "u32 \<Rightarrow> bytes" where
  "be32 x = [ucast (drop_bit 24 x), ucast (drop_bit 16 x), ucast (drop_bit 8 x), ucast x]"

definition of_be32 :: "u8 \<Rightarrow> u8 \<Rightarrow> u8 \<Rightarrow> u8 \<Rightarrow> u32" where
  "of_be32 a b c d =
     push_bit 24 (ucast a) OR push_bit 16 (ucast b) OR push_bit 8 (ucast c) OR ucast d"

lemma length_be32 [simp]: "length (be32 x) = 4"
  by (simp add: be32_def)

lemma mask_numerals_u32:
  "(0xFF :: u32) = mask 8" "(0xFF00 :: u32) = push_bit 8 (mask 8)"
  "(0xFF0000 :: u32) = push_bit 16 (mask 8)"
  by (simp_all add: mask_eq_exp_minus_1 push_bit_eq_mult)

lemma ntohs_ntohs [simp, byte_order]: "ntohs (ntohs x) = x"
  by (rule bit_word_eqI) (auto simp: ntohs_def bit_simps dest: bit_imp_le_length)

text \<open>
  Two words are equal when their bits are, position by position; a byte has no bit from
  position 8 on. With these, an identity between concrete shifts and masks is decided by
  the simplifier, one position at a time.
\<close>

lemma upt_32: "[0..<32] =
    [0, 1, 2, 3, 4, 5, 6, 7, 8, 9, 10, 11, 12, 13, 14, 15,
     16, 17, 18, 19, 20, 21, 22, 23, 24, 25, 26, 27, 28, 29, 30, 31]"
  by code_simp

lemma upt_8: "[0..<8] = [0, 1, 2, 3, 4, 5, 6, 7]"
  by code_simp

lemma upt_16: "[0..<16] = [0, 1, 2, 3, 4, 5, 6, 7, 8, 9, 10, 11, 12, 13, 14, 15]"
  by code_simp

lemma u16_eqI: "list_all (\<lambda>n. bit x n = bit y n) [0..<16] \<Longrightarrow> x = (y::u16)"
  by (rule bit_word_eqI) (simp add: list_all_iff)

lemma u32_eqI: "list_all (\<lambda>n. bit x n = bit y n) [0..<32] \<Longrightarrow> x = (y::u32)"
  by (rule bit_word_eqI) (simp add: list_all_iff)

lemma u8_eqI: "list_all (\<lambda>n. bit x n = bit y n) [0..<8] \<Longrightarrow> x = (y::u8)"
  by (rule bit_word_eqI) (simp add: list_all_iff)

lemma u8_bit_high: "8 \<le> n \<Longrightarrow> \<not> bit (b::u8) n"
  using bit_imp_le_length [of b n] by auto

lemma bit_beyond: "unat w < 2 ^ k \<Longrightarrow> k \<le> n \<Longrightarrow> \<not> bit w n"
proof -
  assume w: "unat w < 2 ^ k" and n: "k \<le> n"
  have "bit (unat w) n \<longleftrightarrow> bit (take_bit k (unat w)) n"
    using w by (simp add: take_bit_nat_eq_self)
  with n show ?thesis by (simp add: bit_take_bit_iff bit_unsigned_iff)
qed

lemma u16_bit_high: "16 \<le> n \<Longrightarrow> \<not> bit (b::u16) n"
  using bit_imp_le_length [of b n] by auto

lemma u32_bit_high: "32 \<le> n \<Longrightarrow> \<not> bit (b::u32) n"
  using bit_imp_le_length [of b n] by auto

lemmas bit_by_bit = u32_bit_high u16_bit_high bit_xor_iff upt_8 upt_16 upt_32 bit_or_iff bit_and_iff bit_push_bit_iff bit_drop_bit_eq bit_unsigned_iff
  bit_mask_iff u8_bit_high possible_bit_def

lemma ntohl_bytes [byte_order]:
  "ntohl (ucast (a::u8) OR push_bit 8 (ucast (b::u8)) OR push_bit 16 (ucast (c::u8)) OR push_bit 24 (ucast (d::u8)))
   = of_be32 a b c d"
  unfolding ntohl_def of_be32_def mask_numerals_u32
  by (rule u32_eqI) (simp add: bit_by_bit)

lemma htonl_le_bytes [byte_order]:
  "[ucast (htonl x), ucast (drop_bit 8 (htonl x)), ucast (drop_bit 16 (htonl x)), ucast (drop_bit 24 (htonl x))] = be32 x"
  unfolding ntohl_def be32_def mask_numerals_u32
  by (simp, intro conjI; rule u8_eqI; simp add: bit_by_bit)

lemma of_be32_be32 [simp, byte_order]:
  "of_be32 (ucast (drop_bit 24 x)) (ucast (drop_bit 16 x)) (ucast (drop_bit 8 x)) (ucast x) = x"
  unfolding of_be32_def by (rule u32_eqI) (simp add: bit_by_bit)

lemma be32_of_be32 [simp, byte_order]: "be32 (of_be32 a b c d) = [a, b, c, d]"
  unfolding of_be32_def be32_def
  by (simp, intro conjI; rule u8_eqI; simp add: bit_by_bit)

section \<open>Reads and copies\<close>

text \<open>
  A read of element \<open>i\<close> of an array of \<open>length xs\<close> elements. \<open>None\<close> is a read outside
  the array, which C leaves undefined: a model that returns \<open>Some\<close> made no such read.
\<close>

definition rd :: "'a list \<Rightarrow> nat \<Rightarrow> 'a option" where
  "rd xs i = (if i < length xs then Some (xs ! i) else None)"

text \<open>\<^verbatim>\<open>memcpy(dst, src + off, n)\<close>: \<open>None\<close> when it would read or write outside the arrays.\<close>

definition memcpy_from :: "'a list \<Rightarrow> 'a list \<Rightarrow> nat \<Rightarrow> nat \<Rightarrow> 'a list option" where
  "memcpy_from dst src off n =
     (if off + n \<le> length src \<and> n \<le> length dst
      then Some (take n (drop off src) @ drop n dst) else None)"

lemma rd_Some [simp, mem_simps]: "i < length xs \<Longrightarrow> rd xs i = Some (xs ! i)"
  by (simp add: rd_def)

lemma rd_eq_Some_iff: "rd xs i = Some x \<longleftrightarrow> i < length xs \<and> xs ! i = x"
  by (simp add: rd_def)

lemma rd_append1 [mem_simps]: "i < length xs \<Longrightarrow> rd (xs @ ys) i = rd xs i"
  by (simp add: rd_def nth_append)

lemma memcpy_from_Some [mem_simps]:
  "off + n \<le> length src \<Longrightarrow> n \<le> length dst \<Longrightarrow>
   memcpy_from dst src off n = Some (take n (drop off src) @ drop n dst)"
  by (simp add: memcpy_from_def)

lemma memcpy_from_length:
  "memcpy_from dst src off n = Some r \<Longrightarrow> length r = length dst"
  by (auto simp: memcpy_from_def split: if_splits)

lemma map_leD: "m \<subseteq>\<^sub>m m' \<Longrightarrow> m k = Some v \<Longrightarrow> m' k = Some v"
  by (metis domI map_le_def)

section \<open>Rows that rotate\<close>

text \<open>\<open>rotates r rs\<close>: each row, rotated left by one place, gives the row before it.\<close>

fun rotates :: "'a list \<Rightarrow> 'a list list \<Rightarrow> bool" where
  "rotates r [] = True"
| "rotates r (x # xs) = (rotate1 x = r \<and> rotates x xs)"

lemma rotates_append: "rotates r (xs @ ys) \<longleftrightarrow> rotates r xs \<and> rotates (last (r # xs)) ys"
  by (induction xs arbitrary: r) auto

lemma last_tl_or_hd: "xs \<noteq> [] \<Longrightarrow> last (hd xs # tl xs) = last xs"
  by (cases xs) auto

end
