(* ===== verification/Crc32.thy ===== *)
theory Crc32
  imports Crc32_Table
begin

text \<open>
  The checksum of \<^verbatim>\<open>lib/Crc32.cpp\<close>. The receiver validates headers with \<^verbatim>\<open>crc32_8bytes\<close>
  (slicing by 8) and payloads with \<^verbatim>\<open>crc32_16bytes\<close> (slicing by 16, four blocks unrolled);
  both read the precomputed table. The reference is \<^verbatim>\<open>crc32_bitwise\<close>, the shift register
  itself. All three are modelled as the source has them (on a little-endian host), and the
  two fast routines are shown to compute the reference.

  Method: one bit of the register is linear over exclusive or, hence so is any number of
  bits; slice \<open>k\<close> of the table holds the images of the 256 byte values after \<open>8 * (k + 1)\<close>
  bits, and a block of bytes is the exclusive or of the images of its bytes.
\<close>

section \<open>The routines\<close>

definition Polynomial :: u32 where
  "Polynomial = 0xEDB88320"

definition crc_bit :: "u32 \<Rightarrow> u32" where
  "crc_bit crc = drop_bit 1 crc XOR (- (crc AND 1) AND Polynomial)"

definition crc_byte :: "u32 \<Rightarrow> u32" where
  "crc_byte = crc_bit ^^ 8"

definition crc32_bitwise :: "bytes \<Rightarrow> u32 \<Rightarrow> u32" where
  "crc32_bitwise data previousCrc32 =
     NOT (foldl (\<lambda>crc b. crc_byte (crc XOR ucast b)) (NOT previousCrc32) data)"

definition lookup :: "nat \<Rightarrow> u32 \<Rightarrow> u32" where
  "lookup k x = Crc32Lookup ! k ! unat (x AND 0xFF)"

text \<open>\<^verbatim>\<open>*current\<close> read through a \<^verbatim>\<open>uint32_t *\<close> at byte offset \<open>i\<close>, least significant byte first.\<close>

definition le32_at :: "bytes \<Rightarrow> nat \<Rightarrow> u32" where
  "le32_at d i = ucast (d ! i) OR push_bit 8 (ucast (d ! (i + 1)))
     OR push_bit 16 (ucast (d ! (i + 2))) OR push_bit 24 (ucast (d ! (i + 3)))"

text \<open>The tail loop: \<^verbatim>\<open>crc = (crc >> 8) ^ Crc32Lookup[0][(crc & 0xFF) ^ *currentChar++]\<close>.\<close>

definition crc_tail_step :: "u32 \<Rightarrow> u8 \<Rightarrow> u32" where
  "crc_tail_step crc b = drop_bit 8 crc XOR Crc32Lookup ! 0 ! unat ((crc AND 0xFF) XOR ucast b)"

definition crc8_block :: "u32 \<Rightarrow> bytes \<Rightarrow> u32" where
  "crc8_block crc d = (let one = le32_at d 0 XOR crc; two = le32_at d 4 in
     lookup 0 (drop_bit 24 two) XOR lookup 1 (drop_bit 16 two) XOR
     lookup 2 (drop_bit 8 two) XOR lookup 3 two XOR
     lookup 4 (drop_bit 24 one) XOR lookup 5 (drop_bit 16 one) XOR
     lookup 6 (drop_bit 8 one) XOR lookup 7 one)"

fun crc8_loop :: "u32 \<Rightarrow> bytes \<Rightarrow> u32" where
  "crc8_loop crc data =
     (if 8 \<le> length data then crc8_loop (crc8_block crc data) (drop 8 data)
      else foldl crc_tail_step crc data)"

definition crc32_8bytes :: "bytes \<Rightarrow> u32 \<Rightarrow> u32" where
  "crc32_8bytes data previousCrc32 = NOT (crc8_loop (NOT previousCrc32) data)"

definition crc16_block :: "u32 \<Rightarrow> bytes \<Rightarrow> u32" where
  "crc16_block crc d = (let one = le32_at d 0 XOR crc; two = le32_at d 4;
       three = le32_at d 8; four = le32_at d 12 in
     lookup 0 (drop_bit 24 four) XOR lookup 1 (drop_bit 16 four) XOR
     lookup 2 (drop_bit 8 four) XOR lookup 3 four XOR
     lookup 4 (drop_bit 24 three) XOR lookup 5 (drop_bit 16 three) XOR
     lookup 6 (drop_bit 8 three) XOR lookup 7 three XOR
     lookup 8 (drop_bit 24 two) XOR lookup 9 (drop_bit 16 two) XOR
     lookup 10 (drop_bit 8 two) XOR lookup 11 two XOR
     lookup 12 (drop_bit 24 one) XOR lookup 13 (drop_bit 16 one) XOR
     lookup 14 (drop_bit 8 one) XOR lookup 15 one)"

fun crc16_loop :: "u32 \<Rightarrow> bytes \<Rightarrow> u32" where
  "crc16_loop crc data =
     (if 64 \<le> length data then
        crc16_loop (foldl (\<lambda>c i. crc16_block c (drop (16 * i) data)) crc [0, 1, 2, 3])
          (drop 64 data)
      else foldl crc_tail_step crc data)"

definition crc32_16bytes :: "bytes \<Rightarrow> u32 \<Rightarrow> u32" where
  "crc32_16bytes data previousCrc32 = NOT (crc16_loop (NOT previousCrc32) data)"

declare crc8_loop.simps [simp del] crc16_loop.simps [simp del]

section \<open>The register is linear\<close>

lemma crc_bit_cases: "crc_bit c = drop_bit 1 c XOR (if odd c then Polynomial else 0)"
proof -
  have "c AND 1 = of_bool (odd c)" by (simp add: and_one_eq odd_iff_mod_2_eq_one)
  then show ?thesis by (simp add: crc_bit_def)
qed

lemma crc_bit_0 [simp]: "crc_bit 0 = 0"
  by (simp add: crc_bit_cases)

lemma crc_bit_xor: "crc_bit (a XOR b) = crc_bit a XOR crc_bit b"
proof -
  have "odd (a XOR b) \<longleftrightarrow> odd a \<noteq> odd b" by (simp add: even_xor_iff)
  then show ?thesis
    by (auto simp: crc_bit_cases drop_bit_xor xor.assoc xor.left_commute)
qed

lemma crc_bit_pow_xor: "(crc_bit ^^ n) (a XOR b) = (crc_bit ^^ n) a XOR (crc_bit ^^ n) b"
  by (induction n) (simp_all add: crc_bit_xor)

lemma crc_byte_xor: "crc_byte (a XOR b) = crc_byte a XOR crc_byte b"
  by (simp add: crc_byte_def crc_bit_pow_xor)

lemma crc_byte_0 [simp]: "crc_byte 0 = 0"
proof -
  have "(crc_bit ^^ n) 0 = 0" for n by (induction n) simp_all
  then show ?thesis by (simp add: crc_byte_def)
qed

lemma crc_byte_pow_xor: "(crc_byte ^^ n) (a XOR b) = (crc_byte ^^ n) a XOR (crc_byte ^^ n) b"
  by (induction n) (simp_all add: crc_byte_xor)

lemma crc_byte_pow_0 [simp]: "(crc_byte ^^ n) 0 = 0"
  by (induction n) simp_all

lemma crc_bit_push:
  assumes "n < k" shows "crc_bit (push_bit (Suc n) (drop_bit k x)) = push_bit n (drop_bit k x)"
proof -
  have "crc_bit (push_bit (Suc n) (drop_bit k x)) = drop_bit 1 (push_bit (Suc n) (drop_bit k x))"
    by (simp add: crc_bit_cases)
  also have "\<dots> = push_bit n (drop_bit k x)"
    using assms by (intro bit_word_eqI) (auto simp: bit_simps simp del: push_bit_Suc dest: bit_imp_le_length)
  finally show ?thesis .
qed

lemma crc_bit_pow_push:
  "n \<le> k \<Longrightarrow> (crc_bit ^^ n) (push_bit n (drop_bit k x)) = drop_bit k x"
  by (induction n) (simp_all add: funpow_Suc_right crc_bit_push del: funpow.simps(2) push_bit_Suc)

text \<open>One byte of the register: the low byte is fed back, the rest moves down.\<close>

lemma crc_byte_split: "crc_byte c = drop_bit 8 c XOR crc_byte (c AND 0xFF)"
proof -
  have "c = push_bit 8 (drop_bit 8 c) XOR (c AND 0xFF)"
    unfolding mask_numerals_u32 by (rule bit_word_eqI) (auto simp: bit_simps)
  then have "crc_byte c = crc_byte (push_bit 8 (drop_bit 8 c)) XOR crc_byte (c AND 0xFF)"
    by (metis crc_byte_xor)
  then show ?thesis by (simp add: crc_byte_def crc_bit_pow_push)
qed

section \<open>The table\<close>

lemma word_of_nat_add_power:
  assumes "i < 2 ^ n" shows "(word_of_nat (i + 2 ^ n) :: u32) = 2 ^ n XOR word_of_nat i"
proof -
  have "(2 ^ n :: u32) AND word_of_nat i = 0"
  proof (rule bit_word_eqI)
    fix k
    have "\<not> bit i n"
      using assms by (metis bit_take_bit_iff less_irrefl take_bit_nat_eq_self)
    then show "bit ((2 ^ n :: u32) AND word_of_nat i) k = bit (0::u32) k"
      by (auto simp: bit_simps)
  qed
  then have "2 ^ n + word_of_nat i = (2 ^ n XOR word_of_nat i :: u32)"
    by (rule disjunctive_add_eq_xor)
  then show ?thesis by (simp add: add.commute)
qed

text \<open>A span of the images of the powers of two under a linear map is the table of the map.\<close>

lemma xor_span_linear:
  fixes L :: "u32 \<Rightarrow> u32"
  assumes lin: "\<And>a b. L (a XOR b) = L a XOR L b"
  shows "xor_span (map (\<lambda>j. L (2 ^ j)) [0..<n]) = map (\<lambda>i. L (word_of_nat i)) [0..<2 ^ n]"
proof (induction n)
  case 0
  have "L 0 = 0" using lin [of 0 0] by simp
  then show ?case by (simp add: xor_span_simps)
next
  case (Suc n)
  have "[0..<2 ^ Suc n] = [0..<2 ^ n] @ map (\<lambda>i. i + 2 ^ n) [0..<2 ^ n]"
    by (simp add: map_add_upt upt_add_eq_append [of 0 "2 ^ n" "2 ^ n"] mult_2)
  moreover have "L (word_of_nat (i + 2 ^ n)) = L (2 ^ n) XOR L (word_of_nat i)" if "i < 2 ^ n" for i
    by (simp only: word_of_nat_add_power [OF that] lin)
  ultimately show ?case
    by (simp add: xor_span_simps Suc.IH del: of_nat_add)
qed

definition table_of :: "nat \<Rightarrow> u32 list" where
  "table_of k = map (\<lambda>i. (crc_byte ^^ Suc k) (word_of_nat i)) [0..<256]"

definition generators :: "nat \<Rightarrow> u32 list" where
  "generators k = map (\<lambda>j. (crc_byte ^^ Suc k) (2 ^ j)) [0..<8]"

lemma table_of_span: "table_of k = xor_span (generators k)"
  using xor_span_linear [of "crc_byte ^^ Suc k" 8] crc_byte_pow_xor [of "Suc k"]
  by (simp add: table_of_def generators_def)

text \<open>
  The eight generators of every slice, computed one slice from the other: \<open>crc_byte\<close> is
  evaluated bit by bit on literals.
\<close>

lemma crc_bit_literal:
  "crc_bit 1 = Polynomial"
  "crc_bit (numeral n) = drop_bit 1 (numeral n) XOR (if odd (numeral n :: u32) then Polynomial else 0)"
  by (simp_all add: crc_bit_cases)

lemma crc_byte_unfold:
  "crc_byte c = crc_bit (crc_bit (crc_bit (crc_bit (crc_bit (crc_bit (crc_bit (crc_bit c)))))))"
  by (simp add: crc_byte_def numeral_eq_Suc)

lemmas crc_byte_eval = crc_byte_unfold crc_bit_literal Polynomial_def

lemma generators_0_eq: "generators 0 = map crc_byte [1, 2, 4, 8, 16, 32, 64, 128]"
  by (simp add: generators_def upt_8)

lemma generators_Suc: "generators (Suc k) = map crc_byte (generators k)"
  by (simp add: generators_def)

lemma generators_0: "generators 0 =
    [0x77073096, 0xEE0E612C, 0x076DC419, 0x0EDB8832,
     0x1DB71064, 0x3B6E20C8, 0x76DC4190, 0xEDB88320]"
  by (simp add: generators_0_eq crc_byte_eval)

lemma generators_1: "generators 1 =
    [0x191B3141, 0x32366282, 0x646CC504, 0xC8D98A08,
     0x4AC21251, 0x958424A2, 0xF0794F05, 0x3B83984B]"
  unfolding One_nat_def generators_Suc generators_0 by (simp add: crc_byte_eval)

lemma generators_2: "generators 2 =
    [0x01C26A37, 0x0384D46E, 0x0709A8DC, 0x0E1351B8,
     0x1C26A370, 0x384D46E0, 0x709A8DC0, 0xE1351B80]"
  unfolding Suc_1 [symmetric] generators_Suc generators_1 by (simp add: crc_byte_eval)

lemma generators_3: "generators 3 =
    [0xB8BC6765, 0xAA09C88B, 0x8F629757, 0xC5B428EF,
     0x5019579F, 0xA032AF3E, 0x9B14583D, 0xED59B63B]"
  using generators_Suc [of 2] by (simp add: generators_2 crc_byte_eval)

lemma generators_4: "generators 4 =
    [0x3D6029B0, 0x7AC05360, 0xF580A6C0, 0x30704BC1,
     0x60E09782, 0xC1C12F04, 0x58F35849, 0xB1E6B092]"
  using generators_Suc [of 3] by (simp add: generators_3 crc_byte_eval)

lemma generators_5: "generators 5 =
    [0xCB5CD3A5, 0x4DC8A10B, 0x9B914216, 0xEC53826D,
     0x03D6029B, 0x07AC0536, 0x0F580A6C, 0x1EB014D8]"
  using generators_Suc [of 4] by (simp add: generators_4 crc_byte_eval)

lemma generators_6: "generators 6 =
    [0xA6770BB4, 0x979F1129, 0xF44F2413, 0x33EF4E67,
     0x67DE9CCE, 0xCFBD399C, 0x440B7579, 0x8816EAF2]"
  using generators_Suc [of 5] by (simp add: generators_5 crc_byte_eval)

lemma generators_7: "generators 7 =
    [0xCCAA009E, 0x4225077D, 0x844A0EFA, 0xD3E51BB5,
     0x7CBB312B, 0xF9766256, 0x299DC2ED, 0x533B85DA]"
  using generators_Suc [of 6] by (simp add: generators_6 crc_byte_eval)

lemma generators_8: "generators 8 =
    [0x177B1443, 0x2EF62886, 0x5DEC510C, 0xBBD8A218,
     0xACC04271, 0x82F182A3, 0xDE920307, 0x6655004F]"
  using generators_Suc [of 7] by (simp add: generators_7 crc_byte_eval)

lemma generators_9: "generators 9 =
    [0xEFC26B3E, 0x04F5D03D, 0x09EBA07A, 0x13D740F4,
     0x27AE81E8, 0x4F5D03D0, 0x9EBA07A0, 0xE6050901]"
  using generators_Suc [of 8] by (simp add: generators_8 crc_byte_eval)

lemma generators_10: "generators 10 =
    [0xC18EDFC0, 0x586CB9C1, 0xB0D97382, 0xBAC3E145,
     0xAEF6C4CB, 0x869C8FD7, 0xD64819EF, 0x77E1359F]"
  using generators_Suc [of 9] by (simp add: generators_9 crc_byte_eval)

lemma generators_11: "generators 11 =
    [0x9BA54C6F, 0xEC3B9E9F, 0x03063B7F, 0x060C76FE,
     0x0C18EDFC, 0x1831DBF8, 0x3063B7F0, 0x60C76FE0]"
  using generators_Suc [of 10] by (simp add: generators_10 crc_byte_eval)

lemma generators_12: "generators 12 =
    [0xDD96D985, 0x605CB54B, 0xC0B96A96, 0x5A03D36D,
     0xB407A6DA, 0xB37E4BF5, 0xBD8D91AB, 0xA06A2517]"
  using generators_Suc [of 11] by (simp add: generators_11 crc_byte_eval)

lemma generators_13: "generators 13 =
    [0x9D0FE176, 0xE16EC4AD, 0x19AC8F1B, 0x33591E36,
     0x66B23C6C, 0xCD6478D8, 0x41B9F7F1, 0x8373EFE2]"
  using generators_Suc [of 12] by (simp add: generators_12 crc_byte_eval)

lemma generators_14: "generators 14 =
    [0xB9FBDBE8, 0xA886B191, 0x8A7C6563, 0xCF89CC87,
     0x44629F4F, 0x88C53E9E, 0xCAFB7B7D, 0x4E87F0BB]"
  using generators_Suc [of 13] by (simp add: generators_13 crc_byte_eval)

lemma generators_15: "generators 15 =
    [0xAE689191, 0x87A02563, 0xD4314C87, 0x73139F4F,
     0xE6273E9E, 0x173F7B7D, 0x2E7EF6FA, 0x5CFDEDF4]"
  using generators_Suc [of 14] by (simp add: generators_14 crc_byte_eval)

text \<open>The table of the source is the table of the register.\<close>

lemma Crc32Lookup_eq: "Crc32Lookup = map table_of [0..<16]"
  unfolding upt_16 list.map table_of_span Crc32Lookup_def
    generators_0 generators_1 generators_2 generators_3 generators_4 generators_5 generators_6
    generators_7 generators_8 generators_9 generators_10 generators_11 generators_12
    generators_13 generators_14 generators_15
    Crc32Lookup_span_0 Crc32Lookup_span_1 Crc32Lookup_span_2 Crc32Lookup_span_3
    Crc32Lookup_span_4 Crc32Lookup_span_5 Crc32Lookup_span_6 Crc32Lookup_span_7
    Crc32Lookup_span_8 Crc32Lookup_span_9 Crc32Lookup_span_10 Crc32Lookup_span_11
    Crc32Lookup_span_12 Crc32Lookup_span_13 Crc32Lookup_span_14 Crc32Lookup_span_15
  by (rule refl)

lemma unat_low_byte_less: "unat (x AND (0xFF::u32)) < 256"
proof -
  have "unat (x AND (0xFF::u32)) \<le> unat (0xFF::u32)"
    by (rule word_and_le1 [THEN word_le_nat_alt [THEN iffD1]])
  then show ?thesis by simp
qed

lemma lookup_eq: "k < 16 \<Longrightarrow> lookup k x = (crc_byte ^^ Suc k) (x AND 0xFF)"
  using unat_low_byte_less [of x]
  by (simp add: lookup_def Crc32Lookup_eq table_of_def del: funpow.simps)

section \<open>The fast routines compute the register\<close>

lemma crc_tail_step_eq: "crc_tail_step c b = crc_byte (c XOR ucast b)"
proof -
  have byte: "(ucast b :: u32) AND 0xFF = ucast b" "drop_bit 8 (ucast b :: u32) = 0"
    unfolding mask_numerals_u32 by (rule u32_eqI, simp add: bit_by_bit)+
  have "((c AND 0xFF) XOR ucast b) = (c XOR ucast b) AND (0xFF::u32)"
    unfolding mask_numerals_u32 by (rule u32_eqI) (simp add: bit_by_bit)
  then have "crc_tail_step c b = drop_bit 8 (c XOR ucast b) XOR lookup 0 (c XOR ucast b)"
    by (simp add: crc_tail_step_def lookup_def drop_bit_xor byte(2))
  then show ?thesis by (simp add: lookup_eq crc_byte_split [of "c XOR ucast b"])
qed

lemma crc_tail_eq: "foldl crc_tail_step c d = foldl (\<lambda>crc b. crc_byte (crc XOR ucast b)) c d"
  by (induction d arbitrary: c) (simp_all add: crc_tail_step_eq)

text \<open>Feeding a block: each byte contributes its image after the bytes that follow it.\<close>

abbreviation feed :: "u32 \<Rightarrow> bytes \<Rightarrow> u32" where
  "feed \<equiv> foldl (\<lambda>crc b. crc_byte (crc XOR ucast b))"

lemma feed_split: "feed c d = (crc_byte ^^ length d) c XOR feed 0 d"
proof (induction d arbitrary: c)
  case (Cons b d)
  have "feed c (b # d) = (crc_byte ^^ length d) (crc_byte (c XOR ucast b)) XOR feed 0 d"
    using Cons.IH [of "crc_byte (c XOR ucast b)"] by simp
  moreover have "feed 0 (b # d) = (crc_byte ^^ length d) (crc_byte (ucast b)) XOR feed 0 d"
    using Cons.IH [of "crc_byte (ucast b)"] by simp
  ultimately show ?case
    by (simp add: crc_byte_xor crc_byte_pow_xor funpow_swap1 xor.assoc)
qed simp

lemma feed_0_Cons: "feed 0 (b # d) = (crc_byte ^^ Suc (length d)) (ucast b) XOR feed 0 d"
  using feed_split [of "crc_byte (ucast b)" d] by (simp add: funpow_swap1)

text \<open>A 32-bit register is four bytes, each shifted out by the bytes below it.\<close>

lemma crc_byte_pow_register:
  assumes "4 \<le> n"
  shows "(crc_byte ^^ n) c =
    (crc_byte ^^ n) (c AND 0xFF) XOR (crc_byte ^^ (n - 1)) (drop_bit 8 c AND 0xFF) XOR
    (crc_byte ^^ (n - 2)) (drop_bit 16 c AND 0xFF) XOR (crc_byte ^^ (n - 3)) (drop_bit 24 c AND 0xFF)"
proof -
  obtain m where n: "n = Suc (Suc (Suc (Suc m)))"
    using le_Suc_ex [OF assms] by (auto simp: numeral_eq_Suc)
  have step: "(crc_byte ^^ Suc k) x = (crc_byte ^^ k) (drop_bit 8 x) XOR (crc_byte ^^ Suc k) (x AND 0xFF)"
    for k x
    using crc_byte_split [of x] by (simp add: funpow_swap1 crc_byte_pow_xor)
  have "drop_bit 24 c AND 0xFF = drop_bit 24 c"
    unfolding mask_numerals_u32 by (rule u32_eqI) (simp add: bit_by_bit)
  then show ?thesis
    using step [of "Suc (Suc (Suc m))" c] step [of "Suc (Suc m)" "drop_bit 8 c"]
      step [of "Suc m" "drop_bit 16 c"]
    by (simp add: n drop_bit_drop_bit ac_simps del: funpow.simps)
qed

lemma le32_at_bytes:
  "le32_at d i AND 0xFF = ucast (d ! i)"
  "drop_bit 8 (le32_at d i) AND 0xFF = ucast (d ! (i + 1))"
  "drop_bit 16 (le32_at d i) AND 0xFF = ucast (d ! (i + 2))"
  "drop_bit 24 (le32_at d i) AND 0xFF = ucast (d ! (i + 3))"
  unfolding le32_at_def mask_numerals_u32 by (rule u32_eqI, simp add: bit_by_bit)+

lemma and_xor_FF: "(a XOR b) AND 0xFF = (a AND 0xFF) XOR (b AND (0xFF::u32))"
  unfolding mask_numerals_u32 by (rule bit_word_eqI) (auto simp: bit_simps)

lemmas block_simps = lookup_eq and_xor_FF drop_bit_xor le32_at_bytes crc_byte_xor Let_def

lemma take_8: "8 \<le> length d \<Longrightarrow> take 8 d = [d ! 0, d ! 1, d ! 2, d ! 3, d ! 4, d ! 5, d ! 6, d ! 7]"
  by (rule nth_equalityI) (auto simp: less_Suc_eq numeral_eq_Suc)

lemma take_16: "16 \<le> length d \<Longrightarrow> take 16 d = map ((!) d) [0..<16]"
  by (rule nth_equalityI) auto

lemma crc8_block_eq:
  assumes "8 \<le> length d" shows "crc8_block c d = feed c (take 8 d)"
proof -
  have "feed c (take 8 d) = (crc_byte ^^ 8) c XOR feed 0 (take 8 d)"
    using feed_split [of c "take 8 d"] assms by simp
  also have "\<dots> = crc8_block c d"
    unfolding take_8 [OF assms] feed_0_Cons crc_byte_pow_register [of 8 c, simplified]
    by (simp add: crc8_block_def block_simps del: funpow.simps)
      (simp add: numeral_eq_Suc crc_byte_xor xor.assoc xor.commute xor.left_commute)
  finally show ?thesis ..
qed

lemma crc16_block_eq:
  assumes "16 \<le> length d" shows "crc16_block c d = feed c (take 16 d)"
proof -
  have "feed c (take 16 d) = (crc_byte ^^ 16) c XOR feed 0 (take 16 d)"
    using feed_split [of c "take 16 d"] assms by simp
  also have "\<dots> = crc16_block c d"
    unfolding take_16 [OF assms] upt_16 list.map feed_0_Cons crc_byte_pow_register [of 16 c, simplified]
    by (simp add: crc16_block_def block_simps del: funpow.simps)
      (simp add: numeral_eq_Suc crc_byte_xor xor.assoc xor.commute xor.left_commute)
  finally show ?thesis ..
qed

lemma feed_take_drop: "feed (feed c (take n d)) (drop n d) = feed c d"
  by (metis append_take_drop_id foldl_append)

text \<open>
  What the loops over blocks share: as long as a whole block is left its bytes go through the
  register at once, and the rest goes byte by byte.
\<close>

locale sliced_loop =
  fixes size :: nat
    and block :: "u32 \<Rightarrow> bytes \<Rightarrow> u32"
    and loop :: "u32 \<Rightarrow> bytes \<Rightarrow> u32"
  assumes size_pos: "0 < size"
    and block_feeds: "size \<le> length d \<Longrightarrow> block c d = feed c (take size d)"
    and loop_step: "loop c d =
      (if size \<le> length d then loop (block c d) (drop size d) else foldl crc_tail_step c d)"
begin

lemma loop_feeds: "loop c d = feed c d"
proof (induction "length d" arbitrary: c d rule: less_induct)
  case less
  show ?case
  proof (cases "size \<le> length d")
    case True
    then have "loop (block c d) (drop size d) = feed (block c d) (drop size d)"
      using size_pos by (intro less) simp
    with True show ?thesis
      by (simp add: loop_step [of c d] block_feeds feed_take_drop)
  qed (simp add: loop_step [of c d] crc_tail_eq)
qed

end

interpretation crc8: sliced_loop 8 crc8_block crc8_loop
  by unfold_locales (simp_all add: crc8_block_eq crc8_loop.simps [symmetric])

lemma four_blocks_feed:
  assumes "\<And>c d. n \<le> length d \<Longrightarrow> block c d = feed c (take n d)"
    and "4 * n \<le> length d"
  shows "foldl (\<lambda>c i. block c (drop (n * i) d)) c [0, 1, 2, 3] = feed c (take (4 * n) d)"
proof -
  have n: "4 * n = n + (n + (n + n))" "n * 2 = n + n" "n * 3 = n + (n + n)" by simp_all
  have "take (4 * n) d =
      take n d @ take n (drop n d) @ take n (drop (n * 2) d) @ take n (drop (n * 3) d)"
    by (simp only: n take_add drop_drop add.assoc)
  then show ?thesis using assms by (simp add: algebra_simps)
qed

interpretation crc16: sliced_loop 64
  "\<lambda>c d. foldl (\<lambda>c i. crc16_block c (drop (16 * i) d)) c [0, 1, 2, 3]" crc16_loop
proof
  show "foldl (\<lambda>c i. crc16_block c (drop (16 * i) d)) c [0, 1, 2, 3] = feed c (take 64 d)"
    if "64 \<le> length d" for c d
    using four_blocks_feed [of 16 crc16_block d c] that by (simp add: crc16_block_eq)
qed (simp, rule crc16_loop.simps)

lemma crc32_8bytes_bitwise: "crc32_8bytes d prev = crc32_bitwise d prev"
  by (simp add: crc32_8bytes_def crc32_bitwise_def crc8.loop_feeds)

lemma crc32_16bytes_bitwise: "crc32_16bytes d prev = crc32_bitwise d prev"
  by (simp add: crc32_16bytes_def crc32_bitwise_def crc16.loop_feeds)

end
