(* ===== verification/Packet.thy ===== *)
theory Packet
  imports Crc32
begin

text \<open>
  \<^verbatim>\<open>src/packet.c\<close> and \<^verbatim>\<open>headers/packet.h\<close>: the packet structure, its accessors, decoding
  (\<^verbatim>\<open>unpack\<close>) and encoding (\<^verbatim>\<open>pack\<close>). A buffer is the list of its bytes and a pointer into it
  an offset; a function that writes through a pointer returns the new contents. \<^verbatim>\<open>unpack\<close>
  changes its output packet and the first byte of its buffer also when it fails, so its model
  returns both in every case, with \<open>Some e\<close> for the error left in \<^verbatim>\<open>errno\<close> and \<open>None\<close> for
  success; the outer \<open>option\<close> is \<open>None\<close> for an access outside an array.

  The wire format is specified on its own (\<open>wire\<close>), and decoding is shown to accept exactly
  the well-formed images; \<^verbatim>\<open>pack\<close> produces them for one-byte lengths.
\<close>

section \<open>Data\<close>

datatype ptype_t = IGNORE | DATA | ACK | NACK

fun ptype_code :: "ptype_t \<Rightarrow> u8" where
  "ptype_code IGNORE = 0"
| "ptype_code DATA = 1"
| "ptype_code ACK = 2"
| "ptype_code NACK = 3"

text \<open>The enumerator of a two-bit value.\<close>

definition ptype_of :: "u8 \<Rightarrow> ptype_t" where
  "ptype_of c = (if c = 0 then IGNORE else if c = 1 then DATA else if c = 2 then ACK else NACK)"

record packet_t =
  pk_type :: ptype_t
  pk_truncated :: bool
  pk_window :: u8
  pk_long_length :: bool
  pk_length :: u16
  pk_seqnum :: u8
  pk_timestamp :: u32
  pk_crc1 :: u32
  pk_crc2 :: u32
  pk_payload :: bytes

section \<open>Accessors and initialisation\<close>

definition get_length :: "packet_t \<Rightarrow> u16" where
  "get_length self = pk_length self"

definition is_long :: "packet_t \<Rightarrow> bool" where
  "is_long self = pk_long_length self"

definition get_payload :: "packet_t \<Rightarrow> bytes" where
  "get_payload self = pk_payload self"

text \<open>
  The mask is the source's \<^verbatim>\<open>0x11111\<close>, of which the low 16 bits meet a 16-bit length.
\<close>

definition set_length :: "packet_t \<Rightarrow> u16 \<Rightarrow> packet_t" where
  "set_length self len =
     (if unat len > MAX_PAYLOAD_SIZE then self
      else (if len AND 0x1111 \<noteq> len then self\<lparr>pk_long_length := True\<rparr> else self)
             \<lparr>pk_length := len\<rparr>)"

definition set_payload :: "packet_t \<Rightarrow> bytes \<Rightarrow> u16 \<Rightarrow> packet_t option" where
  "set_payload self payload len =
     (if unat len > MAX_PAYLOAD_SIZE then Some self
      else do {
        let self = set_length self len;
        p \<leftarrow> memcpy_from (pk_payload self) payload 0 (unat len);
        Some (self\<lparr>pk_payload := take (unat len) p @ replicate (MAX_PAYLOAD_SIZE - unat len) 0\<rparr>)
      })"

text \<open>\<open>None\<close> is the null pointer.\<close>

definition init_packet :: "packet_t option \<Rightarrow> errors_t + packet_t" where
  "init_packet packet = (case packet of None \<Rightarrow> Inl NULL_ARGUMENT
     | Some packet \<Rightarrow> Inr (packet\<lparr>pk_crc1 := 0, pk_crc2 := 0, pk_length := 0,
         pk_long_length := False, pk_payload := replicate MAX_PAYLOAD_SIZE 0, pk_seqnum := 0,
         pk_timestamp := 0, pk_truncated := False, pk_type := IGNORE, pk_window := 0\<rparr>))"

text \<open>The argument is what \<^verbatim>\<open>malloc\<close> returns: the null pointer or memory with arbitrary contents.\<close>

definition allocate_packet :: "packet_t option \<Rightarrow> packet_t option" where
  "allocate_packet mem = (case mem of None \<Rightarrow> None
     | Some pack \<Rightarrow> (case init_packet (Some pack) of Inl _ \<Rightarrow> None | Inr p \<Rightarrow> Some p))"

text \<open>\<^verbatim>\<open>memcmp(ip1, ip2, 16) == 0\<close>.\<close>

definition ip_equals :: "bytes \<Rightarrow> bytes \<Rightarrow> bool" where
  "ip_equals ip1 ip2 \<longleftrightarrow> take 16 ip1 = take 16 ip2"

section \<open>Decoding\<close>

definition U32_FROM_BUFFER :: "bytes \<Rightarrow> nat \<Rightarrow> u32 option" where
  "U32_FROM_BUFFER buffer i = do {
     a \<leftarrow> rd buffer i; b \<leftarrow> rd buffer (i + 1); c \<leftarrow> rd buffer (i + 2); d \<leftarrow> rd buffer (i + 3);
     Some (ucast a OR push_bit 8 (ucast b) OR push_bit 16 (ucast c) OR push_bit 24 (ucast d))
   }"

text \<open>
  The stages of \<^verbatim>\<open>unpack\<close>: \<open>Inl\<close> is a return with the error, \<open>Inr\<close> goes on, with the packet
  so far, the offset of the next byte and \<^verbatim>\<open>length_rest\<close>. First the length field.
\<close>

definition unpack_length ::
  "bytes \<Rightarrow> int \<Rightarrow> packet_t \<Rightarrow> ((errors_t \<times> packet_t) + (packet_t \<times> nat \<times> int)) option" where
  "unpack_length packet length_rest out = do {
     size \<leftarrow> rd packet 1;
     if drop_bit 7 (size AND 0x80) \<noteq> 0 then
       (if length_rest - 1 \<le> 0 then Some (Inl (PACKET_TOO_SHORT, out))
        else do {
          b \<leftarrow> rd packet 2;
          Some (Inr (out\<lparr>pk_long_length := True,
            pk_length := ntohs (ucast (size AND 0x7F) OR push_bit 8 (ucast b))\<rparr>, 3, length_rest - 1))
        })
     else Some (Inr (out\<lparr>pk_length := ucast (size AND 0x7F), pk_long_length := False\<rparr>, 2, length_rest))
   }"

text \<open>
  From the sequence number to the validation of the header checksum, which covers the bytes
  before it with the truncation bit cleared (in place).
\<close>

definition unpack_fields ::
  "bytes \<Rightarrow> int \<Rightarrow> packet_t \<Rightarrow> nat \<Rightarrow> ((errors_t \<times> packet_t \<times> bytes) + (packet_t \<times> bytes \<times> nat \<times> int)) option" where
  "unpack_fields packet length_rest out off =
     (if length_rest - 1 \<le> 0 then Some (Inl (PACKET_TOO_SHORT, out, packet))
      else do {
        seqnum \<leftarrow> rd packet off;
        let out = out\<lparr>pk_seqnum := seqnum\<rparr>;
        if length_rest - 5 \<le> 0 then Some (Inl (PACKET_TOO_SHORT, out, packet))
        else do {
          ts \<leftarrow> U32_FROM_BUFFER packet (off + 1);
          let out = out\<lparr>pk_timestamp := ntohl ts\<rparr>;
          if length_rest - 9 < 0 then Some (Inl (PACKET_TOO_SHORT, out, packet))
          else do {
            c \<leftarrow> U32_FROM_BUFFER packet (off + 5);
            let out = out\<lparr>pk_crc1 := ntohl c\<rparr>;
            header \<leftarrow> rd packet 0;
            let packet = packet[0 := header AND 0xDF];
            if pk_crc1 out \<noteq> crc32_8bytes (take (off + 5) packet) 0
            then Some (Inl (CRC_VALIDATION_FAILED, out, packet))
            else Some (Inr (out, packet, off + 9, length_rest - 9))
          }
        }
      })"

definition unpack_header ::
  "bytes \<Rightarrow> int \<Rightarrow> packet_t \<Rightarrow> ((errors_t \<times> packet_t \<times> bytes) + (packet_t \<times> bytes \<times> nat \<times> int)) option" where
  "unpack_header packet len out =
     (if len - 1 \<le> 0 then Some (Inl (PACKET_TOO_SHORT, out, packet))
      else do {
        header \<leftarrow> rd packet 0;
        let out = out\<lparr>pk_type := ptype_of (drop_bit 6 (header AND 0xC0)),
                      pk_truncated := drop_bit 5 (header AND 0x20) \<noteq> 0,
                      pk_window := header AND 0x1F\<rparr>;
        if len - 2 \<le> 0 then Some (Inl (PACKET_TOO_SHORT, out, packet))
        else do {
          r \<leftarrow> unpack_length packet (len - 2) out;
          case r of Inl (e, out) \<Rightarrow> Some (Inl (e, out, packet))
          | Inr (out, off, length_rest) \<Rightarrow> unpack_fields packet length_rest out off
        }
      })"

text \<open>\<^verbatim>\<open>memcpy\<close> returns its destination, so the branch for \<^verbatim>\<open>FAILED_TO_COPY\<close> is never taken.\<close>

definition unpack_payload ::
  "bytes \<Rightarrow> int \<Rightarrow> packet_t \<Rightarrow> nat \<Rightarrow> ((errors_t \<times> packet_t) + (packet_t \<times> int)) option" where
  "unpack_payload packet length_rest out off =
     (if length_rest = 0 \<and> pk_type out = DATA \<and> \<not> pk_truncated out \<and> pk_length out \<noteq> 0
      then Some (Inl (PACKET_TOO_SHORT, out))
      else if unat (pk_length out) > MAX_PAYLOAD_SIZE then Some (Inl (PACKET_INCORRECT_LENGTH, out))
      else if pk_type out = DATA \<and> \<not> pk_truncated out \<and> pk_length out \<noteq> 0 then
        (let n = unat (pk_length out); length_rest = length_rest - int n in
         if length_rest < 4 then Some (Inl (PACKET_TOO_SHORT, out))
         else do {
           payload \<leftarrow> memcpy_from (pk_payload out) packet off n;
           let out = out\<lparr>pk_payload := payload\<rparr>;
           if length_rest - 4 < 0 then Some (Inl (PACKET_TOO_SHORT, out))
           else do {
             c \<leftarrow> U32_FROM_BUFFER packet (off + n);
             Some (Inr (out\<lparr>pk_crc2 := ntohl c\<rparr>, length_rest - 4))
           }
         })
      else Some (Inr (out, length_rest)))"

definition unpack_validate :: "int \<Rightarrow> packet_t \<Rightarrow> errors_t option" where
  "unpack_validate length_rest out =
     (if length_rest > 0 then Some PACKET_TOO_LONG
      else if pk_type out = IGNORE then Some TYPE_IS_WRONG
      else if pk_type out \<noteq> DATA \<and> pk_truncated out then Some NON_DATA_TRUNCATED
      else if unat (pk_length out) > MAX_PAYLOAD_SIZE then Some PAYLOAD_TOO_LONG
      else if pk_length out > 0 \<and> \<not> pk_truncated out then
        (if pk_crc2 out \<noteq> crc32_16bytes (take (unat (pk_length out)) (pk_payload out)) 0
         then Some PAYLOAD_VALIDATION_FAILED else None)
      else None)"

definition unpack :: "bytes \<Rightarrow> int \<Rightarrow> packet_t \<Rightarrow> (errors_t option \<times> packet_t \<times> bytes) option" where
  "unpack packet len out = do {
     h \<leftarrow> unpack_header packet len out;
     case h of Inl (e, out, packet) \<Rightarrow> Some (Some e, out, packet)
     | Inr (out, packet, off, length_rest) \<Rightarrow> do {
         r \<leftarrow> unpack_payload packet length_rest out off;
         case r of Inl (e, out) \<Rightarrow> Some (Some e, out, packet)
         | Inr (out, length_rest) \<Rightarrow> Some (unpack_validate length_rest out, out, packet)
       }
   }"

section \<open>Encoding\<close>

text \<open>
  The bytes \<^verbatim>\<open>pack\<close> writes at its buffer. The second length byte is \<^verbatim>\<open>(uint8_t) (len >> 7)\<close>
  of the length in network order.
\<close>

definition pack_header :: "packet_t \<Rightarrow> bytes" where
  "pack_header p = [push_bit 6 (ptype_code (pk_type p)) OR (pk_window p AND 0x1F)] @
     (if pk_long_length p then
        (let len = htons (pk_length p) in [ucast (0x80 OR (len AND 0x7F)), ucast (drop_bit 7 len)])
      else [ucast (pk_length p AND 0x7F)]) @
     [pk_seqnum p] @
     (let ts = htonl (pk_timestamp p) in
        [ucast ts, ucast (drop_bit 8 ts), ucast (drop_bit 16 ts), ucast (drop_bit 24 ts)])"

definition has_payload :: "packet_t \<Rightarrow> bool" where
  "has_payload p \<longleftrightarrow> pk_type p = DATA \<and> \<not> pk_truncated p \<and> pk_length p \<noteq> 0"

definition pack_bytes :: "packet_t \<Rightarrow> bool \<Rightarrow> bytes" where
  "pack_bytes p recompute_crc2 =
     (let raw = pack_header p;
          crc1 = htonl (crc32_8bytes raw 0);
          head = raw[0 := raw ! 0 OR (if pk_truncated p then 0x20 else 0)]
                 @ [ucast crc1, ucast (drop_bit 8 crc1), ucast (drop_bit 16 crc1), ucast (drop_bit 24 crc1)]
      in if has_payload p then
           (let payload = take (unat (pk_length p)) (pk_payload p);
                crc2 = (if recompute_crc2 then htonl (crc32_16bytes payload 0) else ntohl (pk_crc2 p))
            in head @ payload
               @ [ucast crc2, ucast (drop_bit 8 crc2), ucast (drop_bit 16 crc2), ucast (drop_bit 24 crc2)])
         else head)"

text \<open>
  \<^verbatim>\<open>pack\<close> itself: null arguments are refused; \<open>None\<close> is a copy that reads past the payload
  array or a write past the end of the destination.
\<close>

definition pack :: "bytes option \<Rightarrow> packet_t option \<Rightarrow> bool \<Rightarrow> (errors_t + bytes) option" where
  "pack packet inp recompute_crc2 =
     (case (packet, inp) of
        (Some dst, Some p) \<Rightarrow>
          (let bs = pack_bytes p recompute_crc2 in
           if has_payload p \<and> unat (pk_length p) > length (pk_payload p) then None
           else if length bs \<le> length dst then Some (Inr (bs @ drop (length bs) dst)) else None)
      | _ \<Rightarrow> Some (Inl NULL_ARGUMENT))"

section \<open>The wire format\<close>

text \<open>
  The format as the protocol defines it: type, truncation bit and window in the first byte,
  a length of one byte or of two (marked by the high bit of the first, most significant part
  first), sequence number, timestamp and header checksum in network order, then payload and
  payload checksum when there is a payload.
\<close>

definition wire_head :: "bool \<Rightarrow> packet_t \<Rightarrow> bytes" where
  "wire_head tr p =
     [push_bit 6 (ptype_code (pk_type p)) OR (if tr then 0x20 else 0) OR pk_window p] @
     (if pk_long_length p then [0x80 OR ucast (drop_bit 8 (pk_length p)), ucast (pk_length p)]
      else [ucast (pk_length p)]) @
     [pk_seqnum p] @ be32 (pk_timestamp p)"

definition wire :: "packet_t \<Rightarrow> bytes" where
  "wire p = wire_head (pk_truncated p) p @ be32 (pk_crc1 p) @
     (if has_payload p then take (unat (pk_length p)) (pk_payload p) @ be32 (pk_crc2 p) else [])"

definition wf_packet :: "packet_t \<Rightarrow> bool" where
  "wf_packet p \<longleftrightarrow> pk_type p \<noteq> IGNORE \<and> (pk_truncated p \<longrightarrow> pk_type p = DATA) \<and>
     pk_window p < 32 \<and> unat (pk_length p) \<le> MAX_PAYLOAD_SIZE \<and>
     (\<not> pk_long_length p \<longrightarrow> pk_length p < 128) \<and>
     length (pk_payload p) = MAX_PAYLOAD_SIZE \<and>
     pk_crc1 p = crc32_bitwise (wire_head False p) 0 \<and>
     (pk_length p \<noteq> 0 \<and> \<not> pk_truncated p \<longrightarrow>
        pk_crc2 p = crc32_bitwise (take (unat (pk_length p)) (pk_payload p)) 0)"

section \<open>Bits of the header\<close>

lemma u8_and_numerals:
  "(0xC0 :: u8) = push_bit 6 (mask 2)" "(0x20 :: u8) = push_bit 5 (mask 1)" "(0x1F :: u8) = mask 5"
  "(0x80 :: u8) = push_bit 7 (mask 1)" "(0x7F :: u8) = mask 7" "(0xDF :: u8) = mask 5 OR push_bit 6 (mask 2)"
  by (simp_all add: mask_eq_exp_minus_1 push_bit_eq_mult)

lemma u16_and_numerals: "(0x80 :: u16) = push_bit 7 (mask 1)" "(0x7F :: u16) = mask 7"
  by (simp_all add: mask_eq_exp_minus_1 push_bit_eq_mult)

lemma bit_flag_20: "drop_bit 5 (h AND (0x20::u8)) \<noteq> 0 \<longleftrightarrow> bit h 5"
proof -
  have "drop_bit 5 (h AND (0x20::u8)) = (if bit h 5 then 1 else 0)"
    unfolding u8_and_numerals by (rule u8_eqI) (simp add: bit_by_bit bit_1_iff)
  then show ?thesis by simp
qed

lemma bit_flag_80: "drop_bit 7 (h AND (0x80::u8)) \<noteq> 0 \<longleftrightarrow> bit h 7"
proof -
  have "drop_bit 7 (h AND (0x80::u8)) = (if bit h 7 then 1 else 0)"
    unfolding u8_and_numerals by (rule u8_eqI) (simp add: bit_by_bit bit_1_iff)
  then show ?thesis by simp
qed

lemma ptype_of_code [simp]: "ptype_of (ptype_code t) = t"
  by (cases t) (simp_all add: ptype_of_def)

lemma ptype_code_of: "c < 4 \<Longrightarrow> ptype_code (ptype_of c) = c"
proof -
  assume "c < 4"
  then have "unat c < 4" by (simp add: word_less_nat_alt)
  then have "unat c = 0 \<or> unat c = 1 \<or> unat c = 2 \<or> unat c = 3" by arith
  then have "c = 0 \<or> c = 1 \<or> c = 2 \<or> c = 3" by (simp add: word_unat_eq_iff)
  then show ?thesis by (auto simp: ptype_of_def)
qed

lemma bit_ptype_code: "2 \<le> n \<Longrightarrow> \<not> bit (ptype_code t) n"
  by (rule bit_beyond [of _ 2]) (cases t, simp_all)

lemma header_byte_encode_decode:
  "push_bit 6 (ptype_code (ptype_of (drop_bit 6 (h AND 0xC0)))) OR
   (if drop_bit 5 (h AND 0x20) \<noteq> 0 then 0x20 else 0) OR (h AND 0x1F) = (h::u8)"
proof -
  have "unat (drop_bit 6 (h AND 0xC0)) < 4"
  proof -
    have "drop_bit 6 (h AND 0xC0) = drop_bit 6 h"
      unfolding u8_and_numerals by (rule u8_eqI) (simp add: bit_by_bit)
    then have "unat (drop_bit 6 (h AND 0xC0)) = unat h div 64"
      by (simp only: unat_drop_bit_eq) (simp add: drop_bit_eq_div)
    then show ?thesis using unat_u8_less [of h] by simp
  qed
  then have "ptype_code (ptype_of (drop_bit 6 (h AND 0xC0))) = drop_bit 6 (h AND 0xC0)"
    by (intro ptype_code_of) (simp add: word_less_nat_alt)
  then show ?thesis
    unfolding bit_flag_20 by (simp only:) (unfold u8_and_numerals, rule u8_eqI, simp add: bit_by_bit)
qed

lemma header_byte_decode_encode:
  fixes tr :: bool and t :: ptype_t
  assumes "w < 32"
  defines "h \<equiv> push_bit 6 (ptype_code t) OR (if tr then 0x20 else 0) OR w"
  shows "ptype_of (drop_bit 6 (h AND 0xC0)) = t" "(drop_bit 5 (h AND 0x20) \<noteq> 0) = tr"
    "h AND 0x1F = w" "h AND 0xDF = push_bit 6 (ptype_code t) OR w"
proof -
  have w: "\<not> bit w n" if "5 \<le> n" for n
    using assms that by (intro bit_beyond [of w 5]) (simp_all add: word_less_nat_alt)
  have t: "\<not> bit (ptype_code t) n" if "2 \<le> n" for n
    using that by (rule bit_ptype_code)
  have "drop_bit 6 (h AND 0xC0) = ptype_code t"
    unfolding h_def u8_and_numerals by (rule u8_eqI) (simp add: bit_by_bit w t)
  then show "ptype_of (drop_bit 6 (h AND 0xC0)) = t" by simp
  show "(drop_bit 5 (h AND 0x20) \<noteq> 0) = tr"
    unfolding bit_flag_20 unfolding h_def u8_and_numerals by (simp add: bit_by_bit w)
  show "h AND 0x1F = w" "h AND 0xDF = push_bit 6 (ptype_code t) OR w"
    unfolding h_def u8_and_numerals by (rule u8_eqI, simp add: bit_by_bit w t)+
qed

lemma header_byte_clear:
  "(h::u8) AND 0xDF = push_bit 6 (ptype_code (ptype_of (drop_bit 6 (h AND 0xC0)))) OR (h AND 0x1F)"
proof -
  have "(h AND 0x1F) < 32"
    by (rule le_less_trans [OF word_and_le1]) simp
  from header_byte_decode_encode(4) [OF this] show ?thesis
    by (metis header_byte_encode_decode)
qed

text \<open>The length field, one byte or two.\<close>

lemma long_length_decode:
  "ntohs (ucast (a AND 0x7F) OR push_bit 8 (ucast b)) = push_bit 8 (ucast (a AND (0x7F::u8))) OR ucast (b::u8)"
  unfolding ntohs_def u8_and_numerals by (rule u16_eqI) (simp add: bit_by_bit)

lemma long_length_fields:
  fixes a b :: u8
  defines "l \<equiv> ntohs (ucast (a AND 0x7F) OR push_bit 8 (ucast b))"
  shows "ucast l = b" "bit a 7 \<Longrightarrow> 0x80 OR ucast (drop_bit 8 l) = a"
  unfolding l_def long_length_decode unfolding u8_and_numerals
  by (rule u8_eqI, simp add: bit_by_bit)+

lemma long_length_encode:
  assumes "unat (l::u16) < 32768"
  shows "ntohs (ucast ((0x80 OR ucast (drop_bit 8 l)) AND (0x7F::u8)) OR push_bit 8 (ucast (ucast l :: u8))) = l"
proof -
  have "\<not> bit l n" if "15 \<le> n" for n
    using assms that by (intro bit_beyond [of l 15]) simp_all
  then show ?thesis
    unfolding long_length_decode unfolding u8_and_numerals by (intro u16_eqI) (simp add: bit_by_bit)
qed

lemma short_length_decode: "\<not> bit (a::u8) 7 \<Longrightarrow> ucast (ucast (a AND 0x7F) :: u16) = a"
  unfolding u8_and_numerals by (rule u8_eqI) (simp add: bit_by_bit)

lemma short_length_less: "(ucast ((a::u8) AND 0x7F) :: u16) < 128"
proof -
  have "a AND 0x7F < 128" by (rule le_less_trans [OF word_and_le1]) simp
  then show ?thesis by (simp add: word_less_nat_alt unsigned_ucast_eq take_bit_nat_eq_self)
qed

lemma short_length_encode:
  assumes "l < (128::u16)"
  shows "ucast ((ucast l :: u8) AND 0x7F) = l" "\<not> bit (ucast l :: u8) 7"
proof -
  have l: "\<not> bit l n" if "7 \<le> n" for n
    using assms that by (intro bit_beyond [of l 7]) (simp_all add: word_less_nat_alt)
  show "ucast ((ucast l :: u8) AND 0x7F) = l"
    unfolding u8_and_numerals by (rule u16_eqI) (simp add: bit_by_bit l)
  show "\<not> bit (ucast l :: u8) 7" by (simp add: bit_by_bit l)
qed

section \<open>Decoding, stage by stage\<close>

text \<open>One more byte when the length field is long.\<close>

definition extra :: "bytes \<Rightarrow> nat" where
  "extra buf = (if bit (buf ! 1) 7 then 1 else 0)"

text \<open>What the header stage stores in the output packet, field by field from the buffer.\<close>

definition decoded_header :: "bytes \<Rightarrow> packet_t \<Rightarrow> packet_t" where
  "decoded_header buf out = (let k = extra buf in out\<lparr>
     pk_type := ptype_of (drop_bit 6 (buf ! 0 AND 0xC0)),
     pk_truncated := drop_bit 5 (buf ! 0 AND 0x20) \<noteq> 0,
     pk_window := buf ! 0 AND 0x1F,
     pk_long_length := bit (buf ! 1) 7,
     pk_length := (if bit (buf ! 1) 7 then ntohs (ucast (buf ! 1 AND 0x7F) OR push_bit 8 (ucast (buf ! 2)))
                   else ucast (buf ! 1 AND 0x7F)),
     pk_seqnum := buf ! (if bit (buf ! 1) 7 then 3 else 2),
     pk_timestamp := of_be32 (buf ! (3 + k)) (buf ! (4 + k)) (buf ! (5 + k)) (buf ! (6 + k)),
     pk_crc1 := of_be32 (buf ! (7 + k)) (buf ! (8 + k)) (buf ! (9 + k)) (buf ! (10 + k))\<rparr>)"

definition clear_tr :: "bytes \<Rightarrow> bytes" where
  "clear_tr buf = buf[0 := buf ! 0 AND 0xDF]"

lemma length_clear_tr [simp]: "length (clear_tr buf) = length buf"
  by (simp add: clear_tr_def)

lemma U32_FROM_BUFFER_ok:
  "i + 3 < length buf \<Longrightarrow> map_option ntohl (U32_FROM_BUFFER buf i) =
     Some (of_be32 (buf ! i) (buf ! (i + 1)) (buf ! (i + 2)) (buf ! (i + 3)))"
  by (simp add: U32_FROM_BUFFER_def ntohl_bytes)

lemma U32_FROM_BUFFER_bind:
  "i + 3 < length buf \<Longrightarrow> U32_FROM_BUFFER buf i \<bind> (\<lambda>c. f (ntohl c)) =
     f (of_be32 (buf ! i) (buf ! (i + 1)) (buf ! (i + 2)) (buf ! (i + 3)))"
  by (simp add: U32_FROM_BUFFER_def ntohl_bytes)

lemmas unpack_length_bit = unpack_length_def [unfolded bit_flag_80]

lemma unpack_header_eq:
  assumes "int (11 + extra buf) \<le> len" "len \<le> int (length buf)"
  shows "unpack_header buf len out =
    (if pk_crc1 (decoded_header buf out) \<noteq> crc32_8bytes (take (7 + extra buf) (clear_tr buf)) 0
     then Some (Inl (CRC_VALIDATION_FAILED, decoded_header buf out, clear_tr buf))
     else Some (Inr (decoded_header buf out, clear_tr buf, 11 + extra buf, len - int (11 + extra buf))))"
proof (cases "bit (buf ! 1) 7")
  case True
  with assms have k: "12 \<le> len" "12 \<le> length buf" "buf \<noteq> []" by (auto simp: extra_def)
  with True show ?thesis
    by (simp add: unpack_header_def unpack_length_bit unpack_fields_def Let_def
        U32_FROM_BUFFER_def ntohl_bytes decoded_header_def extra_def clear_tr_def)
next
  case False
  with assms have k: "11 \<le> len" "11 \<le> length buf" "buf \<noteq> []" by (auto simp: extra_def)
  with False show ?thesis
    by (simp add: unpack_header_def unpack_length_bit unpack_fields_def Let_def
        U32_FROM_BUFFER_def ntohl_bytes decoded_header_def extra_def clear_tr_def)
qed

lemma unpack_header_short:
  assumes "\<not> int (11 + extra buf) \<le> len" "len \<le> int (length buf)"
  shows "\<exists>o'. unpack_header buf len out = Some (Inl (PACKET_TOO_SHORT, o', buf)) \<and>
    pk_payload o' = pk_payload out"
  using assms
  by (auto simp: unpack_header_def unpack_length_bit unpack_fields_def Let_def
      U32_FROM_BUFFER_def extra_def rd_def split: if_splits)

section \<open>Header bytes and header fields\<close>

lemma take_nths: "n \<le> length xs \<Longrightarrow> take n xs = map ((!) xs) [0..<n]"
  by (rule nth_equalityI) simp_all

lemma upt_7_to_12:
  "[0..<7] = [0, 1, 2, 3, 4, 5, 6]"
  "[0..<11] = [0, 1, 2, 3, 4, 5, 6, 7, 8, 9, 10]"
  "[0..<12] = [0, 1, 2, 3, 4, 5, 6, 7, 8, 9, 10, 11]"
  by code_simp+

lemma header_bytes_eq:
  assumes "11 + extra buf \<le> length buf"
  shows "take (11 + extra buf) buf =
      wire_head (pk_truncated (decoded_header buf out)) (decoded_header buf out)
      @ be32 (pk_crc1 (decoded_header buf out))"
    and "take (7 + extra buf) (clear_tr buf) = wire_head False (decoded_header buf out)"
proof -
  note hdr = header_byte_encode_decode [simplified] header_byte_clear [simplified]
  have ne: "0 < length buf" using assms by linarith
  show "take (11 + extra buf) buf =
      wire_head (pk_truncated (decoded_header buf out)) (decoded_header buf out)
      @ be32 (pk_crc1 (decoded_header buf out))"
  proof (cases "bit (buf ! 1) 7")
    case True
    with assms have "12 \<le> length buf" by (simp add: extra_def)
    with True show ?thesis
      by (simp add: take_nths upt_7_to_12 wire_head_def decoded_header_def extra_def Let_def
          long_length_fields hdr)
  next
    case False
    with assms have "11 \<le> length buf" by (simp add: extra_def)
    with False show ?thesis
      by (simp add: take_nths upt_7_to_12 wire_head_def decoded_header_def extra_def Let_def
          short_length_decode hdr)
  qed
  show "take (7 + extra buf) (clear_tr buf) = wire_head False (decoded_header buf out)"
  proof (cases "bit (buf ! 1) 7")
    case True
    with assms have "8 \<le> length buf" by (simp add: extra_def)
    with True ne show ?thesis
      by (simp add: take_nths upt_8 clear_tr_def wire_head_def decoded_header_def extra_def Let_def
          long_length_fields hdr)
  next
    case False
    with assms have "7 \<le> length buf" by (simp add: extra_def)
    with False ne show ?thesis
      by (simp add: take_nths upt_7_to_12 clear_tr_def wire_head_def decoded_header_def extra_def Let_def
          short_length_decode hdr)
  qed
qed

text \<open>The payload stage on a buffer that holds the bytes \<^verbatim>\<open>length_rest\<close> promises.\<close>

definition with_payload :: "bytes \<Rightarrow> nat \<Rightarrow> packet_t \<Rightarrow> packet_t" where
  "with_payload b off p = (let n = unat (pk_length p) in p\<lparr>
     pk_payload := take n (drop off b) @ drop n (pk_payload p),
     pk_crc2 := of_be32 (b ! (off + n)) (b ! (off + n + 1)) (b ! (off + n + 2)) (b ! (off + n + 3))\<rparr>)"

lemma unpack_payload_eq:
  assumes "0 \<le> l" "int off + l \<le> int (length b)" "length (pk_payload p) = MAX_PAYLOAD_SIZE"
  shows "unpack_payload b l p off =
    (if has_payload p \<and> l = 0 then Some (Inl (PACKET_TOO_SHORT, p))
     else if unat (pk_length p) > MAX_PAYLOAD_SIZE then Some (Inl (PACKET_INCORRECT_LENGTH, p))
     else if has_payload p then
       (if l < int (unat (pk_length p)) + 4 then Some (Inl (PACKET_TOO_SHORT, p))
        else Some (Inr (with_payload b off p, l - int (unat (pk_length p)) - 4)))
     else Some (Inr (p, l)))"
proof -
  define n where "n = unat (pk_length p)"
  have fits: "off + n + 3 < length b" if "int n + 4 \<le> l"
    using that assms(2) by linarith
  show ?thesis
    unfolding unpack_payload_def has_payload_def with_payload_def Let_def n_def [symmetric]
    using fits assms(1,3)
    by (auto simp: memcpy_from_def U32_FROM_BUFFER_def ntohl_bytes)
qed

lemma with_payload_simps [simp]:
  "pk_type (with_payload b off p) = pk_type p"
  "pk_truncated (with_payload b off p) = pk_truncated p"
  "pk_window (with_payload b off p) = pk_window p"
  "pk_long_length (with_payload b off p) = pk_long_length p"
  "pk_length (with_payload b off p) = pk_length p"
  "pk_crc1 (with_payload b off p) = pk_crc1 p"
  "wire_head tr (with_payload b off p) = wire_head tr p"
  "has_payload (with_payload b off p) = has_payload p"
  by (simp_all add: with_payload_def Let_def wire_head_def has_payload_def)

lemma decoded_header_simps [simp]:
  "pk_payload (decoded_header buf out) = pk_payload out"
  "pk_crc2 (decoded_header buf out) = pk_crc2 out"
  by (simp_all add: decoded_header_def Let_def)

lemma drop_clear_tr: "0 < n \<Longrightarrow> drop n (clear_tr buf) = drop n buf"
  by (simp add: clear_tr_def)

lemma with_payload_clear_tr: "0 < off \<Longrightarrow> with_payload (clear_tr buf) off p = with_payload buf off p"
  by (simp add: with_payload_def drop_clear_tr clear_tr_def)

lemma length_decoded_less_128:
  "\<not> pk_long_length (decoded_header buf out) \<Longrightarrow> pk_length (decoded_header buf out) < 128"
  by (simp add: decoded_header_def Let_def short_length_less)

lemma window_decoded_less_32: "pk_window (decoded_header buf out) < 32"
  unfolding decoded_header_def Let_def
  by simp (rule le_less_trans [OF word_and_le1], simp)

section \<open>Decoding, as a whole\<close>

lemma unpack_stages:
  assumes "len \<le> int (length buf)" "length (pk_payload out) = MAX_PAYLOAD_SIZE"
  obtains (short) p where "unpack buf len out = Some (Some PACKET_TOO_SHORT, p, buf)"
      "pk_payload p = pk_payload out" "len < int (11 + extra buf)"
  | (crc) "unpack buf len out = Some (Some CRC_VALIDATION_FAILED, decoded_header buf out, clear_tr buf)"
      "pk_crc1 (decoded_header buf out) \<noteq> crc32_8bytes (take (7 + extra buf) (clear_tr buf)) 0"
  | (refused) e where "unpack buf len out = Some (Some e, decoded_header buf out, clear_tr buf)"
      "unat (pk_length (decoded_header buf out)) > MAX_PAYLOAD_SIZE \<or>
       has_payload (decoded_header buf out) \<and>
         len < int (15 + extra buf + unat (pk_length (decoded_header buf out)))"
  | (plain) "unpack buf len out =
        Some (unpack_validate (len - int (11 + extra buf)) (decoded_header buf out), decoded_header buf out, clear_tr buf)"
      "int (11 + extra buf) \<le> len"
      "pk_crc1 (decoded_header buf out) = crc32_8bytes (take (7 + extra buf) (clear_tr buf)) 0"
      "\<not> has_payload (decoded_header buf out)"
      "unat (pk_length (decoded_header buf out)) \<le> MAX_PAYLOAD_SIZE"
  | (data) p where "p = with_payload buf (11 + extra buf) (decoded_header buf out)"
      "unpack buf len out =
        Some (unpack_validate (len - int (15 + extra buf + unat (pk_length p))) p, p, clear_tr buf)"
      "int (15 + extra buf + unat (pk_length p)) \<le> len"
      "pk_crc1 p = crc32_8bytes (take (7 + extra buf) (clear_tr buf)) 0"
      "has_payload p" "unat (pk_length p) \<le> MAX_PAYLOAD_SIZE"
proof (cases "int (11 + extra buf) \<le> len")
  case False
  from unpack_header_short [OF False assms(1), of out]
  obtain p where "unpack_header buf len out = Some (Inl (PACKET_TOO_SHORT, p, buf))"
    "pk_payload p = pk_payload out" by blast
  with False show ?thesis by (intro short [of p]) (simp_all add: unpack_def)
next
  case True
  note h = unpack_header_eq [OF True assms(1), of out]
  show ?thesis
  proof (cases "pk_crc1 (decoded_header buf out) = crc32_8bytes (take (7 + extra buf) (clear_tr buf)) 0")
    case False
    with h show ?thesis by (intro crc) (simp_all add: unpack_def)
  next
    case ok: True
    let ?p = "decoded_header buf out" and ?l = "len - int (11 + extra buf)"
    have pay: "unpack_payload (clear_tr buf) ?l ?p (11 + extra buf) =
      (if has_payload ?p \<and> ?l = 0 then Some (Inl (PACKET_TOO_SHORT, ?p))
       else if unat (pk_length ?p) > MAX_PAYLOAD_SIZE then Some (Inl (PACKET_INCORRECT_LENGTH, ?p))
       else if has_payload ?p then
         (if ?l < int (unat (pk_length ?p)) + 4 then Some (Inl (PACKET_TOO_SHORT, ?p))
          else Some (Inr (with_payload buf (11 + extra buf) ?p, ?l - int (unat (pk_length ?p)) - 4)))
       else Some (Inr (?p, ?l)))"
      using True assms
      by (subst unpack_payload_eq) (simp_all add: with_payload_clear_tr)
    have u: "unpack buf len out = unpack_payload (clear_tr buf) ?l ?p (11 + extra buf) \<bind>
      (\<lambda>r. case r of Inl (e, out) \<Rightarrow> Some (Some e, out, clear_tr buf)
           | Inr (out, length_rest) \<Rightarrow> Some (unpack_validate length_rest out, out, clear_tr buf))"
      using h ok by (simp add: unpack_def)
    consider (r) e where "unpack_payload (clear_tr buf) ?l ?p (11 + extra buf) = Some (Inl (e, ?p))"
          "unat (pk_length ?p) > MAX_PAYLOAD_SIZE \<or>
           has_payload ?p \<and> len < int (15 + extra buf + unat (pk_length ?p))"
      | (p) "unpack_payload (clear_tr buf) ?l ?p (11 + extra buf) = Some (Inr (?p, ?l))"
          "\<not> has_payload ?p" "unat (pk_length ?p) \<le> MAX_PAYLOAD_SIZE"
      | (d) "unpack_payload (clear_tr buf) ?l ?p (11 + extra buf) =
            Some (Inr (with_payload buf (11 + extra buf) ?p, ?l - int (unat (pk_length ?p)) - 4))"
          "has_payload ?p" "unat (pk_length ?p) \<le> MAX_PAYLOAD_SIZE" "int (unat (pk_length ?p)) + 4 \<le> ?l"
    proof -
      have "0 < 4 + uint (pk_length ?p)"
        using unsigned_greater_eq [of "pk_length ?p"] by (rule add_pos_nonneg [OF zero_less_numeral])
      with pay r p d show thesis by (auto split: if_splits)
    qed
    then show ?thesis
    proof cases
      case (r e) then show ?thesis using u by (intro refused [of e]) simp_all
    next
      case p then show ?thesis using u True ok by (intro plain) simp_all
    next
      case d then show ?thesis using u ok by (intro data [OF refl]) (simp_all add: algebra_simps)
    qed
  qed
qed

section \<open>Decoding accepts exactly the wire format\<close>

lemma unpack_validate_None:
  "unpack_validate l p = None \<longleftrightarrow> l \<le> 0 \<and> pk_type p \<noteq> IGNORE \<and> (pk_truncated p \<longrightarrow> pk_type p = DATA) \<and>
     unat (pk_length p) \<le> MAX_PAYLOAD_SIZE \<and>
     (pk_length p \<noteq> 0 \<and> \<not> pk_truncated p \<longrightarrow>
        pk_crc2 p = crc32_bitwise (take (unat (pk_length p)) (pk_payload p)) 0)"
  by (auto simp: unpack_validate_def crc32_16bytes_bitwise word_neq_0_conv)

lemma decoded_crc1:
  assumes "11 + extra buf \<le> length buf"
  shows "crc32_8bytes (take (7 + extra buf) (clear_tr buf)) 0 = crc32_bitwise (wire_head False (decoded_header buf out)) 0"
  using header_bytes_eq(2) [OF assms] by (simp add: crc32_8bytes_bitwise)

lemma wire_plain:
  assumes "11 + extra buf \<le> length buf" "\<not> has_payload (decoded_header buf out)"
  shows "wire (decoded_header buf out) = take (11 + extra buf) buf"
  using header_bytes_eq(1) [OF assms(1)] assms(2) by (simp add: wire_def)

lemma take_4: "4 \<le> length xs \<Longrightarrow> take 4 xs = [xs ! 0, xs ! 1, xs ! 2, xs ! 3]"
  by (rule nth_equalityI) (auto simp: less_Suc_eq numeral_eq_Suc)

lemma wire_data:
  fixes buf out
  defines "p \<equiv> with_payload buf (11 + extra buf) (decoded_header buf out)"
  assumes "15 + extra buf + unat (pk_length p) \<le> length buf" "has_payload p"
    "length (pk_payload out) = MAX_PAYLOAD_SIZE" "unat (pk_length p) \<le> MAX_PAYLOAD_SIZE"
  shows "wire p = take (15 + extra buf + unat (pk_length p)) buf" "length (pk_payload p) = MAX_PAYLOAD_SIZE"
proof -
  let ?o = "11 + extra buf" and ?n = "unat (pk_length p)"
  have pay: "take ?n (pk_payload p) = take ?n (drop ?o buf)" "length (pk_payload p) = MAX_PAYLOAD_SIZE"
    using assms by (simp_all add: p_def with_payload_def Let_def)
  have "be32 (pk_crc2 p) = take 4 (drop (?o + ?n) buf)"
    using assms(2) by (simp add: p_def with_payload_def Let_def take_4 add.commute add.left_commute)
  moreover have "wire_head (pk_truncated p) p @ be32 (pk_crc1 p) = take ?o buf"
    using header_bytes_eq(1) [of buf out] assms(2) by (simp add: p_def)
  moreover have "take (15 + extra buf + ?n) buf = take ?o buf @ take ?n (drop ?o buf) @ take 4 (drop (?o + ?n) buf)"
    using take_add [of ?o "?n + 4" buf] take_add [of ?n 4 "drop ?o buf"] by (simp add: ac_simps)
  ultimately show "wire p = take (15 + extra buf + unat (pk_length p)) buf"
    using assms(3) pay(1) by (simp add: wire_def)
  show "length (pk_payload p) = MAX_PAYLOAD_SIZE" by (fact pay(2))
qed

text \<open>
  Decoding always returns: with an accepted packet, which is well formed and whose wire image
  is what was received, or with an error.
\<close>

lemma unpack_cases:
  assumes "len \<le> int (length buf)" "length (pk_payload out) = MAX_PAYLOAD_SIZE"
  obtains (accepted) p where "unpack buf len out = Some (None, p, clear_tr buf)" "wf_packet p"
      "take (nat len) buf = wire p" "int (length (wire p)) = len"
  | (rejected) e p buf' where "unpack buf len out = Some (Some e, p, buf')"
      "length (pk_payload p) = MAX_PAYLOAD_SIZE" "length buf' = length buf"
  using assms
proof (cases rule: unpack_stages)
  case plain
  show ?thesis
  proof (cases "unpack_validate (len - int (11 + extra buf)) (decoded_header buf out)")
    case None
    with plain(2) have len: "len = int (11 + extra buf)" unfolding unpack_validate_None by simp
    with assms(1) have fits: "11 + extra buf \<le> length buf" by simp
    have "wf_packet (decoded_header buf out)"
      using None plain(3) decoded_crc1 [OF fits, of out] assms(2)
        length_decoded_less_128 [of buf out] window_decoded_less_32 [of buf out]
      unfolding wf_packet_def unpack_validate_None by simp
    moreover have "nat len = 11 + extra buf" using len by linarith
    ultimately show ?thesis
      using len wire_plain [OF fits plain(4)] plain(1) None fits
      by (intro accepted [of "decoded_header buf out"]) simp_all
  next
    case (Some e)
    with plain(1) assms(2) show ?thesis
      by (intro rejected [of e "decoded_header buf out" "clear_tr buf"]) simp_all
  qed
next
  case (data q)
  let ?n = "15 + extra buf + unat (pk_length q)"
  have fits: "?n \<le> length buf" "11 + extra buf \<le> length buf"
    using assms(1) data(3) by linarith+
  note w = wire_data [of buf out, folded data(1), OF fits(1) data(5) assms(2) data(6)]
  show ?thesis
  proof (cases "unpack_validate (len - int ?n) q")
    case None
    with data(3) have len: "len = int ?n" unfolding unpack_validate_None by simp
    have "wf_packet q"
      using None w(2) data(4) decoded_crc1 [OF fits(2), of out]
        length_decoded_less_128 [of buf out] window_decoded_less_32 [of buf out]
      unfolding wf_packet_def unpack_validate_None by (simp add: data(1))
    moreover have "nat len = ?n" using len by linarith
    ultimately show ?thesis
      using len w(1) data(2) None fits by (intro accepted [of q]) simp_all
  next
    case (Some e)
    with data(2) w(2) show ?thesis by (intro rejected [of e q "clear_tr buf"]) simp_all
  qed
qed (use assms in \<open>auto intro: rejected\<close>)

text \<open>
  C24. Decoding is memory safe: on a buffer of at least the announced length and with the fixed
  payload array as output, \<^verbatim>\<open>unpack\<close> makes no access outside the buffer or the payload array,
  whatever bytes arrive, and leaves both arrays at their sizes.
\<close>

theorem unpack_memory_safe:
  assumes "len \<le> int (length buf)" and "length (pk_payload out) = MAX_PAYLOAD_SIZE"
  shows "\<exists>e p buf'. unpack buf len out = Some (e, p, buf') \<and>
    length (pk_payload p) = MAX_PAYLOAD_SIZE \<and> length buf' = length buf"
  using assms by (cases rule: unpack_cases) (auto simp: wf_packet_def)

text \<open>
  C15. Decoding is sound: a packet that \<^verbatim>\<open>unpack\<close> accepts is well formed (known type, only data
  truncated, window below 32, at most 512 bytes of payload, both checksums those of the
  reference CRC) and the bytes received are exactly its wire image, with nothing after it.
\<close>

theorem unpack_sound:
  assumes "len \<le> int (length buf)" and "length (pk_payload out) = MAX_PAYLOAD_SIZE"
    and "unpack buf len out = Some (None, p, buf')"
  shows "wf_packet p \<and> take (nat len) buf = wire p \<and> int (length (wire p)) = len"
  using assms(1,2) by (cases rule: unpack_cases) (use assms(3) in auto)

text \<open>What the output packet holds after a packet is accepted: without a payload, its payload
  and payload checksum keep their old contents.\<close>

definition received :: "packet_t \<Rightarrow> packet_t \<Rightarrow> packet_t" where
  "received out p = (if has_payload p
     then p\<lparr>pk_payload := take (unat (pk_length p)) (pk_payload p) @ drop (unat (pk_length p)) (pk_payload out)\<rparr>
     else p\<lparr>pk_crc2 := pk_crc2 out, pk_payload := pk_payload out\<rparr>)"

lemma decoded_wire:
  assumes "wf_packet p"
  shows "decoded_header (wire p @ rest) out = p\<lparr>pk_crc2 := pk_crc2 out, pk_payload := pk_payload out\<rparr>"
    and "extra (wire p @ rest) = (if pk_long_length p then 1 else 0)"
    and "length (wire_head tr p) = 7 + extra (wire p @ rest)"
proof -
  have w: "pk_window p < 32" and l: "unat (pk_length p) < 32768"
    and s: "\<not> pk_long_length p \<Longrightarrow> pk_length p < 128"
    using assms by (auto simp: wf_packet_def)
  have long7: "bit (0x80 OR ucast (drop_bit 8 (pk_length p)) :: u8) 7"
    unfolding u8_and_numerals by (simp add: bit_by_bit)
  note hdr = header_byte_decode_encode(1-3) [OF w, simplified]
  show e: "extra (wire p @ rest) = (if pk_long_length p then 1 else 0)"
    using long7 short_length_encode(2) [OF s]
    by (simp add: extra_def wire_def wire_head_def)
  show "length (wire_head tr p) = 7 + extra (wire p @ rest)"
    unfolding e by (simp add: wire_head_def)
  show "decoded_header (wire p @ rest) out = p\<lparr>pk_crc2 := pk_crc2 out, pk_payload := pk_payload out\<rparr>"
  proof (cases "pk_long_length p")
    case True
    then show ?thesis
      using long7 long_length_encode [OF l, simplified]
      unfolding decoded_header_def e Let_def
      by (simp add: wire_def wire_head_def be32_def hdr)
  next
    case False
    then show ?thesis
      using short_length_encode [OF s [OF False]]
      unfolding decoded_header_def e Let_def
      by (simp add: wire_def wire_head_def be32_def hdr)
  qed
qed

lemma wire_head_irrelevant [simp]:
  "wire_head tr (p\<lparr>pk_crc2 := c, pk_payload := d\<rparr>) = wire_head tr p"
  by (simp add: wire_head_def)

lemma wire_head_wire: "take (7 + extra (wire p @ rest)) (clear_tr (wire p @ rest)) = wire_head False p"
  if "wf_packet p"
proof -
  have "11 + extra (wire p @ rest) \<le> length (wire p @ rest)"
    using decoded_wire(3) [OF that, of "pk_truncated p" rest]
    by (simp add: wire_def)
  from header_bytes_eq(2) [OF this, of p] show ?thesis
    by (simp add: decoded_wire(1) [OF that])
qed

lemma length_wire:
  assumes "wf_packet p"
  shows "length (wire p) = 11 + extra (wire p @ rest) + (if has_payload p then unat (pk_length p) + 4 else 0)"
  using assms decoded_wire(3) [OF assms, of "pk_truncated p" rest]
  by (auto simp: wire_def wf_packet_def)

lemma of_be32_nths: "of_be32 (be32 c ! 0) (be32 c ! Suc 0) (be32 c ! 2) (be32 c ! 3) = c"
  using of_be32_be32 [of c] by (simp add: be32_def)

lemma with_payload_wire:
  assumes "wf_packet p" "has_payload p"
  shows "with_payload (wire p @ rest) (11 + extra (wire p @ rest))
           (p\<lparr>pk_crc2 := pk_crc2 out, pk_payload := pk_payload out\<rparr>) = received out p"
proof -
  let ?h = "wire_head (pk_truncated p) p @ be32 (pk_crc1 p)" and ?n = "unat (pk_length p)"
  have h: "length ?h = 11 + extra (wire p @ rest)"
    using decoded_wire(3) [OF assms(1), of "pk_truncated p" rest] by simp
  have n: "length (take ?n (pk_payload p)) = ?n" using assms(1) by (simp add: wf_packet_def)
  have w: "wire p @ rest = ?h @ take ?n (pk_payload p) @ be32 (pk_crc2 p) @ rest"
    using assms(2) by (simp add: wire_def)
  have "take ?n (drop (length ?h) (wire p @ rest)) = take ?n (pk_payload p)"
    unfolding w using n by simp
  moreover have "(wire p @ rest) ! (length ?h + ?n + i) = be32 (pk_crc2 p) ! i" if "i < 4" for i
    unfolding w using n that by (simp add: nth_append)
  note this [of 0] this [of 1] this [of 2] this [of 3]
  ultimately show ?thesis
    using assms(2) unfolding received_def with_payload_def Let_def h
    by (simp add: of_be32_nths)
qed

lemma unpack_wire:
  assumes "wf_packet p" and "pk_length p \<noteq> 0 \<longrightarrow> pk_type p = DATA"
    and "length (pk_payload out) = MAX_PAYLOAD_SIZE"
  shows "unpack (wire p @ rest) (int (length (wire p))) out =
    Some (None, received out p, clear_tr (wire p @ rest))"
proof -
  let ?b = "wire p @ rest"
  let ?p = "p\<lparr>pk_crc2 := pk_crc2 out, pk_payload := pk_payload out\<rparr>"
  note d = decoded_wire(1) [OF assms(1), of rest out]
  note len = length_wire [OF assms(1), of rest]
  have hp: "has_payload ?p = has_payload p" by (simp add: has_payload_def)
  have crc: "pk_crc1 p = crc32_8bytes (take (7 + extra ?b) (clear_tr ?b)) 0"
    using assms(1) by (simp add: wire_head_wire crc32_8bytes_bitwise wf_packet_def)
  have l: "int (length (wire p)) \<le> int (length ?b)" by simp
  have small: "unat (pk_length p) \<le> MAX_PAYLOAD_SIZE" using assms(1) by (simp add: wf_packet_def)
  from l assms(3) show ?thesis
  proof (cases rule: unpack_stages)
    case short then show ?thesis using len by simp
  next
    case crc' : crc then show ?thesis using crc by (simp add: d)
  next
    case (refused e)
    then have "has_payload p" "int (length (wire p)) < int (15 + extra ?b + unat (pk_length p))"
      using small by (simp_all add: d hp)
    then show ?thesis using len by simp
  next
    case plain
    then have np: "\<not> has_payload p" by (simp add: d hp)
    have "pk_length p = 0 \<or> pk_truncated p" using np assms(2) by (auto simp: has_payload_def)
    then have "unpack_validate (int (length (wire p)) - int (11 + extra ?b)) ?p = None"
      using len np assms(1) unfolding unpack_validate_None wf_packet_def by (simp, blast)
    then show ?thesis using plain(1) np by (simp add: d received_def)
  next
    case (data q)
    then have hq: "has_payload p" by (simp add: d hp)
    have q: "q = received out p"
      using data(1) with_payload_wire [OF assms(1) hq] by (simp add: d)
    have "unpack_validate (int (length (wire p)) - int (15 + extra ?b + unat (pk_length p))) (received out p) = None"
      using hq len assms(1) unfolding unpack_validate_None wf_packet_def received_def by simp
    moreover have "pk_length q = pk_length p" using q hq by (simp add: received_def)
    ultimately show ?thesis using data(2) q by simp
  qed
qed


section \<open>Encoding produces the wire format\<close>

text \<open>The packet with the checksums \<^verbatim>\<open>pack\<close> computes.\<close>

definition sealed :: "packet_t \<Rightarrow> bool \<Rightarrow> packet_t" where
  "sealed p recompute_crc2 = p\<lparr>pk_crc1 := crc32_bitwise (wire_head False p) 0,
     pk_crc2 := (if recompute_crc2 then crc32_bitwise (take (unat (pk_length p)) (pk_payload p)) 0
                 else pk_crc2 p)\<rparr>"

lemma sealed_simps [simp]:
  "pk_truncated (sealed p r) = pk_truncated p" "pk_length (sealed p r) = pk_length p"
  "pk_payload (sealed p r) = pk_payload p" "wire_head tr (sealed p r) = wire_head tr p"
  "has_payload (sealed p r) = has_payload p" "pk_type (sealed p r) = pk_type p"
  by (simp_all add: sealed_def wire_head_def has_payload_def)

lemma short_length_mask: "l < (128::u16) \<Longrightarrow> ucast (l AND 0x7F) = (ucast l :: u8)"
  using short_length_encode(2) [of l] unfolding u16_and_numerals
  by (intro u8_eqI) (simp add: bit_by_bit)

lemma window_mask: "w < (32::u8) \<Longrightarrow> w AND 0x1F = w"
  using header_byte_decode_encode(3) [of w IGNORE False] by simp

lemma pack_header_short:
  assumes "pk_window p < 32" "\<not> pk_long_length p" "pk_length p < 128"
  shows "pack_header p = wire_head False p"
  using assms htonl_le_bytes [of "pk_timestamp p"]
  by (simp add: pack_header_def wire_head_def short_length_mask window_mask Let_def)

lemma wire_head_truncated:
  "(wire_head False p)[0 := wire_head False p ! 0 OR (if tr then 0x20 else 0)] = wire_head tr p"
  by (simp add: wire_head_def ac_simps)

lemma pack_bytes_short:
  assumes "pk_window p < 32" "\<not> pk_long_length p" "pk_length p < 128"
  shows "pack_bytes p r = wire (sealed p r)"
  using wire_head_truncated [of p "pk_truncated p"]
  by (simp add: pack_bytes_def pack_header_short [OF assms] Let_def htonl_le_bytes
      crc32_8bytes_bitwise crc32_16bytes_bitwise wire_def) (simp add: sealed_def)

lemma wf_sealed:
  assumes "pk_type p \<noteq> IGNORE" "pk_truncated p \<longrightarrow> pk_type p = DATA" "pk_window p < 32"
    "\<not> pk_long_length p" "pk_length p < 128" "length (pk_payload p) = MAX_PAYLOAD_SIZE"
  shows "wf_packet (sealed p True)"
proof -
  have "unat (pk_length p) \<le> MAX_PAYLOAD_SIZE" using assms(5) by (simp add: word_less_nat_alt)
  then show ?thesis using assms unfolding wf_packet_def sealed_simps by (simp add: sealed_def)
qed

text \<open>
  C25. Encoding and decoding are inverse for packets with a one-byte length: \<^verbatim>\<open>pack\<close> with the
  payload checksum recomputed writes the packet's wire image at the start of a large enough
  buffer, and \<^verbatim>\<open>unpack\<close> of it returns the packet with its checksums filled in.
\<close>

theorem pack_unpack_roundtrip:
  assumes "pk_type p \<noteq> IGNORE" and "pk_truncated p \<longrightarrow> pk_type p = DATA" and "pk_window p < 32"
    and "\<not> pk_long_length p" and "pk_length p < 128" and "pk_length p \<noteq> 0 \<longrightarrow> pk_type p = DATA"
    and "length (pk_payload p) = MAX_PAYLOAD_SIZE" and "length (pk_payload out) = MAX_PAYLOAD_SIZE"
    and "length (wire p) \<le> length dst"
  shows "\<exists>buf. pack (Some dst) (Some p) True = Some (Inr buf) \<and> length buf = length dst \<and>
    unpack buf (int (length (wire p))) out = Some (None, received out (sealed p True), clear_tr buf)"
proof -
  let ?q = "sealed p True"
  have len: "length (wire ?q) = length (wire p)" by (simp add: wire_def)
  have "has_payload p \<longrightarrow> unat (pk_length p) \<le> length (pk_payload p)"
    using assms(5,7) by (simp add: word_less_nat_alt)
  then have "pack (Some dst) (Some p) True = Some (Inr (wire ?q @ drop (length (wire ?q)) dst))"
    using assms(9) pack_bytes_short [OF assms(3-5), of True] len by (auto simp: pack_def Let_def)
  moreover have "unpack (wire ?q @ drop (length (wire ?q)) dst) (int (length (wire ?q))) out =
      Some (None, received out ?q, clear_tr (wire ?q @ drop (length (wire ?q)) dst))"
    using assms by (intro unpack_wire wf_sealed) simp_all
  ultimately show ?thesis using assms(9) len by simp
qed

lemma packed_low_byte:
  assumes "\<And>n. 10 \<le> n \<Longrightarrow> \<not> bit (l::u16) n"
  shows "ucast (drop_bit 7 (htons l)) = (push_bit 1 (ucast l) :: u8)"
  unfolding ntohs_def by (rule u8_eqI) (simp add: bit_by_bit assms del: push_bit_Suc)

lemma doubled_byte: "(push_bit 1 (ucast (l::u16)) :: u8) = ucast l \<longleftrightarrow> 256 dvd unat l"
proof -
  have "(push_bit 1 (ucast l) :: u8) = ucast l \<longleftrightarrow> (ucast l :: u8) = 0"
    by (simp add: push_bit_eq_mult mult_2)
  also have "\<dots> \<longleftrightarrow> 256 dvd unat l"
    by (simp add: word_unat_eq_iff unsigned_ucast_eq take_bit_eq_mod dvd_eq_mod_eq_0)
  finally show ?thesis .
qed

text \<open>The length that decoding finds in the header \<^verbatim>\<open>pack\<close> writes.\<close>

definition packed_length :: "packet_t \<Rightarrow> u16" where
  "packed_length p = pk_length (decoded_header (pack_header p) p)"

lemma packed_length_short:
  assumes "\<not> pk_long_length p"
  shows "packed_length p = pk_length p AND 0x7F"
proof -
  have "pack_header p ! 1 = ucast (pk_length p AND 0x7F)"
    using assms by (simp add: pack_header_def)
  moreover have "\<not> bit (ucast (pk_length p AND 0x7F) :: u8) 7"
    unfolding u16_and_numerals by (simp add: bit_by_bit)
  moreover have "ucast ((ucast (pk_length p AND 0x7F) :: u8) AND 0x7F) = pk_length p AND 0x7F"
    unfolding u16_and_numerals u8_and_numerals by (rule u16_eqI) (simp add: bit_by_bit)
  ultimately show ?thesis by (simp only: packed_length_def decoded_header_def Let_def) simp
qed

lemma packed_length_long:
  assumes "pk_long_length p" "unat (pk_length p) \<le> MAX_PAYLOAD_SIZE"
  shows "packed_length p = pk_length p \<longleftrightarrow> 256 dvd unat (pk_length p)"
proof -
  let ?l = "pk_length p"
  have l: "\<not> bit ?l n" if "10 \<le> n" for n
    using assms(2) that by (intro bit_beyond [of ?l 10]) simp_all
  have b: "pack_header p ! 1 = ucast (0x80 OR (htons ?l AND 0x7F))" "pack_header p ! 2 = push_bit 1 (ucast ?l)"
    using assms(1) packed_low_byte [OF l] by (simp_all add: pack_header_def Let_def)
  have "bit (pack_header p ! 1) 7"
    unfolding b u16_and_numerals by (simp add: bit_by_bit)
  then have "packed_length p = push_bit 8 (ucast (pack_header p ! 1 AND 0x7F)) OR ucast (pack_header p ! 2)"
    by (simp only: packed_length_def decoded_header_def Let_def long_length_decode [symmetric]) simp
  moreover have "ucast (pack_header p ! 1 AND 0x7F) = drop_bit 8 ?l"
    unfolding b ntohs_def u16_and_numerals u8_and_numerals by (rule u16_eqI) (simp add: bit_by_bit l)
  ultimately have eq: "packed_length p = push_bit 8 (drop_bit 8 ?l) OR ucast (push_bit 1 (ucast ?l) :: u8)"
    by (simp only: b)
  have "packed_length p = ?l \<longleftrightarrow> (push_bit 1 (ucast ?l) :: u8) = ucast ?l"
  proof
    assume "packed_length p = ?l"
    then have "(ucast (push_bit 8 (drop_bit 8 ?l) OR ucast (push_bit 1 (ucast ?l) :: u8)) :: u8) = ucast ?l"
      by (simp only: eq)
    moreover have "(ucast (push_bit 8 (drop_bit 8 ?l) OR ucast (push_bit 1 (ucast ?l) :: u8)) :: u8)
        = push_bit 1 (ucast ?l)"
      by (rule u8_eqI) (simp add: bit_by_bit del: push_bit_Suc)
    ultimately show "(push_bit 1 (ucast ?l) :: u8) = ucast ?l" by simp
  next
    assume "(push_bit 1 (ucast ?l) :: u8) = ucast ?l"
    then have "packed_length p = push_bit 8 (drop_bit 8 ?l) OR ucast (ucast ?l :: u8)" by (simp only: eq)
    also have "\<dots> = ?l" by (rule u16_eqI) (simp add: bit_by_bit)
    finally show "packed_length p = ?l" .
  qed
  then show ?thesis by (simp only: doubled_byte)
qed

lemma unat_eq_iff_word: "n < 65536 \<Longrightarrow> unat (l::u16) = n \<longleftrightarrow> l = of_nat n"
  by (auto simp: word_unat_eq_iff unat_of_nat take_bit_nat_eq_self)

lemma masked_0x11:
  assumes "l AND 0x1111 = (l::u16)" "l AND 0x7F = l"
  shows "unat l \<in> {0, 1, 16, 17}"
proof -
  have "l = l AND (0x1111 AND 0x7F)" using assms by (simp only: and.assoc [symmetric])
  then have l: "l = l AND (1 OR push_bit 4 1)" by simp
  have "l AND (1 OR push_bit 4 1) = (if bit l 0 then 1 else 0) OR push_bit 4 (if bit l 4 then 1 else 0)"
    by (rule u16_eqI) (simp add: bit_by_bit bit_1_iff)
  with l have "l \<in> {0, 1, 16, 17}" by (auto split: if_splits)
  then show ?thesis by auto
qed

text \<open>
  \<^verbatim>\<open>set_length\<close> and \<^verbatim>\<open>pack\<close> do not transmit every length: of the lengths a payload may have
  (0 to 512), set on a fresh packet, the header that \<^verbatim>\<open>pack\<close> writes decodes to the same length
  only for 0, 1, 16, 17 and 512. The mask \<^verbatim>\<open>0x11111\<close> of \<^verbatim>\<open>set_length\<close> takes one-byte lengths for
  long ones and 256 for a short one, and \<^verbatim>\<open>pack\<close> shifts long lengths by 7 bits where 8 are needed.
\<close>

theorem set_length_pack_iff:
  assumes "\<not> pk_long_length p" and "unat l \<le> MAX_PAYLOAD_SIZE"
  shows "packed_length (set_length p l) = l \<longleftrightarrow> unat l \<in> {0, 1, 16, 17, 512}"
proof -
  define q where "q = set_length p l"
  have q: "pk_length q = l" "pk_long_length q \<longleftrightarrow> l AND 0x1111 \<noteq> l"
    using assms by (simp_all add: q_def set_length_def)
  show ?thesis
  proof (cases "l AND 0x1111 = l")
    case True
    then have "packed_length q = l AND 0x7F" using q packed_length_short by metis
    moreover have "unat l \<noteq> 512" using True by (auto simp: unat_eq_iff_word)
    moreover have "l AND 0x7F = l" if "unat l \<in> {0, 1, 16, 17}"
      using that by (auto simp: unat_eq_iff_word)
    ultimately show ?thesis
      using masked_0x11 [OF True] unfolding q_def [symmetric] by (metis insert_iff empty_iff)
  next
    case False
    then have "packed_length q = l \<longleftrightarrow> 256 dvd unat l"
      using q assms(2) packed_length_long by metis
    moreover have "256 dvd unat l \<longleftrightarrow> unat l \<in> {0, 256, 512}"
      using assms(2) by (auto simp: dvd_def)
    moreover have "unat l \<notin> {0, 1, 16, 17, 256}"
      using False by (auto simp: unat_eq_iff_word)
    ultimately show ?thesis by (auto simp: q_def [symmetric])
  qed
qed

section \<open>Witnesses\<close>

text \<open>A data packet with a payload of three bytes, and an output packet with zeroed fields.\<close>

definition sample_data :: packet_t where
  "sample_data = \<lparr>pk_type = DATA, pk_truncated = False, pk_window = 31, pk_long_length = False,
     pk_length = 3, pk_seqnum = 7, pk_timestamp = 0x01020304, pk_crc1 = 0, pk_crc2 = 0,
     pk_payload = [65, 66, 67] @ replicate 509 0\<rparr>"

definition fresh_packet :: packet_t where
  "fresh_packet = \<lparr>pk_type = IGNORE, pk_truncated = False, pk_window = 0, pk_long_length = False,
     pk_length = 0, pk_seqnum = 0, pk_timestamp = 0, pk_crc1 = 0, pk_crc2 = 0,
     pk_payload = replicate MAX_PAYLOAD_SIZE 0\<rparr>"

lemma sample_simps:
  "pk_type sample_data = DATA" "pk_truncated sample_data = False" "pk_window sample_data = 31"
  "pk_long_length sample_data = False" "pk_length sample_data = 3"
  "length (pk_payload sample_data) = MAX_PAYLOAD_SIZE"
  "length (pk_payload fresh_packet) = MAX_PAYLOAD_SIZE" "\<not> pk_long_length fresh_packet"
  by (simp_all add: sample_data_def fresh_packet_def)

lemma sample_sealed: "wf_packet (sealed sample_data True)"
  by (rule wf_sealed) (simp_all add: sample_simps)

lemma sample_wire_length: "length (wire (sealed sample_data True)) = 18" "length (wire sample_data) = 18"
  by (simp_all add: wire_def wire_head_def sample_simps has_payload_def sealed_def)

lemma sample_unpack:
  "unpack (wire (sealed sample_data True)) 18 fresh_packet =
     Some (None, received fresh_packet (sealed sample_data True), clear_tr (wire (sealed sample_data True)))"
  using unpack_wire [OF sample_sealed, of fresh_packet "[]"] by (simp add: sample_simps sample_wire_length)

theorem unpack_memory_safe_witness:
  "\<exists>e p buf'. unpack (replicate 600 0xFF) 528 fresh_packet = Some (e, p, buf') \<and>
     length (pk_payload p) = MAX_PAYLOAD_SIZE \<and> length buf' = 600"
  using unpack_memory_safe [of 528 "replicate 600 0xFF" fresh_packet] by (simp add: sample_simps)

theorem unpack_sound_witness:
  "unpack (wire (sealed sample_data True)) 18 fresh_packet =
     Some (None, received fresh_packet (sealed sample_data True), clear_tr (wire (sealed sample_data True))) \<and>
   wf_packet (received fresh_packet (sealed sample_data True)) \<and>
   wire (sealed sample_data True) = wire (received fresh_packet (sealed sample_data True))"
  using unpack_sound [OF _ _ sample_unpack] sample_unpack by (simp add: sample_simps sample_wire_length)


theorem pack_unpack_roundtrip_witness:
  "\<exists>buf. pack (Some (replicate 528 0)) (Some sample_data) True = Some (Inr buf) \<and> length buf = 528 \<and>
     unpack buf 18 fresh_packet = Some (None, received fresh_packet (sealed sample_data True), clear_tr buf)"
  using pack_unpack_roundtrip [of sample_data fresh_packet "replicate 528 0"]
  by (simp add: sample_simps sample_wire_length)

theorem set_length_pack_witness: "packed_length (set_length fresh_packet 3) \<noteq> 3"
  using set_length_pack_iff [of fresh_packet 3] by (simp add: sample_simps)

end
