(* ===== verification/Window_Buffer.thy ===== *)
theory Window_Buffer
  imports Trtp_Prelude
begin

text \<open>
  \<^verbatim>\<open>src/buffer.c\<close> and \<^verbatim>\<open>headers/buffer.h\<close>: the receive window of a client, an array of 32 nodes
  indexed by the five low bits of the sequence number. A node owns the value it points to, so
  the model stores the value itself, \<open>None\<close> for the null pointer; a pointer to a node is its
  index. The operations are polymorphic in the value, as the \<^verbatim>\<open>void *\<close> of the source is.

  The contract of the window is the locale \<open>receive_window\<close>: a partial map from the sequence
  numbers of the window to values, in which storing adds an entry and draining a run of
  entries at the low end slides the window. Its client lemmas (consecutive numbering of what is
  drained) are proved from the laws and reach the handler through the interpretation \<open>win\<close>.
\<close>

section \<open>Data and operations\<close>

record 'v node_t =
  nd_value :: "'v option"
  nd_used :: bool

record 'v buf_t =
  window_low :: u8
  buf_length :: u8
  nodes :: "'v node_t list"

definition hash :: "u8 \<Rightarrow> u8" where
  "hash seqnum = seqnum AND 0x1F"

definition buf_get_length :: "'v buf_t \<Rightarrow> u8" where
  "buf_get_length self = buf_length self"

text \<open>The null buffer is \<open>None\<close>; the address of an array element is never null.\<close>

definition is_used :: "'v buf_t option \<Rightarrow> u8 \<Rightarrow> errors_t + bool" where
  "is_used buffer seqnum = (case buffer of None \<Rightarrow> Inl NULL_ARGUMENT
     | Some b \<Rightarrow> Inr (nd_used (nodes b ! unat (hash seqnum))))"

definition buf_next :: "'v buf_t option \<Rightarrow> u8 \<Rightarrow> errors_t + (nat \<times> 'v buf_t)" where
  "buf_next buffer seqnum = (case buffer of None \<Rightarrow> Inl NULL_ARGUMENT
     | Some b \<Rightarrow> (let i = unat (hash seqnum) in
         Inr (i, b\<lparr>buf_length := buf_length b + 1, nodes := (nodes b)[i := (nodes b ! i)\<lparr>nd_used := True\<rparr>]\<rparr>)))"

text \<open>\<open>Inr None\<close> is the null result for a slot that is not in use.\<close>

definition get :: "'v buf_t option \<Rightarrow> u8 \<Rightarrow> bool \<Rightarrow> errors_t + (nat \<times> 'v buf_t) option" where
  "get buffer seqnum inc = (case buffer of None \<Rightarrow> Inl NULL_ARGUMENT
     | Some b \<Rightarrow> (let i = unat (hash seqnum) in
         if \<not> nd_used (nodes b ! i) then Inr None
         else (let b = b\<lparr>nodes := (nodes b)[i := (nodes b ! i)\<lparr>nd_used := False\<rparr>]\<rparr> in
           Inr (Some (i, if inc then b\<lparr>buf_length := buf_length b - 1, window_low := seqnum + 1\<rparr> else b)))))"

text \<open>
  Deallocation passes every value that is not null to \<^verbatim>\<open>free\<close>, then the buffer itself: the
  result is the list of the freed values.
\<close>

definition deallocate_buffer :: "'v buf_t option \<Rightarrow> errors_t + 'v list" where
  "deallocate_buffer buffer = (case buffer of None \<Rightarrow> Inl NULL_ARGUMENT
     | Some b \<Rightarrow> Inr (List.map_filter nd_value (nodes b)))"

text \<open>
  Initialisation of memory with arbitrary contents. The allocator is a parameter: \<open>allocator i\<close>
  is what its call number \<open>i\<close> returns. On failure the buffer is deallocated, and the result has
  the values freed.
\<close>

function initialize_nodes ::
  "(nat \<Rightarrow> 'v option) \<Rightarrow> nat \<Rightarrow> 'v buf_t \<Rightarrow> (errors_t \<times> 'v list) + 'v buf_t" where
  "initialize_nodes allocator i b =
     (if i < MAX_BUFFER_SIZE then
        (let b = b\<lparr>nodes := (nodes b)[i := \<lparr>nd_value = allocator i, nd_used = False\<rparr>]\<rparr> in
         if allocator i = None
         then Inl (FAILED_TO_ALLOCATE, (case deallocate_buffer (Some b) of Inl _ \<Rightarrow> [] | Inr vs \<Rightarrow> vs))
         else initialize_nodes allocator (Suc i) b)
      else Inr b)"
  by pat_completeness auto

termination by (relation "measure (\<lambda>(_, i, _). MAX_BUFFER_SIZE - i)") auto

declare initialize_nodes.simps [simp del]

definition initialize_buffer ::
  "(nat \<Rightarrow> 'v option) \<Rightarrow> 'v buf_t \<Rightarrow> (errors_t \<times> 'v list) + 'v buf_t" where
  "initialize_buffer allocator b = initialize_nodes allocator 0 (b\<lparr>buf_length := 0, window_low := 0\<rparr>)"

section \<open>Slots do not collide within a window\<close>

lemma unat_hash: "unat (hash s) = unat s mod 32"
proof -
  have "hash s = take_bit 5 s" by (simp add: hash_def take_bit_eq_mask mask_eq_exp_minus_1)
  then show ?thesis by (simp only: unsigned_take_bit_eq) (simp add: take_bit_eq_mod)
qed

lemma hash_less [simp]: "unat (hash s) < 32"
  by (simp add: unat_hash)

lemma hash_offset: "unat (hash (low + word_of_nat a)) = (unat low + a) mod 32"
proof -
  have "unat (low + word_of_nat a) = (unat low + a) mod 256"
    by (simp add: unat_word_ariths unat_of_nat take_bit_eq_mod mod_simps)
  then show ?thesis by (simp add: unat_hash mod_mod_cancel)
qed

lemma hash_offset_inj:
  assumes "hash (low + word_of_nat a) = hash (low + word_of_nat c)" "a < 32" "c < 32"
  shows "a = c"
proof -
  have "(unat low + a) mod 32 = (unat low + c) mod 32"
    using assms(1) by (metis hash_offset)
  then have "a mod 32 = c mod 32"
    by (simp add: nat_mod_eq_iff)
  with assms(2,3) show ?thesis by simp
qed

lemma offset_of: "s = low + word_of_nat (unat (s - low))" for s low :: u8
  by simp

lemma hash_inj:
  assumes "hash s = hash t" "unat (s - low) < 32" "unat (t - low) < 32"
  shows "s = t"
  using hash_offset_inj [of low "unat (s - low)" "unat (t - low)"] assms
  by (simp add: word_unat_eq_iff [symmetric])

section \<open>The contract of a receive window\<close>

locale receive_window =
  fixes inv :: "'w \<Rightarrow> bool"
    and low :: "'w \<Rightarrow> u8"
    and held :: "'w \<Rightarrow> u8 \<Rightarrow> 'v option"
    and store :: "'w \<Rightarrow> u8 \<Rightarrow> 'v \<Rightarrow> 'w"
    and drain :: "'w \<Rightarrow> nat \<Rightarrow> 'w"
  assumes held_in_window: "held w s \<noteq> None \<Longrightarrow> unat (s - low w) < MAX_WINDOW_SIZE"
    and inv_store: "inv w \<Longrightarrow> unat (s - low w) < MAX_WINDOW_SIZE \<Longrightarrow> held w s = None \<Longrightarrow> inv (store w s v)"
    and low_store: "low (store w s v) = low w"
    and held_store: "inv w \<Longrightarrow> unat (s - low w) < MAX_WINDOW_SIZE \<Longrightarrow>
      held (store w s v) = (held w)(s \<mapsto> v)"
    and inv_drain: "inv w \<Longrightarrow> \<forall>k < n. held w (low w + word_of_nat k) \<noteq> None \<Longrightarrow> inv (drain w n)"
    and low_drain: "low (drain w n) = low w + word_of_nat n"
    and held_drain: "inv w \<Longrightarrow> \<forall>k < n. held w (low w + word_of_nat k) \<noteq> None \<Longrightarrow>
      held (drain w n) s = (if unat (s - low w) < n then None else held w s)"
begin

text \<open>
  The window is in step with a numbered source of values: its low end is number \<open>n\<close> (modulo
  256) and what it holds at a distance from the low end is the value of that number.
\<close>

definition in_step :: "(nat \<Rightarrow> 'a) \<Rightarrow> ('v \<Rightarrow> 'a) \<Rightarrow> nat \<Rightarrow> 'w \<Rightarrow> bool" where
  "in_step src val n w \<longleftrightarrow> inv w \<and> low w = word_of_nat n \<and>
     (\<forall>s v. held w s = Some v \<longrightarrow> val v = src (n + unat (s - low w)))"

lemma in_step_store:
  assumes "in_step src val n w" "unat (s - low w) < MAX_WINDOW_SIZE" "held w s = None"
    "val v = src (n + unat (s - low w))"
  shows "in_step src val n (store w s v)"
  using assms by (auto simp: in_step_def inv_store low_store held_store)

lemma run_bounded:
  assumes "\<forall>k < n. held w (low w + word_of_nat k) \<noteq> None"
  shows "n \<le> MAX_WINDOW_SIZE"
proof (rule ccontr)
  assume "\<not> n \<le> MAX_WINDOW_SIZE"
  then have "held w (low w + word_of_nat MAX_WINDOW_SIZE) \<noteq> None" using assms by (metis not_le)
  from held_in_window [OF this] show False by simp
qed

lemma in_step_drain:
  assumes "in_step src val n w" "\<forall>k < c. held w (low w + word_of_nat k) \<noteq> None"
  shows "in_step src val (n + c) (drain w c)"
    and "map (\<lambda>k. val (the (held w (low w + word_of_nat k)))) [0..<c] = map src [n..<n + c]"
proof -
  have c: "c \<le> MAX_WINDOW_SIZE" using run_bounded assms(2) by blast
  have k: "unat (word_of_nat k :: u8) = k" if "k < c" for k
    using that c by (simp add: unat_of_nat take_bit_nat_eq_self)
  have shift: "unat (s - low w) = c + unat (s - (low w + word_of_nat c))"
    if "\<not> unat (s - low w) < c" for s
  proof -
    have "unat (s - low w - word_of_nat c) = unat (s - low w) - c"
      using that c by (subst unat_sub) (simp_all add: word_le_nat_alt unat_of_nat take_bit_nat_eq_self)
    then show ?thesis using that by (simp add: algebra_simps)
  qed
  show "in_step src val (n + c) (drain w c)"
    using assms(1,2) shift by (auto simp: in_step_def inv_drain low_drain held_drain add.assoc split: if_splits)
  have "val (the (held w (low w + word_of_nat k))) = src (n + k)" if "k < c" for k
  proof -
    obtain v where "held w (low w + word_of_nat k) = Some v" using assms(2) \<open>k < c\<close> by blast
    with assms(1) k [OF that] show ?thesis by (simp add: in_step_def)
  qed
  then show "map (\<lambda>k. val (the (held w (low w + word_of_nat k)))) [0..<c] = map src [n..<n + c]"
    by (intro nth_equalityI) simp_all
qed

end

section \<open>The array of nodes implements the contract\<close>

text \<open>What the window holds at a sequence number.\<close>

definition held :: "'v buf_t \<Rightarrow> u8 \<Rightarrow> 'v option" where
  "held b s = (if unat (s - window_low b) < MAX_WINDOW_SIZE \<and> nd_used (nodes b ! unat (hash s))
     then nd_value (nodes b ! unat (hash s)) else None)"

definition used_slots :: "'v buf_t \<Rightarrow> nat set" where
  "used_slots b = {j. j < MAX_BUFFER_SIZE \<and> nd_used (nodes b ! j)}"

text \<open>
  The invariant: 32 nodes, every node owns a value, the length counts the used nodes, and the
  one slot that belongs to no sequence number of the window is free.
\<close>

definition window_inv :: "'v buf_t \<Rightarrow> bool" where
  "window_inv b \<longleftrightarrow> length (nodes b) = MAX_BUFFER_SIZE \<and>
     (\<forall>j < MAX_BUFFER_SIZE. nd_value (nodes b ! j) \<noteq> None) \<and>
     unat (buf_length b) = card (used_slots b) \<and>
     \<not> nd_used (nodes b ! unat (hash (window_low b + 31)))"

text \<open>Storing a value: \<^verbatim>\<open>next\<close>, then the node's value is replaced.\<close>

definition store :: "'v buf_t \<Rightarrow> u8 \<Rightarrow> 'v \<Rightarrow> 'v buf_t" where
  "store b s v = (case buf_next (Some b) s of Inl _ \<Rightarrow> b
     | Inr (i, b) \<Rightarrow> b\<lparr>nodes := (nodes b)[i := (nodes b ! i)\<lparr>nd_value := Some v\<rparr>]\<rparr>)"

text \<open>Draining: \<^verbatim>\<open>get\<close> on consecutive numbers without adjusting the counters, then both at once.\<close>

primrec release :: "'v buf_t \<Rightarrow> u8 \<Rightarrow> nat \<Rightarrow> 'v buf_t" where
  "release b s 0 = b"
| "release b s (Suc n) = release (case get (Some b) s False of Inr (Some (_, b)) \<Rightarrow> b | _ \<Rightarrow> b) (s + 1) n"

definition slide :: "'v buf_t \<Rightarrow> nat \<Rightarrow> 'v buf_t" where
  "slide b n = b\<lparr>buf_length := buf_length b - word_of_nat n, window_low := window_low b + word_of_nat n\<rparr>"

definition drain :: "'v buf_t \<Rightarrow> nat \<Rightarrow> 'v buf_t" where
  "drain b n = slide (release b (window_low b) n) n"

lemma finite_used_slots [simp]: "finite (used_slots b)"
  by (simp add: used_slots_def)

lemma window_slot_cases:
  assumes "j < MAX_BUFFER_SIZE"
  obtains k where "k < MAX_BUFFER_SIZE" "j = unat (hash (low + word_of_nat k))"
proof
  let ?k = "(j + 32 - unat low mod 32) mod 32"
  have "(unat low + ?k) mod 32 = (unat low mod 32 + (j + 32 - unat low mod 32)) mod 32"
    by (metis mod_add_eq mod_mod_trivial)
  also have "unat low mod 32 + (j + 32 - unat low mod 32) = j + 32"
    using mod_less_divisor [of 32 "unat low"] by linarith
  also have "(j + 32) mod 32 = j" using assms by simp
  finally show "j = unat (hash (low + word_of_nat ?k))" by (simp add: hash_offset)
qed simp

lemma offset_31:
  assumes "unat (s - low) < MAX_WINDOW_SIZE"
  shows "hash s \<noteq> hash (low + 31)"
  using hash_inj [of s "low + 31" low] assms by auto

lemma store_simps [simp]:
  "window_low (store b s v) = window_low b" "buf_length (store b s v) = buf_length b + 1"
  "length (nodes (store b s v)) = length (nodes b)"
  by (simp_all add: store_def buf_next_def Let_def)

lemma nodes_store:
  "length (nodes b) = 32 \<Longrightarrow> nodes (store b s v) =
     (nodes b)[unat (hash s) := (nodes b ! unat (hash s))\<lparr>nd_used := True, nd_value := Some v\<rparr>]"
  by (simp add: store_def buf_next_def Let_def)

lemma used_slots_store:
  "length (nodes b) = 32 \<Longrightarrow> used_slots (store b s v) = insert (unat (hash s)) (used_slots b)"
  by (auto simp: used_slots_def nodes_store nth_list_update)

lemma release_simps [simp]:
  "window_low (release b s n) = window_low b" "buf_length (release b s n) = buf_length b"
  "length (nodes (release b s n)) = length (nodes b)"
  by (induction n arbitrary: b s) (simp_all add: get_def Let_def)

lemma nth_release:
  assumes "length (nodes b) = 32" "j < 32"
  shows "nodes (release b s n) ! j =
    (nodes b ! j)\<lparr>nd_used := nd_used (nodes b ! j) \<and> (\<forall>k < n. unat (hash (s + word_of_nat k)) \<noteq> j)\<rparr>"
  using assms
proof (induction n arbitrary: b s)
  case (Suc n)
  have all: "(\<forall>k < Suc n. P (s + word_of_nat k)) \<longleftrightarrow> P s \<and> (\<forall>k < n. P (s + 1 + word_of_nat k))" for P
    by (auto simp: less_Suc_eq_0_disj add.assoc)
  show ?case
    unfolding all [of "\<lambda>x. unat (hash x) \<noteq> j"] using Suc.prems
    by (auto simp: get_def Let_def Suc.IH nth_list_update)
qed simp

lemma used_slots_release:
  assumes "length (nodes b) = 32"
  shows "used_slots (release b s n) = used_slots b - (\<lambda>k. unat (hash (s + word_of_nat k))) ` {..<n}"
  using assms by (auto simp: used_slots_def nth_release)

lemma inj_slots: "n \<le> 32 \<Longrightarrow> inj_on (\<lambda>k. unat (hash (s + word_of_nat k))) {..<n}"
proof (rule inj_onI)
  fix x y assume n: "n \<le> 32" "x \<in> {..<n}" "y \<in> {..<n}"
    and "unat (hash (s + word_of_nat x)) = unat (hash (s + word_of_nat y))"
  then have "hash (s + word_of_nat x) = hash (s + word_of_nat y)" by (simp add: word_unat_eq_iff)
  from hash_offset_inj [OF this] n show "x = y" by simp
qed

lemma window_length_bound:
  assumes "window_inv b"
  shows "unat (buf_length b) \<le> MAX_WINDOW_SIZE"
proof -
  have "used_slots b \<subseteq> {..<MAX_BUFFER_SIZE} - {unat (hash (window_low b + 31))}"
    using assms by (auto simp: window_inv_def used_slots_def)
  then have "card (used_slots b) \<le> card ({..<MAX_BUFFER_SIZE} - {unat (hash (window_low b + 31))})"
    by (intro card_mono) auto
  then show ?thesis using assms by (simp add: window_inv_def)
qed

lemma window_inv_nodes: "window_inv b \<Longrightarrow> length (nodes b) = 32"
  by (simp add: window_inv_def)

lemma window_inv_free: "window_inv b \<Longrightarrow> unat (hash (window_low b + 31)) \<notin> used_slots b"
  by (simp add: window_inv_def used_slots_def)

lemma held_None_iff:
  assumes "window_inv b" "unat (s - window_low b) < MAX_WINDOW_SIZE"
  shows "held b s = None \<longleftrightarrow> \<not> nd_used (nodes b ! unat (hash s))"
  using assms hash_less [of s] by (auto simp: held_def window_inv_def)

lemma window_inv_store:
  assumes "window_inv b" "unat (s - window_low b) < MAX_WINDOW_SIZE" "held b s = None"
  shows "window_inv (store b s v)"
proof -
  have len: "length (nodes b) = 32" using assms(1) by (simp add: window_inv_def)
  have free: "unat (hash s) \<notin> used_slots b"
    using held_None_iff [OF assms(1,2)] assms(3) by (simp add: used_slots_def)
  have "card (used_slots (store b s v)) = unat (buf_length b) + 1"
    using free assms(1) by (simp add: used_slots_store len window_inv_def)
  moreover have "unat (buf_length b + 1) = unat (buf_length b) + 1"
    using window_length_bound [OF assms(1)] by (simp add: unat_word_ariths)
  moreover have "unat (hash (window_low b + 31)) \<noteq> unat (hash s)"
    using offset_31 [OF assms(2)] by (simp add: word_unat_eq_iff)
  ultimately show ?thesis
    using assms(1) len by (auto simp: window_inv_def nodes_store nth_list_update)
qed

lemma held_store:
  assumes "length (nodes b) = 32" "unat (s - window_low b) < MAX_WINDOW_SIZE"
  shows "held (store b s v) = (held b)(s \<mapsto> v)"
proof
  fix t
  show "held (store b s v) t = ((held b)(s \<mapsto> v)) t"
  proof (cases "t = s \<or> \<not> unat (t - window_low b) < MAX_WINDOW_SIZE")
    case True
    then show ?thesis using assms by (auto simp: held_def nodes_store)
  next
    case False
    then have "hash t \<noteq> hash s" using hash_inj [of t s "window_low b"] assms(2) by auto
    then have "unat (hash t) \<noteq> unat (hash s)" by (simp add: word_unat_eq_iff)
    with False show ?thesis using assms by (simp add: held_def nodes_store)
  qed
qed

lemma held_run:
  assumes "\<forall>k < n. held b (window_low b + word_of_nat k) \<noteq> None"
  shows "n \<le> MAX_WINDOW_SIZE" "(\<lambda>k. unat (hash (window_low b + word_of_nat k))) ` {..<n} \<subseteq> used_slots b"
proof -
  show "n \<le> MAX_WINDOW_SIZE"
  proof (rule ccontr)
    assume "\<not> n \<le> MAX_WINDOW_SIZE"
    then have "held b (window_low b + word_of_nat MAX_WINDOW_SIZE) \<noteq> None" using assms by (metis not_le)
    then show False by (simp add: held_def split: if_splits)
  qed
  show "(\<lambda>k. unat (hash (window_low b + word_of_nat k))) ` {..<n} \<subseteq> used_slots b"
    using assms by (fastforce simp: held_def used_slots_def split: if_splits)
qed

lemma used_slots_drain:
  "length (nodes b) = 32 \<Longrightarrow>
     used_slots (drain b n) = used_slots b - (\<lambda>k. unat (hash (window_low b + word_of_nat k))) ` {..<n}"
  using used_slots_release [of b "window_low b" n]
  by (simp add: drain_def slide_def used_slots_def)

lemma not_used_beyond:
  assumes "window_inv b" "31 \<le> a" "a < 31 + n" "n \<le> 31"
  shows "unat (hash (window_low b + word_of_nat a)) \<notin> used_slots (drain b n)"
proof (cases "a = 31")
  case True
  then show ?thesis using window_inv_free [OF assms(1)] by (simp add: used_slots_drain window_inv_nodes assms(1))
next
  case False
  then have "(unat (window_low b) + a) mod 32 = (unat (window_low b) + (a - 32)) mod 32"
    using assms(2) mod_add_self2 [of "unat (window_low b) + (a - 32)" 32] by simp
  then have "unat (hash (window_low b + word_of_nat a)) = unat (hash (window_low b + word_of_nat (a - 32)))"
    by (simp only: hash_offset)
  moreover have "a - 32 < n" using assms(2,3) False by simp
  ultimately show ?thesis using assms(1) by (auto simp: used_slots_drain window_inv_def)
qed

lemma drain_simps [simp]:
  "window_low (drain b n) = window_low b + word_of_nat n"
  "buf_length (drain b n) = buf_length b - word_of_nat n"
  "length (nodes (drain b n)) = length (nodes b)"
  by (simp_all add: drain_def slide_def)

lemma nth_drain:
  "length (nodes b) = 32 \<Longrightarrow> j < 32 \<Longrightarrow> nodes (drain b n) ! j =
    (nodes b ! j)\<lparr>nd_used := j \<in> used_slots (drain b n)\<rparr>"
  by (auto simp: drain_def slide_def nth_release used_slots_def)

lemma window_inv_drain:
  assumes "window_inv b" "\<forall>k < n. held b (window_low b + word_of_nat k) \<noteq> None"
  shows "window_inv (drain b n)"
proof -
  let ?R = "(\<lambda>k. unat (hash (window_low b + word_of_nat k))) ` {..<n}"
  have len: "length (nodes b) = 32" using assms(1) by (simp add: window_inv_def)
  note run = held_run [OF assms(2)]
  have cR: "card ?R = n" using run(1) by (simp add: card_image inj_slots)
  have "n \<le> unat (buf_length b)"
    using card_mono [OF finite_used_slots run(2)] cR assms(1) by (simp add: window_inv_def)
  then have "unat (buf_length b - word_of_nat n) = unat (buf_length b) - n"
    using run(1) by (subst unat_sub) (simp_all add: word_le_nat_alt unat_of_nat take_bit_nat_eq_self)
  also have "\<dots> = card (used_slots (drain b n))"
    using assms(1) cR run(2) by (simp add: used_slots_drain len window_inv_def card_Diff_subset)
  finally have "unat (buf_length (drain b n)) = card (used_slots (drain b n))" by simp
  moreover have "unat (hash (window_low b + word_of_nat (31 + n))) \<notin> used_slots (drain b n)"
  proof (cases n)
    case 0 then show ?thesis using window_inv_free [OF assms(1)] by (simp add: used_slots_drain len)
  next
    case (Suc m)
    have "(unat (window_low b) + (31 + n)) mod 32 = (unat (window_low b) + m) mod 32"
      using mod_add_self2 [of "unat (window_low b) + m" 32] by (simp add: Suc add.assoc add.commute [of m])
    then have "unat (hash (window_low b + word_of_nat (31 + n))) = unat (hash (window_low b + word_of_nat m))"
      by (simp only: hash_offset)
    then show ?thesis using Suc len by (auto simp: used_slots_drain)
  qed
  ultimately show ?thesis
    using assms(1) by (simp add: window_inv_def nth_drain ac_simps)
qed

lemma held_drain:
  assumes "window_inv b" "\<forall>k < n. held b (window_low b + word_of_nat k) \<noteq> None"
  shows "held (drain b n) s = (if unat (s - window_low b) < n then None else held b s)"
proof -
  define a where "a = unat (s - window_low b)"
  have s: "s = window_low b + word_of_nat a" by (simp add: a_def)
  have len: "length (nodes b) = 32" using assms(1) by (simp add: window_inv_def)
  have n: "n \<le> 31" using held_run(1) [OF assms(2)] by simp
  have low: "s - window_low (drain b n) = word_of_nat a - word_of_nat n" by (simp add: s)
  have a256: "a < 256" using unat_u8_less by (simp add: a_def)
  then have ua: "unat (word_of_nat a :: u8) = a" by (simp add: unat_of_nat take_bit_nat_eq_self)
  have un: "unat (word_of_nat n :: u8) = n" using n by (simp add: unat_of_nat take_bit_nat_eq_self)
  have dist: "unat (s - window_low (drain b n)) = (if a < n then a + 256 - n else a - n)"
    unfolding low by (simp add: unat_sub_if_size ua un word_le_nat_alt word_size)
  consider "a < n" | "n \<le> a" "a < 31" | "31 \<le> a" "a < 31 + n" | "31 + n \<le> a" by linarith
  then show ?thesis
  proof cases
    case 1
    then have "\<not> a + 256 - n < 31" using n by linarith
    then show ?thesis unfolding held_def dist a_def [symmetric] using 1 by simp
  next
    case 2
    have "unat (hash s) \<noteq> unat (hash (window_low b + word_of_nat k))" if "k < n" for k
      using hash_offset_inj [of "window_low b" a k] 2 that by (auto simp: s word_unat_eq_iff)
    then have "unat (hash s) \<in> used_slots (drain b n) \<longleftrightarrow> unat (hash s) \<in> used_slots b"
      by (auto simp: used_slots_drain len)
    then show ?thesis unfolding held_def dist a_def [symmetric] using 2
      by (simp add: nth_drain len) (simp add: used_slots_def)
  next
    case 3
    then have "unat (hash s) \<notin> used_slots (drain b n)"
      using not_used_beyond [OF assms(1) 3 n] by (simp add: s)
    then show ?thesis unfolding held_def dist a_def [symmetric] using 3 by (simp add: nth_drain len)
  next
    case 4
    then have "\<not> a - n < 31" by linarith
    then show ?thesis unfolding held_def dist a_def [symmetric] using 4 by simp
  qed
qed

interpretation win: receive_window window_inv window_low held store drain
proof unfold_locales
  show "held w s \<noteq> None \<Longrightarrow> unat (s - window_low w) < MAX_WINDOW_SIZE" for w :: "'a buf_t" and s
    by (simp add: held_def split: if_splits)
qed (simp_all add: window_inv_store window_inv_drain held_drain held_store window_inv_nodes)

section \<open>Initialisation\<close>

text \<open>The buffer after the first \<open>i\<close> nodes are set up.\<close>

lemma initialize_nodes_spec:
  assumes "i \<le> MAX_BUFFER_SIZE" "length (nodes b) = MAX_BUFFER_SIZE"
    "take i (nodes b) = map (\<lambda>k. \<lparr>nd_value = allocator k, nd_used = False\<rparr>) [0..<i]"
    "\<forall>k < i. allocator k \<noteq> None"
  shows "initialize_nodes allocator i b =
    (if \<forall>k < MAX_BUFFER_SIZE. allocator k \<noteq> None
     then Inr (b\<lparr>nodes := map (\<lambda>k. \<lparr>nd_value = allocator k, nd_used = False\<rparr>) [0..<MAX_BUFFER_SIZE]\<rparr>)
     else (let f = LEAST k. allocator k = None in
       Inl (FAILED_TO_ALLOCATE, map (\<lambda>k. the (allocator k)) [0..<f]
         @ List.map_filter nd_value (drop (Suc f) (nodes b)))))"
  using assms
proof (induction allocator i b rule: initialize_nodes.induct)
  case (1 allocator i b)
  let ?N = "\<lambda>k. \<lparr>nd_value = allocator k, nd_used = False\<rparr>"
  let ?b = "b\<lparr>nodes := (nodes b)[i := ?N i]\<rparr>"
  have mf: "List.map_filter nd_value (map ?N [0..<i]) = map (\<lambda>k. the (allocator k)) [0..<i]"
    using 1(5) by (auto simp: map_filter_def filter_map comp_def intro!: filter_True)
  show ?case
  proof (cases "i < MAX_BUFFER_SIZE")
    case False
    with 1 show ?thesis by (subst initialize_nodes.simps) simp
  next
    case i: True
    have pre: "take (Suc i) (nodes ?b) = map ?N [0..<Suc i]"
      using 1(3,4) i by (simp add: take_Suc_conv_app_nth)
    show ?thesis
    proof (cases "allocator i")
      case None
      then have least: "(LEAST k. allocator k = None) = i"
        using 1(5) by (intro Least_equality) (auto simp: not_less [symmetric])
      have "nodes ?b = map ?N [0..<i] @ ?N i # drop (Suc i) (nodes b)"
        using 1(3,4) i by (simp add: upd_conv_take_nth_drop)
      then have "List.map_filter nd_value (nodes ?b) =
          map (\<lambda>k. the (allocator k)) [0..<i] @ List.map_filter nd_value (drop (Suc i) (nodes b))"
        using None mf by (simp add: map_filter_def)
      with None i least show ?thesis
        by (subst initialize_nodes.simps) (auto simp: Let_def deallocate_buffer_def)
    next
      case (Some v)
      have "\<forall>k < Suc i. allocator k \<noteq> None" using 1(5) Some by (auto simp: less_Suc_eq)
      then have IH: "initialize_nodes allocator (Suc i) ?b = (if \<forall>k < MAX_BUFFER_SIZE. allocator k \<noteq> None
         then Inr (?b\<lparr>nodes := map ?N [0..<MAX_BUFFER_SIZE]\<rparr>)
         else (let f = LEAST k. allocator k = None in
           Inl (FAILED_TO_ALLOCATE, map (\<lambda>k. the (allocator k)) [0..<f]
             @ List.map_filter nd_value (drop (Suc f) (nodes ?b)))))"
        using 1(1) [OF i refl] Some pre i 1(3) by simp
      have "drop (Suc (LEAST k. allocator k = None)) (nodes ?b) = drop (Suc (LEAST k. allocator k = None)) (nodes b)"
        if "\<not> (\<forall>k < MAX_BUFFER_SIZE. allocator k \<noteq> None)"
      proof -
        from that have "\<exists>k. allocator k = None" by auto
        then have "allocator (LEAST k. allocator k = None) = None" by (rule LeastI_ex)
        then have "i < (LEAST k. allocator k = None)"
          using \<open>\<forall>k < Suc i. allocator k \<noteq> None\<close> by (metis not_less_eq)
        then show ?thesis by simp
      qed
      then show ?thesis
        using IH i Some by (subst initialize_nodes.simps) (simp add: Let_def)
    qed
  qed
qed

lemma initialize_buffer_ok:
  assumes "length (nodes b) = MAX_BUFFER_SIZE" "\<forall>k < MAX_BUFFER_SIZE. allocator k \<noteq> None"
  shows "initialize_buffer allocator b = Inr (b\<lparr>buf_length := 0, window_low := 0,
    nodes := map (\<lambda>k. \<lparr>nd_value = allocator k, nd_used = False\<rparr>) [0..<MAX_BUFFER_SIZE]\<rparr>)"
  using initialize_nodes_spec [of 0 "b\<lparr>buf_length := 0, window_low := 0\<rparr>" allocator] assms
  by (simp add: initialize_buffer_def)

lemma initialize_buffer_fails:
  assumes "length (nodes b) = MAX_BUFFER_SIZE" "f < MAX_BUFFER_SIZE" "allocator f = None"
    "\<forall>k < f. allocator k \<noteq> None"
  shows "initialize_buffer allocator b = Inl (FAILED_TO_ALLOCATE,
    map (\<lambda>k. the (allocator k)) [0..<f] @ List.map_filter nd_value (drop (Suc f) (nodes b)))"
proof -
  have "(LEAST k. allocator k = None) = f"
    using assms(3,4) by (intro Least_equality) (auto simp: not_less [symmetric])
  moreover have "\<not> (\<forall>k < MAX_BUFFER_SIZE. allocator k \<noteq> None)" using assms(2,3) by blast
  ultimately show ?thesis
    using initialize_nodes_spec [of 0 "b\<lparr>buf_length := 0, window_low := 0\<rparr>" allocator] assms(1)
    unfolding initialize_buffer_def by (simp only: if_False Let_def) simp
qed

section \<open>Properties\<close>

text \<open>
  The slots of a window never collide: any 32 consecutive sequence numbers, counted modulo
  256 from any start, have different hashes.
\<close>

theorem hash_no_collision: "inj_on hash {s. unat (s - low) < MAX_BUFFER_SIZE}"
  by (rule inj_onI) (auto intro: hash_inj [of _ _ low])

text \<open>
  C17. The window implements a partial map from sequence numbers to packets. For a number of the
  window whose slot is not in use, \<^verbatim>\<open>next\<close> followed by setting the node's value keeps the
  invariant (32 nodes, length equal to the number of used nodes, the spare slot free), adds
  exactly that entry, does not move the window and counts one element more, with no wrap-around.
\<close>

theorem next_refines_update:
  assumes "window_inv b" and "unat (s - window_low b) < MAX_WINDOW_SIZE" and "is_used (Some b) s = Inr False"
  shows "\<exists>i b' c. buf_next (Some b) s = Inr (i, b') \<and> i < MAX_BUFFER_SIZE \<and>
    c = b'\<lparr>nodes := (nodes b')[i := (nodes b' ! i)\<lparr>nd_value := Some v\<rparr>]\<rparr> \<and>
    window_inv c \<and> held c = (held b)(s \<mapsto> v) \<and> window_low c = window_low b \<and>
    unat (buf_length c) = unat (buf_length b) + 1 \<and> unat (buf_length c) \<le> MAX_WINDOW_SIZE"
proof -
  have free: "held b s = None"
    using assms held_None_iff [of b s] by (simp add: is_used_def)
  have inv: "window_inv (store b s v)" by (rule win.inv_store [OF assms(1,2) free])
  obtain i b' where n: "buf_next (Some b) s = Inr (i, b')" "i < MAX_BUFFER_SIZE"
    by (simp add: buf_next_def Let_def)
  then have c: "store b s v = b'\<lparr>nodes := (nodes b')[i := (nodes b' ! i)\<lparr>nd_value := Some v\<rparr>]\<rparr>"
    by (simp add: store_def)
  have "unat (buf_length b + 1) = unat (buf_length b) + 1"
    using window_length_bound [OF assms(1)] by (simp add: unat_word_ariths)
  then have "window_low (store b s v) = window_low b"
    "unat (buf_length (store b s v)) = unat (buf_length b) + 1" by simp_all
  with n c inv window_length_bound [OF inv] win.held_store [OF assms(1,2), of v] show ?thesis
    by (intro exI conjI)
qed

text \<open>
  \<^verbatim>\<open>get\<close> with increment at the low end takes out exactly the entry of that number: it returns
  the null node when nothing is held there, and otherwise the node with the held value, leaving
  a window that satisfies the invariant, starts one further and holds everything else.
\<close>

theorem get_at_low:
  assumes "window_inv b"
  shows "case held b (window_low b) of
      None \<Rightarrow> get (Some b) (window_low b) True = Inr None
    | Some v \<Rightarrow> (\<exists>i b'. get (Some b) (window_low b) True = Inr (Some (i, b')) \<and> i < MAX_BUFFER_SIZE \<and>
        nd_value (nodes b' ! i) = Some v \<and> window_inv b' \<and> window_low b' = window_low b + 1 \<and>
        held b' = (held b)(window_low b := None))"
proof (cases "held b (window_low b)")
  case None
  then have "\<not> nd_used (nodes b ! unat (hash (window_low b)))"
    using held_None_iff [OF assms, of "window_low b"] by simp
  with None show ?thesis by (simp add: get_def Let_def)
next
  case (Some v)
  let ?i = "unat (hash (window_low b))"
  have run: "\<forall>k < 1. held b (window_low b + word_of_nat k) \<noteq> None" using Some by simp
  have u: "nd_used (nodes b ! ?i)" "nd_value (nodes b ! ?i) = Some v"
    using Some by (simp_all add: held_def split: if_splits)
  have g: "get (Some b) (window_low b) True = Inr (Some (?i, drain b 1))"
    using u by (simp add: get_def Let_def drain_def slide_def)
  have "held (drain b 1) s = ((held b)(window_low b := None)) s" for s
    using win.held_drain [OF assms run, of s] by (auto simp: unat_eq_0)
  then have "held (drain b 1) = (held b)(window_low b := None)" by (rule ext)
  moreover have "nd_value (nodes (drain b 1) ! ?i) = Some v"
    using u window_inv_nodes [OF assms] by (simp add: nth_drain)
  moreover have "?i < MAX_BUFFER_SIZE" "window_low (drain b 1) = window_low b + 1" by simp_all
  ultimately show ?thesis
    unfolding Some option.case using g win.inv_drain [OF assms run] by blast
qed

text \<open>
  \<^verbatim>\<open>initialize_buffer\<close> on memory with arbitrary contents: when every allocation succeeds the
  result is an empty window starting at 0. When allocation number \<open>f\<close> is the first that fails,
  the error is \<^verbatim>\<open>FAILED_TO_ALLOCATE\<close> and what is freed are the \<open>f\<close> values allocated and then
  whatever the uninitialised nodes after it happen to contain.
\<close>

theorem initialize_buffer_result:
  assumes "length (nodes b) = MAX_BUFFER_SIZE"
  shows "((\<forall>k < MAX_BUFFER_SIZE. allocator k \<noteq> None) \<longrightarrow>
      (\<exists>b'. initialize_buffer allocator b = Inr b' \<and> window_inv b' \<and> window_low b' = 0 \<and> buf_length b' = 0 \<and>
        held b' = (\<lambda>s. None) \<and> map nd_value (nodes b') = map allocator [0..<MAX_BUFFER_SIZE])) \<and>
    (f < MAX_BUFFER_SIZE \<and> allocator f = None \<and> (\<forall>k < f. allocator k \<noteq> None) \<longrightarrow>
      initialize_buffer allocator b = Inl (FAILED_TO_ALLOCATE,
        map (\<lambda>k. the (allocator k)) [0..<f] @ List.map_filter nd_value (drop (Suc f) (nodes b))))"
proof (intro conjI impI)
  assume "\<forall>k < MAX_BUFFER_SIZE. allocator k \<noteq> None"
  then show "\<exists>b'. initialize_buffer allocator b = Inr b' \<and> window_inv b' \<and> window_low b' = 0 \<and> buf_length b' = 0 \<and>
      held b' = (\<lambda>s. None) \<and> map nd_value (nodes b') = map allocator [0..<MAX_BUFFER_SIZE]"
    using initialize_buffer_ok [OF assms]
    by (auto simp: window_inv_def used_slots_def held_def comp_def)
qed (use initialize_buffer_fails [OF assms] in blast)

section \<open>Witnesses\<close>

text \<open>An empty window that starts near the wrap-around of sequence numbers.\<close>

definition empty_window :: "u8 \<Rightarrow> 'v \<Rightarrow> 'v buf_t" where
  "empty_window low v = \<lparr>window_low = low, buf_length = 0,
     nodes = replicate MAX_BUFFER_SIZE \<lparr>nd_value = Some v, nd_used = False\<rparr>\<rparr>"

lemma empty_window_simps [simp]:
  "window_low (empty_window low v) = low" "buf_length (empty_window low v) = 0"
  "window_inv (empty_window low v)" "is_used (Some (empty_window low v)) s = Inr False"
  "held (empty_window low v) s = None"
  by (simp_all add: empty_window_def window_inv_def used_slots_def is_used_def held_def)

theorem next_refines_update_witness:
  "\<exists>i b' c. buf_next (Some (empty_window 250 CHR ''a'')) 3 = Inr (i, b') \<and> i < MAX_BUFFER_SIZE \<and>
    c = b'\<lparr>nodes := (nodes b')[i := (nodes b' ! i)\<lparr>nd_value := Some (CHR ''b'')\<rparr>]\<rparr> \<and>
    window_inv c \<and> held c = (held (empty_window 250 CHR ''a''))(3 \<mapsto> CHR ''b'') \<and> window_low c = 250 \<and>
    unat (buf_length c) = 1 \<and> unat (buf_length c) \<le> MAX_WINDOW_SIZE"
  using next_refines_update [of "empty_window 250 CHR ''a''" 3 "CHR ''b''"] by simp

theorem get_at_low_witness:
  "\<exists>i b'. get (Some (store (empty_window 255 CHR ''a'') 255 CHR ''b'')) 255 True = Inr (Some (i, b')) \<and>
     nd_value (nodes b' ! i) = Some (CHR ''b'') \<and> window_low b' = 0"
proof -
  let ?w = "store (empty_window 255 CHR ''a'') 255 CHR ''b''"
  have "window_inv ?w" by (rule win.inv_store) simp_all
  moreover have "held ?w 255 = Some (CHR ''b'')" by (simp add: win.held_store)
  ultimately show ?thesis using get_at_low [of ?w] by auto
qed

theorem initialize_buffer_result_witness:
  "initialize_buffer (\<lambda>k. if k = 2 then None else Some (k + 100)) (empty_window 0 (7::nat)) =
     Inl (FAILED_TO_ALLOCATE, [100, 101] @ replicate 29 7)"
proof -
  let ?a = "\<lambda>k. if k = 2 then None else Some (k + 100 :: nat)"
  have "2 < MAX_BUFFER_SIZE \<and> ?a 2 = None \<and> (\<forall>k < 2. ?a k \<noteq> None)" by simp
  moreover have "length (nodes (empty_window 0 (7::nat))) = MAX_BUFFER_SIZE" by (simp add: empty_window_def)
  ultimately have "initialize_buffer ?a (empty_window 0 7) = Inl (FAILED_TO_ALLOCATE,
      map (\<lambda>k. the (?a k)) [0..<2] @ List.map_filter nd_value (drop (Suc 2) (nodes (empty_window 0 7))))"
    using initialize_buffer_result [of "empty_window 0 7" ?a 2] by blast
  moreover have "[0..<2] = [0, 1::nat]" by code_simp
  ultimately show ?thesis by (simp add: empty_window_def map_filter_def)
qed

end
