(* ===== verification/Client.thy ===== *)
theory Client
  imports Packet Window_Buffer
begin

text \<open>
  \<^verbatim>\<open>src/client.c\<close> and \<^verbatim>\<open>headers/client.h\<close>: the state of one client, its creation and its
  destruction. The client owns its window, the packets of the window and its output file, so
  they are part of the record; the mutex is the flag that says whether it is held.

  Creation and destruction are modelled with the trace of the resources they acquire and
  release, so that leaks and double releases can be stated. What the allocator, the file system
  and the clock answer is a parameter.
\<close>

section \<open>Data\<close>

record timespec =
  tv_sec :: int
  tv_nsec :: int

record sockaddr_in6 =
  sin6_port :: u16
  sin6_addr :: bytes

text \<open>
  An output file: its contents, the position of the next write, whether it is open, and whether
  it was written to after it was closed, which C leaves undefined.
\<close>

record file_t =
  f_data :: bytes
  f_pos :: nat
  f_open :: bool
  f_misused :: bool

record client_t =
  c_active :: bool
  c_locked :: bool
  c_out_file :: file_t
  c_address :: sockaddr_in6
  c_addr_len :: nat
  c_window :: "packet_t buf_t"
  c_id :: u32
  c_last_timestamp :: u32
  c_ip_as_string :: string
  c_connection_time :: timespec
  c_end_time :: "timespec option"
  c_transferred :: u64

definition get_client_window :: "client_t \<Rightarrow> packet_t buf_t" where
  "get_client_window self = c_window self"

definition set_client_window :: "client_t \<Rightarrow> packet_t buf_t \<Rightarrow> client_t" where
  "set_client_window self window = self\<lparr>c_window := window\<rparr>"

definition is_active :: "client_t \<Rightarrow> bool" where
  "is_active self = c_active self"

definition set_active :: "client_t \<Rightarrow> bool \<Rightarrow> client_t" where
  "set_active self active = self\<lparr>c_active := active\<rparr>"

section \<open>Creation and destruction\<close>

datatype resource = Client_mem | Lock_mem | Mutex | File | Address_mem | Window_mem | End_time_mem

datatype event = Acquire resource | Release resource

text \<open>
  What the environment answers: whether the memory for lock, address and window is allocated
  (the window with arbitrary contents), whether the mutex is initialised and the file opened,
  what each packet allocation returns, the printed address if it can be printed, and the time.
\<close>

record client_env =
  e_lock_mem :: bool
  e_mutex :: bool
  e_file :: bool
  e_address_mem :: bool
  e_window_mem :: "packet_t buf_t option"
  e_packets :: "nat \<Rightarrow> packet_t option"
  e_ip_string :: "string option"
  e_now :: timespec

definition initialize_client ::
  "client_env \<Rightarrow> client_t \<Rightarrow> u32 \<Rightarrow> sockaddr_in6 \<Rightarrow> nat \<Rightarrow> (errors_t + client_t) \<times> event list" where
  "initialize_client env client ident address addr_len =
    (let client = client\<lparr>c_last_timestamp := 0, c_id := ident, c_active := True, c_end_time := None\<rparr> in
     if \<not> e_lock_mem env then (Inl FAILED_TO_ALLOCATE, [Release Client_mem])
     else if \<not> e_mutex env then
       (Inl FAILED_TO_INIT_MUTEX, [Acquire Lock_mem, Release Lock_mem, Release Client_mem])
     else if \<not> e_file env then
       (Inl FAILED_TO_ALLOCATE, [Acquire Lock_mem, Acquire Mutex,
          Release Mutex, Release Lock_mem, Release Client_mem])
     else if \<not> e_address_mem env then
       (Inl FAILED_TO_ALLOCATE, [Acquire Lock_mem, Acquire Mutex, Acquire File,
          Release Mutex, Release Lock_mem, Release Client_mem])
     else (let client = client\<lparr>c_out_file := \<lparr>f_data = [], f_pos = 0, f_open = True, f_misused = False\<rparr>, c_locked := False,
                               c_address := address, c_addr_len := addr_len\<rparr> in
       case e_window_mem env of
         None \<Rightarrow> (Inl FAILED_TO_ALLOCATE, [Acquire Lock_mem, Acquire Mutex, Acquire File, Acquire Address_mem,
            Release Address_mem, Release Mutex, Release Lock_mem, Release Client_mem])
       | Some mem \<Rightarrow> (case initialize_buffer (\<lambda>i. allocate_packet (e_packets env i)) mem of
           Inl _ \<Rightarrow> (Inl FAILED_TO_ALLOCATE, [Acquire Lock_mem, Acquire Mutex, Acquire File, Acquire Address_mem,
              Acquire Window_mem, Release Window_mem, Release Address_mem, Release Mutex, Release Lock_mem,
              Release Window_mem, Release Client_mem])
         | Inr window \<Rightarrow> (case e_ip_string env of
             None \<Rightarrow> (Inl FAILED_TO_ALLOCATE, [Acquire Lock_mem, Acquire Mutex, Acquire File, Acquire Address_mem,
                Acquire Window_mem, Release Window_mem, Release Address_mem, Release Mutex, Release Lock_mem,
                Release Client_mem])
           | Some str \<Rightarrow> (Inr (client\<lparr>c_window := window, c_ip_as_string := str,
                                     c_connection_time := e_now env, c_transferred := 0\<rparr>),
                [Acquire Lock_mem, Acquire Mutex, Acquire File, Acquire Address_mem, Acquire Window_mem])))))"

definition deallocate_client :: "client_t option \<Rightarrow> bool \<Rightarrow> bool \<Rightarrow> event list" where
  "deallocate_client client dealloc_addr close_file = (case client of None \<Rightarrow> []
     | Some c \<Rightarrow> [Release Mutex, Release Lock_mem]
         @ (if dealloc_addr then [Release Address_mem] else [])
         @ (if close_file \<and> c_active c then [Release File] else [])
         @ [Release Window_mem]
         @ (if c_end_time c \<noteq> None then [Release End_time_mem] else [])
         @ [Release Client_mem])"

section \<open>Well-formed clients\<close>

text \<open>
  A slot of the window owns a packet with the full payload array; a slot in use holds a packet
  that was accepted: its length fits the array.
\<close>

definition packets_ok :: "packet_t buf_t \<Rightarrow> bool" where
  "packets_ok b \<longleftrightarrow> (\<forall>n \<in> set (nodes b). \<forall>p. nd_value n = Some p \<longrightarrow> length (pk_payload p) = MAX_PAYLOAD_SIZE \<and>
     (nd_used n \<longrightarrow> unat (pk_length p) \<le> MAX_PAYLOAD_SIZE))"

definition client_ok :: "client_t \<Rightarrow> bool" where
  "client_ok c \<longleftrightarrow> window_inv (c_window c) \<and> packets_ok (c_window c)"

lemma allocate_packet_payload: "allocate_packet m = Some p \<Longrightarrow> length (pk_payload p) = MAX_PAYLOAD_SIZE"
  by (auto simp: allocate_packet_def init_packet_def split: option.splits)

lemma allocate_packet_None: "allocate_packet m = None \<longleftrightarrow> m = None"
  by (auto simp: allocate_packet_def init_packet_def split: option.splits)

definition env_ok :: "client_env \<Rightarrow> bool" where
  "env_ok env \<longleftrightarrow> e_lock_mem env \<and> e_mutex env \<and> e_file env \<and> e_address_mem env \<and>
     e_window_mem env \<noteq> None \<and> (\<forall>i < MAX_BUFFER_SIZE. e_packets env i \<noteq> None) \<and> e_ip_string env \<noteq> None"

lemma initialize_window:
  assumes "length (nodes mem) = MAX_BUFFER_SIZE" "\<forall>i < MAX_BUFFER_SIZE. packets i \<noteq> None"
  obtains w where "initialize_buffer (\<lambda>i. allocate_packet (packets i)) mem = Inr w"
    "window_inv w" "packets_ok w" "window_low w = 0" "held w = (\<lambda>s. None)"
proof
  let ?a = "\<lambda>i. allocate_packet (packets i)"
  let ?w = "mem\<lparr>buf_length := 0, window_low := 0,
    nodes := map (\<lambda>k. \<lparr>nd_value = ?a k, nd_used = False\<rparr>) [0..<MAX_BUFFER_SIZE]\<rparr>"
  have a: "\<forall>i < MAX_BUFFER_SIZE. ?a i \<noteq> None" using assms(2) by (simp only: allocate_packet_None)
  then show "initialize_buffer ?a mem = Inr ?w" by (rule initialize_buffer_ok [OF assms(1)])
  show "window_inv ?w" "window_low ?w = 0" "held ?w = (\<lambda>s. None)"
    using a by (auto simp: window_inv_def used_slots_def held_def)
  show "packets_ok ?w" by (auto simp: packets_ok_def allocate_packet_payload)
qed

lemma initialize_window_fails:
  assumes "length (nodes mem) = MAX_BUFFER_SIZE" "\<not> (\<forall>i < MAX_BUFFER_SIZE. packets i \<noteq> None)"
  shows "\<exists>e. initialize_buffer (\<lambda>i. allocate_packet (packets i)) mem = Inl e"
proof -
  from assms(2) obtain i where i: "i < MAX_BUFFER_SIZE" "packets i = None" by blast
  define f where "f = (LEAST k. packets k = None)"
  have "packets f = None" "\<forall>k < f. packets k \<noteq> None" "f \<le> i"
    unfolding f_def using i by (auto intro: LeastI Least_le dest: not_less_Least)
  then have "initialize_buffer (\<lambda>i. allocate_packet (packets i)) mem = Inl (FAILED_TO_ALLOCATE,
      map (\<lambda>k. the (allocate_packet (packets k))) [0..<f] @ List.map_filter nd_value (drop (Suc f) (nodes mem)))"
    using i by (intro initialize_buffer_fails [OF assms(1)]) (simp_all add: allocate_packet_None del: not_None_eq)
  then show ?thesis by blast
qed

text \<open>A client right after its creation.\<close>

definition new_client :: "sockaddr_in6 \<Rightarrow> client_t \<Rightarrow> bool" where
  "new_client address c \<longleftrightarrow> client_ok c \<and> c_active c \<and> \<not> c_locked c \<and> window_low (c_window c) = 0 \<and>
     held (c_window c) = (\<lambda>s. None) \<and> c_out_file c = \<lparr>f_data = [], f_pos = 0, f_open = True, f_misused = False\<rparr> \<and>
     c_transferred c = 0 \<and> c_address c = address \<and> c_end_time c = None"

lemma initialize_client_new:
  assumes "\<forall>mem. e_window_mem env = Some mem \<longrightarrow> length (nodes mem) = MAX_BUFFER_SIZE" "env_ok env"
  shows "\<exists>c'. fst (initialize_client env c ident address addr_len) = Inr c' \<and> new_client address c'"
proof -
  obtain mem where mem: "e_window_mem env = Some mem" "length (nodes mem) = MAX_BUFFER_SIZE"
    using assms by (auto simp: env_ok_def)
  have packets: "\<forall>i < MAX_BUFFER_SIZE. e_packets env i \<noteq> None" using assms(2) by (simp add: env_ok_def)
  from initialize_window [OF mem(2) packets] obtain w where
    "initialize_buffer (\<lambda>i. allocate_packet (e_packets env i)) mem = Inr w"
    "window_inv w" "packets_ok w" "window_low w = 0" "held w = (\<lambda>s. None)" .
  with assms(2) mem(1) show ?thesis
    by (auto simp: initialize_client_def env_ok_def new_client_def client_ok_def Let_def)
qed

section \<open>Properties\<close>

definition acquired :: "event list \<Rightarrow> resource \<Rightarrow> nat" where
  "acquired tr r = count_list tr (Acquire r)"

definition released :: "event list \<Rightarrow> resource \<Rightarrow> nat" where
  "released tr r = count_list tr (Release r)"

text \<open>
  A client is created exactly when every allocation, the mutex, the file and the printed
  address succeed. It is then active and unlocked, with an empty window that satisfies the
  window invariant and starts at sequence number 0, an empty open file and no bytes counted;
  and destroying it with its address and its file releases every resource acquired, and the
  client itself, exactly once.
\<close>

theorem initialize_client_ok:
  assumes "\<forall>mem. e_window_mem env = Some mem \<longrightarrow> length (nodes mem) = MAX_BUFFER_SIZE"
  shows "case initialize_client env c ident address addr_len of
      (Inl e, tr) \<Rightarrow> \<not> env_ok env
    | (Inr c', tr) \<Rightarrow> env_ok env \<and> client_ok c' \<and> c_active c' \<and> \<not> c_locked c' \<and> window_low (c_window c') = 0 \<and>
        held (c_window c') = (\<lambda>s. None) \<and> c_out_file c' = \<lparr>f_data = [], f_pos = 0, f_open = True, f_misused = False\<rparr> \<and>
        c_transferred c' = 0 \<and> c_address c' = address \<and>
        (\<forall>r. released (tr @ deallocate_client (Some c') True True) r =
          acquired tr r + (if r = Client_mem then 1 else 0))"
proof (cases "e_lock_mem env \<and> e_mutex env \<and> e_file env \<and> e_address_mem env \<and> e_window_mem env \<noteq> None")
  case False
  then show ?thesis by (auto simp: initialize_client_def env_ok_def Let_def)
next
  case True
  then obtain mem where mem: "e_window_mem env = Some mem" "length (nodes mem) = MAX_BUFFER_SIZE"
    using assms by auto
  show ?thesis
  proof (cases "\<forall>i < MAX_BUFFER_SIZE. e_packets env i \<noteq> None")
    case False
    then have "\<not> env_ok env" by (auto simp: env_ok_def)
    with initialize_window_fails [OF mem(2) False] True mem show ?thesis
      by (auto simp: initialize_client_def Let_def)
  next
    case packets: True
    from initialize_window [OF mem(2) packets] obtain w where w:
      "initialize_buffer (\<lambda>i. allocate_packet (e_packets env i)) mem = Inr w"
      "window_inv w" "packets_ok w" "window_low w = 0" "held w = (\<lambda>s. None)" .
    have "released ([Acquire Lock_mem, Acquire Mutex, Acquire File, Acquire Address_mem, Acquire Window_mem] @
        deallocate_client (Some c') True True) r =
      acquired [Acquire Lock_mem, Acquire Mutex, Acquire File, Acquire Address_mem, Acquire Window_mem] r
        + (if r = Client_mem then 1 else 0)"
      if "c_active c'" "c_end_time c' = None" for c' r
      using that by (cases r) (simp_all add: released_def acquired_def deallocate_client_def)
    with True mem w packets show ?thesis
      by (auto simp: initialize_client_def env_ok_def client_ok_def Let_def split: option.splits)
  qed
qed

text \<open>
  C33. What a failed creation leaves behind. The client memory is freed once, and lock, mutex and
  address are released as often as acquired; but an opened file is never closed, and when a
  packet of the window cannot be allocated the window is freed twice, by \<^verbatim>\<open>initialize_buffer\<close>
  and again by \<^verbatim>\<open>initialize_client\<close>.
\<close>

theorem initialize_client_failure:
  assumes "\<forall>mem. e_window_mem env = Some mem \<longrightarrow> length (nodes mem) = MAX_BUFFER_SIZE"
    and "initialize_client env c ident address addr_len = (Inl e, tr)"
  shows "released tr Client_mem = 1 \<and>
    (\<forall>r \<in> {Lock_mem, Mutex, Address_mem}. released tr r = acquired tr r) \<and>
    released tr File = 0 \<and> (acquired tr File = 1 \<longleftrightarrow> e_lock_mem env \<and> e_mutex env \<and> e_file env) \<and>
    released tr Window_mem = (if acquired tr Window_mem = 1 \<and> (\<exists>i < MAX_BUFFER_SIZE. e_packets env i = None)
      then 2 else acquired tr Window_mem)"
proof (cases "e_lock_mem env \<and> e_mutex env \<and> e_file env \<and> e_address_mem env \<and> e_window_mem env \<noteq> None")
  case False
  with assms(2) show ?thesis
    by (auto simp: initialize_client_def Let_def released_def acquired_def split: if_splits)
next
  case True
  then obtain mem where mem: "e_window_mem env = Some mem" "length (nodes mem) = MAX_BUFFER_SIZE"
    using assms(1) by auto
  show ?thesis
  proof (cases "\<forall>i < MAX_BUFFER_SIZE. e_packets env i \<noteq> None")
    case False
    then have "\<exists>i < MAX_BUFFER_SIZE. e_packets env i = None" by simp
    moreover have "tr = [Acquire Lock_mem, Acquire Mutex, Acquire File, Acquire Address_mem, Acquire Window_mem,
        Release Window_mem, Release Address_mem, Release Mutex, Release Lock_mem, Release Window_mem,
        Release Client_mem]"
      using initialize_window_fails [OF mem(2) False] True mem assms(2)
      by (auto simp: initialize_client_def Let_def)
    ultimately show ?thesis using True by (simp add: released_def acquired_def)
  next
    case packets: True
    from initialize_window [OF mem(2) packets] obtain w where
      "initialize_buffer (\<lambda>i. allocate_packet (e_packets env i)) mem = Inr w" by blast
    then have "tr = [Acquire Lock_mem, Acquire Mutex, Acquire File, Acquire Address_mem, Acquire Window_mem,
        Release Window_mem, Release Address_mem, Release Mutex, Release Lock_mem, Release Client_mem]"
      using True mem assms(2) by (auto simp: initialize_client_def Let_def split: option.splits)
    moreover have "\<not> (\<exists>i < MAX_BUFFER_SIZE. e_packets env i = None)" using packets by simp
    ultimately show ?thesis using True by (simp add: released_def acquired_def)
  qed
qed

section \<open>Witnesses\<close>

definition sample_packet_memory :: packet_t where
  "sample_packet_memory = \<lparr>pk_type = IGNORE, pk_truncated = False, pk_window = 0, pk_long_length = False,
     pk_length = 0, pk_seqnum = 0, pk_timestamp = 0, pk_crc1 = 0, pk_crc2 = 0,
     pk_payload = replicate MAX_PAYLOAD_SIZE 0\<rparr>"

definition sample_address :: sockaddr_in6 where
  "sample_address = \<lparr>sin6_port = 12345, sin6_addr = replicate 15 0 @ [1]\<rparr>"

definition sample_client :: client_t where
  "sample_client = \<lparr>c_active = True, c_locked = False,
     c_out_file = \<lparr>f_data = [], f_pos = 0, f_open = True, f_misused = False\<rparr>, c_address = sample_address, c_addr_len = 28,
     c_window = empty_window 0 sample_packet_memory, c_id = 0, c_last_timestamp = 0,
     c_ip_as_string = ''::1'', c_connection_time = \<lparr>tv_sec = 0, tv_nsec = 0\<rparr>, c_end_time = None,
     c_transferred = 0\<rparr>"

definition sample_env :: "bool \<Rightarrow> client_env" where
  "sample_env b = \<lparr>e_lock_mem = True, e_mutex = True, e_file = True, e_address_mem = True,
     e_window_mem = Some (empty_window 9 sample_packet_memory),
     e_packets = (\<lambda>i. if b \<or> i < 3 then Some sample_packet_memory else None),
     e_ip_string = Some ''::1'', e_now = \<lparr>tv_sec = 5, tv_nsec = 0\<rparr>\<rparr>"

lemma sample_env_mem:
  "\<forall>mem. e_window_mem (sample_env b) = Some mem \<longrightarrow> length (nodes mem) = MAX_BUFFER_SIZE"
  by (simp add: sample_env_def empty_window_def)

theorem initialize_client_ok_witness:
  "env_ok (sample_env True) \<and> (\<exists>c' tr. initialize_client (sample_env True) sample_client 1 sample_address 28 = (Inr c', tr) \<and>
     client_ok c' \<and> window_low (c_window c') = 0)"
proof -
  have ok: "env_ok (sample_env True)" by (simp add: env_ok_def sample_env_def)
  then show ?thesis
    using initialize_client_ok [OF sample_env_mem [of True], where c = sample_client and ident = 1
      and address = sample_address and addr_len = 28]
    by (auto split: prod.splits sum.splits)
qed

theorem initialize_client_failure_witness:
  "\<exists>tr. initialize_client (sample_env False) sample_client 1 sample_address 28 = (Inl FAILED_TO_ALLOCATE, tr) \<and>
     acquired tr File = 1 \<and> released tr File = 0 \<and> acquired tr Window_mem = 1 \<and> released tr Window_mem = 2"
proof -
  have "\<not> (\<forall>i < MAX_BUFFER_SIZE. e_packets (sample_env False) i \<noteq> None)"
    by (auto simp: sample_env_def intro!: exI [of _ 5])
  with initialize_window_fails [of "empty_window 9 sample_packet_memory" "e_packets (sample_env False)"]
  have "\<exists>tr. initialize_client (sample_env False) sample_client 1 sample_address 28 = (Inl FAILED_TO_ALLOCATE, tr) \<and>
      acquired tr Window_mem = 1"
    by (auto simp: initialize_client_def sample_env_def empty_window_def acquired_def Let_def)
  then obtain tr where tr: "initialize_client (sample_env False) sample_client 1 sample_address 28 =
      (Inl FAILED_TO_ALLOCATE, tr)" "acquired tr Window_mem = 1" by blast
  moreover have "\<exists>i < MAX_BUFFER_SIZE. e_packets (sample_env False) i = None"
    by (auto simp: sample_env_def intro!: exI [of _ 5])
  ultimately show ?thesis
    using initialize_client_failure [OF sample_env_mem tr(1)] by (simp add: sample_env_def)
qed

end
