(* ===== verification/Lookup.thy ===== *)
theory Lookup
  imports Lookup_Rows_0 Lookup_Rows_64 Lookup_Rows_128 Lookup_Rows_192
begin

text \<open>
  The window table \<^verbatim>\<open>sequences\<close> of \<^verbatim>\<open>src/lookup.c\<close>, joined from its four blocks of rows, and
  its meaning: entry \<open>[low][seqnum]\<close> tells whether \<open>seqnum\<close> is one of the 31 sequence
  numbers from \<open>low\<close> on, counted modulo 256. The 65536 entries are checked through one
  evaluated row and the fact that every row is the one before it, shifted by one place.
\<close>

definition sequences :: "u8 list list" where
  "sequences = rows_0 @ rows_64 @ rows_128 @ rows_192"

text \<open>\<^verbatim>\<open>sequences[low][seqnum]\<close> as a truth value.\<close>

definition in_sequence :: "u8 \<Rightarrow> u8 \<Rightarrow> bool" where
  "in_sequence low seqnum \<longleftrightarrow> sequences ! unat low ! unat seqnum \<noteq> 0"

section \<open>The rows form one rotation\<close>

lemma rows_neq_Nil: "rows_0 \<noteq> []" "rows_64 \<noteq> []" "rows_128 \<noteq> []" "rows_192 \<noteq> []"
  using length_rows_0 length_rows_64 length_rows_128 length_rows_192 by auto

lemma rotates_joins:
  "rotate1 (hd sequences_8) = last sequences_7"
  "rotate1 (hd sequences_16) = last sequences_15"
  "rotate1 (hd sequences_24) = last sequences_23"
  by (simp_all add: sequences_7_def sequences_8_def sequences_15_def sequences_16_def
      sequences_23_def sequences_24_def)

lemma rows_ends:
  "last rows_0 = last sequences_7" "hd rows_64 = hd sequences_8"
  "last rows_64 = last sequences_15" "hd rows_128 = hd sequences_16"
  "last rows_128 = last sequences_23" "hd rows_192 = hd sequences_24"
  by (simp_all add: rows_0_def rows_64_def rows_128_def rows_192_def
      sequences_nonempty_0 sequences_nonempty_64 sequences_nonempty_128 sequences_nonempty_192)

lemma rotates_from_hd:
  "rs \<noteq> [] \<Longrightarrow> rotates (hd rs) (tl rs) \<Longrightarrow> rotate1 (hd rs) = r \<Longrightarrow> rotates r rs"
  by (cases rs) auto

lemma rotates_sequences: "rotates (hd sequences) (tl sequences)"
proof -
  have "rotates (last rows_0) rows_64" "rotates (last rows_64) rows_128"
    "rotates (last rows_128) rows_192"
    by (auto intro!: rotates_from_hd rotates_rows_64 rotates_rows_128 rotates_rows_192
        simp: rows_neq_Nil rows_ends rotates_joins)
  with rotates_rows_0 show ?thesis
    by (simp add: sequences_def rotates_append rows_neq_Nil tl_append2 last_tl_or_hd)
qed

lemma length_sequences [simp]: "length sequences = 256"
  by (simp add: sequences_def length_rows_0 length_rows_64 length_rows_128 length_rows_192)

lemma first_row: "sequences ! 0 = replicate 31 1 @ replicate 225 0"
proof -
  have "sequences ! 0 = hd sequences_0"
    using sequences_nonempty_0(1) by (simp add: sequences_def rows_0_def nth_append hd_conv_nth)
  also have "\<dots> = replicate 31 1 @ replicate 225 0"
    by (simp add: sequences_0_def numeral_eq_Suc)
  finally show ?thesis .
qed

lemma rotates_nth: "rotates r rs \<Longrightarrow> k < length rs \<Longrightarrow> rotate (Suc k) (rs ! k) = r"
proof (induction rs arbitrary: r k)
  case (Cons x rs)
  then show ?case
    by (cases k) auto
qed simp

lemma rotate_row: "k < 256 \<Longrightarrow> rotate k (sequences ! k) = sequences ! 0"
proof (cases k)
  case (Suc j)
  assume "k < 256"
  have ne: "sequences \<noteq> []" using length_sequences by (metis length_0_conv zero_neq_numeral)
  with Suc \<open>k < 256\<close> have "j < length (tl sequences)" "sequences ! k = tl sequences ! j"
    by (auto simp: nth_tl)
  with rotates_nth [OF rotates_sequences] Suc ne show ?thesis
    by (simp add: hd_conv_nth)
qed simp

lemma length_row: "k < 256 \<Longrightarrow> length (sequences ! k) = 256"
proof -
  assume "k < 256"
  then have "length (sequences ! k) = length (sequences ! 0)"
    using rotate_row [of k] by (metis length_rotate)
  then show ?thesis by (simp add: first_row)
qed

lemma sequences_entry:
  assumes "k < 256" "j < 256"
  shows "sequences ! k ! j = (if (j + 256 - k) mod 256 < MAX_WINDOW_SIZE then 1 else 0)"
proof -
  let ?i = "(j + 256 - k) mod 256"
  have "(k + ?i) mod 256 = (k + (j + 256 - k)) mod 256" by (rule mod_add_right_eq)
  also have "\<dots> = j" using assms by simp
  finally have s: "(k + ?i) mod 256 = j" .
  have "sequences ! 0 ! ?i = rotate k (sequences ! k) ! ?i"
    using rotate_row [OF assms(1)] by simp
  also have "\<dots> = sequences ! k ! j"
    using length_row [OF assms(1)] s by (simp add: nth_rotate)
  finally have "sequences ! k ! j = (replicate 31 1 @ replicate 225 0) ! ?i" by (simp only: first_row)
  then show ?thesis by (auto simp: nth_append split: if_splits)
qed

lemma in_sequence_iff:
  "in_sequence low seqnum \<longleftrightarrow> unat (seqnum - low) < MAX_WINDOW_SIZE"
proof -
  have wrap: "(a + 256 - b) mod 256 = a - b" if "b \<le> a" "a < 256" for a b :: nat
  proof -
    have "a + 256 - b = (a - b) + 256" using that by simp
    then show ?thesis using that by (simp only: mod_add_self2) simp
  qed
  have "unat (seqnum - low) = (unat seqnum + 256 - unat low) mod 256"
    using unat_u8_less [of low] unat_u8_less [of seqnum]
      wrap [of "unat low" "unat seqnum"]
    by (simp add: unat_sub_if_size word_le_nat_alt word_size)
  then show ?thesis
    using sequences_entry [of "unat low" "unat seqnum"] unat_u8_less
    by (simp add: in_sequence_def)
qed

text \<open>
  C26. The lookup table agrees with window arithmetic at every one of its 65536 entries: the
  entry for the low end of a window and a sequence number is set exactly when the sequence
  number is less than \<^verbatim>\<open>MAX_WINDOW_SIZE\<close> steps ahead of the low end, counted modulo 256.
\<close>

theorem sequences_table:
  "sequences = map (\<lambda>low. map (\<lambda>seqnum. if (seqnum + 256 - low) mod 256 < MAX_WINDOW_SIZE then 1 else 0)
     [0..<256]) [0..<256]"
proof (rule nth_equalityI, simp)
  fix i assume "i < length sequences"
  then have i: "i < 256" by simp
  then show "sequences ! i = map (\<lambda>low. map (\<lambda>seqnum. if (seqnum + 256 - low) mod 256 < MAX_WINDOW_SIZE
      then 1 else 0) [0..<256]) [0..<256] ! i"
    by (intro nth_equalityI) (simp_all add: length_row sequences_entry)
qed

end
