(* ===== verification/Node_Stream.thy ===== *)
theory Node_Stream
  imports Trtp_Prelude
begin

text \<open>
  \<^verbatim>\<open>src/stream.c\<close> and \<^verbatim>\<open>headers/stream.h\<close>: the queue of nodes that connects receivers and
  handlers. The queue is a pair of linked lists, one that is pushed to and one that is popped
  from; a pop that finds the second empty moves the first to it, reversing it.

  Two models of the same functions. The list model has each chain as the list of its nodes and
  is what the other components use. The heap model has the node structures and their \<^verbatim>\<open>next\<close>
  pointers, with the poison value and the null pointer; it is shown to implement the list model.
  Both are the behaviour of one thread at a time: a compare-and-swap then succeeds at once.

  The contract is the locale \<open>fifo\<close>.
\<close>

section \<open>The contract of a queue\<close>

datatype 'x queue_op = Enqueue 'x | Pop

text \<open>The values a sequence of operations puts in.\<close>

fun enqueued :: "'x queue_op list \<Rightarrow> 'x list" where
  "enqueued [] = []"
| "enqueued (Enqueue x # ops) = x # enqueued ops"
| "enqueued (Pop # ops) = enqueued ops"

locale fifo =
  fixes elems :: "'q \<Rightarrow> 'x list"
    and enqueue :: "'q \<Rightarrow> 'x \<Rightarrow> 'q"
    and pop :: "'q \<Rightarrow> 'x option \<times> 'q"
  assumes elems_enqueue: "elems (enqueue q x) = elems q @ [x]"
    and pop_empty: "elems q = [] \<Longrightarrow> fst (pop q) = None \<and> elems (snd (pop q)) = []"
    and pop_nonempty: "elems q = x # xs \<Longrightarrow> fst (pop q) = Some x \<and> elems (snd (pop q)) = xs"
begin

text \<open>A sequence of operations: what the pops return, in order, and the final queue.\<close>

fun run :: "'x queue_op list \<Rightarrow> 'q \<Rightarrow> 'x list \<times> 'q" where
  "run [] q = ([], q)"
| "run (Enqueue x # ops) q = run ops (enqueue q x)"
| "run (Pop # ops) q = (case pop q of (r, q) \<Rightarrow> (case run ops q of (rs, q) \<Rightarrow>
     ((case r of None \<Rightarrow> rs | Some x \<Rightarrow> x # rs), q)))"

lemma run_in_order: "fst (run ops q) @ elems (snd (run ops q)) = elems q @ enqueued ops"
proof (induction ops q rule: run.induct)
  case (3 ops q)
  obtain r q' where p: "pop q = (r, q')" by fastforce
  note IH = 3 [OF p [symmetric]]
  show ?case
  proof (cases "elems q")
    case Nil
    then show ?thesis using IH p pop_empty [of q] by (simp split: prod.splits)
  next
    case (Cons x xs)
    then show ?thesis using IH p pop_nonempty [of q x xs] by (auto split: prod.splits)
  qed
qed (simp_all add: elems_enqueue)

end

section \<open>The list model\<close>

record 'n stream_t =
  in_queue :: "'n list"
  out_queue :: "'n list"
  st_length :: int
  st_waiting :: int

definition initialize_stream :: "'n stream_t" where
  "initialize_stream = \<lparr>in_queue = [], out_queue = [], st_length = 0, st_waiting = 0\<rparr>"

text \<open>The null node is refused.\<close>

definition stream_enqueue :: "'n stream_t \<Rightarrow> 'n option \<Rightarrow> bool \<times> 'n stream_t" where
  "stream_enqueue s node = (case node of None \<Rightarrow> (False, s)
     | Some n \<Rightarrow> (True, s\<lparr>in_queue := n # in_queue s, st_length := st_length s + 1\<rparr>))"

text \<open>The pop that moves one chain to the other, after the wait.\<close>

definition pop_locked :: "'n stream_t \<Rightarrow> 'n option \<times> 'n stream_t" where
  "pop_locked s =
     (let s = (if out_queue s = [] then s\<lparr>out_queue := rev (in_queue s), in_queue := []\<rparr> else s);
          s = s\<lparr>st_length := st_length s - 1\<rparr>
      in case out_queue s of [] \<Rightarrow> (None, s) | n # ns \<Rightarrow> (Some n, s\<lparr>out_queue := ns\<rparr>))"

text \<open>
  \<open>None\<close> when the thread waits: then it stays in the wait with \<^verbatim>\<open>waiting\<close> raised until another
  thread changes the length.
\<close>

definition stream_pop :: "'n stream_t \<Rightarrow> bool \<Rightarrow> ('n option \<times> 'n stream_t) option" where
  "stream_pop s wait = (if wait \<and> st_length s = 0 then None else Some (pop_locked s))"

definition queue_of :: "'n stream_t \<Rightarrow> 'n list" where
  "queue_of s = out_queue s @ rev (in_queue s)"

lemma pop_locked_empty: "queue_of s = [] \<Longrightarrow> pop_locked s = (None, s\<lparr>st_length := st_length s - 1\<rparr>)"
  by (simp add: queue_of_def pop_locked_def Let_def)

lemma pop_locked_nonempty:
  "queue_of s = n # ns \<Longrightarrow> fst (pop_locked s) = Some n \<and> queue_of (snd (pop_locked s)) = ns \<and>
     st_length (snd (pop_locked s)) = st_length s - 1 \<and> st_waiting (snd (pop_locked s)) = st_waiting s"
  by (auto simp: queue_of_def pop_locked_def Let_def split: list.splits)

lemma queue_of_enqueue [simp]: "queue_of (snd (stream_enqueue s (Some n))) = queue_of s @ [n]"
  by (simp add: queue_of_def stream_enqueue_def)

interpretation sq: fifo queue_of "\<lambda>s n. snd (stream_enqueue s (Some n))" pop_locked
  by unfold_locales (simp_all add: pop_locked_empty pop_locked_nonempty, simp add: queue_of_def)

text \<open>A run of the two operations, the pops without waiting.\<close>

fun stream_run :: "'n queue_op list \<Rightarrow> 'n stream_t \<Rightarrow> 'n list \<times> 'n stream_t" where
  "stream_run [] s = ([], s)"
| "stream_run (Enqueue n # ops) s = stream_run ops (snd (stream_enqueue s (Some n)))"
| "stream_run (Pop # ops) s = (case stream_pop s False of
     None \<Rightarrow> stream_run ops s
   | Some (r, s) \<Rightarrow> (case stream_run ops s of (rs, s) \<Rightarrow> ((case r of None \<Rightarrow> rs | Some n \<Rightarrow> n # rs), s)))"

lemma stream_run_eq: "stream_run ops s = sq.run ops s"
  by (induction ops s rule: stream_run.induct) (simp_all add: stream_pop_def split: prod.splits)

lemma pop_locked_decreases: "pop_locked s = (Some n, s') \<Longrightarrow> length (queue_of s') < length (queue_of s)"
  using pop_locked_empty [of s] pop_locked_nonempty [of s] by (cases "queue_of s") auto

text \<open>
  \<^verbatim>\<open>dealloc_stream\<close> pops until it gets the null pointer and frees each node: the result is the
  freed nodes in order and the stream that is left.
\<close>

function dealloc_stream :: "'n stream_t \<Rightarrow> 'n list \<times> 'n stream_t" where
  "dealloc_stream s = (case pop_locked s of (None, s) \<Rightarrow> ([], s)
     | (Some n, s) \<Rightarrow> (case dealloc_stream s of (ns, s) \<Rightarrow> (n # ns, s)))"
  by pat_completeness auto

termination
  by (relation "measure (\<lambda>s. length (queue_of s))") (auto dest: pop_locked_decreases [OF sym])

declare dealloc_stream.simps [simp del]

section \<open>The heap model\<close>

text \<open>A pointer is null, the poison value stored in nodes that are in no queue, or an address.\<close>

datatype ptr = Null | Poison | Ref nat

record 'c s_node_t =
  sn_content :: "'c option"
  sn_next :: ptr

type_synonym 'c node_heap = "nat \<rightharpoonup> 'c s_node_t"

record stream_h =
  h_in :: ptr
  h_out :: ptr
  h_length :: int
  h_waiting :: int

text \<open>
  \<^verbatim>\<open>initialize_node\<close>: the memory of the node, null or not, and what the allocator returns. The
  null node sets \<^verbatim>\<open>errno\<close>, a failed allocation leaves it to the allocator.
\<close>

definition initialize_node :: "'c s_node_t option \<Rightarrow> 'c option \<Rightarrow> errors_t option + 'c s_node_t" where
  "initialize_node node allocated = (case node of None \<Rightarrow> Inl (Some NULL_ARGUMENT)
     | Some n \<Rightarrow> (let n = n\<lparr>sn_next := Poison, sn_content := allocated\<rparr> in
         if allocated = None then Inl None else Inr n))"

text \<open>\<open>None\<close> is an access through a pointer that is not the address of a node.\<close>

definition stream_enqueue_h ::
  "'c node_heap \<Rightarrow> stream_h \<Rightarrow> ptr \<Rightarrow> (bool \<times> 'c node_heap \<times> stream_h) option" where
  "stream_enqueue_h h s node = (case node of Null \<Rightarrow> Some (False, h, s) | Poison \<Rightarrow> None
     | Ref a \<Rightarrow> do {
         n \<leftarrow> h a;
         Some (True, h(a \<mapsto> n\<lparr>sn_next := h_in s\<rparr>), s\<lparr>h_in := node, h_length := h_length s + 1\<rparr>)
       })"

text \<open>The inner loop of the pop; on a cyclic chain it would not end, which also is \<open>None\<close>.\<close>

partial_function (option) move_chain ::
  "'c node_heap \<Rightarrow> ptr \<Rightarrow> ptr \<Rightarrow> ('c node_heap \<times> ptr) option" where
  "move_chain h head out = (case head of Null \<Rightarrow> Some (h, out) | Poison \<Rightarrow> None
     | Ref a \<Rightarrow> (case h a of None \<Rightarrow> None
         | Some n \<Rightarrow> move_chain (h(a \<mapsto> n\<lparr>sn_next := out\<rparr>)) (sn_next n) head))"

text \<open>The inner option is \<open>None\<close> when the thread waits.\<close>

definition stream_pop_h ::
  "'c node_heap \<Rightarrow> stream_h \<Rightarrow> bool \<Rightarrow> (ptr \<times> 'c node_heap \<times> stream_h) option option" where
  "stream_pop_h h s wait =
     (if wait \<and> h_length s = 0 then Some None
      else do {
        (h, s) \<leftarrow> (if h_out s = Null \<and> h_in s \<noteq> Null
          then do { (h, out) \<leftarrow> move_chain h (h_in s) (h_out s); Some (h, s\<lparr>h_in := Null, h_out := out\<rparr>) }
          else Some (h, s));
        let s = s\<lparr>h_length := h_length s - 1\<rparr>;
        case h_out s of Null \<Rightarrow> Some (Some (Null, h, s)) | Poison \<Rightarrow> None
        | Ref a \<Rightarrow> do {
            n \<leftarrow> h a;
            Some (Some (Ref a, h(a \<mapsto> n\<lparr>sn_next := Poison\<rparr>), s\<lparr>h_out := sn_next n\<rparr>))
          }
      })"

section \<open>The heap model implements the list model\<close>

text \<open>The chain of nodes from a pointer, as the list of their addresses.\<close>

primrec chain :: "'c node_heap \<Rightarrow> ptr \<Rightarrow> nat list \<Rightarrow> bool" where
  "chain h p [] \<longleftrightarrow> p = Null"
| "chain h p (a # as) \<longleftrightarrow> p = Ref a \<and> (\<exists>n. h a = Some n \<and> chain h (sn_next n) as)"

definition stream_rel :: "'c node_heap \<Rightarrow> stream_h \<Rightarrow> nat stream_t \<Rightarrow> bool" where
  "stream_rel h s l \<longleftrightarrow> chain h (h_in s) (in_queue l) \<and> chain h (h_out s) (out_queue l) \<and>
     distinct (in_queue l @ out_queue l) \<and> h_length s = st_length l \<and> h_waiting s = st_waiting l"

text \<open>Two heaps with the same nodes, up to the links.\<close>

definition same_contents :: "'c node_heap \<Rightarrow> 'c node_heap \<Rightarrow> bool" where
  "same_contents h h' \<longleftrightarrow> (\<forall>a. map_option sn_content (h' a) = map_option sn_content (h a))"

lemma chain_frame: "a \<notin> set as \<Longrightarrow> chain (h(a := x)) p as = chain h p as"
  by (induction as arbitrary: p) auto

lemma chain_Null: "chain h Null as \<longleftrightarrow> as = []"
  by (cases as) auto

lemma same_contents_refl [simp]: "same_contents h h"
  by (simp add: same_contents_def)

lemma same_contents_trans: "same_contents h h' \<Longrightarrow> same_contents h' h'' \<Longrightarrow> same_contents h h''"
  by (simp add: same_contents_def)

lemma same_contents_link: "h a = Some n \<Longrightarrow> same_contents h (h(a \<mapsto> n\<lparr>sn_next := p\<rparr>))"
  by (simp add: same_contents_def)

lemma move_chain_reverses:
  assumes "chain h p as" "chain h q bs" "distinct (as @ bs)"
  shows "\<exists>h' q'. move_chain h p q = Some (h', q') \<and> chain h' q' (rev as @ bs) \<and> same_contents h h'"
  using assms
proof (induction as arbitrary: h p q bs)
  case Nil
  then show ?case by (subst move_chain.simps) simp
next
  case (Cons a as)
  then obtain n where n: "p = Ref a" "h a = Some n" "chain h (sn_next n) as" by auto
  let ?h = "h(a \<mapsto> n\<lparr>sn_next := q\<rparr>)"
  have "chain ?h (sn_next n) as" "chain ?h p (a # bs)" "distinct (as @ a # bs)"
    using Cons.prems n by (auto simp: chain_frame)
  from Cons.IH [OF this] obtain h' q' where "move_chain ?h (sn_next n) p = Some (h', q')"
    "chain h' q' (rev as @ a # bs)" "same_contents ?h h'" by blast
  moreover have "move_chain h p q = move_chain ?h (sn_next n) p"
    using n by (subst move_chain.simps) simp
  ultimately show ?case
    using same_contents_trans [OF same_contents_link [of h a n q, OF n(2)]] by auto
qed

lemma stream_rel_enqueue:
  assumes "stream_rel h s l" "h a = Some n" "a \<notin> set (queue_of l)"
  shows "\<exists>h' s'. stream_enqueue_h h s (Ref a) = Some (True, h', s') \<and>
    stream_rel h' s' (snd (stream_enqueue l (Some a))) \<and> same_contents h h'"
  using assms
  by (auto simp: stream_rel_def stream_enqueue_h_def stream_enqueue_def queue_of_def chain_frame
      intro: same_contents_link)

lemma stream_rel_move:
  assumes "stream_rel h s l" "out_queue l = []"
  shows "\<exists>h' out. move_chain h (h_in s) (h_out s) = Some (h', out) \<and> same_contents h h' \<and>
    stream_rel h' (s\<lparr>h_in := Null, h_out := out\<rparr>) (l\<lparr>out_queue := rev (in_queue l), in_queue := []\<rparr>)"
  using assms move_chain_reverses [of h "h_in s" "in_queue l" "h_out s" "[]"]
  by (auto simp: stream_rel_def)

lemma stream_rel_take:
  assumes "stream_rel h s l" "out_queue l = a # as"
  obtains n where "h_out s = Ref a" "h a = Some n"
    "stream_rel (h(a \<mapsto> n\<lparr>sn_next := Poison\<rparr>)) (s\<lparr>h_length := h_length s - 1, h_out := sn_next n\<rparr>)
       (l\<lparr>st_length := st_length l - 1, out_queue := as\<rparr>)"
  using assms by (auto simp: stream_rel_def chain_frame)

lemma stream_rel_pop:
  assumes "stream_rel h s l" "stream_pop l wait = Some (r, l')"
  shows "\<exists>p h' s'. stream_pop_h h s wait = Some (Some (p, h', s')) \<and> stream_rel h' s' l' \<and> same_contents h h' \<and>
    (case r of None \<Rightarrow> p = Null | Some a \<Rightarrow> p = Ref a \<and> map_option sn_next (h' a) = Some Poison)"
proof -
  have go: "\<not> (wait \<and> h_length s = 0)" and r: "pop_locked l = (r, l')"
    using assms by (auto simp: stream_pop_def stream_rel_def split: if_splits)
  let ?m = "if out_queue l = [] then l\<lparr>out_queue := rev (in_queue l), in_queue := []\<rparr> else l"
  obtain h1 s1 where mv: "(if h_out s = Null \<and> h_in s \<noteq> Null
          then do { (h, out) \<leftarrow> move_chain h (h_in s) (h_out s); Some (h, s\<lparr>h_in := Null, h_out := out\<rparr>) }
          else Some (h, s)) = Some (h1, s1)"
    and rel: "stream_rel h1 s1 ?m" and same: "same_contents h h1"
  proof (cases "h_out s = Null \<and> h_in s \<noteq> Null")
    case True
    then have e: "out_queue l = []" using assms(1) by (auto simp: stream_rel_def chain_Null)
    from stream_rel_move [OF assms(1) e] obtain h' out where
      "move_chain h (h_in s) (h_out s) = Some (h', out)" "same_contents h h'"
      "stream_rel h' (s\<lparr>h_in := Null, h_out := out\<rparr>) (l\<lparr>out_queue := rev (in_queue l), in_queue := []\<rparr>)" by blast
    with True e show thesis by (intro that [of h' "s\<lparr>h_in := Null, h_out := out\<rparr>"]) simp_all
  next
    case False
    then have "out_queue l \<noteq> [] \<or> in_queue l = []"
      using assms(1) by (cases "out_queue l") (auto simp: stream_rel_def chain_Null)
    then have "?m = l" using False assms(1) by (cases l) auto
    with False assms(1) show thesis by (intro that [of h s]) (simp_all only: if_False, simp_all)
  qed
  show ?thesis
  proof (cases "out_queue ?m")
    case Nil
    then have "r = None" "l' = ?m\<lparr>st_length := st_length ?m - 1\<rparr>"
      using r by (simp_all add: pop_locked_def Let_def)
    moreover have "h_out s1 = Null" using rel Nil by (simp add: stream_rel_def)
    moreover have "stream_rel h1 (s1\<lparr>h_length := h_length s1 - 1\<rparr>) (?m\<lparr>st_length := st_length ?m - 1\<rparr>)"
      using rel by (simp add: stream_rel_def)
    ultimately show ?thesis using go mv same by (simp add: stream_pop_h_def)
  next
    case (Cons a as)
    then have "r = Some a" "l' = ?m\<lparr>st_length := st_length ?m - 1, out_queue := as\<rparr>"
      using r by (simp_all add: pop_locked_def Let_def)
    moreover from stream_rel_take [OF rel Cons] obtain n where "h_out s1 = Ref a" "h1 a = Some n"
      "stream_rel (h1(a \<mapsto> n\<lparr>sn_next := Poison\<rparr>)) (s1\<lparr>h_length := h_length s1 - 1, h_out := sn_next n\<rparr>)
         (?m\<lparr>st_length := st_length ?m - 1, out_queue := as\<rparr>)" by blast
    ultimately show ?thesis
      using go mv same_contents_trans [OF same same_contents_link] by (simp add: stream_pop_h_def)
  qed
qed

section \<open>Properties\<close>

text \<open>
  The stream is first in, first out: for every sequence of enqueues and pops, the nodes the
  pops return, followed by the nodes left in the stream, are the nodes that were in the stream
  followed by the nodes enqueued, each once and in order.
\<close>

theorem stream_in_order:
  "fst (stream_run ops s) @ queue_of (snd (stream_run ops s)) = queue_of s @ enqueued ops"
  unfolding stream_run_eq by (rule sq.run_in_order)

text \<open>
  C19. The linked representation implements the queue. On a heap that holds the two chains as
  distinct nodes, a pop either waits exactly when the queue does, or returns the pointer to the
  node the queue returns (null for none) with its link poisoned, leaves chains that represent
  the queue after the pop, ends its reversal loop, follows no dangling pointer, and changes no
  node's content.
\<close>

theorem stream_pop_implements:
  assumes "stream_rel h s l"
  shows "case stream_pop l wait of None \<Rightarrow> stream_pop_h h s wait = Some None
    | Some (r, l') \<Rightarrow> (\<exists>p h' s'. stream_pop_h h s wait = Some (Some (p, h', s')) \<and> stream_rel h' s' l' \<and>
        same_contents h h' \<and>
        (case r of None \<Rightarrow> p = Null | Some a \<Rightarrow> p = Ref a \<and> map_option sn_next (h' a) = Some Poison))"
proof (cases "stream_pop l wait")
  case None
  then show ?thesis using assms by (auto simp: stream_pop_def stream_pop_h_def stream_rel_def split: if_splits)
next
  case (Some rl)
  then show ?thesis using stream_rel_pop [OF assms, of wait] by (cases rl) simp
qed

text \<open>
  Enqueueing a node that is in neither chain implements the enqueue of the queue, and keeps
  every content.
\<close>

theorem stream_enqueue_implements:
  assumes "stream_rel h s l" and "h a \<noteq> None" and "a \<notin> set (queue_of l)"
  shows "\<exists>h' s'. stream_enqueue_h h s (Ref a) = Some (True, h', s') \<and>
    stream_rel h' s' (snd (stream_enqueue l (Some a))) \<and> same_contents h h'"
  using assms stream_rel_enqueue [of h s l a] by blast

text \<open>
  A pop that does not wait, on an empty stream, takes one from the length all the same. From
  then on the counter is one too small: after the next enqueue the stream holds a node, its
  length is 0, and a pop that waits does not return.
\<close>

theorem pop_empty_loses_count:
  assumes "queue_of s = []" and "st_length s = 0"
  shows "\<exists>s1 s2. stream_pop s False = Some (None, s1) \<and> st_length s1 = -1 \<and>
    stream_enqueue s1 (Some n) = (True, s2) \<and> queue_of s2 = [n] \<and> stream_pop s2 True = None"
  using assms by (auto simp: stream_pop_def pop_locked_empty stream_enqueue_def queue_of_def)

text \<open>
  As long as the length counts the nodes, a pop that waits returns exactly when there is a
  node, returns the oldest one, and the length still counts the nodes.
\<close>

theorem waiting_pop_returns:
  assumes "st_length s = int (length (queue_of s))"
  shows "case queue_of s of [] \<Rightarrow> stream_pop s True = None
    | n # ns \<Rightarrow> (\<exists>s'. stream_pop s True = Some (Some n, s') \<and> queue_of s' = ns \<and>
        st_length s' = int (length (queue_of s')))"
proof (cases "queue_of s")
  case (Cons n ns)
  then show ?thesis
    using assms pop_locked_nonempty [OF Cons] by (cases "pop_locked s") (simp add: stream_pop_def)
qed (use assms in \<open>simp add: stream_pop_def\<close>)

text \<open>
  Deallocation ends, frees every node of the stream once and in order, and leaves no node.
\<close>

theorem dealloc_stream_frees_all:
  "fst (dealloc_stream s) = queue_of s \<and> queue_of (snd (dealloc_stream s)) = []"
proof (induction s rule: dealloc_stream.induct)
  case (1 s)
  show ?case
  proof (cases "queue_of s")
    case Nil
    then show ?thesis
      by (subst (1 2) dealloc_stream.simps) (simp add: pop_locked_empty queue_of_def)
  next
    case (Cons n ns)
    obtain s' where p: "pop_locked s = (Some n, s')" "queue_of s' = ns"
      using pop_locked_nonempty [OF Cons] by (cases "pop_locked s") auto
    then show ?thesis using 1 [OF p(1) [symmetric] refl] Cons
      by (subst (1 2) dealloc_stream.simps) (auto split: prod.splits)
  qed
qed

section \<open>Witnesses\<close>

text \<open>Two nodes pushed and none popped: node 8 is the newest and links to node 5.\<close>

definition sample_heap :: "char node_heap" where
  "sample_heap = [5 \<mapsto> \<lparr>sn_content = Some (CHR ''a''), sn_next = Null\<rparr>,
     8 \<mapsto> \<lparr>sn_content = Some (CHR ''b''), sn_next = Ref 5\<rparr>,
     9 \<mapsto> \<lparr>sn_content = Some (CHR ''c''), sn_next = Poison\<rparr>]"

definition sample_stream_h :: stream_h where
  "sample_stream_h = \<lparr>h_in = Ref 8, h_out = Null, h_length = 2, h_waiting = 0\<rparr>"

definition sample_stream :: "nat stream_t" where
  "sample_stream = \<lparr>in_queue = [8, 5], out_queue = [], st_length = 2, st_waiting = 0\<rparr>"

lemma sample_rel: "stream_rel sample_heap sample_stream_h sample_stream"
  by (simp add: stream_rel_def sample_heap_def sample_stream_h_def sample_stream_def)

theorem stream_pop_implements_witness:
  "\<exists>h' s'. stream_pop_h sample_heap sample_stream_h True = Some (Some (Ref 5, h', s')) \<and>
     stream_rel h' s' \<lparr>in_queue = [], out_queue = [8], st_length = 1, st_waiting = 0\<rparr>"
proof -
  have "stream_pop sample_stream True = Some (Some 5, \<lparr>in_queue = [], out_queue = [8], st_length = 1, st_waiting = 0\<rparr>)"
    by (simp add: sample_stream_def stream_pop_def pop_locked_def)
  then show ?thesis using stream_pop_implements [OF sample_rel, of True] by auto
qed

theorem stream_enqueue_implements_witness:
  "\<exists>h' s'. stream_enqueue_h sample_heap sample_stream_h (Ref 9) = Some (True, h', s') \<and>
     stream_rel h' s' \<lparr>in_queue = [9, 8, 5], out_queue = [], st_length = 3, st_waiting = 0\<rparr>"
  using stream_enqueue_implements [OF sample_rel, of 9]
  by (auto simp: sample_stream_def queue_of_def stream_enqueue_def sample_heap_def)

theorem pop_empty_loses_count_witness:
  "\<exists>s1 s2. stream_pop (initialize_stream :: char stream_t) False = Some (None, s1) \<and> st_length s1 = -1 \<and>
    stream_enqueue s1 (Some (CHR ''x'')) = (True, s2) \<and> queue_of s2 = ''x'' \<and> stream_pop s2 True = None"
  using pop_empty_loses_count [of initialize_stream "CHR ''x''"]
  by (simp add: initialize_stream_def queue_of_def)

theorem waiting_pop_returns_witness:
  "\<exists>s'. stream_pop sample_stream True = Some (Some 5, s') \<and> queue_of s' = [8] \<and> st_length s' = 1"
proof -
  have "queue_of sample_stream = [5, 8]" "st_length sample_stream = 2"
    by (simp_all add: sample_stream_def queue_of_def)
  then show ?thesis using waiting_pop_returns [of sample_stream] by auto
qed

end
