(* ===== verification/Handler.thy ===== *)
theory Handler
  imports Client Lookup Node_Stream
begin

text \<open>
  \<^verbatim>\<open>src/handler.c\<close> and \<^verbatim>\<open>headers/handler.h\<close>: one pass of the handler. It takes a request (up to 31
  received datagrams of one client) from its input stream, decodes each, answers or stores it
  in the client's window, then writes the consecutive run at the low end of the window to the
  client's file, slides the window and acknowledges.

  The pass is split as the code is: the decoding loop (\<open>hd_packet\<close>, \<open>hd_receive\<close>), the draining
  loop (\<open>hd_drain\<close>), the end (\<open>hd_finish\<close>), and \<open>hd_run_once\<close> around them with the streams. An
  outer \<open>None\<close> is a fault: an access outside an array or through a null pointer. What the system
  calls answer is the parameter \<open>hd_env\<close>. Variables the source leaves uninitialised (\<^verbatim>\<open>to_send\<close>,
  \<^verbatim>\<open>remove\<close>) are parameters too, and the results hold for all their values.
\<close>

section \<open>Data\<close>

record hd_cfg_t =
  hc_id :: u8
  hc_max_window_size :: int
  hc_sockfd :: int

text \<open>The client of a request is its key in the store of clients.\<close>

record hd_req_t =
  rq_stop :: bool
  rq_client :: "nat option"
  rq_num :: nat
  rq_lengths :: "u16 list"
  rq_buffer :: "bytes list"

text \<open>A message of the array for \<^verbatim>\<open>sendmmsg\<close>: its destination and its 12 byte row of \<^verbatim>\<open>packets_to_send\<close>.\<close>

record mmsghdr =
  msg_name :: "sockaddr_in6 option"
  msg_row :: bytes

text \<open>The local state of the decoding loop, with what it reaches through pointers.\<close>

record hd_local =
  l_client :: client_t
  l_decoded :: "packet_t option"
  l_to_send :: packet_t
  l_msg :: "mmsghdr list"
  l_len_to_send :: nat
  l_last_timestamp :: u32
  l_req :: hd_req_t

text \<open>The \<^verbatim>\<open>min\<close> macro.\<close>

definition min_macro :: "int \<Rightarrow> int \<Rightarrow> int" where
  "min_macro num1 num2 = (if num1 > num2 then num2 else num1)"

definition allocate_handle_request :: "hd_req_t" where
  "allocate_handle_request = \<lparr>rq_stop = False, rq_client = None, rq_num = 0,
     rq_lengths = replicate MAX_WINDOW_SIZE 0, rq_buffer = replicate MAX_WINDOW_SIZE (replicate MAX_PACKET_SIZE 0)\<rparr>"

section \<open>The decoding loop\<close>

text \<open>The packet to send, filled in field by field; the rest keeps what was there.\<close>

definition fill_ack :: "hd_cfg_t \<Rightarrow> packet_t buf_t \<Rightarrow> u32 \<Rightarrow> packet_t \<Rightarrow> packet_t" where
  "fill_ack cfg window timestamp to_send = to_send\<lparr>pk_type := ACK, pk_truncated := False,
     pk_seqnum := window_low window, pk_long_length := False, pk_length := 0,
     pk_window := word_of_int (min_macro (hc_max_window_size cfg) (int MAX_WINDOW_SIZE - uint (buf_length window))),
     pk_timestamp := timestamp\<rparr>"

text \<open>The window of a negative acknowledgement is computed from \<^verbatim>\<open>window_low\<close>, as in the source.\<close>

definition fill_nack :: "hd_cfg_t \<Rightarrow> packet_t buf_t \<Rightarrow> packet_t \<Rightarrow> packet_t \<Rightarrow> packet_t" where
  "fill_nack cfg window decoded to_send = to_send\<lparr>pk_type := NACK, pk_truncated := False,
     pk_window := word_of_int (min_macro (hc_max_window_size cfg) (int MAX_WINDOW_SIZE - uint (window_low window))),
     pk_long_length := False, pk_length := 0, pk_seqnum := pk_seqnum decoded,
     pk_timestamp := pk_timestamp decoded\<rparr>"

text \<open>Encode the packet into the next row, addressed to the client.\<close>

definition put_message :: "hd_local \<Rightarrow> packet_t \<Rightarrow> hd_local option" where
  "put_message st to_send = do {
     let k = l_len_to_send st;
     m \<leftarrow> rd (l_msg st) k;
     let m = m\<lparr>msg_name := Some (c_address (l_client st))\<rparr>;
     r \<leftarrow> pack (Some (msg_row m)) (Some to_send) False;
     case r of
       Inl _ \<Rightarrow> Some (st\<lparr>l_to_send := to_send, l_msg := (l_msg st)[k := m]\<rparr>)
     | Inr row \<Rightarrow> Some (st\<lparr>l_to_send := to_send, l_msg := (l_msg st)[k := m\<lparr>msg_row := row\<rparr>],
                           l_len_to_send := k + 1\<rparr>)
   }"

text \<open>A packet that belongs in the window: its slot takes the packet and gives its old one.\<close>

definition store_decoded :: "hd_local \<Rightarrow> packet_t \<Rightarrow> hd_local option" where
  "store_decoded st d = (case buf_next (Some (c_window (l_client st))) (pk_seqnum d) of
     Inl _ \<Rightarrow> None
   | Inr (i, window) \<Rightarrow> (let temp = nd_value (nodes window ! i);
        window = window\<lparr>nodes := (nodes window)[i := (nodes window ! i)\<lparr>nd_value := Some d\<rparr>]\<rparr> in
        Some (st\<lparr>l_client := (l_client st)\<lparr>c_window := window\<rparr>, l_decoded := temp\<rparr>)))"

text \<open>What follows the decoding of a datagram, with its error or the decoded packet.\<close>

definition hd_answer :: "hd_cfg_t \<Rightarrow> errors_t option \<Rightarrow> packet_t \<Rightarrow> hd_local \<Rightarrow> hd_local option" where
  "hd_answer cfg e d st = (let client = l_client st; window = c_window client in
     if e \<noteq> None then put_message st (fill_ack cfg window (c_last_timestamp client) (l_to_send st))
     else (let st = st\<lparr>l_last_timestamp := pk_timestamp d\<rparr> in
       if \<not> c_active client then put_message st (fill_ack cfg window (pk_timestamp d) (l_to_send st))
       else if pk_type d = DATA then
         (if pk_truncated d then put_message st (fill_nack cfg window d (l_to_send st))
          else if \<not> in_sequence (window_low window) (pk_seqnum d)
            then put_message st (fill_ack cfg window (pk_timestamp d) (l_to_send st))
          else if is_used (Some window) (pk_seqnum d) = Inr True
            then put_message st (fill_ack cfg window (pk_timestamp d) (l_to_send st))
          else store_decoded st d)
       else Some st))"

text \<open>One datagram.\<close>

definition hd_packet :: "hd_cfg_t \<Rightarrow> nat \<Rightarrow> hd_local \<Rightarrow> hd_local option" where
  "hd_packet cfg i st = do {
     buffer \<leftarrow> rd (rq_buffer (l_req st)) i;
     len \<leftarrow> rd (rq_lengths (l_req st)) i;
     out \<leftarrow> l_decoded st;
     (e, d, buffer) \<leftarrow> unpack buffer (uint len) out;
     hd_answer cfg e d (st\<lparr>l_decoded := Some d,
       l_req := (l_req st)\<lparr>rq_buffer := (rq_buffer (l_req st))[i := buffer]\<rparr>\<rparr>)
   }"

text \<open>The loop over the datagrams of the request, by their indices \<open>[0..<rq_num]\<close>.\<close>

primrec hd_receive :: "hd_cfg_t \<Rightarrow> nat list \<Rightarrow> hd_local \<Rightarrow> hd_local option" where
  "hd_receive cfg [] st = Some st"
| "hd_receive cfg (i # is) st = do { st \<leftarrow> hd_packet cfg i st; hd_receive cfg is st }"

section \<open>The draining loop\<close>

record hd_draining =
  d_window :: "packet_t buf_t"
  d_file_buffer :: bytes
  d_offset :: nat
  d_cnt :: nat
  d_i :: nat
  d_remove :: bool
  d_last_timestamp :: u32

text \<open>
  The body of the loop on a node that \<^verbatim>\<open>get\<close> returned: copy the payload to the file buffer, or
  note the end of the transfer.
\<close>

definition drain_node :: "hd_draining \<Rightarrow> packet_t \<Rightarrow> hd_draining option" where
  "drain_node ds pak = do {
     ds \<leftarrow> (if pk_length pak > 0 then do {
              let n = unat (pk_length pak);
              tail \<leftarrow> memcpy_from (drop (d_offset ds) (d_file_buffer ds)) (pk_payload pak) 0 n;
              Some (ds\<lparr>d_file_buffer := take (d_offset ds) (d_file_buffer ds) @ tail,
                       d_offset := d_offset ds + n, d_remove := False\<rparr>)
            }
            else if \<not> d_remove ds then Some (ds\<lparr>d_remove := True\<rparr>) else Some ds);
     Some (ds\<lparr>d_last_timestamp := pk_timestamp pak, d_cnt := d_cnt ds + 1, d_i := d_i ds + 1\<rparr>)
   }"

text \<open>\<^verbatim>\<open>i & 0xFF\<close>\<close>

definition low_byte :: "nat \<Rightarrow> u8" where
  "low_byte i = word_of_nat i"

lemma drain_node_cnt: "drain_node ds pak = Some ds' \<Longrightarrow> d_cnt ds' = d_cnt ds + 1"
  by (auto simp: drain_node_def Let_def split: if_splits option.splits bind_splits)

function hd_drain :: "hd_draining \<Rightarrow> hd_draining option" where
  "hd_drain ds = (case get (Some (d_window ds)) (low_byte (d_i ds)) False of
     Inl _ \<Rightarrow> None
   | Inr None \<Rightarrow> Some ds
   | Inr (Some (k, window)) \<Rightarrow> (case nd_value (nodes window ! k) of None \<Rightarrow> None
       | Some pak \<Rightarrow> (case drain_node (ds\<lparr>d_window := window\<rparr>) pak of None \<Rightarrow> None
           | Some ds \<Rightarrow>
               if in_sequence (window_low (d_window ds)) (low_byte (d_i ds)) \<and> d_cnt ds < MAX_WINDOW_SIZE
                  \<and> \<not> d_remove ds
               then hd_drain ds else Some ds)))"
  by pat_completeness auto

termination
  by (relation "measure (\<lambda>ds. MAX_WINDOW_SIZE - d_cnt ds)") (auto dest: drain_node_cnt [OF sym] drain_node_cnt)

declare hd_drain.simps [simp del]

section \<open>The end of the pass\<close>

text \<open>
  What the system answers: how many bytes \<^verbatim>\<open>fwrite\<close> writes (at most what it is given), whether
  the end time can be allocated, the time, and what \<^verbatim>\<open>sendmmsg\<close> returns.
\<close>

record hd_env =
  v_written :: "nat \<Rightarrow> nat"
  v_end_mem :: bool
  v_now :: timespec
  v_sendmmsg :: int

text \<open>
  The file operations: a write at the position, which marks a closed file, and \<^verbatim>\<open>fseek\<close> from the
  start, which refuses a negative offset.
\<close>

definition fwrite :: "nat \<Rightarrow> bytes \<Rightarrow> file_t \<Rightarrow> file_t" where
  "fwrite k buf f = f\<lparr>f_data := take (f_pos f) (f_data f) @ take k buf @ drop (f_pos f + k) (f_data f),
     f_pos := f_pos f + k, f_misused := f_misused f \<or> \<not> f_open f\<rparr>"

definition fseek_set :: "int \<Rightarrow> file_t \<Rightarrow> file_t" where
  "fseek_set offset f = (if offset < 0 then f else f\<lparr>f_pos := nat offset\<rparr>)"

text \<open>
  The units of the log line: the loop over the five units with the remaining number of bytes. The
  multiplier is a power of 1024, which a double represents exactly.
\<close>

definition sizes :: "string list" where
  "sizes = [''B'', ''KiB'', ''MiB'', ''GiB'', ''TiB'']"

function bytes_to_unit_from :: "nat \<Rightarrow> u64 \<Rightarrow> nat \<Rightarrow> string \<times> nat" where
  "bytes_to_unit_from i bytes multiplier =
     (if i < 5 then
        (if bytes > 1024 \<and> i \<noteq> 4 then bytes_to_unit_from (Suc i) (bytes div 1024) (multiplier * 1024)
         else (sizes ! i, multiplier))
      else ([], multiplier))"
  by pat_completeness auto

termination by (relation "measure (\<lambda>(i, _, _). 5 - i)") auto

declare bytes_to_unit_from.simps [simp del]

definition bytes_to_unit :: "u64 \<Rightarrow> string \<times> nat" where
  "bytes_to_unit bytes = bytes_to_unit_from 0 bytes 1"

text \<open>
  The end of a transfer: the client becomes inactive and its file is closed; without memory for
  the end time the code goes on through the null pointer.
\<close>

definition end_transfer :: "hd_env \<Rightarrow> client_t \<Rightarrow> client_t option" where
  "end_transfer env c = (let c = c\<lparr>c_active := False, c_out_file := (c_out_file c)\<lparr>f_open := False\<rparr>\<rparr> in
     if v_end_mem env then Some (c\<lparr>c_end_time := Some (v_now env)\<rparr>) else None)"

text \<open>
  Writing the drained run to the file: \<open>Inl\<close> is the client after a short write, \<open>Inr\<close> the client
  with its counters advanced and, at the end of the transfer, closed.
\<close>

definition write_run :: "hd_env \<Rightarrow> hd_draining \<Rightarrow> client_t \<Rightarrow> (client_t + client_t) option" where
  "write_run env ds client =
     (let result = min (v_written env (d_offset ds)) (d_offset ds);
          client = client\<lparr>c_out_file := fwrite result (take (d_offset ds) (d_file_buffer ds)) (c_out_file client)\<rparr> in
      if result \<noteq> d_offset ds
      then Some (Inl (client\<lparr>c_out_file := fseek_set (- int result) (c_out_file client)\<rparr>))
      else (let client = client\<lparr>c_transferred := c_transferred client + word_of_nat (d_offset ds),
                   c_window := slide (c_window client) (d_cnt ds), c_last_timestamp := d_last_timestamp ds\<rparr> in
        map_option Inr (if d_remove ds \<and> c_active client then end_transfer env client else Some client)))"

text \<open>
  What follows the draining loop, up to the sending: \<open>Inl\<close> is the early return after a short
  write. Both release the lock of the client.
\<close>

definition hd_finish :: "hd_env \<Rightarrow> hd_cfg_t \<Rightarrow> hd_draining \<Rightarrow> hd_local \<Rightarrow> (client_t + hd_local) option" where
  "hd_finish env cfg ds st = (let client = (l_client st)\<lparr>c_window := d_window ds\<rparr> in
     if d_cnt ds > 0 then do {
       r \<leftarrow> write_run env ds client;
       case r of
         Inl client \<Rightarrow> Some (Inl (client\<lparr>c_locked := False\<rparr>))
       | Inr client \<Rightarrow> do {
           st \<leftarrow> put_message (st\<lparr>l_client := client\<rparr>)
                 (fill_ack cfg (c_window client) (d_last_timestamp ds) (l_to_send st));
           Some (Inr (st\<lparr>l_client := (l_client st)\<lparr>c_locked := False\<rparr>\<rparr>))
         }
     }
     else Some (Inr (st\<lparr>l_client := client\<lparr>c_locked := False\<rparr>\<rparr>)))"

section \<open>One pass\<close>

text \<open>
  What a handler thread works on: its two streams of request nodes, the clients by key, the
  decoded packet it owns, and its message and file buffers. A node of a stream is its content.
\<close>

record hd_state =
  s_rx :: "hd_req_t option stream_t"
  s_tx :: "hd_req_t option stream_t"
  s_clients :: "nat \<rightharpoonup> client_t"
  s_decoded :: "packet_t option"
  s_msg :: "mmsghdr list"
  s_file_buffer :: bytes
  s_exit :: bool
  s_sent :: "(sockaddr_in6 option \<times> bytes) list"

definition enqueue_or_free :: "'n stream_t \<Rightarrow> 'n option \<Rightarrow> 'n stream_t" where
  "enqueue_or_free stream node = snd (stream_enqueue stream node)"

text \<open>The start of the decoding loop, with the lock of the client taken.\<close>

definition hd_begin :: "packet_t \<Rightarrow> hd_req_t \<Rightarrow> client_t \<Rightarrow> hd_state \<Rightarrow> hd_local" where
  "hd_begin to_send req client s = \<lparr>l_client = client\<lparr>c_locked := True\<rparr>, l_decoded = s_decoded s,
     l_to_send = to_send, l_msg = s_msg s, l_len_to_send = 0,
     l_last_timestamp = c_last_timestamp client, l_req = req\<rparr>"

definition hd_begin_drain :: "bool \<Rightarrow> bytes \<Rightarrow> hd_local \<Rightarrow> hd_draining" where
  "hd_begin_drain remove file_buffer st = (let window = c_window (l_client st) in
     \<lparr>d_window = window, d_file_buffer = file_buffer, d_offset = 0, d_cnt = 0,
      d_i = unat (window_low window), d_remove = remove, d_last_timestamp = l_last_timestamp st\<rparr>)"

text \<open>
  The request of a client that the pass handles: the local state at the end with the drained
  state, or the client after a failed write.
\<close>

definition hd_handle ::
  "hd_env \<Rightarrow> hd_cfg_t \<Rightarrow> bool \<Rightarrow> packet_t \<Rightarrow> hd_req_t \<Rightarrow> client_t \<Rightarrow> hd_state \<Rightarrow>
   (hd_local \<times> hd_draining \<times> (client_t + hd_local)) option" where
  "hd_handle env cfg remove to_send req client s = do {
     st \<leftarrow> hd_receive cfg [0..<rq_num req] (hd_begin to_send req client s);
     ds \<leftarrow> hd_drain (hd_begin_drain remove (s_file_buffer s) st);
     r \<leftarrow> hd_finish env cfg ds st;
     Some (st, ds, r)
   }"

text \<open>
  The whole pass. The outer option is \<open>None\<close> for a fault, the inner one when the thread waits: for
  a node, or for the lock of the client while another thread holds it. \<^verbatim>\<open>sendmmsg\<close> sends the first
  11 bytes of each of the first \<^verbatim>\<open>len_to_send\<close> rows, or of fewer when it returns less, none when it
  returns -1; the pass goes on in every case.
\<close>

definition hd_run_once ::
  "hd_env \<Rightarrow> bool \<Rightarrow> packet_t \<Rightarrow> bool \<Rightarrow> hd_cfg_t \<Rightarrow> hd_state \<Rightarrow> hd_state option option" where
  "hd_run_once env remove to_send wait cfg s = (case stream_pop (s_rx s) wait of
     None \<Rightarrow> Some None
   | Some (None, rx) \<Rightarrow> Some (Some (s\<lparr>s_rx := rx\<rparr>))
   | Some (Some None, rx) \<Rightarrow> Some (Some (s\<lparr>s_rx := rx\<rparr>))
   | Some (Some (Some req), rx) \<Rightarrow>
       if rq_stop req then Some (Some (s\<lparr>s_rx := rx, s_decoded := None, s_exit := True\<rparr>))
       else do {
         key \<leftarrow> rq_client req;
         client \<leftarrow> s_clients s key;
         if c_locked client then Some None
         else do {
           (st, ds, r) \<leftarrow> hd_handle env cfg remove to_send req client s;
           case r of
             Inl client \<Rightarrow> Some (Some (s\<lparr>s_rx := rx, s_tx := enqueue_or_free (s_tx s) (Some (Some (l_req st))),
                 s_clients := (s_clients s)(key \<mapsto> client), s_decoded := l_decoded st, s_msg := l_msg st,
                 s_file_buffer := d_file_buffer ds\<rparr>))
           | Inr st \<Rightarrow> Some (Some (s\<lparr>s_rx := rx, s_tx := enqueue_or_free (s_tx s) (Some (Some (l_req st))),
                 s_clients := (s_clients s)(key \<mapsto> l_client st), s_decoded := l_decoded st, s_msg := l_msg st,
                 s_file_buffer := d_file_buffer ds,
                 s_sent := s_sent s @ take (nat (v_sendmmsg env))
                   (map (\<lambda>m. (msg_name m, take 11 (msg_row m))) (take (l_len_to_send st) (l_msg st)))\<rparr>))
         }
       })"

text \<open>A node for a new request: from the return stream, or newly allocated when that is empty.\<close>

definition pop_and_check_req ::
  "hd_req_t option stream_t \<Rightarrow> bool \<Rightarrow> hd_req_t option option \<times> hd_req_t option stream_t" where
  "pop_and_check_req stream alloc = (case stream_pop stream False of
     Some (Some node, stream) \<Rightarrow> (Some node, stream)
   | Some (None, stream) \<Rightarrow> (if alloc then (Some (Some allocate_handle_request), stream) else (None, stream))
   | None \<Rightarrow> (None, stream))"

section \<open>Messages\<close>

text \<open>An acknowledgement as it is sent: no payload, a one-byte length of 0, the window in five bits.\<close>

definition reply :: "packet_t \<Rightarrow> bool" where
  "reply p \<longleftrightarrow> pk_type p \<in> {ACK, NACK} \<and> \<not> pk_truncated p \<and> \<not> pk_long_length p \<and> pk_length p = 0"

definition reply_image :: "packet_t \<Rightarrow> bytes" where
  "reply_image p = wire (sealed (p\<lparr>pk_window := pk_window p AND 0x1F\<rparr>) False)"

lemma masked_window_less: "(w::u8) AND 0x1F < 32"
  by (rule le_less_trans [OF word_and_le1]) simp

lemma pack_header_masked: "pack_header (p\<lparr>pk_window := pk_window p AND 0x1F\<rparr>) = pack_header p"
  by (simp add: pack_header_def Let_def)

lemma pack_bytes_masked: "pack_bytes (p\<lparr>pk_window := pk_window p AND 0x1F\<rparr>) r = pack_bytes p r"
  by (simp add: pack_bytes_def pack_header_masked has_payload_def Let_def)

lemma pack_reply:
  assumes "reply p" "length row = 12"
  shows "pack (Some row) (Some p) False = Some (Inr (reply_image p @ drop 11 row))" "length (reply_image p) = 11"
proof -
  have e: "pack_bytes p False = reply_image p"
    unfolding reply_image_def pack_bytes_masked [of p False, symmetric] using assms(1)
    by (intro pack_bytes_short) (simp_all add: reply_def masked_window_less)
  show l: "length (reply_image p) = 11"
    using assms(1) by (auto simp: reply_image_def wire_def wire_head_def has_payload_def reply_def sealed_def)
  show "pack (Some row) (Some p) False = Some (Inr (reply_image p @ drop 11 row))"
    using assms e l by (auto simp: pack_def Let_def has_payload_def reply_def)
qed

lemma reply_fill [simp]: "reply (fill_ack cfg w ts p)" "reply (fill_nack cfg w d p)"
  by (simp_all add: fill_ack_def fill_nack_def reply_def)

definition msgs_ok :: "mmsghdr list \<Rightarrow> bool" where
  "msgs_ok ms \<longleftrightarrow> length ms = MAX_WINDOW_SIZE + 1 \<and> (\<forall>m \<in> set ms. length (msg_row m) = 12)"

lemma put_message_ok:
  assumes "msgs_ok (l_msg st)" "l_len_to_send st < MAX_WINDOW_SIZE + 1" "reply p"
  shows "\<exists>row. length row = 12 \<and> take 11 row = reply_image p \<and>
    put_message st p = Some (st\<lparr>l_to_send := p, l_len_to_send := l_len_to_send st + 1,
      l_msg := (l_msg st)[l_len_to_send st := (l_msg st ! l_len_to_send st)
        \<lparr>msg_name := Some (c_address (l_client st)), msg_row := row\<rparr>]\<rparr>)"
proof -
  let ?k = "l_len_to_send st"
  have k: "?k < length (l_msg st)" using assms(1,2) by (simp add: msgs_ok_def)
  have row: "length (msg_row (l_msg st ! ?k)) = 12" using assms(1) k by (simp add: msgs_ok_def)
  note p = pack_reply [OF assms(3) row]
  show ?thesis
    using k row p by (intro exI [of _ "reply_image p @ drop 11 (msg_row (l_msg st ! ?k))"])
      (simp add: put_message_def Let_def)
qed

lemma msgs_ok_update: "msgs_ok ms \<Longrightarrow> length (msg_row m) = 12 \<Longrightarrow> msgs_ok (ms[k := m])"
  by (auto simp: msgs_ok_def dest!: set_update_subset_insert [THEN subsetD])

section \<open>The decoding loop keeps its invariant\<close>

definition req_ok :: "hd_req_t \<Rightarrow> bool" where
  "req_ok req \<longleftrightarrow> rq_num req \<le> MAX_WINDOW_SIZE \<and> length (rq_lengths req) = MAX_WINDOW_SIZE \<and>
     length (rq_buffer req) = MAX_WINDOW_SIZE \<and> (\<forall>b \<in> set (rq_buffer req). length b = MAX_PACKET_SIZE) \<and>
     (\<forall>i < rq_num req. unat (rq_lengths req ! i) \<le> MAX_PACKET_SIZE)"

definition packet_mem :: "packet_t option \<Rightarrow> bool" where
  "packet_mem d \<longleftrightarrow> (\<exists>p. d = Some p \<and> length (pk_payload p) = MAX_PAYLOAD_SIZE)"

text \<open>The loop before datagram \<open>i\<close>: at most one message for each datagram before it.\<close>

definition local_ok :: "nat \<Rightarrow> hd_local \<Rightarrow> bool" where
  "local_ok i st \<longleftrightarrow> client_ok (l_client st) \<and> packet_mem (l_decoded st) \<and> msgs_ok (l_msg st) \<and>
     l_len_to_send st \<le> i \<and> req_ok (l_req st)"

text \<open>The bytes of datagram \<open>i\<close> of a request.\<close>

definition datagram :: "hd_req_t \<Rightarrow> nat \<Rightarrow> bytes" where
  "datagram req i = take (unat (rq_lengths req ! i)) (rq_buffer req ! i)"

text \<open>Datagram \<open>i\<close> is a data packet with a payload field, not truncated.\<close>

definition carries :: "hd_req_t \<Rightarrow> nat \<Rightarrow> packet_t \<Rightarrow> bool" where
  "carries req i d \<longleftrightarrow> wf_packet d \<and> datagram req i = wire d \<and> pk_type d = DATA \<and> \<not> pk_truncated d"

text \<open>Only datagram \<open>i\<close> of the request may have changed.\<close>

definition same_req :: "nat \<Rightarrow> hd_req_t \<Rightarrow> hd_req_t \<Rightarrow> bool" where
  "same_req i r r' \<longleftrightarrow> rq_num r' = rq_num r \<and> rq_lengths r' = rq_lengths r \<and> rq_client r' = rq_client r \<and>
     rq_stop r' = rq_stop r \<and> length (rq_buffer r') = length (rq_buffer r) \<and>
     (\<forall>j. j \<noteq> i \<longrightarrow> rq_buffer r' ! j = rq_buffer r ! j)"

lemma packets_ok_store:
  assumes "packets_ok b" "length (nodes b) = 32" "wf_packet d"
  shows "packets_ok (store b s d)"
  using assms unfolding packets_ok_def nodes_store [OF assms(2)]
  by (auto simp: wf_packet_def dest!: set_update_subset_insert [THEN subsetD])

lemma client_ok_store:
  assumes "client_ok c" "unat (s - window_low (c_window c)) < MAX_WINDOW_SIZE" "held (c_window c) s = None" "wf_packet d"
  shows "client_ok (c\<lparr>c_window := store (c_window c) s d\<rparr>)"
  using assms win.inv_store [of "c_window c" s] packets_ok_store [of "c_window c" d s]
  by (auto simp: client_ok_def window_inv_nodes)

lemma store_decoded_eq:
  "store_decoded st d = Some (st\<lparr>l_client := (l_client st)\<lparr>c_window := store (c_window (l_client st)) (pk_seqnum d) d\<rparr>,
     l_decoded := nd_value (nodes (c_window (l_client st)) ! unat (hash (pk_seqnum d)))\<rparr>)"
  if "length (nodes (c_window (l_client st))) = 32"
  using that by (simp add: store_decoded_def store_def buf_next_def Let_def)

lemma slot_packet_mem:
  assumes "client_ok c"
  shows "packet_mem (nd_value (nodes (c_window c) ! unat (hash s)))"
proof -
  have len: "length (nodes (c_window c)) = 32" using assms by (simp add: client_ok_def window_inv_nodes)
  then obtain p where p: "nd_value (nodes (c_window c) ! unat (hash s)) = Some p"
    using assms hash_less [of s] unfolding client_ok_def window_inv_def MAX_BUFFER_SIZE_def by blast
  have "nodes (c_window c) ! unat (hash s) \<in> set (nodes (c_window c))" using len by (simp add: nth_mem)
  with p assms show ?thesis by (auto simp: client_ok_def packets_ok_def packet_mem_def)
qed

lemma put_message_local:
  assumes "local_ok i st" "i \<le> MAX_WINDOW_SIZE" "reply p"
  shows "\<exists>st'. put_message st p = Some st' \<and> local_ok (Suc i) st' \<and> l_client st' = l_client st \<and> l_req st' = l_req st"
proof -
  have "msgs_ok (l_msg st)" "l_len_to_send st < MAX_WINDOW_SIZE + 1"
    using assms(1,2) by (simp_all add: local_ok_def)
  from put_message_ok [OF this assms(3)] obtain row where "length row = 12"
    "put_message st p = Some (st\<lparr>l_to_send := p, l_len_to_send := l_len_to_send st + 1,
      l_msg := (l_msg st)[l_len_to_send st := (l_msg st ! l_len_to_send st)
        \<lparr>msg_name := Some (c_address (l_client st)), msg_row := row\<rparr>]\<rparr>)" by blast
  with assms(1) show ?thesis by (simp add: local_ok_def msgs_ok_update)
qed

text \<open>
  The effect of a datagram on the client: none, or its packet is stored in the window; and
  afterwards the window of an active client holds the number of the packet it carries, if that is
  a number of the window.
\<close>

definition datagram_effect :: "hd_req_t \<Rightarrow> nat \<Rightarrow> client_t \<Rightarrow> client_t \<Rightarrow> bool" where
  "datagram_effect req i c c' \<longleftrightarrow> (c' = c \<or> (\<exists>d. carries req i d \<and> c_active c \<and>
       unat (pk_seqnum d - window_low (c_window c)) < MAX_WINDOW_SIZE \<and> held (c_window c) (pk_seqnum d) = None \<and>
       c' = c\<lparr>c_window := store (c_window c) (pk_seqnum d) d\<rparr>)) \<and>
     (\<forall>d. carries req i d \<longrightarrow> c_active c \<longrightarrow> unat (pk_seqnum d - window_low (c_window c)) < MAX_WINDOW_SIZE \<longrightarrow>
       held (c_window c') (pk_seqnum d) \<noteq> None)"

text \<open>A datagram that carries a packet is accepted.\<close>

lemma carries_unpack:
  assumes "carries req i d" "unat (rq_lengths req ! i) \<le> length (rq_buffer req ! i)" "length (pk_payload out) = MAX_PAYLOAD_SIZE"
  shows "unpack (rq_buffer req ! i) (uint (rq_lengths req ! i)) out = Some (None, received out d, clear_tr (rq_buffer req ! i))"
proof -
  let ?n = "unat (rq_lengths req ! i)"
  have d: "wf_packet d" "take ?n (rq_buffer req ! i) = wire d" "pk_type d = DATA"
    using assms(1) by (simp_all add: carries_def datagram_def)
  have "int (length (wire d)) = uint (rq_lengths req ! i)" using assms(2) by (simp flip: d(2))
  moreover have "wire d @ drop ?n (rq_buffer req ! i) = rq_buffer req ! i" by (simp flip: d(2))
  ultimately show ?thesis
    using unpack_wire [OF d(1) _ assms(3), of "drop ?n (rq_buffer req ! i)"] d(3) by simp
qed

lemma received_simps [simp]:
  "pk_type (received out d) = pk_type d" "pk_truncated (received out d) = pk_truncated d"
  "pk_seqnum (received out d) = pk_seqnum d"
  by (simp_all add: received_def)

text \<open>
  \<open>d\<close> is what the decoding of datagram \<open>i\<close> gave: it is the packet that the datagram carries, if it
  carries one.
\<close>

definition decoded_from :: "hd_req_t \<Rightarrow> nat \<Rightarrow> packet_t \<Rightarrow> bool" where
  "decoded_from req i d \<longleftrightarrow> wf_packet d \<and> (pk_type d = DATA \<and> \<not> pk_truncated d \<longrightarrow> carries req i d) \<and>
     (\<forall>x. carries req i x \<longrightarrow> pk_type d = DATA \<and> \<not> pk_truncated d \<and> pk_seqnum d = pk_seqnum x)"

definition storable :: "client_t \<Rightarrow> packet_t \<Rightarrow> bool" where
  "storable c d \<longleftrightarrow> c_active c \<and> pk_type d = DATA \<and> \<not> pk_truncated d \<and>
     in_sequence (window_low (c_window c)) (pk_seqnum d) \<and> is_used (Some (c_window c)) (pk_seqnum d) \<noteq> Inr True"

lemma effect_unchanged:
  assumes "decoded_from req i d" "client_ok c" "\<not> storable c d"
  shows "datagram_effect req i c c"
proof -
  have "held (c_window c) (pk_seqnum x) \<noteq> None"
    if "carries req i x" "c_active c" "unat (pk_seqnum x - window_low (c_window c)) < MAX_WINDOW_SIZE" for x
  proof -
    have "in_sequence (window_low (c_window c)) (pk_seqnum x)" using that(3) by (simp only: in_sequence_iff)
    then have "is_used (Some (c_window c)) (pk_seqnum x) = Inr True"
      using assms(1,3) that(1,2) by (auto simp: storable_def decoded_from_def)
    moreover have "window_inv (c_window c)" using assms(2) by (simp add: client_ok_def)
    ultimately show ?thesis using held_None_iff [OF _ that(3)] by (simp add: is_used_def)
  qed
  then show ?thesis by (simp add: datagram_effect_def)
qed

lemma effect_stored:
  assumes "decoded_from req i d" "client_ok c" "storable c d"
  shows "datagram_effect req i c (c\<lparr>c_window := store (c_window c) (pk_seqnum d) d\<rparr>)"
    "client_ok (c\<lparr>c_window := store (c_window c) (pk_seqnum d) d\<rparr>)"
proof -
  let ?w = "c_window c"
  have w: "window_inv ?w" using assms(2) by (simp add: client_ok_def)
  have d: "carries req i d" "wf_packet d" "c_active c" "in_sequence (window_low ?w) (pk_seqnum d)"
    "is_used (Some ?w) (pk_seqnum d) \<noteq> Inr True" using assms(1,3) by (auto simp: decoded_from_def storable_def)
  have s: "unat (pk_seqnum d - window_low ?w) < MAX_WINDOW_SIZE" using d(4) by (simp only: in_sequence_iff)
  have h: "held ?w (pk_seqnum d) = None" using d(5) held_None_iff [OF w s] by (simp add: is_used_def)
  show "client_ok (c\<lparr>c_window := store ?w (pk_seqnum d) d\<rparr>)" by (rule client_ok_store [OF assms(2) s h d(2)])
  have "held (store ?w (pk_seqnum d) d) (pk_seqnum x) \<noteq> None" if "carries req i x" for x
    using assms(1) that win.held_store [OF w s, of d] by (auto simp: decoded_from_def)
  then show "datagram_effect req i c (c\<lparr>c_window := store ?w (pk_seqnum d) d\<rparr>)"
    using d(1,3) s h unfolding datagram_effect_def by auto
qed

lemma hd_answer_step:
  assumes "local_ok i st" "i \<le> MAX_WINDOW_SIZE" "decoded_from req i d"
  shows "\<exists>st'. hd_answer cfg None d st = Some st' \<and> local_ok (Suc i) st' \<and> l_req st' = l_req st \<and>
    datagram_effect req i (l_client st) (l_client st')"
proof -
  let ?c = "l_client st" and ?w = "c_window (l_client st)" and ?st = "st\<lparr>l_last_timestamp := pk_timestamp d\<rparr>"
  have ok: "local_ok i ?st" "client_ok ?c" using assms(1) by (simp_all add: local_ok_def)
  show ?thesis
  proof (cases "storable ?c d")
    case True
    have "local_ok (Suc i) (?st\<lparr>l_client := ?c\<lparr>c_window := store ?w (pk_seqnum d) d\<rparr>,
        l_decoded := nd_value (nodes ?w ! unat (hash (pk_seqnum d)))\<rparr>)"
      using ok(1) effect_stored(2) [OF assms(3) ok(2) True] slot_packet_mem [OF ok(2)] by (simp add: local_ok_def)
    moreover have "length (nodes ?w) = 32" using ok(2) by (simp add: client_ok_def window_inv_nodes)
    moreover have "hd_answer cfg None d st = store_decoded ?st d"
      using True by (simp add: hd_answer_def storable_def Let_def)
    ultimately show ?thesis
      using effect_stored(1) [OF assms(3) ok(2) True] store_decoded_eq [of ?st d] by simp
  next
    case no: False
    note same = effect_unchanged [OF assms(3) ok(2) no]
    show ?thesis
    proof (cases "c_active ?c \<and> pk_type d \<noteq> DATA")
      case True
      then have "hd_answer cfg None d st = Some ?st" by (simp add: hd_answer_def Let_def)
      moreover have "local_ok (Suc i) ?st" using ok(1) by (simp add: local_ok_def)
      ultimately show ?thesis using same by simp
    next
      case False
      let ?p = "if c_active ?c \<and> pk_truncated d then fill_nack cfg ?w d (l_to_send st)
        else fill_ack cfg ?w (pk_timestamp d) (l_to_send st)"
      have "hd_answer cfg None d st = put_message ?st ?p"
        using no False by (auto simp: hd_answer_def storable_def Let_def)
      moreover have "reply ?p" by simp
      ultimately show ?thesis using put_message_local [OF ok(1) assms(2) \<open>reply ?p\<close>] same by fastforce
    qed
  qed
qed

lemma hd_packet_step:
  assumes ok: "local_ok i st" and i: "i < rq_num (l_req st)"
  shows "\<exists>st'. hd_packet cfg i st = Some st' \<and> local_ok (Suc i) st' \<and> same_req i (l_req st) (l_req st') \<and>
    datagram_effect (l_req st) i (l_client st) (l_client st')"
proof -
  let ?r = "l_req st" and ?c = "l_client st" and ?w = "c_window (l_client st)"
  have i31: "i < 31" "i \<le> MAX_WINDOW_SIZE" and len: "unat (rq_lengths ?r ! i) \<le> 528"
    and row: "length (rq_buffer ?r ! i) = 528" "length (rq_buffer ?r) = 31" "length (rq_lengths ?r) = 31"
    using ok i by (auto simp: local_ok_def req_ok_def)
  obtain out where out: "l_decoded st = Some out" "length (pk_payload out) = MAX_PAYLOAD_SIZE"
    using ok by (auto simp: local_ok_def packet_mem_def)
  have "int (unat (rq_lengths ?r ! i)) \<le> int 528" using len by (simp only: of_nat_le_iff)
  then have fits: "uint (rq_lengths ?r ! i) \<le> int (length (rq_buffer ?r ! i))" using row by simp
  have upd: "local_ok i (st\<lparr>l_decoded := Some d, l_req := ?r\<lparr>rq_buffer := (rq_buffer ?r)[i := b]\<rparr>\<rparr>)"
    "same_req i ?r (?r\<lparr>rq_buffer := (rq_buffer ?r)[i := b]\<rparr>)"
    if "length (pk_payload d) = MAX_PAYLOAD_SIZE" "length b = length (rq_buffer ?r ! i)" for d b
    using ok that row by (auto simp: local_ok_def req_ok_def packet_mem_def same_req_def
        dest!: set_update_subset_insert [THEN subsetD])
  have same: "unpack (rq_buffer ?r ! i) (uint (rq_lengths ?r ! i)) out = Some (None, received out d', clear_tr (rq_buffer ?r ! i))"
    if "carries ?r i d'" for d'
    using carries_unpack [OF that _ out(2)] len row by simp
  from fits out(2) show ?thesis
  proof (cases rule: unpack_cases)
    case (rejected e p b)
    have none: "\<not> carries ?r i d'" for d' using same rejected(1) by auto
    let ?st = "st\<lparr>l_decoded := Some p, l_req := ?r\<lparr>rq_buffer := (rq_buffer ?r)[i := b]\<rparr>\<rparr>"
    from put_message_local [OF upd(1) [OF rejected(2,3)] i31(2) reply_fill(1)] obtain st' where
      "put_message ?st (fill_ack cfg ?w (c_last_timestamp ?c) (l_to_send st)) = Some st'" "local_ok (Suc i) st'"
      "l_client st' = l_client ?st" "l_req st' = l_req ?st" by blast
    with rejected out i31 row upd(2) [OF rejected(2,3)] none show ?thesis
      by (simp add: hd_packet_def hd_answer_def Let_def datagram_effect_def)
  next
    case (accepted d)
    then have d: "length (pk_payload d) = MAX_PAYLOAD_SIZE" by (auto simp: wf_packet_def)
    let ?b = "clear_tr (rq_buffer ?r ! i)"
    let ?st = "st\<lparr>l_decoded := Some d, l_req := ?r\<lparr>rq_buffer := (rq_buffer ?r)[i := ?b]\<rparr>\<rparr>"
    note u = upd [OF d, of ?b, simplified]
    have "pk_type d = DATA \<and> \<not> pk_truncated d \<and> pk_seqnum d = pk_seqnum x" if "carries ?r i x" for x
      using same [OF that] accepted(1) that by (auto simp: carries_def)
    moreover have "carries ?r i d" if "pk_type d = DATA" "\<not> pk_truncated d"
      using accepted(2,3) that len row by (simp add: carries_def datagram_def)
    ultimately have "decoded_from ?r i d" using accepted(2) by (simp add: decoded_from_def)
    moreover have "hd_packet cfg i st = hd_answer cfg None d ?st"
      using accepted(1) out i31 row by (simp add: hd_packet_def)
    ultimately show ?thesis using hd_answer_step [OF u(1) i31(2), of ?r d cfg] u(2) by auto
  qed
qed

lemma datagram_effect_same_req:
  assumes "same_req i r r'" "j \<noteq> i" "datagram_effect r' j c c'"
  shows "datagram_effect r j c c'"
  using assms by (auto simp: datagram_effect_def carries_def datagram_def same_req_def)

text \<open>
  The loop from datagram \<open>i\<close> on. A property of the number of datagrams handled and of the client
  that every datagram preserves holds at the end.
\<close>

lemma hd_receive_steps:
  assumes "local_ok i st" "i \<le> rq_num (l_req st)" "Q i (l_client st)"
    "\<And>j c c'. i \<le> j \<Longrightarrow> j < rq_num (l_req st) \<Longrightarrow> Q j c \<Longrightarrow> datagram_effect (l_req st) j c c' \<Longrightarrow> Q (Suc j) c'"
  shows "\<exists>st'. hd_receive cfg [i..<rq_num (l_req st)] st = Some st' \<and> local_ok (rq_num (l_req st)) st' \<and>
    rq_client (l_req st') = rq_client (l_req st) \<and> rq_stop (l_req st') = rq_stop (l_req st) \<and>
    Q (rq_num (l_req st)) (l_client st')"
  using assms
proof (induction "rq_num (l_req st) - i" arbitrary: i st)
  case 0
  then show ?case by auto
next
  case (Suc k)
  then have i: "i < rq_num (l_req st)" by simp
  from hd_packet_step [OF Suc.prems(1) i, of cfg] obtain st1 where st1: "hd_packet cfg i st = Some st1"
    "local_ok (Suc i) st1" "same_req i (l_req st) (l_req st1)"
    "datagram_effect (l_req st) i (l_client st) (l_client st1)" by blast
  have num: "rq_num (l_req st1) = rq_num (l_req st)" "rq_client (l_req st1) = rq_client (l_req st)"
    "rq_stop (l_req st1) = rq_stop (l_req st)" using st1(3) by (simp_all add: same_req_def)
  have Q1: "Q (Suc i) (l_client st1)" using Suc.prems(3,4) st1(4) i by blast
  have "\<exists>st'. hd_receive cfg [Suc i..<rq_num (l_req st1)] st1 = Some st' \<and> local_ok (rq_num (l_req st1)) st' \<and>
      rq_client (l_req st') = rq_client (l_req st1) \<and> rq_stop (l_req st') = rq_stop (l_req st1) \<and>
      Q (rq_num (l_req st1)) (l_client st')"
  proof (rule Suc.hyps(1) [OF _ st1(2) _ Q1])
    show "k = rq_num (l_req st1) - Suc i" using Suc.hyps(2) num by simp
    show "Suc i \<le> rq_num (l_req st1)" using i num by simp
    fix j c c' assume j: "Suc i \<le> j" "j < rq_num (l_req st1)" "Q j c" "datagram_effect (l_req st1) j c c'"
    then have "datagram_effect (l_req st) j c c'"
      using datagram_effect_same_req [OF st1(3)] by simp
    with Suc.prems(4) [of j c c'] j num show "Q (Suc j) c'" by simp
  qed
  with st1(1) num i show ?case by (simp add: upt_conv_Cons)
qed

section \<open>The draining loop takes the run at the low end\<close>

definition chunk :: "packet_t \<Rightarrow> bytes" where
  "chunk p = take (unat (pk_length p)) (pk_payload p)"

text \<open>The packet held at distance \<open>k\<close> from the low end.\<close>

definition run_packet :: "packet_t buf_t \<Rightarrow> nat \<Rightarrow> packet_t" where
  "run_packet w k = the (held w (window_low w + word_of_nat k))"

lemma release_Suc:
  "release b s (Suc n) = (case get (Some (release b s n)) (s + word_of_nat n) False of
     Inr (Some (_, b)) \<Rightarrow> b | _ \<Rightarrow> release b s n)"
proof (induction n arbitrary: b s)
  case 0
  then show ?case by (simp split: sum.splits option.splits)
next
  case (Suc n)
  have "s + 1 + word_of_nat n = s + word_of_nat (Suc n)" by (simp add: ac_simps)
  then show ?case
    using Suc.IH [of "case get (Some b) s False of Inr (Some (_, b)) \<Rightarrow> b | _ \<Rightarrow> b" "s + 1"]
    by (simp only: release.simps)
qed

lemma low_byte_add: "low_byte (unat low + n) = low + word_of_nat n"
  by (simp add: low_byte_def)

lemma get_release:
  assumes "window_inv w" "n < 31"
  shows "get (Some (release w (window_low w) n)) (window_low w + word_of_nat n) False =
    (if held w (window_low w + word_of_nat n) = None then Inr None
     else Inr (Some (unat (hash (window_low w + word_of_nat n)), release w (window_low w) (Suc n))))"
proof -
  let ?s = "window_low w + word_of_nat n" and ?b = "release w (window_low w) n"
  have n: "unat (?s - window_low w) < MAX_WINDOW_SIZE"
    using assms(2) by (simp add: unat_of_nat take_bit_nat_eq_self)
  have "unat (hash (window_low w + word_of_nat k)) \<noteq> unat (hash ?s)" if "k < n" for k
    using hash_offset_inj [of "window_low w" k n] that assms(2) by (auto simp: word_unat_eq_iff)
  then have "nd_used (nodes ?b ! unat (hash ?s)) \<longleftrightarrow> nd_used (nodes w ! unat (hash ?s))"
    using window_inv_nodes [OF assms(1)] by (simp add: nth_release)
  also have "\<dots> \<longleftrightarrow> held w ?s \<noteq> None" using held_None_iff [OF assms(1) n] by simp
  finally have u: "nd_used (nodes ?b ! unat (hash ?s)) \<longleftrightarrow> held w ?s \<noteq> None" .
  then show ?thesis unfolding release_Suc by (simp add: get_def Let_def)
qed

definition run_bytes :: "packet_t buf_t \<Rightarrow> nat \<Rightarrow> bytes" where
  "run_bytes w n = concat (map (\<lambda>k. chunk (run_packet w k)) [0..<n])"

lemma run_bytes_Suc: "run_bytes w (Suc n) = run_bytes w n @ chunk (run_packet w n)"
  by (simp add: run_bytes_def)

definition drain_inv :: "packet_t buf_t \<Rightarrow> nat \<Rightarrow> nat \<Rightarrow> hd_draining \<Rightarrow> bool" where
  "drain_inv w cap n ds \<longleftrightarrow> d_window ds = release w (window_low w) n \<and> d_cnt ds = n \<and>
     d_i ds = unat (window_low w) + n \<and> (\<forall>k < n. held w (window_low w + word_of_nat k) \<noteq> None) \<and>
     length (d_file_buffer ds) = cap \<and> d_offset ds = length (run_bytes w n) \<and>
     take (d_offset ds) (d_file_buffer ds) = run_bytes w n"

lemma held_packet_ok:
  assumes "packets_ok w" "length (nodes w) = 32" "held w s = Some p"
  shows "length (pk_payload p) = MAX_PAYLOAD_SIZE" "unat (pk_length p) \<le> MAX_PAYLOAD_SIZE"
proof -
  let ?n = "nodes w ! unat (hash s)"
  have "?n \<in> set (nodes w)" using assms(2) by (simp add: nth_mem)
  moreover have "nd_value ?n = Some p" "nd_used ?n" using assms(3) by (auto simp: held_def split: if_splits)
  ultimately show "length (pk_payload p) = MAX_PAYLOAD_SIZE" "unat (pk_length p) \<le> MAX_PAYLOAD_SIZE"
    using assms(1) by (auto simp: packets_ok_def)
qed

lemma length_chunk_le:
  assumes "packets_ok w" "length (nodes w) = 32" "\<forall>k < n. held w (window_low w + word_of_nat k) \<noteq> None"
  shows "length (run_bytes w n) \<le> n * MAX_PAYLOAD_SIZE"
  using assms(3)
proof (induction n)
  case (Suc n)
  from Suc.prems obtain p where p: "held w (window_low w + word_of_nat n) = Some p" by blast
  have "length (chunk (run_packet w n)) \<le> MAX_PAYLOAD_SIZE"
    using held_packet_ok [OF assms(1,2) p] by (simp add: run_packet_def p chunk_def)
  with Suc show ?case by (simp add: run_bytes_Suc)
qed (simp add: run_bytes_def)

lemma drain_node_eq:
  assumes "length (pk_payload p) = MAX_PAYLOAD_SIZE" "unat (pk_length p) \<le> MAX_PAYLOAD_SIZE"
    "d_offset ds + unat (pk_length p) \<le> length (d_file_buffer ds)"
  shows "drain_node ds p = Some (ds\<lparr>
    d_file_buffer := take (d_offset ds) (d_file_buffer ds) @ chunk p @ drop (d_offset ds + unat (pk_length p)) (d_file_buffer ds),
    d_offset := d_offset ds + unat (pk_length p), d_remove := (pk_length p = 0),
    d_last_timestamp := pk_timestamp p, d_cnt := d_cnt ds + 1, d_i := d_i ds + 1\<rparr>)"
proof (cases "pk_length p = 0")
  case True
  then show ?thesis by (cases ds) (simp add: drain_node_def chunk_def)
next
  case False
  then have "pk_length p > 0" by (simp add: word_neq_0_conv)
  with assms show ?thesis
    by (simp add: drain_node_def chunk_def memcpy_from_def Let_def add.commute)
qed

text \<open>One turn of the loop when the window holds the next packet.\<close>

lemma drain_turn:
  assumes "window_inv w" "packets_ok w" "drain_inv w cap n ds" "n < 31" "31 * MAX_PAYLOAD_SIZE \<le> cap"
    "held w (window_low w + word_of_nat n) = Some p"
  shows "\<exists>ds'. drain_node (ds\<lparr>d_window := release w (window_low w) (Suc n)\<rparr>) p = Some ds' \<and>
    drain_inv w cap (Suc n) ds' \<and> d_remove ds' = (pk_length p = 0) \<and> d_last_timestamp ds' = pk_timestamp p \<and>
    nd_value (nodes (release w (window_low w) (Suc n)) ! unat (hash (window_low w + word_of_nat n))) = Some p"
proof -
  let ?s = "window_low w + word_of_nat n"
  have len: "length (nodes w) = 32" by (rule window_inv_nodes [OF assms(1)])
  note p = held_packet_ok [OF assms(2) len assms(6)]
  have off: "d_offset ds \<le> n * MAX_PAYLOAD_SIZE"
    using length_chunk_le [OF assms(2) len, of n] assms(3) by (simp add: drain_inv_def)
  have fits: "d_offset ds + unat (pk_length p) \<le> length (d_file_buffer ds)"
    using off p(2) assms(3-5) by (simp add: drain_inv_def)
  have v: "nd_value (nodes w ! unat (hash ?s)) = Some p"
    using assms(6) by (simp add: held_def split: if_splits)
  have c: "chunk (run_packet w n) = chunk p" "length (chunk p) = unat (pk_length p)"
    using assms(6) p by (simp_all add: run_packet_def chunk_def)
  show ?thesis
    using assms(3,6) c fits v len drain_node_eq [of p "ds\<lparr>d_window := release w (window_low w) (Suc n)\<rparr>", OF p]
    by (auto simp: drain_inv_def run_bytes_Suc nth_release less_Suc_eq simp del: release.simps)
qed

text \<open>
  Where the loop stops: after 31 packets, at the first number the window does not hold, or
  after an empty packet; and not before.
\<close>

definition run_end :: "packet_t buf_t \<Rightarrow> nat \<Rightarrow> bool" where
  "run_end w m \<longleftrightarrow> m \<le> MAX_WINDOW_SIZE \<and> (\<forall>k. Suc k < m \<longrightarrow> pk_length (run_packet w k) \<noteq> 0) \<and>
     (m = MAX_WINDOW_SIZE \<or> held w (window_low w + word_of_nat m) = None \<or>
      0 < m \<and> pk_length (run_packet w (m - 1)) = 0)"

lemma hd_drain_from:
  assumes "window_inv w" "packets_ok w" "31 * MAX_PAYLOAD_SIZE \<le> cap"
    and "drain_inv w cap n ds" "n < 31" "\<forall>k < n. pk_length (run_packet w k) \<noteq> 0"
  shows "\<exists>m ds'. hd_drain ds = Some ds' \<and> drain_inv w cap m ds' \<and> n \<le> m \<and> run_end w m \<and> (m = n \<longrightarrow> ds' = ds) \<and>
    (n < m \<longrightarrow> d_remove ds' = (pk_length (run_packet w (m - 1)) = 0) \<and>
      d_last_timestamp ds' = pk_timestamp (run_packet w (m - 1)))"
  using assms(4-6)
proof (induction "31 - n" arbitrary: n ds)
  case 0
  then show ?case by simp
next
  case (Suc x)
  let ?s = "window_low w + word_of_nat n"
  have i: "low_byte (d_i ds) = ?s" and dw: "d_window ds = release w (window_low w) n"
    using Suc.prems(1) by (simp_all add: drain_inv_def low_byte_add)
  note g = get_release [OF assms(1) Suc.prems(2)]
  show ?case
  proof (cases "held w ?s")
    case None
    then have "hd_drain ds = Some ds" using g by (subst hd_drain.simps) (simp add: i dw)
    moreover have "run_end w n" using None Suc.prems(2,3) by (simp add: run_end_def)
    ultimately show ?thesis using Suc.prems(1) by (intro exI [of _ n] exI [of _ ds]) simp
  next
    case (Some p)
    from drain_turn [OF assms(1,2) Suc.prems(1,2) assms(3) Some] obtain ds1 where ds1:
      "drain_node (ds\<lparr>d_window := release w (window_low w) (Suc n)\<rparr>) p = Some ds1" "drain_inv w cap (Suc n) ds1"
      "d_remove ds1 = (pk_length p = 0)" "d_last_timestamp ds1 = pk_timestamp p"
      "nd_value (nodes (release w (window_low w) (Suc n)) ! unat (hash ?s)) = Some p" by blast
    have rp: "run_packet w n = p" using Some by (simp add: run_packet_def)
    have i1: "low_byte (d_i ds1) = window_low w + word_of_nat (Suc n)" "d_cnt ds1 = Suc n"
      "window_low (d_window ds1) = window_low w"
      using ds1(2) low_byte_add [of "window_low w" "Suc n"] by (simp_all add: drain_inv_def del: release.simps)
    have inw: "in_sequence (window_low w) (window_low w + word_of_nat (Suc n)) \<longleftrightarrow> Suc n < 31"
      using Suc.prems(2) by (simp only: in_sequence_iff) (simp add: unat_word_ariths unat_of_nat take_bit_nat_eq_self)
    have eq: "hd_drain ds = (if Suc n < 31 \<and> pk_length p \<noteq> 0 then hd_drain ds1 else Some ds1)"
      using g Some ds1(1,3,5) i1 inw
      by (subst hd_drain.simps) (simp add: i dw del: release.simps)
    show ?thesis
    proof (cases "Suc n < 31 \<and> pk_length p \<noteq> 0")
      case False
      then have "run_end w (Suc n)"
        using Suc.prems(2,3) rp by (auto simp: run_end_def)
      with False eq ds1 rp show ?thesis by (intro exI [of _ "Suc n"] exI [of _ ds1]) auto
    next
      case True
      have "\<exists>m ds'. hd_drain ds1 = Some ds' \<and> drain_inv w cap m ds' \<and> Suc n \<le> m \<and> run_end w m \<and> (m = Suc n \<longrightarrow> ds' = ds1) \<and>
        (Suc n < m \<longrightarrow> d_remove ds' = (pk_length (run_packet w (m - 1)) = 0) \<and>
          d_last_timestamp ds' = pk_timestamp (run_packet w (m - 1)))"
        using Suc.hyps Suc.prems(3) True ds1(2) rp by (intro Suc.hyps(1)) (auto simp: less_Suc_eq)
      then obtain m ds' where m: "hd_drain ds1 = Some ds'" "drain_inv w cap m ds'" "Suc n \<le> m" "run_end w m"
        "m = Suc n \<longrightarrow> ds' = ds1" "Suc n < m \<longrightarrow> d_remove ds' = (pk_length (run_packet w (m - 1)) = 0) \<and>
          d_last_timestamp ds' = pk_timestamp (run_packet w (m - 1))" by blast
      then have "d_remove ds' = (pk_length (run_packet w (m - 1)) = 0)"
        "d_last_timestamp ds' = pk_timestamp (run_packet w (m - 1))"
        using ds1(3,4) rp by (cases "m = Suc n", simp_all)+
      with True eq m show ?thesis by (intro exI [of _ m] exI [of _ ds']) auto
    qed
  qed
qed

text \<open>The whole loop, whatever the uninitialised flag holds.\<close>

lemma hd_drain_whole:
  assumes "client_ok (l_client st)" "31 * MAX_PAYLOAD_SIZE \<le> length fb"
  defines "w \<equiv> c_window (l_client st)"
  obtains m ds where "hd_drain (hd_begin_drain remove fb st) = Some ds" "drain_inv w (length fb) m ds" "run_end w m"
    "0 < m \<Longrightarrow> d_remove ds = (pk_length (run_packet w (m - 1)) = 0)"
    "0 < m \<Longrightarrow> d_last_timestamp ds = pk_timestamp (run_packet w (m - 1))"
proof -
  have "window_inv w" "packets_ok w" using assms by (auto simp: client_ok_def)
  moreover have "drain_inv w (length fb) 0 (hd_begin_drain remove fb st)"
    by (simp add: drain_inv_def hd_begin_drain_def w_def run_bytes_def Let_def)
  ultimately have "\<exists>m ds'. hd_drain (hd_begin_drain remove fb st) = Some ds' \<and> drain_inv w (length fb) m ds' \<and> 0 \<le> m \<and>
      run_end w m \<and> (m = 0 \<longrightarrow> ds' = hd_begin_drain remove fb st) \<and>
      (0 < m \<longrightarrow> d_remove ds' = (pk_length (run_packet w (m - 1)) = 0) \<and>
        d_last_timestamp ds' = pk_timestamp (run_packet w (m - 1)))"
    using assms(2) by (intro hd_drain_from) simp_all
  then show thesis using that by blast
qed

section \<open>The pass as a whole\<close>

lemma packets_ok_drain:
  assumes "packets_ok w" "length (nodes w) = 32"
  shows "packets_ok (drain w n)"
  unfolding packets_ok_def
proof (intro ballI allI impI)
  fix x p assume "x \<in> set (nodes (drain w n))" "nd_value x = Some p"
  then obtain j where j: "j < 32" "x = nodes (drain w n) ! j" using assms(2) by (auto simp: in_set_conv_nth)
  then have x: "x = (nodes w ! j)\<lparr>nd_used := j \<in> used_slots (drain w n)\<rparr>" using assms(2) by (simp add: nth_drain)
  have "nd_used (nodes w ! j)" if "nd_used x"
    using that x assms(2) by (simp add: used_slots_drain) (simp add: used_slots_def)
  moreover have "nodes w ! j \<in> set (nodes w)" "nd_value (nodes w ! j) = Some p"
    using j(1) assms(2) x \<open>nd_value x = Some p\<close> by auto
  ultimately show "length (pk_payload p) = MAX_PAYLOAD_SIZE \<and> (nd_used x \<longrightarrow> unat (pk_length p) \<le> MAX_PAYLOAD_SIZE)"
    using assms(1) by (auto simp: packets_ok_def)
qed

text \<open>The client after the run of \<open>m\<close> packets at the low end is taken.\<close>

definition finished :: "hd_env \<Rightarrow> nat \<Rightarrow> client_t \<Rightarrow> client_t" where
  "finished env m c = (if m = 0 then c else
     (let w = c_window c; last = run_packet w (m - 1); data = run_bytes w m;
          c' = c\<lparr>c_out_file := fwrite (length data) data (c_out_file c),
                 c_transferred := c_transferred c + word_of_nat (length data),
                 c_window := drain w m, c_last_timestamp := pk_timestamp last\<rparr>
      in if pk_length last = 0 \<and> c_active c
         then c'\<lparr>c_active := False, c_out_file := (c_out_file c')\<lparr>f_open := False\<rparr>, c_end_time := Some (v_now env)\<rparr>
         else c'))"

text \<open>The system calls succeed: \<^verbatim>\<open>fwrite\<close> writes everything, the end time is allocated.\<close>

definition calls_succeed :: "hd_env \<Rightarrow> bool" where
  "calls_succeed env \<longleftrightarrow> (\<forall>n. n \<le> v_written env n) \<and> v_end_mem env"

lemma hd_finish_eq:
  assumes "drain_inv w cap m ds" "w = c_window (l_client st)" "calls_succeed env" "local_ok i st" "i \<le> MAX_WINDOW_SIZE"
    "0 < m \<Longrightarrow> d_remove ds = (pk_length (run_packet w (m - 1)) = 0)"
    "0 < m \<Longrightarrow> d_last_timestamp ds = pk_timestamp (run_packet w (m - 1))"
  shows "\<exists>st'. hd_finish env cfg ds st = Some (Inr st') \<and> l_client st' = (finished env m (l_client st))\<lparr>c_locked := False\<rparr> \<and>
    l_req st' = l_req st \<and> packet_mem (l_decoded st') \<and> msgs_ok (l_msg st') \<and>
    l_len_to_send st' \<le> MAX_WINDOW_SIZE + 1"
proof (cases "m = 0")
  case True
  then show ?thesis
    using assms(1,2,4,5) by (simp add: hd_finish_def drain_inv_def finished_def local_ok_def Let_def)
next
  case False
  let ?c = "(l_client st)\<lparr>c_window := d_window ds\<rparr>"
  have ds: "d_cnt ds = m" "d_window ds = release w (window_low w) m" "d_offset ds = length (run_bytes w m)"
    "take (d_offset ds) (d_file_buffer ds) = run_bytes w m" using assms(1) unfolding drain_inv_def by blast+
  have wr: "min (v_written env k) k = k" for k using assms(3) by (simp add: calls_succeed_def min_def) (metis le_antisym)
  have rem: "d_remove ds = (pk_length (run_packet w (m - 1)) = 0)" "d_last_timestamp ds = pk_timestamp (run_packet w (m - 1))"
    using assms(6,7) False by simp_all
  have dr: "slide (release w (window_low w) m) m = drain w m" by (simp add: drain_def)
  have end_ok: "v_end_mem env" using assms(3) by (simp add: calls_succeed_def)
  define c1 where "c1 = finished env m (l_client st)"
  have eq: "hd_finish env cfg ds st = do {
      st \<leftarrow> put_message (st\<lparr>l_client := c1\<rparr>) (fill_ack cfg (drain w m) (d_last_timestamp ds) (l_to_send st));
      Some (Inr (st\<lparr>l_client := (l_client st)\<lparr>c_locked := False\<rparr>\<rparr>)) }"
    using False ds wr rem dr end_ok assms(2)
    by (simp add: hd_finish_def write_run_def c1_def finished_def end_transfer_def Let_def)
  have "msgs_ok (l_msg st)" "l_len_to_send st < MAX_WINDOW_SIZE + 1"
    using assms(4,5) by (auto simp: local_ok_def)
  with put_message_ok [of "st\<lparr>l_client := c1\<rparr>" "fill_ack cfg (drain w m) (d_last_timestamp ds) (l_to_send st)"]
  obtain row where "length row = 12"
    "put_message (st\<lparr>l_client := c1\<rparr>) (fill_ack cfg (drain w m) (d_last_timestamp ds) (l_to_send st)) =
      Some (st\<lparr>l_client := c1, l_to_send := fill_ack cfg (drain w m) (d_last_timestamp ds) (l_to_send st),
        l_len_to_send := l_len_to_send st + 1,
        l_msg := (l_msg st)[l_len_to_send st := (l_msg st ! l_len_to_send st)
          \<lparr>msg_name := Some (c_address c1), msg_row := row\<rparr>]\<rparr>)" by auto
  then show ?thesis
    unfolding eq using assms(4,5) by (simp add: c1_def local_ok_def msgs_ok_update)
qed

lemma client_ok_finished:
  assumes "client_ok c" "\<forall>k < m. held (c_window c) (window_low (c_window c) + word_of_nat k) \<noteq> None"
  shows "client_ok (finished env m c)"
proof -
  have "window_inv (drain (c_window c) m)" "packets_ok (drain (c_window c) m)"
    using assms win.inv_drain [of "c_window c" m] packets_ok_drain [of "c_window c" m]
    by (simp_all add: client_ok_def window_inv_nodes)
  then show ?thesis using assms(1) by (simp add: finished_def client_ok_def Let_def)
qed

text \<open>
  The pass on a request: it neither faults nor fails, the client is unlocked again, and some
  run at the low end of the window after decoding is taken.
\<close>

lemma hd_handle_ok:
  assumes "client_ok c" "req_ok req" "packet_mem (s_decoded s)" "msgs_ok (s_msg s)"
    "31 * MAX_PAYLOAD_SIZE \<le> length (s_file_buffer s)" "calls_succeed env"
    "Q 0 (c\<lparr>c_locked := True\<rparr>)"
    "\<forall>j c c'. j < rq_num req \<longrightarrow> Q j c \<longrightarrow> datagram_effect req j c c' \<longrightarrow> Q (Suc j) c'"
  obtains st ds st' m where "hd_handle env cfg remove to_send req c s = Some (st, ds, Inr st')"
    "client_ok (l_client st)" "Q (rq_num req) (l_client st)" "run_end (c_window (l_client st)) m"
    "\<forall>k < m. held (c_window (l_client st)) (window_low (c_window (l_client st)) + word_of_nat k) \<noteq> None"
    "l_client st' = (finished env m (l_client st))\<lparr>c_locked := False\<rparr>"
    "client_ok (l_client st')" "req_ok (l_req st')" "rq_client (l_req st') = rq_client req \<and> rq_stop (l_req st') = rq_stop req"
    "packet_mem (l_decoded st')" "msgs_ok (l_msg st')" "l_len_to_send st' \<le> MAX_WINDOW_SIZE + 1"
    "length (d_file_buffer ds) = length (s_file_buffer s)"
proof -
  let ?b = "hd_begin to_send req c s"
  have "local_ok 0 ?b" "0 \<le> rq_num (l_req ?b)" "Q 0 (l_client ?b)"
    using assms(1-4,7) by (simp_all add: local_ok_def hd_begin_def client_ok_def)
  moreover have "l_req ?b = req" by (simp add: hd_begin_def)
  ultimately have "\<exists>st'. hd_receive cfg [0..<rq_num req] ?b = Some st' \<and> local_ok (rq_num req) st' \<and>
      rq_client (l_req st') = rq_client req \<and> rq_stop (l_req st') = rq_stop req \<and> Q (rq_num req) (l_client st')"
    using hd_receive_steps [of 0 ?b Q cfg] assms(8) by metis
  then obtain st where st: "hd_receive cfg [0..<rq_num req] ?b = Some st" "local_ok (rq_num req) st"
    "rq_client (l_req st) = rq_client req" "rq_stop (l_req st) = rq_stop req" "Q (rq_num req) (l_client st)" by blast
  have cok: "client_ok (l_client st)" using st(2) by (simp add: local_ok_def)
  let ?w = "c_window (l_client st)"
  obtain m ds where ds: "hd_drain (hd_begin_drain remove (s_file_buffer s) st) = Some ds"
    "drain_inv ?w (length (s_file_buffer s)) m ds" "run_end ?w m"
    "0 < m \<Longrightarrow> d_remove ds = (pk_length (run_packet ?w (m - 1)) = 0)"
    "0 < m \<Longrightarrow> d_last_timestamp ds = pk_timestamp (run_packet ?w (m - 1))"
    using hd_drain_whole [OF cok assms(5)] by blast
  have run: "\<forall>k < m. held ?w (window_low ?w + word_of_nat k) \<noteq> None"
    "length (d_file_buffer ds) = length (s_file_buffer s)"
    using ds(2) unfolding drain_inv_def by blast+
  have "rq_num req \<le> MAX_WINDOW_SIZE" using assms(2) by (simp add: req_ok_def)
  from hd_finish_eq [OF ds(2) refl assms(6) st(2) this ds(4,5), of cfg] obtain st' where st':
    "hd_finish env cfg ds st = Some (Inr st')" "l_client st' = (finished env m (l_client st))\<lparr>c_locked := False\<rparr>"
    "l_req st' = l_req st" "packet_mem (l_decoded st')" "msgs_ok (l_msg st')" "l_len_to_send st' \<le> MAX_WINDOW_SIZE + 1"
    by blast
  have fok: "client_ok (l_client st')"
    using client_ok_finished [OF cok run(1), of env] st'(2) by (simp add: client_ok_def)
  show thesis
  proof (rule that [of st ds st' m])
    show "hd_handle env cfg remove to_send req c s = Some (st, ds, Inr st')"
      using st(1) ds(1) st'(1) by (simp add: hd_handle_def)
  qed (use cok st ds(3) run st' fok in \<open>simp_all add: local_ok_def\<close>)
qed

section \<open>Delivery in order\<close>

text \<open>
  A client in step with a sender: the sender cuts its data into numbered chunks, the file holds
  the first \<open>n\<close> of them, the window starts at number \<open>n\<close> and holds, at each distance, the chunk of
  that number.
\<close>

definition delivering :: "(nat \<Rightarrow> bytes) \<Rightarrow> nat \<Rightarrow> client_t \<Rightarrow> bool" where
  "delivering src n c \<longleftrightarrow> client_ok c \<and> window_low (c_window c) = word_of_nat n \<and>
     (\<forall>s p. held (c_window c) s = Some p \<longrightarrow> chunk p = src (n + unat (s - window_low (c_window c)))) \<and>
     f_data (c_out_file c) = concat (map src [0..<n]) \<and> f_pos (c_out_file c) = length (f_data (c_out_file c)) \<and>
     c_transferred c = word_of_nat (length (f_data (c_out_file c)))"

text \<open>The request carries chunks of the sender: each data packet of the window has the chunk of its number.\<close>

definition honest :: "(nat \<Rightarrow> bytes) \<Rightarrow> nat \<Rightarrow> hd_req_t \<Rightarrow> bool" where
  "honest src n req \<longleftrightarrow> (\<forall>i < rq_num req. \<forall>d. carries req i d \<longrightarrow>
     unat (pk_seqnum d - word_of_nat n) < MAX_WINDOW_SIZE \<longrightarrow>
     chunk d = src (n + unat (pk_seqnum d - word_of_nat n)))"

lemma delivering_in_step: "delivering src n c \<Longrightarrow> win.in_step src chunk n (c_window c)"
  by (simp add: delivering_def win.in_step_def client_ok_def)

lemma delivering_effect:
  assumes "delivering src n c" "honest src n req" "j < rq_num req" "datagram_effect req j c c'"
  shows "delivering src n c'"
proof (cases "c' = c")
  case False
  with assms(4) obtain d where d: "carries req j d" "unat (pk_seqnum d - window_low (c_window c)) < MAX_WINDOW_SIZE"
    "held (c_window c) (pk_seqnum d) = None" "c' = c\<lparr>c_window := store (c_window c) (pk_seqnum d) d\<rparr>"
    by (auto simp: datagram_effect_def)
  have low: "window_low (c_window c) = word_of_nat n" using assms(1) by (simp add: delivering_def)
  then have "chunk d = src (n + unat (pk_seqnum d - window_low (c_window c)))"
    using assms(2,3) d(1,2) by (simp add: honest_def)
  from win.in_step_store [OF delivering_in_step [OF assms(1)] d(2,3) this]
  have "win.in_step src chunk n (c_window c')" by (simp add: d(4))
  moreover have "client_ok c'"
    using client_ok_store [of c "pk_seqnum d" d] assms(1) d by (simp add: delivering_def carries_def)
  ultimately show ?thesis using assms(1) d(4) by (simp add: delivering_def win.in_step_def)
qed (use assms in simp)

lemma delivering_finished:
  assumes "delivering src n c" "\<forall>k < m. held (c_window c) (window_low (c_window c) + word_of_nat k) \<noteq> None"
  shows "delivering src (n + m) (finished env m c)"
proof (cases "m = 0")
  case False
  note stp = win.in_step_drain [OF delivering_in_step [OF assms(1)] assms(2)]
  have ok: "client_ok (finished env m c)"
    using client_ok_finished [of c m env] assms by (simp add: delivering_def)
  have rb: "run_bytes (c_window c) m = concat (map src [n..<n + m])"
    using stp(2) by (simp add: run_bytes_def run_packet_def)
  have f: "f_data (c_out_file c) = concat (map src [0..<n])" "f_pos (c_out_file c) = length (f_data (c_out_file c))"
    "c_transferred c = word_of_nat (length (f_data (c_out_file c)))" using assms(1) by (simp_all add: delivering_def)
  have "map src [0..<n + m] = map src [0..<n] @ map src [n..<n + m]"
    by (metis le_add1 map_append upt_add_eq_append zero_le)
  then have data: "concat (map src [0..<n + m]) = f_data (c_out_file c) @ run_bytes (c_window c) m"
    by (simp add: f(1) rb)
  have "c_window (finished env m c) = drain (c_window c) m" using False by (simp add: finished_def Let_def)
  moreover have "f_data (c_out_file (finished env m c)) = f_data (c_out_file c) @ run_bytes (c_window c) m"
    "f_pos (c_out_file (finished env m c)) = length (f_data (c_out_file c) @ run_bytes (c_window c) m)"
    "c_transferred (finished env m c) = word_of_nat (length (f_data (c_out_file c) @ run_bytes (c_window c) m))"
    using False f(2,3) by (simp_all add: finished_def fwrite_def Let_def)
  ultimately show ?thesis
    using stp(1) ok data by (simp add: delivering_def win.in_step_def)
qed (use assms in \<open>simp add: finished_def\<close>)

section \<open>The handler's state\<close>

text \<open>
  A well-formed state: the buffers have their sizes, the decoded packet is there, every client
  is well formed, and every request in the input stream is and names a client.
\<close>

definition buffers_ok :: "hd_state \<Rightarrow> bool" where
  "buffers_ok s \<longleftrightarrow> packet_mem (s_decoded s) \<and> msgs_ok (s_msg s) \<and>
     MAX_WINDOW_SIZE * MAX_PAYLOAD_SIZE \<le> length (s_file_buffer s)"

definition request_ok :: "(nat \<rightharpoonup> client_t) \<Rightarrow> hd_req_t option \<Rightarrow> bool" where
  "request_ok clients node = (case node of None \<Rightarrow> True
     | Some req \<Rightarrow> req_ok req \<and> (\<not> rq_stop req \<longrightarrow> (\<exists>key c. rq_client req = Some key \<and> clients key = Some c)))"

definition state_ok :: "hd_state \<Rightarrow> bool" where
  "state_ok s \<longleftrightarrow> buffers_ok s \<and> (\<forall>key c. s_clients s key = Some c \<longrightarrow> client_ok c) \<and>
     (\<forall>node \<in> set (queue_of (s_rx s)). request_ok (s_clients s) node)"

lemma stream_pop_queue:
  assumes "stream_pop q wait = Some (r, q')"
  shows "case r of None \<Rightarrow> queue_of q = [] \<and> queue_of q' = [] | Some n \<Rightarrow> queue_of q = n # queue_of q'"
proof -
  have p: "pop_locked q = (r, q')" using assms by (simp add: stream_pop_def split: if_splits)
  show ?thesis
  proof (cases "queue_of q")
    case Nil
    then show ?thesis using p sq.pop_empty [of q] by (simp add: pop_locked_empty) 
  next
    case (Cons n ns)
    then show ?thesis using p sq.pop_nonempty [OF Cons] by simp
  qed
qed

text \<open>The pass on a request that is there and whose client is free.\<close>

lemma hd_run_once_request:
  assumes "stream_pop (s_rx s) wait = Some (Some (Some req), rx)" "\<not> rq_stop req" "rq_client req = Some key"
    "s_clients s key = Some c" "\<not> c_locked c" "buffers_ok s" "client_ok c" "req_ok req" "calls_succeed env"
    "Q 0 (c\<lparr>c_locked := True\<rparr>)"
    "\<forall>j c c'. j < rq_num req \<longrightarrow> Q j c \<longrightarrow> datagram_effect req j c c' \<longrightarrow> Q (Suc j) c'"
  shows "\<exists>s' c1 c' m. hd_run_once env remove to_send wait cfg s = Some (Some s') \<and>
    s_clients s' = (s_clients s)(key \<mapsto> c') \<and> s_rx s' = rx \<and> s_exit s' = s_exit s \<and> buffers_ok s' \<and>
    Q (rq_num req) c1 \<and> client_ok c1 \<and> c' = (finished env m c1)\<lparr>c_locked := False\<rparr> \<and> client_ok c' \<and> run_end (c_window c1) m \<and>
    (\<forall>k < m. held (c_window c1) (window_low (c_window c1) + word_of_nat k) \<noteq> None) \<and>
    (\<exists>req'. queue_of (s_tx s') = queue_of (s_tx s) @ [Some req'] \<and> req_ok req' \<and> \<not> rq_stop req')"
proof -
  have b: "packet_mem (s_decoded s)" "msgs_ok (s_msg s)" "31 * MAX_PAYLOAD_SIZE \<le> length (s_file_buffer s)"
    using assms(6) by (simp_all add: buffers_ok_def)
  from hd_handle_ok [where Q = Q and cfg = cfg and remove = remove and to_send = to_send, OF assms(7,8) b assms(9,10,11)]
  obtain st ds st' m where h: "hd_handle env cfg remove to_send req c s = Some (st, ds, Inr st')"
    "client_ok (l_client st)" "Q (rq_num req) (l_client st)" "run_end (c_window (l_client st)) m"
    "\<forall>k < m. held (c_window (l_client st)) (window_low (c_window (l_client st)) + word_of_nat k) \<noteq> None"
    "l_client st' = (finished env m (l_client st))\<lparr>c_locked := False\<rparr>"
    "client_ok (l_client st')" "req_ok (l_req st')" "rq_client (l_req st') = rq_client req \<and> rq_stop (l_req st') = rq_stop req"
    "packet_mem (l_decoded st')" "msgs_ok (l_msg st')" "l_len_to_send st' \<le> MAX_WINDOW_SIZE + 1"
    "length (d_file_buffer ds) = length (s_file_buffer s)" by blast
  define s' where "s' = s\<lparr>s_rx := rx, s_tx := enqueue_or_free (s_tx s) (Some (Some (l_req st'))),
    s_clients := (s_clients s)(key \<mapsto> l_client st'), s_decoded := l_decoded st', s_msg := l_msg st',
    s_file_buffer := d_file_buffer ds,
    s_sent := s_sent s @ take (nat (v_sendmmsg env))
      (map (\<lambda>m. (msg_name m, take 11 (msg_row m))) (take (l_len_to_send st') (l_msg st')))\<rparr>"
  have "hd_run_once env remove to_send wait cfg s = Some (Some s')"
    using assms(1-5) h(1) by (simp add: hd_run_once_def s'_def)
  moreover have "buffers_ok s'" using h b by (simp add: buffers_ok_def s'_def)
  moreover have "s_clients s' = (s_clients s)(key \<mapsto> l_client st')" "s_rx s' = rx" "s_exit s' = s_exit s"
    "queue_of (s_tx s') = queue_of (s_tx s) @ [Some (l_req st')]"
    by (simp_all add: s'_def enqueue_or_free_def)
  moreover have "\<not> rq_stop (l_req st')" using h(9) assms(2) by simp
  ultimately show ?thesis using h(2-8) by blast
qed

section \<open>Progress\<close>

text \<open>
  The decoding loop after \<open>j\<close> datagrams, from client \<open>c\<close>: what the window held is still there, what
  it holds more was carried by the request, and it holds every number of the window that the
  first \<open>j\<close> datagrams carried.
\<close>

definition gathering :: "hd_req_t \<Rightarrow> client_t \<Rightarrow> nat \<Rightarrow> client_t \<Rightarrow> bool" where
  "gathering req c j x \<longleftrightarrow> client_ok x \<and> c_active x \<and> window_low (c_window x) = window_low (c_window c) \<and>
     held (c_window c) \<subseteq>\<^sub>m held (c_window x) \<and>
     (\<forall>s p. held (c_window x) s = Some p \<longrightarrow> held (c_window c) s = Some p \<or>
        (\<exists>i < rq_num req. carries req i p \<and> pk_seqnum p = s)) \<and>
     (\<forall>i < j. \<forall>d. carries req i d \<longrightarrow> unat (pk_seqnum d - window_low (c_window c)) < MAX_WINDOW_SIZE \<longrightarrow>
        held (c_window x) (pk_seqnum d) \<noteq> None)"

lemma gathering_start: "client_ok c \<Longrightarrow> c_active c \<Longrightarrow> gathering req c 0 (c\<lparr>c_locked := True\<rparr>)"
  by (simp add: gathering_def client_ok_def)

lemma gathering_step:
  assumes "gathering req c j x" "j < rq_num req" "datagram_effect req j x x'"
  shows "gathering req c (Suc j) x'"
proof (cases "x' = x")
  case True
  then show ?thesis using assms by (auto simp: gathering_def datagram_effect_def less_Suc_eq)
next
  case False
  then obtain d where d: "carries req j d" "unat (pk_seqnum d - window_low (c_window x)) < MAX_WINDOW_SIZE"
    "held (c_window x) (pk_seqnum d) = None" "x' = x\<lparr>c_window := store (c_window x) (pk_seqnum d) d\<rparr>"
    using assms(3) by (auto simp: datagram_effect_def)
  have x: "client_ok x" "window_inv (c_window x)" using assms(1) by (simp_all add: gathering_def client_ok_def)
  have held': "held (c_window x') = (held (c_window x))(pk_seqnum d \<mapsto> d)"
    using win.held_store [OF x(2) d(2)] d(4) by simp
  have "client_ok x'" using client_ok_store [OF x(1) d(2,3)] d(1,4) by (simp add: carries_def)
  moreover have "window_low (c_window x') = window_low (c_window c)" using assms(1) d(4) by (simp add: gathering_def)
  moreover have "held (c_window c) \<subseteq>\<^sub>m held (c_window x')"
  proof (rule map_le_trans)
    show "held (c_window c) \<subseteq>\<^sub>m held (c_window x)" using assms(1) by (simp add: gathering_def)
    show "held (c_window x) \<subseteq>\<^sub>m held (c_window x')" unfolding held' using d(3) by (auto simp: map_le_def)
  qed
  moreover have "held (c_window x') (pk_seqnum y) \<noteq> None"
    if "i < Suc j" "carries req i y" "unat (pk_seqnum y - window_low (c_window c)) < MAX_WINDOW_SIZE" for i y
  proof (cases "i = j")
    case True
    then show ?thesis using assms(1,3) that by (simp add: gathering_def datagram_effect_def)
  next
    case False
    then have "held (c_window x) (pk_seqnum y) \<noteq> None" using assms(1) that by (simp add: gathering_def less_Suc_eq)
    then show ?thesis by (simp add: held')
  qed
  moreover have "held (c_window c) s = Some p \<or> (\<exists>i < rq_num req. carries req i p \<and> pk_seqnum p = s)"
    if "held (c_window x') s = Some p" for s p
    using assms(1,2) that d(1) unfolding gathering_def held' by (auto split: if_splits)
  ultimately show ?thesis using assms(1) d(4) by (simp add: gathering_def)
qed

text \<open>When the window and the request have the first \<open>m\<close> packets, the run that is written has them.\<close>

lemma gathered_run:
  assumes "gathering req c (rq_num req) c1" "run_end (c_window c1) m'" "m \<le> MAX_WINDOW_SIZE"
    and "\<forall>k < m. held (c_window c) (window_low (c_window c) + word_of_nat k) \<noteq> None \<or>
      (\<exists>i < rq_num req. \<exists>d. carries req i d \<and> pk_seqnum d = window_low (c_window c) + word_of_nat k)"
    and "\<forall>k p. Suc k < m \<longrightarrow> held (c_window c) (window_low (c_window c) + word_of_nat k) = Some p \<longrightarrow> pk_length p \<noteq> 0"
    and "\<forall>i < rq_num req. \<forall>d. carries req i d \<longrightarrow> pk_length d \<noteq> 0 \<or>
      (\<forall>k. Suc k < m \<longrightarrow> pk_seqnum d \<noteq> window_low (c_window c) + word_of_nat k)"
  shows "m \<le> m'"
proof -
  let ?w = "c_window c" and ?w1 = "c_window c1"
  have low: "window_low ?w1 = window_low ?w" and le: "held ?w \<subseteq>\<^sub>m held ?w1"
    and origin: "\<forall>s p. held ?w1 s = Some p \<longrightarrow> held ?w s = Some p \<or> (\<exists>i < rq_num req. carries req i p \<and> pk_seqnum p = s)"
    and got: "\<forall>i < rq_num req. \<forall>d. carries req i d \<longrightarrow> unat (pk_seqnum d - window_low ?w) < MAX_WINDOW_SIZE \<longrightarrow>
      held ?w1 (pk_seqnum d) \<noteq> None"
    using assms(1) unfolding gathering_def by blast+
  have there: "held ?w1 (window_low ?w + word_of_nat k) \<noteq> None" if "k < m" for k
  proof -
    have off: "unat (window_low ?w + word_of_nat k - window_low ?w) < MAX_WINDOW_SIZE"
      using that assms(3) by (simp add: unat_of_nat take_bit_nat_eq_self)
    from assms(4) that consider "held ?w (window_low ?w + word_of_nat k) \<noteq> None"
      | i d where "i < rq_num req" "carries req i d" "pk_seqnum d = window_low ?w + word_of_nat k" by blast
    then show ?thesis
    proof cases
      case 1
      then obtain p where "held ?w (window_low ?w + word_of_nat k) = Some p" by blast
      then show ?thesis using map_leD [OF le] by simp
    next
      case 2
      then show ?thesis using got off by metis
    qed
  qed
  have full: "pk_length (run_packet ?w1 k) \<noteq> 0" if "Suc k < m" for k
  proof -
    obtain p where p: "held ?w1 (window_low ?w + word_of_nat k) = Some p"
      using there [of k] Suc_lessD [OF \<open>Suc k < m\<close>] by blast
    then have "held ?w (window_low ?w + word_of_nat k) = Some p \<or>
        (\<exists>i < rq_num req. carries req i p \<and> pk_seqnum p = window_low ?w + word_of_nat k)"
      using origin by blast
    then have "pk_length p \<noteq> 0" using assms(5,6) that by blast
    then show ?thesis using p by (simp add: run_packet_def low)
  qed
  show ?thesis
  proof (rule ccontr)
    assume "\<not> m \<le> m'"
    then have "m' \<noteq> MAX_WINDOW_SIZE" "held ?w1 (window_low ?w1 + word_of_nat m') \<noteq> None"
      using assms(3) there [of m'] low by auto
    then have "0 < m'" "pk_length (run_packet ?w1 (m' - 1)) = 0" using assms(2) by (auto simp: run_end_def)
    with full [of "m' - 1"] \<open>\<not> m \<le> m'\<close> show False by simp
  qed
qed

section \<open>Uninitialised variables do not matter\<close>

lemma hd_drain_remove:
  "(\<exists>w. hd_drain ds = Some (ds\<lparr>d_window := w\<rparr>) \<and> hd_drain (ds\<lparr>d_remove := r\<rparr>) = Some (ds\<lparr>d_window := w, d_remove := r\<rparr>))
   \<or> hd_drain ds = hd_drain (ds\<lparr>d_remove := r\<rparr>)"
proof -
  have "drain_node (ds\<lparr>d_remove := r, d_window := w\<rparr>) p = drain_node (ds\<lparr>d_window := w\<rparr>) p" for w p
    by (cases ds) (simp add: drain_node_def Let_def)
  then show ?thesis
    by (subst (1 2 3 4) hd_drain.simps) (auto simp: get_def Let_def split: option.splits intro!: exI [of _ "d_window ds"])
qed

text \<open>Two packets to send that agree in every field but the checksums and the payload.\<close>

lemma pack_reply_fields:
  assumes "reply p" "reply q" "pk_type p = pk_type q" "pk_window p = pk_window q" "pk_seqnum p = pk_seqnum q"
    "pk_timestamp p = pk_timestamp q"
  shows "pack (Some row) (Some p) False = pack (Some row) (Some q) False"
proof -
  have "pack_header p = pack_header q" using assms by (simp add: pack_header_def reply_def)
  then have "pack_bytes p False = pack_bytes q False" using assms by (simp add: pack_bytes_def reply_def has_payload_def Let_def)
  then show ?thesis using assms by (auto simp: pack_def reply_def has_payload_def)
qed

text \<open>Two local states that agree in everything but the packet to send.\<close>

definition same_local :: "hd_local \<Rightarrow> hd_local \<Rightarrow> bool" where
  "same_local st st' \<longleftrightarrow> st\<lparr>l_to_send := l_to_send st'\<rparr> = st'"

definition same_result :: "hd_local option \<Rightarrow> hd_local option \<Rightarrow> bool" where
  "same_result r r' = (case (r, r') of (None, None) \<Rightarrow> True | (Some st, Some st') \<Rightarrow> same_local st st' | _ \<Rightarrow> False)"

lemma same_local_fields:
  "same_local st st' \<Longrightarrow> l_client st' = l_client st \<and> l_decoded st' = l_decoded st \<and> l_msg st' = l_msg st \<and>
     l_len_to_send st' = l_len_to_send st \<and> l_last_timestamp st' = l_last_timestamp st \<and> l_req st' = l_req st"
  by (cases st; cases st') (simp add: same_local_def)

lemma same_local_put:
  assumes "same_local st st'" "reply p" "reply q" "pk_type p = pk_type q" "pk_window p = pk_window q"
    "pk_seqnum p = pk_seqnum q" "pk_timestamp p = pk_timestamp q"
  shows "same_result (put_message st p) (put_message st' q)"
  using same_local_fields [OF assms(1)] pack_reply_fields [OF assms(2-7)] assms(1)
  by (cases st; cases st')
    (auto simp: put_message_def same_result_def same_local_def Let_def rd_def split: bind_splits option.splits sum.splits)

lemma fill_ack_fields [simp]:
  "pk_type (fill_ack cfg w ts p) = ACK" "pk_seqnum (fill_ack cfg w ts p) = window_low w"
  "pk_timestamp (fill_ack cfg w ts p) = ts"
  "pk_window (fill_ack cfg w ts p) =
     word_of_int (min_macro (hc_max_window_size cfg) (int MAX_WINDOW_SIZE - uint (buf_length w)))"
  "pk_type (fill_nack cfg w d p) = NACK" "pk_seqnum (fill_nack cfg w d p) = pk_seqnum d"
  "pk_timestamp (fill_nack cfg w d p) = pk_timestamp d"
  "pk_window (fill_nack cfg w d p) =
     word_of_int (min_macro (hc_max_window_size cfg) (int MAX_WINDOW_SIZE - uint (window_low w)))"
  by (simp_all add: fill_ack_def fill_nack_def)

lemma same_result_Some: "same_local st st' \<Longrightarrow> same_result (Some st) (Some st')"
  by (simp add: same_result_def)

lemma same_local_store:
  assumes "same_local st st'"
  shows "same_result (store_decoded st d) (store_decoded st' d)"
  using same_local_fields [OF assms] assms
  by (cases st; cases st')
    (auto simp: store_decoded_def same_result_def same_local_def Let_def split: sum.splits)

lemma same_local_answer:
  assumes "same_local st st'"
  shows "same_result (hd_answer cfg e d st) (hd_answer cfg e d st')"
proof -
  have t: "same_local (st\<lparr>l_last_timestamp := x\<rparr>) (st'\<lparr>l_last_timestamp := x\<rparr>)" for x
    using assms by (cases st; cases st') (simp add: same_local_def)
  have put: "same_result (put_message x (fill_ack cfg w ts p)) (put_message y (fill_ack cfg w ts q))"
    "same_result (put_message x (fill_nack cfg w d p)) (put_message y (fill_nack cfg w d q))"
    if "same_local x y" for x y w ts p q
    using that by (auto intro!: same_local_put)
  show ?thesis
    using same_local_fields [OF assms] put [OF assms] put [OF t] same_local_store [OF t] same_result_Some [OF t]
    by (simp add: hd_answer_def Let_def)
qed

lemma same_local_packet:
  assumes "same_local st st'"
  shows "same_result (hd_packet cfg i st) (hd_packet cfg i st')"
proof -
  have upd: "same_local (st\<lparr>l_decoded := d, l_req := r\<rparr>) (st'\<lparr>l_decoded := d, l_req := r\<rparr>)" for d r
    using assms by (cases st; cases st') (simp add: same_local_def)
  show ?thesis
    using same_local_fields [OF assms] same_local_answer [OF upd]
    by (auto simp: hd_packet_def same_result_def split: bind_splits)
qed

lemma same_local_receive:
  "same_local st st' \<Longrightarrow> same_result (hd_receive cfg is st) (hd_receive cfg is st')"
proof (induction "is" arbitrary: st st')
  case (Cons i "is")
  from same_local_packet [OF Cons.prems, of cfg i] show ?case
    using Cons.IH by (cases "hd_packet cfg i st"; cases "hd_packet cfg i st'") (auto simp: same_result_def)
qed (simp add: same_result_def)

lemma hd_finish_same:
  assumes "same_local st st'" "ds' = ds \<or> d_cnt ds = 0 \<and> ds' = ds\<lparr>d_remove := r\<rparr>"
  shows "case (hd_finish env cfg ds st, hd_finish env cfg ds' st') of (None, None) \<Rightarrow> True
    | (Some (Inl c), Some (Inl c')) \<Rightarrow> c = c' | (Some (Inr x), Some (Inr y)) \<Rightarrow> same_local x y | _ \<Rightarrow> False"
proof -
  note f = same_local_fields [OF assms(1)]
  have c: "same_local (st\<lparr>l_client := c\<rparr>) (st'\<lparr>l_client := c\<rparr>)" for c
    using assms(1) by (cases st; cases st') (simp add: same_local_def)
  have unlock: "same_local (x\<lparr>l_client := (l_client x)\<lparr>c_locked := False\<rparr>\<rparr>) (y\<lparr>l_client := (l_client y)\<lparr>c_locked := False\<rparr>\<rparr>)"
    if "same_local x y" for x y
    using that same_local_fields [OF that] by (cases x; cases y) (simp add: same_local_def)
  have put: "same_result (put_message (st\<lparr>l_client := c\<rparr>) (fill_ack cfg w ts p))
      (put_message (st'\<lparr>l_client := c\<rparr>) (fill_ack cfg w ts q))" for c w ts p q
    by (rule same_local_put [OF c]) simp_all
  show ?thesis
  proof (cases "d_cnt ds = 0")
    case True
    with assms(2) have "d_cnt ds' = 0" "d_window ds' = d_window ds" by auto
    with True show ?thesis using f c by (simp add: hd_finish_def Let_def)
  next
    case False
    with assms(2) have ds: "ds' = ds" by simp
    have eq: "hd_finish env cfg ds x = (case write_run env ds ((l_client st)\<lparr>c_window := d_window ds\<rparr>) of None \<Rightarrow> None
        | Some (Inl c) \<Rightarrow> Some (Inl (c\<lparr>c_locked := False\<rparr>))
        | Some (Inr c) \<Rightarrow> map_option (\<lambda>y. Inr (y\<lparr>l_client := (l_client y)\<lparr>c_locked := False\<rparr>\<rparr>))
            (put_message (x\<lparr>l_client := c\<rparr>) (fill_ack cfg (c_window c) (d_last_timestamp ds) (l_to_send x))))"
      if "l_client x = l_client st" for x
      using False that by (auto simp: hd_finish_def Let_def map_option_case split: bind_splits option.splits sum.splits)
    show ?thesis
    proof (cases "write_run env ds ((l_client st)\<lparr>c_window := d_window ds\<rparr>)")
      case (Some r)
      show ?thesis
      proof (cases r)
        case (Inr c)
        with Some eq [of st] eq [of st'] f unlock
          put [of c "c_window c" "d_last_timestamp ds" "l_to_send st" "l_to_send st'"] show ?thesis
          by (simp add: ds same_result_def split: option.splits)
      qed (use Some eq [of st] eq [of st'] f in \<open>simp add: ds\<close>)
    qed (use eq [of st] eq [of st'] f in \<open>simp add: ds\<close>)
  qed
qed

lemma hd_handle_same:
  "case (hd_handle env cfg r t req c s, hd_handle env cfg r' t' req c s) of (None, None) \<Rightarrow> True
   | (Some (st, ds, x), Some (st', ds', x')) \<Rightarrow> same_local st st' \<and> d_file_buffer ds' = d_file_buffer ds \<and>
       (case (x, x') of (Inl c, Inl c') \<Rightarrow> c = c' | (Inr a, Inr b) \<Rightarrow> same_local a b | _ \<Rightarrow> False)
   | _ \<Rightarrow> False"
proof -
  have "same_local (hd_begin t req c s) (hd_begin t' req c s)" by (simp add: same_local_def hd_begin_def)
  from same_local_receive [OF this, of cfg "[0..<rq_num req]"]
  consider "hd_receive cfg [0..<rq_num req] (hd_begin t req c s) = None"
      "hd_receive cfg [0..<rq_num req] (hd_begin t' req c s) = None"
    | st st' where "hd_receive cfg [0..<rq_num req] (hd_begin t req c s) = Some st"
      "hd_receive cfg [0..<rq_num req] (hd_begin t' req c s) = Some st'" "same_local st st'"
    by (auto simp: same_result_def split: option.splits)
  then show ?thesis
  proof cases
    case (2 st st')
    let ?d = "hd_begin_drain r (s_file_buffer s) st"
    have d': "hd_begin_drain r' (s_file_buffer s) st' = ?d\<lparr>d_remove := r'\<rparr>" and z: "d_cnt ?d = 0"
      using same_local_fields [OF 2(3)] by (simp_all add: hd_begin_drain_def Let_def)
    have "hd_drain ?d = None \<and> hd_drain (?d\<lparr>d_remove := r'\<rparr>) = None \<or>
      (\<exists>ds ds'. hd_drain ?d = Some ds \<and> hd_drain (?d\<lparr>d_remove := r'\<rparr>) = Some ds' \<and>
        (ds' = ds \<or> d_cnt ds = 0 \<and> ds' = ds\<lparr>d_remove := r'\<rparr>))"
    proof (cases "hd_drain ?d = hd_drain (?d\<lparr>d_remove := r'\<rparr>)")
      case True
      then show ?thesis by (cases "hd_drain ?d") auto
    next
      case False
      with hd_drain_remove [of ?d r'] z show ?thesis by auto
    qed
    then consider "hd_drain ?d = None" "hd_drain (?d\<lparr>d_remove := r'\<rparr>) = None"
      | ds ds' where "hd_drain ?d = Some ds" "hd_drain (?d\<lparr>d_remove := r'\<rparr>) = Some ds'"
        "ds' = ds \<or> d_cnt ds = 0 \<and> ds' = ds\<lparr>d_remove := r'\<rparr>" by metis
    then show ?thesis
    proof cases
      case 1
      with 2 d' show ?thesis by (simp add: hd_handle_def)
    next
      case h: (2 ds ds')
      have "d_file_buffer ds' = d_file_buffer ds" using h(3) by auto
      with hd_finish_same [OF 2(3) h(3), of env cfg] 2 h(1,2) d' show ?thesis
        by (cases "hd_finish env cfg ds st"; cases "hd_finish env cfg ds' st'")
          (auto simp: hd_handle_def split: sum.splits)
    qed
  qed (simp add: hd_handle_def)
qed

section \<open>Properties\<close>

text \<open>
  C14. One pass of the handler is safe and keeps the state well formed. From a well-formed state,
  whatever bytes the requests hold, and when writes are complete and the end time is allocated,
  a pass makes no access outside the request, the 32 message rows, the file buffer of 31
  payloads or the window, and follows no null pointer; it waits, or ends in a well-formed state
  in which no client is left locked that was not, or has received the order to stop and freed its packet.
\<close>

theorem hd_run_once_safe:
  assumes "state_ok s" and "calls_succeed env"
  shows "case hd_run_once env remove to_send wait cfg s of None \<Rightarrow> False | Some None \<Rightarrow> True
    | Some (Some s') \<Rightarrow> s_exit s' \<and> s_decoded s' = None \<or>
        state_ok s' \<and> (\<forall>key c'. s_clients s' key = Some c' \<and> c_locked c' \<longrightarrow> s_clients s key = Some c')"
proof (cases "stream_pop (s_rx s) wait")
  case None
  then show ?thesis by (simp add: hd_run_once_def)
next
  case (Some rq)
  then obtain r rx where pop: "stream_pop (s_rx s) wait = Some (r, rx)" by (cases rq) simp
  note q = stream_pop_queue [OF pop]
  have rest: "state_ok (s\<lparr>s_rx := rx\<rparr>)"
    using assms(1) q by (auto simp: state_ok_def buffers_ok_def split: option.splits)
  show ?thesis
  proof (cases "\<exists>req. r = Some (Some req) \<and> \<not> rq_stop req")
    case False
    then show ?thesis using pop rest by (cases r; cases "the r") (auto simp: hd_run_once_def)
  next
    case True
    then obtain req where req: "r = Some (Some req)" "\<not> rq_stop req" by blast
    with q have "Some req \<in> set (queue_of (s_rx s))" by simp
    with assms(1) req(2) obtain key c where k: "req_ok req" "rq_client req = Some key" "s_clients s key = Some c"
      by (fastforce simp: state_ok_def request_ok_def)
    then have cok: "client_ok c" using assms(1) by (simp add: state_ok_def)
    show ?thesis
    proof (cases "c_locked c")
      case True
      then show ?thesis using pop req k by (simp add: hd_run_once_def)
    next
      case False
      have b: "buffers_ok s" using assms(1) by (simp add: state_ok_def)
      from hd_run_once_request [where Q = "\<lambda>j c. True" and remove = remove and to_send = to_send and cfg = cfg,
          OF pop [unfolded req(1)] req(2) k(2,3) False b cok k(1) assms(2)]
      obtain s' c1 c' m where s': "hd_run_once env remove to_send wait cfg s = Some (Some s')"
        "s_clients s' = (s_clients s)(key \<mapsto> c')" "s_rx s' = rx" "buffers_ok s'" "client_ok c'" "c' = (finished env m c1)\<lparr>c_locked := False\<rparr>"
        by blast
      have "\<not> c_locked c'" by (simp add: s'(6))
      have "request_ok (s_clients s') node" if "request_ok (s_clients s) node" for node
        using that s'(2) by (auto simp: request_ok_def split: option.splits)
      with s'(2-5) rest have "state_ok s'" by (auto simp: state_ok_def split: if_splits)
      with s'(1,2) \<open>\<not> c_locked c'\<close> show ?thesis by (auto split: if_splits)
    qed
  qed
qed



text \<open>
  The two variables that the source reads before it has written them are harmless: the result
  of a pass does not depend on the initial value of \<^verbatim>\<open>remove\<close> or on the initial contents of
  \<^verbatim>\<open>to_send\<close>.
\<close>

theorem hd_run_once_uninitialised:
  "hd_run_once env remove to_send wait cfg s = hd_run_once env remove' to_send' wait cfg s"
proof (cases "stream_pop (s_rx s) wait")
  case (Some rq)
  then obtain r rx where pop: "stream_pop (s_rx s) wait = Some (r, rx)" by (cases rq) simp
  show ?thesis
  proof (cases "\<exists>req key c. r = Some (Some req) \<and> \<not> rq_stop req \<and> rq_client req = Some key \<and> s_clients s key = Some c \<and> \<not> c_locked c")
    case True
    then obtain req key c where e: "r = Some (Some req)" "\<not> rq_stop req" "rq_client req = Some key"
      "s_clients s key = Some c" "\<not> c_locked c" by blast
    note h = hd_handle_same [of env cfg remove to_send req c s remove' to_send']
    show ?thesis
    proof (cases "hd_handle env cfg remove to_send req c s")
      case None
      with h e pop show ?thesis
        by (cases "hd_handle env cfg remove' to_send' req c s") (simp_all add: hd_run_once_def)
    next
      case (Some t)
      obtain st ds x where t: "t = (st, ds, x)" by (cases t)
      from h Some t obtain st' ds' x' where t': "hd_handle env cfg remove' to_send' req c s = Some (st', ds', x')"
        by (auto split: option.splits)
      have sx: "same_local st st'" "d_file_buffer ds' = d_file_buffer ds"
        "case (x, x') of (Inl c, Inl c') \<Rightarrow> c = c' | (Inr a, Inr b) \<Rightarrow> same_local a b | _ \<Rightarrow> False"
        using h unfolding Some t t' by simp_all
      show ?thesis
        using e pop Some t t' sx same_local_fields [OF sx(1)]
        by (cases x; cases x') (auto simp: hd_run_once_def dest!: same_local_fields)
    qed
  qed (use pop in \<open>cases r; cases "the r"; auto simp: hd_run_once_def split: option.splits bind_splits\<close>)
qed (simp add: hd_run_once_def)

text \<open>
  C31. Acknowledgements are correct on the wire: the bytes \<^verbatim>\<open>pack\<close> writes for an acknowledgement
  decode to an ACK of the next expected sequence number, with the timestamp given, and with the
  number of free places of the window, capped by the configured maximum, as its window.
\<close>

theorem ack_on_the_wire:
  assumes "window_inv w" and "0 \<le> hc_max_window_size cfg" and "hc_max_window_size cfg \<le> int MAX_WINDOW_SIZE"
    and "length row = 12" and "length (pk_payload to_send) = MAX_PAYLOAD_SIZE"
    and "length (pk_payload out) = MAX_PAYLOAD_SIZE"
  shows "\<exists>row' q. pack (Some row) (Some (fill_ack cfg w ts to_send)) False = Some (Inr row') \<and> length row' = 12 \<and>
    unpack row' 11 out = Some (None, q, clear_tr row') \<and> pk_type q = ACK \<and> pk_seqnum q = window_low w \<and>
    pk_timestamp q = ts \<and> pk_length q = 0 \<and>
    int (unat (pk_window q)) = min (hc_max_window_size cfg) (int MAX_WINDOW_SIZE - int (unat (buf_length w)))"
proof -
  let ?p = "fill_ack cfg w ts to_send" and ?n = "min (hc_max_window_size cfg) (31 - int (unat (buf_length w)))"
  let ?q = "sealed (?p\<lparr>pk_window := pk_window ?p AND 0x1F\<rparr>) False"
  note pk = pack_reply [OF reply_fill(1) assms(4), of cfg w ts to_send]
  have "int (unat (buf_length w)) \<le> int MAX_WINDOW_SIZE"
    using window_length_bound [OF assms(1)] by (simp only: of_nat_le_iff)
  then have len: "uint (buf_length w) \<le> 31" by simp
  have n: "0 \<le> ?n" "?n < 32" using len assms(2,3) by auto
  have win: "pk_window ?p = word_of_int ?n" by (simp add: min_macro_def min_def)
  have w: "uint (pk_window ?p) = ?n"
    unfolding win uint_word_of_int_eq take_bit_eq_mod using n by (intro mod_pos_pos_trivial) simp_all
  have w32: "pk_window ?p < 32" "int (unat (pk_window ?p)) = ?n"
    using n(2) unfolding word_less_def w by (simp_all add: w del: fill_ack_fields)
  have wf: "wf_packet ?q"
    using assms(5) w32(1) by (auto simp: wf_packet_def sealed_def fill_ack_def window_mask wire_head_def)
  have "unpack (wire ?q @ drop 11 row) (int (length (wire ?q))) out =
      Some (None, received out ?q, clear_tr (wire ?q @ drop 11 row))"
    by (rule unpack_wire [OF wf _ assms(6)]) (simp add: fill_ack_def)
  moreover have "wire ?q = reply_image ?p" by (simp add: reply_image_def)
  ultimately have "unpack (reply_image ?p @ drop 11 row) 11 out =
      Some (None, received out ?q, clear_tr (reply_image ?p @ drop 11 row))" using pk(2) by simp
  moreover have "pk_type (received out ?q) = ACK" "pk_seqnum (received out ?q) = window_low w"
    "pk_timestamp (received out ?q) = ts" "pk_length (received out ?q) = 0" "pk_window (received out ?q) = pk_window ?p"
    using w32(1) by (simp_all add: received_def sealed_def has_payload_def fill_ack_def window_mask)
  moreover have "length (reply_image ?p @ drop 11 row) = 12" using pk(2) assms(4) by simp
  moreover have "int (unat (pk_window ?p)) = min (hc_max_window_size cfg) (int MAX_WINDOW_SIZE - int (unat (buf_length w)))"
    using w32(2) by (simp del: fill_ack_fields)
  ultimately show ?thesis using pk(1) by metis
qed

text \<open>
  A negative acknowledgement does not announce the free places of the window: its window is
  computed from the number of the low end, so with the usual maximum of 31 it is
  \<open>(31 - window_low) mod 32\<close> on the wire, whatever the window holds.
\<close>

theorem nack_window_ignores_load:
  assumes "hc_max_window_size cfg = int MAX_WINDOW_SIZE"
  shows "int (unat (pk_window (fill_nack cfg w d to_send) AND 0x1F)) = (31 - int (unat (window_low w))) mod 32"
proof -
  have m: "min_macro 31 (31 - uint (window_low w)) = 31 - uint (window_low w)"
    by (cases "window_low w = 0") (simp_all add: min_macro_def word_neq_0_conv word_less_def)
  have "(word_of_int k :: u8) AND 0x1F = take_bit 5 (word_of_int k)" for k
    by (simp add: take_bit_eq_mask mask_eq_exp_minus_1)
  then have "uint ((word_of_int k :: u8) AND 0x1F) = k mod 32" for k
    by (simp only: unsigned_take_bit_eq uint_word_of_int_eq) (simp add: take_bit_eq_mod mod_mod_cancel)
  from this [of "31 - uint (window_low w)"] show ?thesis using assms m by simp
qed

text \<open>
  After a short write the client is inconsistent. When the draining loop has taken packets and
  \<^verbatim>\<open>fwrite\<close> writes less than all of them, the slots of these packets are free but the window
  neither moves nor counts fewer packets, so the window invariant is broken and the packets are
  gone from the window without being acknowledged; and when nothing at all was written, the
  call that is to take the file back by what was written moves it to the start instead.
\<close>

theorem short_write_loses_packets:
  assumes "client_ok (l_client st)" and "31 * MAX_PAYLOAD_SIZE \<le> length fb"
    and "hd_drain (hd_begin_drain remove fb st) = Some ds" and "0 < d_cnt ds"
    and "v_written env (d_offset ds) < d_offset ds"
  shows "\<exists>c'. hd_finish env cfg ds st = Some (Inl c') \<and> \<not> c_locked c' \<and>
    window_low (c_window c') = window_low (c_window (l_client st)) \<and>
    buf_length (c_window c') = buf_length (c_window (l_client st)) \<and>
    (\<forall>k < d_cnt ds. held (c_window c') (window_low (c_window c') + word_of_nat k) = None) \<and>
    \<not> window_inv (c_window c') \<and>
    (v_written env (d_offset ds) = 0 \<longrightarrow> f_pos (c_out_file c') = 0)"
proof -
  let ?w = "c_window (l_client st)" and ?m = "d_cnt ds"
  obtain m where "drain_inv ?w (length fb) m ds"
    using hd_drain_whole [OF assms(1,2), of remove] assms(3) by (metis option.inject)
  then have d: "d_window ds = release ?w (window_low ?w) ?m"
    "\<forall>k < ?m. held ?w (window_low ?w + word_of_nat k) \<noteq> None" by (auto simp: drain_inv_def)
  have inv: "window_inv ?w" "length (nodes ?w) = 32"
    using assms(1) by (simp_all add: client_ok_def window_inv_nodes)
  let ?R = "(\<lambda>k. unat (hash (window_low ?w + word_of_nat k))) ` {..<?m}"
  note run = held_run [OF d(2)]
  have "card ?R = ?m" using run(1) by (simp add: card_image inj_slots)
  then have "card (used_slots (d_window ds)) + ?m = card (used_slots ?w)"
    using run(2) card_mono [OF finite_used_slots run(2)]
    by (simp add: d(1) used_slots_release [OF inv(2)] card_Diff_subset)
  then have broken: "\<not> window_inv (d_window ds)"
    using inv(1) assms(4) by (auto simp: window_inv_def d(1))
  have "\<not> nd_used (nodes (d_window ds) ! unat (hash (window_low ?w + word_of_nat k)))" if "k < ?m" for k
    using that inv(2) by (auto simp: d(1) nth_release)
  then have gone: "\<forall>k < ?m. held (d_window ds) (window_low ?w + word_of_nat k) = None"
    by (simp add: held_def)
  define c' where "c' = (l_client st)\<lparr>c_window := d_window ds, c_locked := False,
    c_out_file := fseek_set (- int (v_written env (d_offset ds)))
      (fwrite (v_written env (d_offset ds)) (take (d_offset ds) (d_file_buffer ds)) (c_out_file (l_client st)))\<rparr>"
  have "hd_finish env cfg ds st = Some (Inl c')"
    using assms(4,5) by (cases "l_client st") (simp add: hd_finish_def write_run_def c'_def Let_def min_absorb1)
  with broken gone d(1) show ?thesis by (auto simp: c'_def fseek_set_def)
qed


text \<open>
  C36. The closed file of a finished transfer can be written to. If the window of an inactive
  client still holds a packet at its low end (one numbered after the empty packet that ended the
  transfer), the next pass for that client, whatever its request holds, hands the closed file
  to \<^verbatim>\<open>fwrite\<close>.
\<close>

theorem write_after_close:
  assumes "stream_pop (s_rx s) wait = Some (Some (Some req), rx)" and "\<not> rq_stop req"
    and "rq_client req = Some key" and "s_clients s key = Some c" and "\<not> c_locked c"
    and "buffers_ok s" and "client_ok c" and "req_ok req" and "calls_succeed env"
    and "\<not> c_active c" and "\<not> f_open (c_out_file c)" and "held (c_window c) (window_low (c_window c)) \<noteq> None"
  shows "\<exists>s' c'. hd_run_once env remove to_send wait cfg s = Some (Some s') \<and> s_clients s' key = Some c' \<and>
    f_misused (c_out_file c')"
proof -
  let ?Q = "\<lambda>x. x = c\<lparr>c_locked := True\<rparr>"
  have keep: "\<forall>j x x'. j < rq_num req \<longrightarrow> ?Q x \<longrightarrow> datagram_effect req j x x' \<longrightarrow> ?Q x'"
    using assms(10) by (auto simp: datagram_effect_def)
  from hd_run_once_request [where Q = "\<lambda>j. ?Q" and remove = remove and to_send = to_send and cfg = cfg,
      OF assms(1-9) refl keep]
  obtain s' c1 c' m where s': "hd_run_once env remove to_send wait cfg s = Some (Some s')"
    "s_clients s' = (s_clients s)(key \<mapsto> c')" "c1 = c\<lparr>c_locked := True\<rparr>" "c' = (finished env m c1)\<lparr>c_locked := False\<rparr>"
    "run_end (c_window c1) m" by blast
  have "m \<noteq> 0" using s'(3,5) assms(12) by (cases "m = 0") (auto simp: run_end_def)
  then have "f_misused (c_out_file c')"
    using s'(3,4) assms(10,11) by (simp add: finished_def fwrite_def Let_def)
  with s'(1,2) show ?thesis by simp
qed

text \<open>
  The unit of the log line is found within the five units: the multiplier is the unit's power
  of 1024, the unit is the first in which at most 1024 remain or the last one, and its name fits
  the four characters reserved for it.
\<close>

lemma bytes_to_unit_correct:
  "\<exists>i < 5. bytes_to_unit total_bytes = (sizes ! i, 1024 ^ i) \<and> length (sizes ! i) < 4 \<and>
     (i = 4 \<or> unat total_bytes div 1024 ^ i \<le> 1024) \<and> (\<forall>j < i. 1024 < unat total_bytes div 1024 ^ j)"
proof -
  have fit: "length (sizes ! i) < 4" if "i < 5" for i
    using that by (auto simp: sizes_def less_Suc_eq numeral_eq_Suc)
  have gen: "\<exists>i < 5. bytes_to_unit_from k b (1024 ^ k) = (sizes ! i, 1024 ^ i) \<and>
     (i = 4 \<or> unat total_bytes div 1024 ^ i \<le> 1024) \<and> (\<forall>j < i. 1024 < unat total_bytes div 1024 ^ j)"
    if "k < 5" "unat b = unat total_bytes div 1024 ^ k" "\<forall>j < k. 1024 < unat total_bytes div 1024 ^ j" for k b
    using that
  proof (induction "4 - k" arbitrary: k b)
    case 0
    then have "k = 4" by simp
    with 0 show ?case by (intro exI [of _ 4]) (subst bytes_to_unit_from.simps, simp)
  next
    case (Suc x)
    have "k < 4" using Suc.hyps(2) by simp
    show ?case
    proof (cases "b > 1024")
      case True
      have "unat (b div 1024) = unat total_bytes div 1024 ^ Suc k"
        using Suc.prems(2) by (simp only: unat_div power_Suc2 div_mult2_eq) simp
      moreover have "1024 < unat total_bytes div 1024 ^ k" using True Suc.prems(2) by (simp add: word_less_nat_alt)
      ultimately have "\<exists>i < 5. bytes_to_unit_from (Suc k) (b div 1024) (1024 ^ Suc k) = (sizes ! i, 1024 ^ i) \<and>
         (i = 4 \<or> unat total_bytes div 1024 ^ i \<le> 1024) \<and> (\<forall>j < i. 1024 < unat total_bytes div 1024 ^ j)"
        using Suc.hyps(2) Suc.prems(1,3) by (intro Suc.hyps(1)) (auto simp: less_Suc_eq)
      moreover have "bytes_to_unit_from k b (1024 ^ k) = bytes_to_unit_from (Suc k) (b div 1024) (1024 ^ Suc k)"
        using True \<open>k < 4\<close> by (subst bytes_to_unit_from.simps) (simp add: mult.commute)
      ultimately show ?thesis by simp
    next
      case False
      then have "unat total_bytes div 1024 ^ k \<le> 1024" using Suc.prems(2) by (simp add: word_less_nat_alt not_less)
      moreover have "bytes_to_unit_from k b (1024 ^ k) = (sizes ! k, 1024 ^ k)"
        using False Suc.prems(1) by (subst bytes_to_unit_from.simps) simp
      ultimately show ?thesis using Suc.prems(1,3) by blast
    qed
  qed
  show ?thesis using gen [of 0 total_bytes] fit by (auto simp: bytes_to_unit_def)
qed

section \<open>Witnesses\<close>

text \<open>The bytes of a datagram determine the data it carries.\<close>

lemma carries_received:
  assumes "carries req i d" "carries req i d'"
  shows "received fresh_packet d = received fresh_packet d'"
proof -
  have "wire d = wire d'" using assms by (simp add: carries_def)
  moreover have "unpack (wire x @ []) (int (length (wire x))) fresh_packet =
      Some (None, received fresh_packet x, clear_tr (wire x @ []))" if "carries req i x" for x
    using that by (intro unpack_wire) (simp_all add: carries_def sample_simps)
  from this [OF assms(1)] this [OF assms(2)] calculation show ?thesis by simp
qed

lemma carries_chunk:
  assumes "carries req i d" "carries req i d'"
  shows "chunk d = chunk d'" "pk_seqnum d = pk_seqnum d'"
proof -
  note r = carries_received [OF assms]
  have c: "chunk x = take (unat (pk_length (received fresh_packet x))) (pk_payload (received fresh_packet x))"
    if "carries req i x" for x
    using that by (auto simp: carries_def chunk_def received_def has_payload_def wf_packet_def)
  show "chunk d = chunk d'" using c [OF assms(1)] c [OF assms(2)] r by simp
  have "pk_seqnum (received fresh_packet x) = pk_seqnum x" for x by (simp add: received_def)
  then show "pk_seqnum d = pk_seqnum d'" using r by metis
qed

text \<open>A request with one datagram, the data packet with number 0 and three bytes of payload.\<close>

definition first_data :: packet_t where
  "first_data = sealed (sample_data\<lparr>pk_seqnum := 0\<rparr>) True"

definition sample_req :: hd_req_t where
  "sample_req = \<lparr>rq_stop = False, rq_client = Some 0, rq_num = 1, rq_lengths = 18 # replicate 30 0,
     rq_buffer = (wire first_data @ replicate 510 0) # replicate 30 (replicate MAX_PACKET_SIZE 0)\<rparr>"

definition sample_state :: "client_t \<Rightarrow> hd_state" where
  "sample_state c = \<lparr>s_rx = \<lparr>in_queue = [Some sample_req], out_queue = [], st_length = 1, st_waiting = 0\<rparr>,
     s_tx = initialize_stream, s_clients = [0 \<mapsto> c], s_decoded = Some fresh_packet,
     s_msg = replicate 32 \<lparr>msg_name = None, msg_row = replicate 12 0\<rparr>,
     s_file_buffer = replicate (31 * MAX_PAYLOAD_SIZE) 0, s_exit = False, s_sent = []\<rparr>"

definition sample_cfg :: hd_cfg_t where
  "sample_cfg = \<lparr>hc_id = 0, hc_max_window_size = 31, hc_sockfd = 3\<rparr>"

definition sample_hd_env :: hd_env where
  "sample_hd_env = \<lparr>v_written = (\<lambda>n. n), v_end_mem = True, v_now = \<lparr>tv_sec = 9, tv_nsec = 0\<rparr>, v_sendmmsg = 1\<rparr>"

definition finished_client :: client_t where
  "finished_client = sample_client\<lparr>c_active := False, c_out_file := (c_out_file sample_client)\<lparr>f_open := False\<rparr>,
     c_window := store (empty_window 0 sample_packet_memory) 0 first_data\<rparr>"

lemma wf_first_data: "wf_packet first_data"
  unfolding first_data_def by (rule wf_sealed) (simp_all add: sample_data_def)

lemma length_wire_first: "length (wire first_data) = 18"
  by (simp add: first_data_def wire_def wire_head_def has_payload_def sample_data_def sealed_def)

lemma sample_req_ok: "req_ok sample_req" "rq_num sample_req = 1" "rq_client sample_req = Some 0" "\<not> rq_stop sample_req"
  by (auto simp: req_ok_def sample_req_def length_wire_first)

lemma sample_carries: "carries sample_req 0 first_data"
  using wf_first_data by (simp add: carries_def datagram_def sample_req_def length_wire_first)
    (simp add: first_data_def sample_data_def sealed_def)

lemma sample_pop:
  "stream_pop (s_rx (sample_state c)) True = Some (Some (Some sample_req), \<lparr>in_queue = [], out_queue = [], st_length = 0, st_waiting = 0\<rparr>)"
  by (simp add: sample_state_def stream_pop_def pop_locked_def)

lemma sample_state_simps:
  "s_clients (sample_state c) 0 = Some c" "buffers_ok (sample_state c)" "queue_of (s_tx (sample_state c)) = []"
  by (simp_all add: sample_state_def buffers_ok_def packet_mem_def msgs_ok_def sample_simps queue_of_def initialize_stream_def)

lemma sample_client_ok: "client_ok sample_client" "\<not> c_locked sample_client"
  by (auto simp: client_ok_def sample_client_def packets_ok_def empty_window_def sample_packet_memory_def)
    (simp add: empty_window_simps(3) [unfolded empty_window_def, simplified])

lemma finished_client_ok: "client_ok finished_client" "\<not> c_locked finished_client"
  "held (c_window finished_client) 0 = Some first_data" "window_low (c_window finished_client) = 0"
proof -
  let ?c = "sample_client\<lparr>c_active := False, c_out_file := (c_out_file sample_client)\<lparr>f_open := False\<rparr>\<rparr>"
  have e: "finished_client = ?c\<lparr>c_window := store (c_window ?c) 0 first_data\<rparr>"
    by (simp add: finished_client_def sample_client_def)
  have w: "c_window ?c = empty_window 0 sample_packet_memory" by (simp add: sample_client_def)
  have "client_ok ?c" using sample_client_ok(1) by (simp add: client_ok_def)
  then show "client_ok finished_client" unfolding e by (rule client_ok_store) (simp_all add: w wf_first_data)
  show "\<not> c_locked finished_client" by (simp add: finished_client_def sample_client_def)
  show "held (c_window finished_client) 0 = Some first_data" "window_low (c_window finished_client) = 0"
    by (simp_all add: finished_client_def win.held_store)
qed

lemma sample_calls: "calls_succeed sample_hd_env"
  by (simp add: calls_succeed_def sample_hd_env_def)

theorem hd_run_once_safe_witness:
  "\<exists>s'. hd_run_once sample_hd_env True fresh_packet True sample_cfg (sample_state sample_client) = Some (Some s') \<and>
     (s_exit s' \<and> s_decoded s' = None \<or> state_ok s')"
proof -
  have "state_ok (sample_state sample_client)"
    using sample_client_ok sample_req_ok
    by (auto simp: state_ok_def sample_state_simps) (auto simp: sample_state_def queue_of_def request_ok_def split: if_splits)
  moreover obtain s' where "hd_run_once sample_hd_env True fresh_packet True sample_cfg (sample_state sample_client) = Some (Some s')"
    using hd_run_once_request [where Q = "\<lambda>j c. True", OF sample_pop sample_req_ok(4,3) sample_state_simps(1)
        sample_client_ok(2) sample_state_simps(2) sample_client_ok(1) sample_req_ok(1) sample_calls] by blast
  ultimately show ?thesis
    using hd_run_once_safe [OF _ sample_calls, of "sample_state sample_client" True fresh_packet True sample_cfg] by auto
qed



theorem ack_on_the_wire_witness:
  "\<exists>row' q. pack (Some (replicate 12 0)) (Some (fill_ack sample_cfg (empty_window 250 fresh_packet) 7 fresh_packet)) False = Some (Inr row') \<and>
     unpack row' 11 fresh_packet = Some (None, q, clear_tr row') \<and> pk_seqnum q = 250 \<and> int (unat (pk_window q)) = 31"
  using ack_on_the_wire [of "empty_window 250 fresh_packet" sample_cfg "replicate 12 0" fresh_packet fresh_packet 7]
  by (auto simp: sample_cfg_def sample_simps)

theorem nack_window_witness:
  "int (unat (pk_window (fill_nack sample_cfg (empty_window 40 fresh_packet) fresh_packet fresh_packet) AND 0x1F)) = 23"
  using nack_window_ignores_load [of sample_cfg "empty_window 40 fresh_packet" fresh_packet fresh_packet]
  by (simp add: sample_cfg_def)


theorem write_after_close_witness:
  "\<exists>s' c'. hd_run_once sample_hd_env True fresh_packet True sample_cfg (sample_state finished_client) = Some (Some s') \<and>
     s_clients s' 0 = Some c' \<and> f_misused (c_out_file c')"
proof -
  have "\<not> c_active finished_client" "\<not> f_open (c_out_file finished_client)"
    "held (c_window finished_client) (window_low (c_window finished_client)) \<noteq> None"
    using finished_client_ok(3,4) by (simp_all add: finished_client_def)
  from write_after_close [OF sample_pop sample_req_ok(4,3) sample_state_simps(1) finished_client_ok(2)
      sample_state_simps(2) finished_client_ok(1) sample_req_ok(1) sample_calls this, of True fresh_packet sample_cfg]
  show ?thesis .
qed

theorem short_write_witness:
  "\<exists>ds c'. hd_drain (hd_begin_drain True (s_file_buffer (sample_state finished_client))
       (hd_begin fresh_packet sample_req finished_client (sample_state finished_client))) = Some ds \<and>
     hd_finish (sample_hd_env\<lparr>v_written := \<lambda>n. 0\<rparr>) sample_cfg ds
       (hd_begin fresh_packet sample_req finished_client (sample_state finished_client)) = Some (Inl c') \<and>
     \<not> window_inv (c_window c') \<and> f_pos (c_out_file c') = 0"
proof -
  let ?st = "hd_begin fresh_packet sample_req finished_client (sample_state finished_client)"
  let ?fb = "s_file_buffer (sample_state finished_client)"
  have ok: "client_ok (l_client ?st)" and fb: "31 * MAX_PAYLOAD_SIZE \<le> length ?fb"
    and w: "c_window (l_client ?st) = c_window finished_client"
    using finished_client_ok(1) by (simp_all add: hd_begin_def client_ok_def sample_state_def)
  obtain m ds where ds: "hd_drain (hd_begin_drain True ?fb ?st) = Some ds"
    "drain_inv (c_window finished_client) (length ?fb) m ds" "run_end (c_window finished_client) m"
    using hd_drain_whole [OF ok fb, of True] unfolding w by blast
  have m: "0 < m" using ds(3) finished_client_ok(3,4) by (cases "m = 0") (auto simp: run_end_def)
  then obtain k where k: "m = Suc k" by (cases m) auto
  have "run_packet (c_window finished_client) 0 = first_data"
    using finished_client_ok(3,4) by (simp add: run_packet_def)
  then have "run_bytes (c_window finished_client) m \<noteq> []"
    by (simp add: k run_bytes_def upt_conv_Cons chunk_def first_data_def sample_data_def sealed_def del: upt_Suc)
  with ds(2) m have cnt: "0 < d_cnt ds" "0 < d_offset ds" by (auto simp: drain_inv_def)
  from short_write_loses_packets [OF ok fb ds(1) cnt(1), of "sample_hd_env\<lparr>v_written := \<lambda>n. 0\<rparr>" sample_cfg] cnt(2) ds(1)
  show ?thesis by auto
qed

end
