(* ===== verification/Hash_Table.thy ===== *)
theory Hash_Table
  imports Client
begin

text \<open>
  \<^verbatim>\<open>src/hash_table.c\<close> and \<^verbatim>\<open>headers/hash_table.h\<close>: the table of clients, keyed by port and IP address,
  with linear probing. A client is a pointer, so the model is polymorphic in the values and
  \<open>None\<close> is the null pointer. The index is the 16-bit integer of the source.

  A result \<open>None\<close> means that the call does not return: the probing finds neither the key nor a
  free slot, an access leaves the array, or the lock is held. \<^verbatim>\<open>calloc\<close> is a parameter that says
  whether memory is allocated.

  The contract is the locale \<open>client_map\<close>, a partial map from keys to clients.
\<close>

section \<open>The contract\<close>

text \<open>
  A table as a partial map: operations that return what the map says and leave the updated map.
  \<open>fits\<close> says that there is room for one more entry.
\<close>

locale client_map =
  fixes inv :: "'t \<Rightarrow> bool"
    and fits :: "'t \<Rightarrow> bool"
    and entries :: "'t \<Rightarrow> 'k \<rightharpoonup> 'v"
    and lookup :: "'t \<Rightarrow> 'k \<Rightarrow> 'v option option"
    and update :: "'t \<Rightarrow> 'k \<Rightarrow> 'v \<Rightarrow> ('v option \<times> 't) option"
    and delete :: "'t \<Rightarrow> 'k \<Rightarrow> ('v option \<times> 't) option"
    and valid :: "'k \<Rightarrow> bool"
  assumes lookup_entries: "inv t \<Longrightarrow> valid k \<Longrightarrow> lookup t k = Some (entries t k)"
    and update_entries: "inv t \<Longrightarrow> fits t \<Longrightarrow> valid k \<Longrightarrow>
      \<exists>t'. update t k v = Some (entries t k, t') \<and> inv t' \<and> entries t' = (entries t)(k \<mapsto> v)"
    and delete_entries: "inv t \<Longrightarrow> fits t \<Longrightarrow> valid k \<Longrightarrow>
      \<exists>t'. delete t k = Some (entries t k, t') \<and> inv t' \<and> entries t' = (entries t)(k := None)"
begin

lemma lookup_after_update:
  assumes "inv t" "fits t" "valid k" "valid k'"
  shows "\<exists>old t'. update t k v = Some (old, t') \<and> lookup t' k' = (if k' = k then Some (Some v) else lookup t k')"
  using update_entries [OF assms(1-3), of v] assms by (auto simp: lookup_entries)

lemma lookup_after_delete:
  assumes "inv t" "fits t" "valid k" "valid k'"
  shows "\<exists>old t'. delete t k = Some (old, t') \<and> lookup t' k' = (if k' = k then Some None else lookup t k')"
  using delete_entries [OF assms(1-3)] assms by (auto simp: lookup_entries)

lemma update_then_delete:
  assumes "inv t" "fits t" "valid k" "entries t k = None" "\<And>t'. inv t' \<Longrightarrow> dom (entries t') = insert k (dom (entries t)) \<Longrightarrow> fits t'"
  shows "\<exists>t1 t2. update t k v = Some (None, t1) \<and> delete t1 k = Some (Some v, t2) \<and> entries t2 = entries t"
proof -
  obtain t1 where t1: "update t k v = Some (None, t1)" "inv t1" "entries t1 = (entries t)(k \<mapsto> v)"
    using update_entries [OF assms(1-3), of v] assms(4) by auto
  moreover have "fits t1" using t1 by (intro assms(5)) simp_all
  ultimately obtain t2 where "delete t1 k = Some (Some v, t2)" "entries t2 = (entries t1)(k := None)"
    using delete_entries [of t1 k] assms(3) by auto
  then show ?thesis using t1 assms(4) by (auto simp: fun_upd_idem_iff)
qed

end

text \<open>
  A history of operations, run on a partial map (the reference) and with any pair of operations.
\<close>

datatype ('k, 'v) map_op = Put 'k 'v | Remove 'k

fun run_map :: "('k, 'v) map_op list \<Rightarrow> ('k \<rightharpoonup> 'v) \<Rightarrow> 'k \<rightharpoonup> 'v" where
  "run_map [] m = m"
| "run_map (Put k v # ops) m = run_map ops (m(k \<mapsto> v))"
| "run_map (Remove k # ops) m = run_map ops (m(k := None))"

fun run_ops :: "('t \<Rightarrow> 'k \<Rightarrow> 'v \<Rightarrow> ('v option \<times> 't) option) \<Rightarrow> ('t \<Rightarrow> 'k \<Rightarrow> ('v option \<times> 't) option) \<Rightarrow>
    ('k, 'v) map_op list \<Rightarrow> 't \<Rightarrow> 't option" where
  "run_ops upd del [] t = Some t"
| "run_ops upd del (Put k v # ops) t = (case upd t k v of None \<Rightarrow> None | Some (_, t) \<Rightarrow> run_ops upd del ops t)"
| "run_ops upd del (Remove k # ops) t = (case del t k of None \<Rightarrow> None | Some (_, t) \<Rightarrow> run_ops upd del ops t)"

fun op_key :: "('k, 'v) map_op \<Rightarrow> 'k" where
  "op_key (Put k v) = k"
| "op_key (Remove k) = k"

text \<open>
  A table of bounded capacity: an operation adds at most one to the count, and there is room as
  long as the count is at most the capacity.
\<close>

locale bounded_client_map = client_map +
  fixes count :: "'t \<Rightarrow> nat" and capacity :: nat
  assumes fits_count: "inv t \<Longrightarrow> count t \<le> capacity \<Longrightarrow> fits t"
    and update_count: "inv t \<Longrightarrow> fits t \<Longrightarrow> valid k \<Longrightarrow> update t k v = Some (old, t') \<Longrightarrow> count t' \<le> count t + 1"
    and delete_count: "inv t \<Longrightarrow> fits t \<Longrightarrow> valid k \<Longrightarrow> delete t k = Some (old, t') \<Longrightarrow> count t' \<le> count t + 1"
begin

lemma run_refines:
  assumes "inv t" "\<forall>x \<in> set ops. valid (op_key x)" "count t + length ops \<le> capacity + 1"
  shows "\<exists>t'. run_ops update delete ops t = Some t' \<and> inv t' \<and> entries t' = run_map ops (entries t)"
  using assms
proof (induction ops arbitrary: t)
  case Nil
  then show ?case by simp
next
  case (Cons x ops)
  have fit: "fits t" using Cons.prems by (intro fits_count) simp_all
  have valid: "valid (op_key x)" using Cons.prems by simp
  show ?case
  proof (cases x)
    case (Put k v)
    obtain t1 where t1: "update t k v = Some (entries t k, t1)" "inv t1" "entries t1 = (entries t)(k \<mapsto> v)"
      using update_entries [OF Cons.prems(1) fit] valid Put by auto
    have "count t1 \<le> count t + 1" using update_count [OF Cons.prems(1) fit _ t1(1)] valid Put by simp
    then obtain t' where "run_ops update delete ops t1 = Some t'" "inv t'" "entries t' = run_map ops (entries t1)"
      using Cons.IH [OF t1(2)] Cons.prems by auto
    then show ?thesis using t1(1) Put by (simp add: t1(3) del: fun_upd_apply)
  next
    case (Remove k)
    obtain t1 where t1: "delete t k = Some (entries t k, t1)" "inv t1" "entries t1 = (entries t)(k := None)"
      using delete_entries [OF Cons.prems(1) fit] valid Remove by auto
    have "count t1 \<le> count t + 1" using delete_count [OF Cons.prems(1) fit _ t1(1)] valid Remove by simp
    then obtain t' where "run_ops update delete ops t1 = Some t'" "inv t'" "entries t' = run_map ops (entries t1)"
      using Cons.IH [OF t1(2)] Cons.prems by auto
    then show ?thesis using t1(1) Remove by (simp add: t1(3) del: fun_upd_apply)
  qed
qed

end

section \<open>Data and operations\<close>

record 'c item_t =
  it_used :: bool
  it_value :: "'c option"
  it_port :: u16
  it_ip :: bytes

record 'c ht_t =
  ht_items :: "'c item_t list"
  ht_size :: nat
  ht_len :: nat
  ht_locked :: bool

definition INITIAL_SIZE :: nat where [simp]: "INITIAL_SIZE = 16"

text \<open>What \<^verbatim>\<open>calloc\<close> gives.\<close>

definition empty_item :: "'c item_t" where
  "empty_item = \<lparr>it_used = False, it_value = None, it_port = 0, it_ip = replicate 16 0\<rparr>"

definition ht_hash :: "'c ht_t \<Rightarrow> u16 \<Rightarrow> u16" where
  "ht_hash t port = word_of_nat (unat port mod ht_size t)"

definition allocate_ht :: "bool \<Rightarrow> bool \<Rightarrow> bool \<Rightarrow> errors_t + 'c ht_t" where
  "allocate_ht items_mem lock_mem mutex = (if items_mem \<and> lock_mem \<and> mutex
     then Inr \<lparr>ht_items = replicate INITIAL_SIZE empty_item, ht_size = INITIAL_SIZE, ht_len = 0, ht_locked = False\<rparr>
     else Inl FAILED_TO_ALLOCATE)"

text \<open>
  The values that \<^verbatim>\<open>dealloc_items\<close> passes to \<^verbatim>\<open>deallocate_client\<close>, in order, for the first \<open>len\<close> slots.
  After \<^verbatim>\<open>dealloc_ht\<close> the array is freed memory, which the model has as an empty one.
\<close>

definition dealloc_items :: "nat \<Rightarrow> 'c item_t list \<Rightarrow> 'c list option" where
  "dealloc_items len items = (if length items < len then None
     else Some (List.map_filter it_value (take len items)))"

definition dealloc_ht :: "'c ht_t option \<Rightarrow> (errors_t + ('c list \<times> 'c ht_t)) option" where
  "dealloc_ht table = (case table of None \<Rightarrow> Some (Inl ALREADY_DEALLOCATED)
     | Some t \<Rightarrow> if ht_locked t then None else do {
         freed \<leftarrow> dealloc_items (ht_size t) (ht_items t);
         Some (Inr (freed, t\<lparr>ht_items := [], ht_size := 0, ht_len := 0\<rparr>))
       })"

text \<open>The probing loop shared by \<^verbatim>\<open>ht_get\<close> and \<^verbatim>\<open>ht_put_nolock\<close>: the index at which it stops.\<close>

definition item_matches :: "'c item_t \<Rightarrow> u16 \<Rightarrow> bytes \<Rightarrow> bool" where
  "item_matches it port ip \<longleftrightarrow> it_port it = port \<and> ip_equals (it_ip it) ip"

partial_function (option) ht_probe :: "'c item_t list \<Rightarrow> nat \<Rightarrow> u16 \<Rightarrow> bytes \<Rightarrow> u16 \<Rightarrow> u16 option" where
  "ht_probe items sz port ip index = (case rd items (unat index) of None \<Rightarrow> None
     | Some it \<Rightarrow> if it_used it \<and> \<not> item_matches it port ip
         then ht_probe items sz port ip (word_of_nat ((unat index + 1) mod sz))
         else Some index)"

declare ht_probe.simps [code]

definition ht_get :: "'c ht_t \<Rightarrow> u16 \<Rightarrow> bytes \<Rightarrow> 'c option option" where
  "ht_get t port ip = (if ht_locked t then None else do {
     index \<leftarrow> ht_probe (ht_items t) (ht_size t) port ip (ht_hash t port);
     it \<leftarrow> rd (ht_items t) (unat index);
     Some (if it_used it then it_value it else None)
   })"

definition ht_contains :: "'c ht_t \<Rightarrow> u16 \<Rightarrow> bytes \<Rightarrow> bool option" where
  "ht_contains t port ip = do { r \<leftarrow> ht_get t port ip; Some (r \<noteq> None) }"

text \<open>\<^verbatim>\<open>ht_put_nolock\<close> without resizing, which is how it is called.\<close>

definition ht_put_plain :: "'c ht_t \<Rightarrow> u16 \<Rightarrow> bytes \<Rightarrow> 'c option \<Rightarrow> ('c option \<times> 'c ht_t) option" where
  "ht_put_plain t port ip item = do {
     index \<leftarrow> ht_probe (ht_items t) (ht_size t) port ip (ht_hash t port);
     it \<leftarrow> rd (ht_items t) (unat index);
     let old = (if it_used it then it_value it else None);
     Some (old, t\<lparr>ht_items := (ht_items t)[unat index :=
                    \<lparr>it_used = item \<noteq> None, it_value = item, it_port = port, it_ip = take 16 ip\<rparr>],
                  ht_len := (if old = None \<and> item \<noteq> None then ht_len t + 1
                             else if old \<noteq> None \<and> item = None then ht_len t - 1 else ht_len t)\<rparr>)
   }"

text \<open>
  \<^verbatim>\<open>ht_resize\<close>: the used items are put into the new array one by one; the old array is freed with
  the values left in it, which are not those of the used items, whose pointers are set to null.
  Without memory the table is left without items. The result has whether it succeeded and the
  values freed.
\<close>

fun reinsert :: "'c item_t list \<Rightarrow> 'c ht_t \<Rightarrow> 'c ht_t option" where
  "reinsert [] t = Some t"
| "reinsert (it # its) t = (if it_used it
     then (case ht_put_plain t (it_port it) (it_ip it) (it_value it) of None \<Rightarrow> None | Some (_, t) \<Rightarrow> reinsert its t)
     else reinsert its t)"

definition ht_resize :: "bool \<Rightarrow> 'c ht_t \<Rightarrow> nat \<Rightarrow> (bool \<times> 'c list \<times> 'c ht_t) option" where
  "ht_resize calloc t new_size =
     (if \<not> calloc then Some (False, [], t\<lparr>ht_size := new_size, ht_len := 0, ht_items := []\<rparr>)
      else do {
        _ \<leftarrow> (if length (ht_items t) < ht_size t then None else Some ());
        t' \<leftarrow> reinsert (take (ht_size t) (ht_items t)) (t\<lparr>ht_size := new_size, ht_len := 0, ht_items := replicate new_size empty_item\<rparr>);
        freed \<leftarrow> dealloc_items (ht_size t) (map (\<lambda>it. if it_used it then it\<lparr>it_value := None\<rparr> else it) (ht_items t));
        Some (True, freed, t')
      })"

text \<open>
  \<^verbatim>\<open>ht_put\<close>: \<open>Inl\<close> is the failed resize, which returns with the lock held.
\<close>

definition ht_put :: "bool \<Rightarrow> 'c ht_t \<Rightarrow> u16 \<Rightarrow> bytes \<Rightarrow> 'c option \<Rightarrow>
    (errors_t \<times> 'c ht_t + 'c option \<times> 'c ht_t) option" where
  "ht_put calloc t port ip item = (if ht_locked t then None else
     (let t = t\<lparr>ht_locked := True\<rparr> in
      if ht_len t > ht_size t div 2 then do {
        (ok, _, t) \<leftarrow> ht_resize calloc t (ht_size t * 2);
        if \<not> ok then Some (Inl (FAILED_TO_RESIZE, t))
        else do {
          (old, t) \<leftarrow> ht_put_plain t port ip item;
          Some (Inr (old, t\<lparr>ht_locked := False\<rparr>))
        }
      }
      else do {
        (old, t) \<leftarrow> ht_put_plain t port ip item;
        Some (Inr (old, t\<lparr>ht_locked := False\<rparr>))
      }))"

text \<open>
  \<^verbatim>\<open>ht_put_nolock\<close> with its flag: with \<^verbatim>\<open>resize\<close> set on a full table it resizes and calls \<^verbatim>\<open>ht_put\<close>.
\<close>

definition ht_put_nolock :: "bool \<Rightarrow> bool \<Rightarrow> 'c ht_t \<Rightarrow> u16 \<Rightarrow> bytes \<Rightarrow> 'c option \<Rightarrow> bool \<Rightarrow>
    (errors_t \<times> 'c ht_t + 'c option \<times> 'c ht_t) option" where
  "ht_put_nolock calloc calloc2 t port ip item resize =
     (if ht_len t > ht_size t div 2 \<and> resize then do {
        (ok, _, t) \<leftarrow> ht_resize calloc t (ht_size t * 2);
        if \<not> ok then Some (Inl (FAILED_TO_RESIZE, t)) else ht_put calloc2 t port ip item
      }
      else map_option Inr (ht_put_plain t port ip item))"

text \<open>
  \<^verbatim>\<open>ht_remove\<close>: the item is marked free, then the table is rebuilt at its size; whether the rebuild
  has memory does not change the result that is returned.
\<close>

definition ht_remove :: "bool \<Rightarrow> bool \<Rightarrow> 'c ht_t \<Rightarrow> u16 \<Rightarrow> bytes \<Rightarrow> ('c option \<times> 'c ht_t) option" where
  "ht_remove calloc calloc2 t port ip = do {
     r \<leftarrow> ht_put calloc t port ip None;
     case r of
       Inl (_, t) \<Rightarrow> Some (None, t)
     | Inr (None, t) \<Rightarrow> Some (None, t)
     | Inr (Some del, t) \<Rightarrow> do {
         (_, _, t) \<leftarrow> ht_resize calloc2 t (ht_size t);
         Some (Some del, t)
       }
   }"

definition ht_length :: "'c ht_t \<Rightarrow> nat" where
  "ht_length t = ht_len t"

section \<open>Probing\<close>

definition item_key :: "'c item_t \<Rightarrow> u16 \<times> bytes" where
  "item_key it = (it_port it, it_ip it)"

definition has_key :: "u16 \<times> bytes \<Rightarrow> 'c item_t \<Rightarrow> bool" where
  "has_key k it \<longleftrightarrow> it_used it \<and> item_key it = k"

text \<open>Where probing for a key stops: at a free slot or at the key.\<close>

definition stops :: "'c item_t list \<Rightarrow> u16 \<times> bytes \<Rightarrow> nat \<Rightarrow> bool" where
  "stops xs k j \<longleftrightarrow> \<not> it_used (xs ! j) \<or> has_key k (xs ! j)"

definition key_ok :: "u16 \<times> bytes \<Rightarrow> bool" where
  "key_ok k \<longleftrightarrow> length (snd k) = 16"

definition home :: "nat \<Rightarrow> u16 \<Rightarrow> nat" where
  "home n port = unat port mod n"

lemma home_less [simp]: "0 < n \<Longrightarrow> home n port < n"
  by (simp add: home_def)

lemma unat_index: "j < 65536 \<Longrightarrow> unat (word_of_nat j :: u16) = j"
  by (simp add: unat_of_nat take_bit_nat_eq_self)

lemma ht_probe_run:
  assumes "length xs = n" "0 < n" "n \<le> 65536" "\<forall>it \<in> set xs. it_used it \<longrightarrow> length (it_ip it) = 16" "length ip = 16"
    "h < n" "\<forall>i < k. \<not> stops xs (port, ip) ((h + i) mod n)" "stops xs (port, ip) ((h + k) mod n)"
  shows "ht_probe xs n port ip (word_of_nat h) = Some (word_of_nat ((h + k) mod n))"
  using assms(6-8)
proof (induction k arbitrary: h)
  case 0
  have m: "it_used (xs ! h) \<Longrightarrow> item_matches (xs ! h) port ip \<longleftrightarrow> has_key (port, ip) (xs ! h)"
    using assms 0(1) by (simp add: item_matches_def has_key_def item_key_def ip_equals_def)
  with 0 assms(1-3) show ?case
    by (subst ht_probe.simps) (auto simp: unat_index stops_def)
next
  case (Suc k)
  let ?h = "(h + 1) mod n"
  have shift: "(?h + i) mod n = (h + Suc i) mod n" for i by (simp add: mod_simps)
  have "\<not> stops xs (port, ip) h" using Suc.prems(1,2) by (metis add.right_neutral mod_less zero_less_Suc)
  moreover have "it_used (xs ! h) \<Longrightarrow> item_matches (xs ! h) port ip \<longleftrightarrow> has_key (port, ip) (xs ! h)"
    using assms(1,4,5) Suc.prems(1) by (simp add: item_matches_def has_key_def item_key_def ip_equals_def)
  ultimately have "ht_probe xs n port ip (word_of_nat h) = ht_probe xs n port ip (word_of_nat ?h)"
    using assms(1-3) Suc.prems(1) by (subst ht_probe.simps) (auto simp: unat_index stops_def)
  also have "\<dots> = Some (word_of_nat ((?h + k) mod n))"
    using Suc.prems assms(2) by (intro Suc.IH) (simp_all only: shift mod_less_divisor, auto)
  finally show ?case by (simp only: shift)
qed

text \<open>The distance from the home slot of a port to a slot.\<close>

definition distance :: "nat \<Rightarrow> nat \<Rightarrow> nat \<Rightarrow> nat" where
  "distance n h i = (i + n - h) mod n"

lemma distance_less: "0 < n \<Longrightarrow> distance n h i < n"
  by (simp add: distance_def)

lemma distance_reaches: "h < n \<Longrightarrow> i < n \<Longrightarrow> (h + distance n h i) mod n = i"
  by (simp add: distance_def mod_simps)

lemma distance_eq: "h < n \<Longrightarrow> k < n \<Longrightarrow> distance n h ((h + k) mod n) = k"
proof (cases "h + k < n")
  case False
  assume a: "h < n" "k < n"
  with False have "(h + k) mod n = h + k - n" by (simp add: le_mod_geq)
  with a False show ?thesis by (simp add: distance_def)
qed (simp add: distance_def)

text \<open>
  The invariant of the items: the slots between the home of an item and the item are in use,
  keys occur once, an item is in use exactly when it has a value, and addresses have 16 bytes.
\<close>

definition items_distinct :: "'c item_t list \<Rightarrow> bool" where
  "items_distinct xs \<longleftrightarrow> (\<forall>i < length xs. \<forall>j < length xs.
     it_used (xs ! i) \<and> has_key (item_key (xs ! i)) (xs ! j) \<longrightarrow> i = j)"

definition items_values :: "'c item_t list \<Rightarrow> bool" where
  "items_values xs \<longleftrightarrow> (\<forall>it \<in> set xs. (it_used it \<longleftrightarrow> it_value it \<noteq> None) \<and> (it_used it \<longrightarrow> length (it_ip it) = 16))"

definition items_reachable :: "'c item_t list \<Rightarrow> bool" where
  "items_reachable xs \<longleftrightarrow> (\<forall>i < length xs. it_used (xs ! i) \<longrightarrow>
     (\<forall>k < distance (length xs) (home (length xs) (it_port (xs ! i))) i.
        it_used (xs ! ((home (length xs) (it_port (xs ! i)) + k) mod length xs))))"

definition used_count :: "'c item_t list \<Rightarrow> nat" where
  "used_count xs = length (filter it_used xs)"

definition items_entries :: "'c item_t list \<Rightarrow> u16 \<times> bytes \<Rightarrow> 'c option" where
  "items_entries xs k = (case List.find (has_key k) xs of None \<Rightarrow> None | Some it \<Rightarrow> it_value it)"

lemma entries_at:
  assumes "items_distinct xs" "i < length xs" "has_key k (xs ! i)"
  shows "items_entries xs k = it_value (xs ! i)"
proof (cases "List.find (has_key k) xs")
  case None
  then show ?thesis using assms by (auto simp: find_None_iff)
next
  case (Some it)
  then obtain j where j: "j < length xs" "has_key k (xs ! j)" "it = xs ! j" by (auto simp: find_Some_iff)
  then have "i = j" using assms by (auto simp: items_distinct_def has_key_def)
  with Some j show ?thesis by (simp add: items_entries_def)
qed

lemma entries_absent: "\<forall>i < length xs. \<not> has_key k (xs ! i) \<Longrightarrow> items_entries xs k = None"
  by (auto simp: items_entries_def find_Some_iff split: option.splits)

lemma entries_None_iff:
  assumes "items_distinct xs" "items_values xs"
  shows "items_entries xs k = None \<longleftrightarrow> (\<forall>i < length xs. \<not> has_key k (xs ! i))"
proof
  assume e: "items_entries xs k = None"
  show "\<forall>i < length xs. \<not> has_key k (xs ! i)"
  proof (intro allI impI notI)
    fix i assume i: "i < length xs" "has_key k (xs ! i)"
    then have "it_value (xs ! i) = None" using e entries_at [OF assms(1)] by simp
    moreover have "it_used (xs ! i)" using i by (simp add: has_key_def)
    ultimately show False using assms(2) i(1) nth_mem by (fastforce simp: items_values_def)
  qed
qed (rule entries_absent)

lemma length_filter_update:
  assumes "j < length xs"
  shows "length (filter P (xs[j := x])) + (if P (xs ! j) then 1 else 0) = length (filter P xs) + (if P x then 1 else 0)"
proof -
  have "filter P xs = filter P (take j xs @ xs ! j # drop (Suc j) xs)"
    by (rule arg_cong [OF id_take_nth_drop [OF assms]])
  then show ?thesis using assms by (simp add: upd_conv_take_nth_drop)
qed

lemma free_slot: "used_count xs < length xs \<Longrightarrow> \<exists>j < length xs. \<not> it_used (xs ! j)"
proof (rule ccontr)
  assume "used_count xs < length xs" "\<not> (\<exists>j < length xs. \<not> it_used (xs ! j))"
  then have "filter it_used xs = xs" by (auto simp: filter_id_conv in_set_conv_nth)
  with \<open>used_count xs < length xs\<close> show False by (simp add: used_count_def)
qed

text \<open>
  Probing from the home slot of a port, in a table with a free slot: it stops at the slot of the
  key if the key is there, and otherwise at a free slot with every slot before it in use.
\<close>

lemma ht_probe_finds:
  assumes "items_distinct xs" "items_values xs" "items_reachable xs" "used_count xs < length xs"
    "length xs \<le> 65536" "length ip = 16"
  obtains j where "ht_probe xs (length xs) port ip (word_of_nat (home (length xs) port)) = Some (word_of_nat j)"
    "j < length xs" "stops xs (port, ip) j"
    "\<forall>k < distance (length xs) (home (length xs) port) j. it_used (xs ! ((home (length xs) port + k) mod length xs))"
    "has_key (port, ip) (xs ! j) \<or> \<not> it_used (xs ! j) \<and> (\<forall>i < length xs. \<not> has_key (port, ip) (xs ! i))"
proof -
  let ?n = "length xs" and ?h = "home (length xs) port" and ?k = "(port, ip)"
  have n: "0 < ?n" using assms(4) by linarith
  have h: "?h < ?n" using n by simp
  define P where "P k \<longleftrightarrow> k < ?n \<and> stops xs ?k ((?h + k) mod ?n)" for k
  have "\<exists>k. P k"
  proof -
    from free_slot [OF assms(4)] obtain j where "j < ?n" "\<not> it_used (xs ! j)" by blast
    then show ?thesis
      using distance_reaches [OF h, of j] distance_less [OF n, of ?h j]
      by (intro exI [of _ "distance ?n ?h j"]) (simp add: stops_def P_def)
  qed
  then obtain k where least: "P k" "\<forall>i < k. \<not> P i" using exists_least_iff [of P] by blast
  then have k: "k < ?n" "stops xs ?k ((?h + k) mod ?n)" "\<forall>i < k. \<not> stops xs ?k ((?h + i) mod ?n)"
    by (auto simp: P_def)
  let ?j = "(?h + k) mod ?n"
  have ips: "\<forall>it \<in> set xs. it_used it \<longrightarrow> length (it_ip it) = 16" using assms(2) by (auto simp: items_values_def)
  have path: "it_used (xs ! ((?h + i) mod ?n))" if "i < k" for i using k(3) that by (auto simp: stops_def)
  have absent: "\<forall>i < ?n. \<not> has_key ?k (xs ! i)" if "\<not> it_used (xs ! ?j)"
  proof (intro allI impI notI)
    fix i assume i: "i < ?n" "has_key ?k (xs ! i)"
    let ?d = "distance ?n ?h i"
    have port: "it_port (xs ! i) = port" "it_used (xs ! i)" using i(2) by (simp_all add: has_key_def item_key_def)
    have reach: "it_used (xs ! ((?h + l) mod ?n))" if "l < ?d" for l
      using assms(3) i(1) port(2) \<open>l < ?d\<close> unfolding items_reachable_def port(1) [symmetric] by blast
    have "stops xs ?k ((?h + ?d) mod ?n)" using i distance_reaches [OF h i(1)] by (simp add: stops_def)
    then have "k \<le> ?d" using k(3) by (metis not_le)
    moreover have "\<not> k < ?d" using reach that by blast
    ultimately have "?j = i" using distance_reaches [OF h i(1)] by simp
    with that port show False by simp
  qed
  show thesis
  proof (rule that [of ?j])
    show "ht_probe xs ?n port ip (word_of_nat ?h) = Some (word_of_nat ?j)"
      by (rule ht_probe_run [OF refl n assms(5) ips assms(6) h k(3,2)])
    show "?j < ?n" using n by simp
    show "stops xs ?k ?j" by (fact k(2))
    show "\<forall>i < distance ?n ?h ?j. it_used (xs ! ((?h + i) mod ?n))"
      using path distance_eq [OF h k(1)] by simp
    show "has_key ?k (xs ! ?j) \<or> \<not> it_used (xs ! ?j) \<and> (\<forall>i < ?n. \<not> has_key ?k (xs ! i))"
      using k(2) absent by (auto simp: stops_def)
  qed
qed

section \<open>Putting an item\<close>

definition new_item :: "u16 \<times> bytes \<Rightarrow> 'c option \<Rightarrow> 'c item_t" where
  "new_item k item = \<lparr>it_used = item \<noteq> None, it_value = item, it_port = fst k, it_ip = snd k\<rparr>"

text \<open>The slot for a key: the one that holds it, or a free one when the key is absent.\<close>

definition slot_for :: "'c item_t list \<Rightarrow> u16 \<times> bytes \<Rightarrow> nat \<Rightarrow> bool" where
  "slot_for xs k j \<longleftrightarrow> j < length xs \<and>
     (has_key k (xs ! j) \<or> \<not> it_used (xs ! j) \<and> (\<forall>i < length xs. \<not> has_key k (xs ! i)))"

lemma slot_for_other:
  assumes "items_distinct xs" "slot_for xs k j" "i < length xs" "i \<noteq> j"
  shows "\<not> has_key k (xs ! i)"
  using assms by (auto simp: slot_for_def items_distinct_def has_key_def)

lemma items_distinct_put:
  assumes "items_distinct xs" "slot_for xs k j"
  shows "items_distinct (xs[j := new_item k item])"
  unfolding items_distinct_def
proof (intro allI impI)
  fix a b assume ab: "a < length (xs[j := new_item k item])" "b < length (xs[j := new_item k item])"
    "it_used (xs[j := new_item k item] ! a) \<and> has_key (item_key (xs[j := new_item k item] ! a)) (xs[j := new_item k item] ! b)"
  have k: "item_key (new_item k item) = k" by (simp add: item_key_def new_item_def)
  note o = slot_for_other [OF assms]
  show "a = b"
  proof (cases "a = j"; cases "b = j")
    assume "a \<noteq> j" "b \<noteq> j" then show ?thesis using ab assms(1) by (simp add: items_distinct_def)
  next
    assume "a = j" "b \<noteq> j" then show ?thesis using ab o [of b] k by simp
  next
    assume "a \<noteq> j" "b = j" then show ?thesis using ab o [of a] k by (auto simp: has_key_def)
  qed simp
qed

lemma items_values_put: "items_values xs \<Longrightarrow> key_ok k \<Longrightarrow> items_values (xs[j := new_item k item])"
  by (auto simp: items_values_def new_item_def key_ok_def dest!: set_update_subset_insert [THEN subsetD])

lemma entries_put:
  assumes "items_distinct xs" "items_values xs" "slot_for xs k j"
  shows "items_entries (xs[j := new_item k item]) = (items_entries xs)(k := item)"
proof
  fix q
  let ?xs = "xs[j := new_item k item]"
  have j: "j < length xs" using assms(3) by (simp add: slot_for_def)
  have kk: "item_key (new_item k item) = k" by (simp add: item_key_def new_item_def)
  note d = items_distinct_put [OF assms(1,3), of item]
  show "items_entries ?xs q = ((items_entries xs)(k := item)) q"
  proof (cases "\<exists>i < length xs. has_key q (?xs ! i)")
    case True
    then obtain i where i: "i < length xs" "has_key q (?xs ! i)" by blast
    then have e: "items_entries ?xs q = it_value (?xs ! i)" using entries_at [OF d] by simp
    show ?thesis
    proof (cases "i = j")
      case True
      with e i j kk show ?thesis by (auto simp: has_key_def new_item_def)
    next
      case False
      then have "has_key q (xs ! i)" "q \<noteq> k" using i slot_for_other [OF assms(1,3) i(1)] by auto
      with False e i entries_at [OF assms(1) i(1)] show ?thesis by simp
    qed
  next
    case False
    then have e: "items_entries ?xs q = None" by (intro entries_absent) simp
    show ?thesis
    proof (cases "q = k")
      case True
      have "\<not> has_key k (new_item k item)" using False j True by auto
      then have "item = None" using kk by (simp add: has_key_def new_item_def)
      with e True show ?thesis by simp
    next
      case qk: False
      have "\<not> has_key q (xs ! i)" if i: "i < length xs" for i
      proof (cases "i = j")
        case True
        then show ?thesis using assms(3) qk by (auto simp: slot_for_def has_key_def)
      next
        case False
        with \<open>\<not> (\<exists>i < length xs. has_key q (?xs ! i))\<close> i show ?thesis by auto
      qed
      then show ?thesis using e qk by (simp add: entries_absent)
    qed
  qed
qed

lemma items_reachable_put:
  assumes "items_reachable xs" "j < length xs" "it_used x"
    "\<forall>k < distance (length xs) (home (length xs) (it_port x)) j.
       it_used (xs ! ((home (length xs) (it_port x) + k) mod length xs))"
  shows "items_reachable (xs[j := x])"
  unfolding items_reachable_def length_list_update
proof (intro allI impI)
  fix i k assume i: "i < length xs" "it_used (xs[j := x] ! i)"
    and k: "k < distance (length xs) (home (length xs) (it_port (xs[j := x] ! i))) i"
  have grow: "it_used (xs[j := x] ! l)" if "it_used (xs ! l)" for l
    using that assms(2,3) by (cases "l = j") simp_all
  show "it_used (xs[j := x] ! ((home (length xs) (it_port (xs[j := x] ! i)) + k) mod length xs))"
  proof (cases "i = j")
    case True
    with k assms(2,4) show ?thesis by (intro grow) simp
  next
    case False
    with i k have "it_used (xs ! i)" "k < distance (length xs) (home (length xs) (it_port (xs ! i))) i" by simp_all
    then have "it_used (xs ! ((home (length xs) (it_port (xs ! i)) + k) mod length xs))"
      using assms(1) i(1) unfolding items_reachable_def by blast
    with False show ?thesis by (intro grow) simp
  qed
qed

text \<open>A slot that was and stays free does not matter.\<close>

lemma items_reachable_free:
  assumes "items_reachable xs" "j < length xs" "\<not> it_used (xs ! j)" "\<not> it_used x"
  shows "items_reachable (xs[j := x])"
  unfolding items_reachable_def length_list_update
proof (intro allI impI)
  fix i k assume i: "i < length xs" "it_used (xs[j := x] ! i)"
    and k: "k < distance (length xs) (home (length xs) (it_port (xs[j := x] ! i))) i"
  have "i \<noteq> j" using i assms(2,4) by auto
  with i k have u: "it_used (xs ! i)" "k < distance (length xs) (home (length xs) (it_port (xs ! i))) i" by simp_all
  then have "it_used (xs ! ((home (length xs) (it_port (xs ! i)) + k) mod length xs))"
    using assms(1) i(1) unfolding items_reachable_def by blast
  moreover from this have "(home (length xs) (it_port (xs ! i)) + k) mod length xs \<noteq> j" using assms(3) by auto
  ultimately show "it_used (xs[j := x] ! ((home (length xs) (it_port (xs[j := x] ! i)) + k) mod length xs))"
    using \<open>i \<noteq> j\<close> by simp
qed

section \<open>The invariant of the table\<close>

definition ht_entries :: "'c ht_t \<Rightarrow> u16 \<times> bytes \<Rightarrow> 'c option" where
  "ht_entries t = items_entries (ht_items t)"

definition ht_weak :: "'c ht_t \<Rightarrow> bool" where
  "ht_weak t \<longleftrightarrow> items_distinct (ht_items t) \<and> items_values (ht_items t) \<and> length (ht_items t) = ht_size t \<and>
     ht_len t = used_count (ht_items t)"

definition ht_good :: "'c ht_t \<Rightarrow> bool" where
  "ht_good t \<longleftrightarrow> ht_weak t \<and> items_reachable (ht_items t) \<and> ht_size t \<le> 65536 \<and> ht_len t < ht_size t"

lemma ht_good_probe:
  assumes "ht_good t" "key_ok (port, ip)"
  obtains j where "ht_probe (ht_items t) (ht_size t) port ip (ht_hash t port) = Some (word_of_nat j)"
    "unat (word_of_nat j :: u16) = j" "slot_for (ht_items t) (port, ip) j"
    "\<forall>k < distance (ht_size t) (home (ht_size t) port) j. it_used (ht_items t ! ((home (ht_size t) port + k) mod ht_size t))"
proof -
  have t: "items_distinct (ht_items t)" "items_values (ht_items t)" "items_reachable (ht_items t)"
    "used_count (ht_items t) < length (ht_items t)" "length (ht_items t) \<le> 65536" "length ip = 16"
    and sz: "length (ht_items t) = ht_size t"
    using assms by (auto simp: ht_good_def ht_weak_def key_ok_def)
  from ht_probe_finds [OF t] obtain j where
    "ht_probe (ht_items t) (ht_size t) port ip (word_of_nat (home (ht_size t) port)) = Some (word_of_nat j)"
    "j < ht_size t"
    "\<forall>k < distance (ht_size t) (home (ht_size t) port) j. it_used (ht_items t ! ((home (ht_size t) port + k) mod ht_size t))"
    "has_key (port, ip) (ht_items t ! j) \<or>
      \<not> it_used (ht_items t ! j) \<and> (\<forall>i < ht_size t. \<not> has_key (port, ip) (ht_items t ! i))"
    unfolding sz by blast
  with t(5) sz show thesis
    by (intro that [of j]) (simp_all add: ht_hash_def home_def [symmetric] slot_for_def unat_index)
qed

lemma slot_value:
  assumes "items_distinct xs" "items_values xs" "slot_for xs k j"
  shows "(if it_used (xs ! j) then it_value (xs ! j) else None) = items_entries xs k"
proof (cases "has_key k (xs ! j)")
  case True
  then show ?thesis using entries_at [OF assms(1) _ True] assms(3) by (simp add: slot_for_def has_key_def)
next
  case False
  then show ?thesis using assms(3) by (simp add: slot_for_def entries_absent)
qed

lemma ht_get_eq:
  assumes "ht_good t" "\<not> ht_locked t" "key_ok (port, ip)"
  shows "ht_get t port ip = Some (ht_entries t (port, ip))"
proof -
  have t: "items_distinct (ht_items t)" "items_values (ht_items t)" using assms(1) by (auto simp: ht_good_def ht_weak_def)
  obtain j where j: "ht_probe (ht_items t) (ht_size t) port ip (ht_hash t port) = Some (word_of_nat j)"
    "unat (word_of_nat j :: u16) = j" "slot_for (ht_items t) (port, ip) j"
    using ht_good_probe [OF assms(1,3)] by blast
  then have "j < length (ht_items t)" by (simp add: slot_for_def)
  with j assms(2) slot_value [OF t j(3)] show ?thesis by (simp add: ht_get_def ht_entries_def)
qed

lemma ht_put_plain_eq:
  assumes "ht_good t" "key_ok (port, ip)"
  obtains j where "ht_put_plain t port ip item = Some (ht_entries t (port, ip),
      t\<lparr>ht_items := (ht_items t)[j := new_item (port, ip) item],
        ht_len := used_count ((ht_items t)[j := new_item (port, ip) item])\<rparr>)"
    "slot_for (ht_items t) (port, ip) j"
    "\<forall>k < distance (ht_size t) (home (ht_size t) port) j. it_used (ht_items t ! ((home (ht_size t) port + k) mod ht_size t))"
proof -
  let ?xs = "ht_items t"
  have t: "items_distinct ?xs" "items_values ?xs" "ht_len t = used_count ?xs" "length ip = 16"
    using assms by (auto simp: ht_good_def ht_weak_def key_ok_def)
  obtain j where j: "ht_probe ?xs (ht_size t) port ip (ht_hash t port) = Some (word_of_nat j)"
    "unat (word_of_nat j :: u16) = j" "slot_for ?xs (port, ip) j"
    "\<forall>k < distance (ht_size t) (home (ht_size t) port) j. it_used (?xs ! ((home (ht_size t) port + k) mod ht_size t))"
    using ht_good_probe [OF assms] by blast
  have jl: "j < length ?xs" using j(3) by (simp add: slot_for_def)
  note old = slot_value [OF t(1,2) j(3)]
  have used: "it_used (?xs ! j) \<longleftrightarrow> items_entries ?xs (port, ip) \<noteq> None"
    using old t(2) nth_mem [OF jl] by (auto simp: items_values_def split: if_splits)
  have "used_count (?xs[j := new_item (port, ip) item]) + (if it_used (?xs ! j) then 1 else 0) =
      used_count ?xs + (if item \<noteq> None then 1 else 0)"
    using length_filter_update [OF jl, of it_used "new_item (port, ip) item"]
    by (simp add: used_count_def new_item_def)
  then have cnt: "(if items_entries ?xs (port, ip) = None \<and> item \<noteq> None then ht_len t + 1
      else if items_entries ?xs (port, ip) \<noteq> None \<and> item = None then ht_len t - 1 else ht_len t) =
      used_count (?xs[j := new_item (port, ip) item])"
    using t(3) used by (auto split: if_splits)
  have new: "\<lparr>it_used = item \<noteq> None, it_value = item, it_port = port, it_ip = take 16 ip\<rparr> = new_item (port, ip) item"
    using t(4) by (simp add: new_item_def)
  have rdj: "rd ?xs j = Some (?xs ! j)" using jl by simp
  have "ht_put_plain t port ip item = Some (ht_entries t (port, ip),
      t\<lparr>ht_items := ?xs[j := new_item (port, ip) item], ht_len := used_count (?xs[j := new_item (port, ip) item])\<rparr>)"
    by (simp only: ht_put_plain_def j(1,2) Option.bind.simps rdj Let_def old new cnt ht_entries_def)
  with j(3,4) show thesis by (intro that)
qed

lemma ht_put_some:
  assumes "ht_good t" "key_ok (port, ip)" "ht_len t + 1 < ht_size t"
  shows "\<exists>t'. ht_put_plain t port ip (Some v) = Some (ht_entries t (port, ip), t') \<and> ht_good t' \<and>
    ht_size t' = ht_size t \<and> ht_locked t' = ht_locked t \<and> ht_entries t' = (ht_entries t)((port, ip) \<mapsto> v) \<and>
    ht_len t' = (if ht_entries t (port, ip) = None then ht_len t + 1 else ht_len t)"
proof -
  let ?xs = "ht_items t"
  have t: "items_distinct ?xs" "items_values ?xs" "items_reachable ?xs" "ht_len t = used_count ?xs"
    "length ?xs = ht_size t" "ht_size t \<le> 65536"
    using assms by (auto simp: ht_good_def ht_weak_def)
  obtain j where j: "ht_put_plain t port ip (Some v) = Some (ht_entries t (port, ip),
      t\<lparr>ht_items := ?xs[j := new_item (port, ip) (Some v)], ht_len := used_count (?xs[j := new_item (port, ip) (Some v)])\<rparr>)"
    "slot_for ?xs (port, ip) j"
    "\<forall>k < distance (ht_size t) (home (ht_size t) port) j. it_used (?xs ! ((home (ht_size t) port + k) mod ht_size t))"
    using ht_put_plain_eq [OF assms(1,2)] by blast
  have jl: "j < length ?xs" using j(2) by (simp add: slot_for_def)
  have used: "it_used (?xs ! j) \<longleftrightarrow> ht_entries t (port, ip) \<noteq> None"
    using slot_value [OF t(1,2) j(2)] t(2) nth_mem [OF jl]
    by (auto simp: items_values_def ht_entries_def split: if_splits)
  have cnt: "used_count (?xs[j := new_item (port, ip) (Some v)]) =
      (if ht_entries t (port, ip) = None then ht_len t + 1 else ht_len t)"
    using length_filter_update [OF jl, of it_used "new_item (port, ip) (Some v)"] used t(4)
    by (auto simp: used_count_def new_item_def split: if_splits)
  have "items_reachable (?xs[j := new_item (port, ip) (Some v)])"
    using j(3) t(3,5) jl by (intro items_reachable_put) (simp_all add: new_item_def)
  with j(1) cnt t assms show ?thesis
    using items_distinct_put [OF t(1) j(2)] items_values_put [OF t(2) assms(2)] entries_put [OF t(1,2) j(2)]
    by (auto simp: ht_good_def ht_weak_def ht_entries_def)
qed

lemma ht_put_none:
  assumes "ht_good t" "key_ok (port, ip)"
  shows "\<exists>t'. ht_put_plain t port ip None = Some (ht_entries t (port, ip), t') \<and> ht_weak t' \<and>
    (ht_entries t (port, ip) = None \<longrightarrow> ht_good t') \<and> ht_size t' = ht_size t \<and> ht_locked t' = ht_locked t \<and>
    ht_entries t' = (ht_entries t)((port, ip) := None) \<and> ht_len t' \<le> ht_len t"
proof -
  let ?xs = "ht_items t"
  have t: "items_distinct ?xs" "items_values ?xs" "items_reachable ?xs" "ht_len t = used_count ?xs"
    "length ?xs = ht_size t" "ht_size t \<le> 65536" "ht_len t < ht_size t"
    using assms by (auto simp: ht_good_def ht_weak_def)
  obtain j where j: "ht_put_plain t port ip None = Some (ht_entries t (port, ip),
      t\<lparr>ht_items := ?xs[j := new_item (port, ip) None], ht_len := used_count (?xs[j := new_item (port, ip) None])\<rparr>)"
    "slot_for ?xs (port, ip) j"
    using ht_put_plain_eq [OF assms(1,2)] by blast
  have jl: "j < length ?xs" using j(2) by (simp add: slot_for_def)
  have used: "it_used (?xs ! j) \<longleftrightarrow> ht_entries t (port, ip) \<noteq> None"
    using slot_value [OF t(1,2) j(2)] t(2) nth_mem [OF jl]
    by (auto simp: items_values_def ht_entries_def split: if_splits)
  have cnt: "used_count (?xs[j := new_item (port, ip) None]) \<le> ht_len t"
    using length_filter_update [OF jl, of it_used "new_item (port, ip) None"] t(4)
    by (auto simp: used_count_def new_item_def split: if_splits)
  have "items_reachable (?xs[j := new_item (port, ip) None])" if "ht_entries t (port, ip) = None"
    using that used t(3) jl by (intro items_reachable_free) (simp_all add: new_item_def)
  with j(1) cnt t assms show ?thesis
    using items_distinct_put [OF t(1) j(2)] items_values_put [OF t(2) assms(2)] entries_put [OF t(1,2) j(2)]
    by (auto simp: ht_good_def ht_weak_def ht_entries_def)
qed

section \<open>Rebuilding the table\<close>

lemma items_distinct_Cons:
  assumes "items_distinct (x # xs)"
  shows "items_distinct xs" "it_used x \<Longrightarrow> items_entries xs (item_key x) = None"
proof -
  show "items_distinct xs"
    unfolding items_distinct_def
  proof (intro allI impI)
    fix i j assume "i < length xs" "j < length xs" "it_used (xs ! i) \<and> has_key (item_key (xs ! i)) (xs ! j)"
    then have "Suc i = Suc j" using assms unfolding items_distinct_def
      by (metis Suc_less_eq length_Cons nth_Cons_Suc)
    then show "i = j" by simp
  qed
  show "items_entries xs (item_key x) = None" if "it_used x"
  proof (rule entries_absent, intro allI impI notI)
    fix i assume "i < length xs" "has_key (item_key x) (xs ! i)"
    then have "0 = Suc i" using assms that unfolding items_distinct_def
      by (metis Suc_less_eq length_Cons nth_Cons_0 nth_Cons_Suc zero_less_Suc)
    then show False by simp
  qed
qed

lemma reinsert_spec:
  assumes "ht_good t" "items_distinct its" "items_values its" "ht_len t + used_count its < ht_size t"
    "\<forall>it \<in> set its. it_used it \<longrightarrow> ht_entries t (item_key it) = None"
  shows "\<exists>t'. reinsert its t = Some t' \<and> ht_good t' \<and> ht_size t' = ht_size t \<and> ht_locked t' = ht_locked t \<and>
    ht_len t' = ht_len t + used_count its \<and>
    ht_entries t' = (\<lambda>k. case items_entries its k of None \<Rightarrow> ht_entries t k | Some v \<Rightarrow> Some v)"
  using assms
proof (induction its arbitrary: t)
  case Nil
  then show ?case by (simp add: items_entries_def used_count_def)
next
  case (Cons it its)
  note d = items_distinct_Cons [OF Cons.prems(2)]
  have vals: "items_values its" and vi: "it_used it \<longleftrightarrow> it_value it \<noteq> None" "it_used it \<longrightarrow> length (it_ip it) = 16"
    using Cons.prems(3) by (simp_all add: items_values_def)
  show ?case
  proof (cases "it_used it")
    case False
    then have "items_entries (it # its) = items_entries its" "used_count (it # its) = used_count its"
      by (auto simp: items_entries_def has_key_def used_count_def)
    with False Cons.IH [OF Cons.prems(1) d(1) vals] Cons.prems(4,5) show ?thesis by simp
  next
    case True
    then obtain v where v: "it_value it = Some v" using vi by auto
    have key: "key_ok (it_port it, it_ip it)" "(it_port it, it_ip it) = item_key it"
      using True vi by (simp_all add: key_ok_def item_key_def)
    have cnt: "used_count (it # its) = Suc (used_count its)" using True by (simp add: used_count_def)
    have free: "ht_entries t (item_key it) = None" using Cons.prems(5) True by simp
    obtain t1 where t1: "ht_put_plain t (it_port it) (it_ip it) (Some v) = Some (None, t1)" "ht_good t1"
      "ht_size t1 = ht_size t" "ht_locked t1 = ht_locked t" "ht_entries t1 = (ht_entries t)(item_key it \<mapsto> v)"
      "ht_len t1 = ht_len t + 1"
      using ht_put_some [OF Cons.prems(1) key(1), of v] Cons.prems(4) cnt free key(2) by auto
    have "\<forall>x \<in> set its. it_used x \<longrightarrow> ht_entries t1 (item_key x) = None"
    proof (intro ballI impI)
      fix x assume x: "x \<in> set its" "it_used x"
      have "item_key x \<noteq> item_key it"
      proof
        assume e: "item_key x = item_key it"
        obtain i where i: "i < length its" "its ! i = x" using x(1) by (auto simp: in_set_conv_nth)
        then have "has_key (item_key it) (its ! i)" using x(2) e by (simp add: has_key_def)
        then show False using d(2) [OF True] entries_None_iff [OF d(1) vals] i(1) by blast
      qed
      with x Cons.prems(5) t1(5) show "ht_entries t1 (item_key x) = None" by simp
    qed
    then obtain t' where t': "reinsert its t1 = Some t'" "ht_good t'" "ht_size t' = ht_size t1"
      "ht_locked t' = ht_locked t1" "ht_len t' = ht_len t1 + used_count its"
      "ht_entries t' = (\<lambda>k. case items_entries its k of None \<Rightarrow> ht_entries t1 k | Some v \<Rightarrow> Some v)"
      using Cons.IH [OF t1(2) d(1) vals] Cons.prems(4) cnt t1(3,6) by auto
    have "items_entries (it # its) k = (if k = item_key it then Some v else items_entries its k)" for k
      using True v by (auto simp: items_entries_def has_key_def)
    then have "ht_entries t' = (\<lambda>k. case items_entries (it # its) k of None \<Rightarrow> ht_entries t k | Some v \<Rightarrow> Some v)"
      using t'(6) t1(5) d(2) [OF True] by (auto split: option.splits)
    with True v t1 t' cnt show ?thesis by simp
  qed
qed

lemma ht_resize_spec:
  assumes "ht_weak t" "ht_len t < n" "n \<le> 65536"
  shows "\<exists>t'. ht_resize True t n = Some (True, [], t') \<and> ht_good t' \<and> ht_size t' = n \<and> ht_locked t' = ht_locked t \<and>
    ht_len t' = ht_len t \<and> ht_entries t' = ht_entries t"
proof -
  let ?e = "t\<lparr>ht_size := n, ht_len := 0, ht_items := replicate n empty_item\<rparr>"
  have none: "\<not> it_used (replicate n (empty_item :: 'a item_t) ! i)" if "i < n" for i
    using that by (simp add: empty_item_def)
  have absent: "ht_entries ?e k = None" for k
    unfolding ht_entries_def using none by (intro entries_absent) (simp add: has_key_def)
  have "used_count (replicate n (empty_item :: 'a item_t)) = 0" by (simp add: used_count_def empty_item_def)
  then have good: "ht_good ?e"
    using assms(2,3) none
    by (auto simp: ht_good_def ht_weak_def items_distinct_def items_values_def items_reachable_def empty_item_def)
  have w: "items_distinct (ht_items t)" "items_values (ht_items t)" "ht_len t = used_count (ht_items t)"
    "length (ht_items t) = ht_size t"
    using assms(1) by (auto simp: ht_weak_def)
  have cnt: "ht_len ?e + used_count (ht_items t) < ht_size ?e" using assms(2) w(3) by simp
  from reinsert_spec [OF good w(1,2) cnt] absent obtain t' where t': "reinsert (ht_items t) ?e = Some t'" "ht_good t'"
    "ht_size t' = n" "ht_locked t' = ht_locked t" "ht_len t' = used_count (ht_items t)"
    "ht_entries t' = (\<lambda>k. case items_entries (ht_items t) k of None \<Rightarrow> ht_entries ?e k | Some v \<Rightarrow> Some v)" by auto
  have "ht_entries t' = ht_entries t"
    unfolding t'(6) absent by (auto simp: ht_entries_def split: option.splits)
  moreover have "dealloc_items (ht_size t) (map (\<lambda>it. if it_used it then it\<lparr>it_value := None\<rparr> else it) (ht_items t)) = Some []"
    using w(2,4) by (auto simp: dealloc_items_def map_filter_def items_values_def filter_empty_conv)
  ultimately show ?thesis using t' w(3,4) by (simp add: ht_resize_def)
qed

text \<open>
  The invariant of the table between calls: sizes are 16 times a power of two up to 65536, at
  most one entry more than half of the slots, and the lock is free.
\<close>

definition ht_inv :: "'c ht_t \<Rightarrow> bool" where
  "ht_inv t \<longleftrightarrow> ht_good t \<and> (\<exists>k. ht_size t = 16 * 2 ^ k) \<and> ht_len t \<le> ht_size t div 2 + 1 \<and> \<not> ht_locked t"

text \<open>Half of the largest size: below it the table can grow.\<close>

definition ht_fits :: "'c ht_t \<Rightarrow> bool" where
  "ht_fits t \<longleftrightarrow> ht_len t \<le> 32768"

lemma ht_size_double:
  assumes "ht_inv t" "ht_fits t" "ht_len t > ht_size t div 2"
  shows "ht_size t * 2 \<le> 65536" "\<exists>k. ht_size t * 2 = 16 * 2 ^ k"
proof -
  obtain k where k: "ht_size t = 16 * 2 ^ k" using assms(1) by (auto simp: ht_inv_def)
  then show "\<exists>k. ht_size t * 2 = 16 * 2 ^ k" by (intro exI [of _ "Suc k"]) simp
  have "8 * 2 ^ k < (32768::nat)" using assms(2,3) k by (simp add: ht_fits_def)
  then have "(2::nat) ^ k < 2 ^ 12" by simp
  then have "k < 12" by (simp only: power_strict_increasing_iff [of "2::nat"] numeral_2_eq_2) simp
  then have "(2::nat) ^ k \<le> 2 ^ 11" by (intro power_increasing) simp_all
  then show "ht_size t * 2 \<le> 65536" using k by simp
qed

text \<open>The table \<^verbatim>\<open>ht_put\<close> works on, after the resize when one is needed.\<close>

lemma ht_put_ready:
  assumes "ht_inv t" "ht_fits t"
  shows "\<exists>t'. ht_good t' \<and> ht_entries t' = ht_entries t \<and> (\<exists>k. ht_size t' = 16 * 2 ^ k) \<and>
    ht_len t' \<le> ht_size t' div 2 \<and> ht_len t' = ht_len t \<and>
    (\<forall>port ip item. ht_put True t port ip item =
      do { (old, t) \<leftarrow> ht_put_plain t' port ip item; Some (Inr (old, t\<lparr>ht_locked := False\<rparr>)) })"
proof (cases "ht_len t > ht_size t div 2")
  case False
  have l: "\<not> ht_locked t" using assms(1) by (simp add: ht_inv_def)
  show ?thesis
    using assms False l
    by (intro exI [of _ "t\<lparr>ht_locked := True\<rparr>"])
      (simp add: ht_inv_def ht_good_def ht_weak_def ht_entries_def ht_put_def Let_def)
next
  case True
  let ?t = "t\<lparr>ht_locked := True\<rparr>"
  have l: "\<not> ht_locked t" "ht_len t < ht_size t" using assms(1) by (auto simp: ht_inv_def ht_good_def)
  note double = ht_size_double [OF assms True]
  have "ht_weak ?t" using assms(1) by (simp add: ht_inv_def ht_good_def ht_weak_def)
  moreover have "ht_len ?t < ht_size t * 2" using l(2) by simp
  ultimately obtain t' where t': "ht_resize True ?t (ht_size t * 2) = Some (True, [], t')" "ht_good t'"
    "ht_size t' = ht_size t * 2" "ht_locked t'" "ht_len t' = ht_len t" "ht_entries t' = ht_entries ?t"
    using ht_resize_spec [of ?t "ht_size t * 2"] double(1) by auto
  have "ht_len t' \<le> ht_size t' div 2" using t'(3,5) l(2) by simp
  with t' double(2) True l(1) show ?thesis
    by (intro exI [of _ t']) (simp add: ht_put_def ht_entries_def Let_def)
qed

lemma ht_put_update:
  assumes "ht_inv t" "ht_fits t" "key_ok (port, ip)"
  shows "\<exists>t'. ht_put True t port ip (Some v) = Some (Inr (ht_entries t (port, ip), t')) \<and> ht_inv t' \<and>
    ht_entries t' = (ht_entries t)((port, ip) \<mapsto> v) \<and>
    ht_len t' = (if ht_entries t (port, ip) = None then ht_len t + 1 else ht_len t)"
proof -
  obtain t1 where t1: "ht_good t1" "ht_entries t1 = ht_entries t"
    "\<exists>k. ht_size t1 = 16 * 2 ^ k" "ht_len t1 \<le> ht_size t1 div 2" "ht_len t1 = ht_len t"
    "\<forall>port ip item. ht_put True t port ip item =
      do { (old, t) \<leftarrow> ht_put_plain t1 port ip item; Some (Inr (old, t\<lparr>ht_locked := False\<rparr>)) }"
    using ht_put_ready [OF assms(1,2)] by (elim exE conjE) (rule that, assumption+, rule exI, assumption+)
  obtain k where k: "ht_size t1 = 16 * 2 ^ k" using t1(3) by (elim exE)
  have "(1::nat) \<le> 2 ^ k" by simp
  with k t1(4) have "ht_len t1 + 1 < ht_size t1" by linarith
  from ht_put_some [OF t1(1) assms(3) this, of v] obtain t2 where t2:
    "ht_put_plain t1 port ip (Some v) = Some (ht_entries t1 (port, ip), t2)" "ht_good t2" "ht_size t2 = ht_size t1"
    "ht_entries t2 = (ht_entries t1)((port, ip) \<mapsto> v)"
    "ht_len t2 = (if ht_entries t1 (port, ip) = None then ht_len t1 + 1 else ht_len t1)" by (elim exE conjE)
  have inv: "ht_inv (t2\<lparr>ht_locked := False\<rparr>)"
    using t2(2,3,5) t1(4) k by (auto simp: ht_inv_def ht_good_def ht_weak_def split: if_splits)
  show ?thesis
    by (intro exI [of _ "t2\<lparr>ht_locked := False\<rparr>"] conjI inv)
      (use t1(2,5,6) t2(1,4,5) in \<open>simp_all add: ht_entries_def\<close>)
qed

lemma ht_remove_delete:
  assumes "ht_inv t" "ht_fits t" "key_ok (port, ip)"
  shows "\<exists>t'. ht_remove True True t port ip = Some (ht_entries t (port, ip), t') \<and> ht_inv t' \<and>
    ht_entries t' = (ht_entries t)((port, ip) := None) \<and> ht_len t' \<le> ht_len t"
proof -
  obtain t1 where t1: "ht_good t1" "ht_entries t1 = ht_entries t"
    "\<exists>k. ht_size t1 = 16 * 2 ^ k" "ht_len t1 \<le> ht_size t1 div 2" "ht_len t1 = ht_len t"
    "\<forall>port ip item. ht_put True t port ip item =
      do { (old, t) \<leftarrow> ht_put_plain t1 port ip item; Some (Inr (old, t\<lparr>ht_locked := False\<rparr>)) }"
    using ht_put_ready [OF assms(1,2)] by (elim exE conjE) (rule that, assumption+, rule exI, assumption+)
  from ht_put_none [OF t1(1) assms(3)] obtain t2 where t2:
    "ht_put_plain t1 port ip None = Some (ht_entries t1 (port, ip), t2)" "ht_weak t2"
    "ht_entries t1 (port, ip) = None \<longrightarrow> ht_good t2" "ht_size t2 = ht_size t1"
    "ht_entries t2 = (ht_entries t1)((port, ip) := None)" "ht_len t2 \<le> ht_len t1" by (elim exE conjE)
  let ?t = "t2\<lparr>ht_locked := False\<rparr>"
  have put: "ht_put True t port ip None = Some (Inr (ht_entries t (port, ip), ?t))" using t1(2,6) t2(1) by simp
  have ents: "ht_entries ?t = (ht_entries t)((port, ip) := None)" using t1(2) t2(5) by (simp add: ht_entries_def)
  show ?thesis
  proof (cases "ht_entries t (port, ip)")
    case None
    have "ht_good ?t" using t1(2) t2(3) None by (simp add: ht_good_def ht_weak_def)
    then have "ht_inv ?t" using t1(3,4) t2(4,6) by (simp add: ht_inv_def)
    with None put ents t1(5) t2(6) show ?thesis by (simp add: ht_remove_def)
  next
    case (Some del)
    have w: "ht_weak ?t" using t2(2) by (simp add: ht_weak_def)
    have l: "ht_len ?t < ht_size ?t" "ht_size ?t \<le> 65536" using t1(1) t2(4,6) by (auto simp: ht_weak_def ht_good_def)
    from ht_resize_spec [OF w l] obtain t3 where t3: "ht_resize True ?t (ht_size ?t) = Some (True, [], t3)" "ht_good t3"
      "ht_size t3 = ht_size ?t" "ht_locked t3 = ht_locked ?t" "ht_len t3 = ht_len ?t" "ht_entries t3 = ht_entries ?t"
      by (elim exE conjE)
    have "ht_inv t3" using t3(2-5) t1(3,4) t2(4,6) by (simp add: ht_inv_def)
    with Some put t3(1,5,6) ents t1(5) t2(6) show ?thesis by (simp add: ht_remove_def)
  qed
qed

section \<open>The table as a map\<close>

text \<open>\<^verbatim>\<open>ht_put\<close> and \<^verbatim>\<open>ht_remove\<close> with memory, at a pair of port and address.\<close>

definition ht_update :: "'c ht_t \<Rightarrow> u16 \<times> bytes \<Rightarrow> 'c \<Rightarrow> ('c option \<times> 'c ht_t) option" where
  "ht_update t k v = (case ht_put True t (fst k) (snd k) (Some v) of Some (Inr r) \<Rightarrow> Some r | _ \<Rightarrow> None)"

definition ht_delete :: "'c ht_t \<Rightarrow> u16 \<times> bytes \<Rightarrow> ('c option \<times> 'c ht_t) option" where
  "ht_delete t k = ht_remove True True t (fst k) (snd k)"

definition ht_lookup :: "'c ht_t \<Rightarrow> u16 \<times> bytes \<Rightarrow> 'c option option" where
  "ht_lookup t k = ht_get t (fst k) (snd k)"

interpretation ht: bounded_client_map ht_inv ht_fits ht_entries ht_lookup ht_update ht_delete key_ok ht_len 32768
proof unfold_locales
  fix t :: "'c ht_t" and k v
  show "ht_lookup t k = Some (ht_entries t k)" if "ht_inv t" "key_ok k"
    using ht_get_eq [of t "fst k" "snd k"] that by (simp add: ht_lookup_def ht_inv_def)
  show "\<exists>t'. ht_update t k v = Some (ht_entries t k, t') \<and> ht_inv t' \<and> ht_entries t' = (ht_entries t)(k \<mapsto> v)"
    if "ht_inv t" "ht_fits t" "key_ok k"
    using ht_put_update [of t "fst k" "snd k" v] that by (auto simp: ht_update_def)
  show "\<exists>t'. ht_delete t k = Some (ht_entries t k, t') \<and> ht_inv t' \<and> ht_entries t' = (ht_entries t)(k := None)"
    if "ht_inv t" "ht_fits t" "key_ok k"
    using ht_remove_delete [of t "fst k" "snd k"] that by (auto simp: ht_delete_def)
  show "ht_fits t" if "ht_len t \<le> 32768" using that by (simp add: ht_fits_def)
  show "ht_len t' \<le> ht_len t + 1" if "ht_inv t" "ht_fits t" "key_ok k" "ht_update t k v = Some (old, t')" for old t'
    using ht_put_update [of t "fst k" "snd k" v] that by (auto simp: ht_update_def split: if_splits)
  show "ht_len t' \<le> ht_len t + 1" if "ht_inv t" "ht_fits t" "key_ok k" "ht_delete t k = Some (old, t')" for old t'
    using ht_remove_delete [of t "fst k" "snd k"] that by (auto simp: ht_delete_def)
qed

lemma ht_get_entries: "ht_inv t \<Longrightarrow> length ip = 16 \<Longrightarrow> ht_get t port ip = Some (ht_entries t (port, ip))"
  using ht.lookup_entries [of t "(port, ip)"] by (simp add: ht_lookup_def key_ok_def)

lemma allocate_ht_inv:
  assumes "allocate_ht True True True = Inr t"
  shows "ht_inv t" "ht_len t = 0" "ht_entries t = Map.empty"
proof -
  have t: "t = \<lparr>ht_items = replicate 16 empty_item, ht_size = 16, ht_len = 0, ht_locked = False\<rparr>"
    using assms by (simp add: allocate_ht_def)
  have "\<exists>k. (16::nat) = 16 * 2 ^ k" by (intro exI [of _ 0]) simp
  then show "ht_inv t"
    by (auto simp: t ht_inv_def ht_good_def ht_weak_def items_distinct_def items_values_def items_reachable_def
        used_count_def empty_item_def)
  show "ht_len t = 0" by (simp add: t)
  show "ht_entries t = Map.empty"
    by (rule ext, unfold t ht_entries_def ht_t.simps, intro entries_absent) (simp add: has_key_def empty_item_def)
qed

text \<open>The table right after its allocation.\<close>

definition new_table :: "'c ht_t" where
  "new_table = \<lparr>ht_items = replicate INITIAL_SIZE empty_item, ht_size = INITIAL_SIZE, ht_len = 0, ht_locked = False\<rparr>"

lemma allocate_new_table: "allocate_ht True True True = Inr new_table"
  by (simp add: allocate_ht_def new_table_def)

lemmas new_table_facts = allocate_ht_inv [OF allocate_new_table]

section \<open>Freeing the table\<close>

lemma used_values:
  assumes "items_values xs"
  shows "length (List.map_filter it_value xs) = used_count xs"
  using assms by (induction xs) (auto simp: items_values_def map_filter_def used_count_def)

lemma set_map_filter: "y \<in> set (List.map_filter f xs) \<longleftrightarrow> (\<exists>x \<in> set xs. f x = Some y)"
  by (induction xs) (auto simp: map_filter_def)

lemma entry_slot:
  assumes "items_distinct xs" "items_values xs" "items_entries xs k = Some v"
  shows "\<exists>i < length xs. has_key k (xs ! i)"
  using entries_None_iff [OF assms(1,2), of k] assms(3) by auto

lemma entries_ran:
  assumes "items_distinct xs" "items_values xs"
  shows "ran (items_entries xs) = set (List.map_filter it_value xs)"
proof (intro set_eqI iffI)
  fix v assume "v \<in> ran (items_entries xs)"
  then obtain k where k: "items_entries xs k = Some v" by (auto simp: ran_def)
  then obtain i where i: "i < length xs" "has_key k (xs ! i)"
    using entry_slot [OF assms] by blast
  then have "it_value (xs ! i) = Some v" using entries_at [OF assms(1)] assms(2) k by fastforce
  then show "v \<in> set (List.map_filter it_value xs)" using i(1) nth_mem by (fastforce simp: set_map_filter)
next
  fix v assume "v \<in> set (List.map_filter it_value xs)"
  then obtain i where i: "i < length xs" "it_value (xs ! i) = Some v"
    unfolding set_map_filter by (auto simp: in_set_conv_nth)
  then have "it_used (xs ! i)" using assms(2) nth_mem [OF i(1)] by (auto simp: items_values_def)
  then have "items_entries xs (item_key (xs ! i)) = Some v"
    using entries_at [OF assms(1)] i assms(2) by (fastforce simp: has_key_def)
  then show "v \<in> ran (items_entries xs)" by (rule ranI)
qed

lemma entries_key_ok:
  assumes "ht_inv t" "ht_entries t k = Some v"
  shows "key_ok k"
proof -
  have t: "items_distinct (ht_items t)" "items_values (ht_items t)"
    using assms(1) by (auto simp: ht_inv_def ht_good_def ht_weak_def)
  obtain i where "i < length (ht_items t)" "has_key k (ht_items t ! i)"
    using entry_slot [OF t] assms(2) unfolding ht_entries_def by blast
  then show ?thesis using t(2) nth_mem by (fastforce simp: items_values_def has_key_def item_key_def key_ok_def)
qed

section \<open>Properties\<close>



text \<open>
  When a put needs a larger array and there is no memory, \<^verbatim>\<open>ht_put\<close> returns with the error, but the
  lock is still held and the items are gone: no later \<^verbatim>\<open>ht_get\<close> or \<^verbatim>\<open>ht_put\<close> on the table returns.
\<close>

theorem ht_put_failed_resize:
  assumes "\<not> ht_locked t" "ht_len t > ht_size t div 2"
  shows "\<exists>t'. ht_put False t port ip item = Some (Inl (FAILED_TO_RESIZE, t')) \<and> ht_items t' = [] \<and>
    (\<forall>p i. ht_get t' p i = None) \<and> (\<forall>mem p i x. ht_put mem t' p i x = None)"
  using assms by (simp add: ht_put_def ht_resize_def ht_get_def)

theorem ht_put_failed_resize_witness:
  "\<exists>t'. ht_put False (new_table\<lparr>ht_items := replicate 9 (empty_item\<lparr>it_used := True, it_value := Some (0::nat)\<rparr>) @ replicate 7 empty_item,
        ht_len := 9\<rparr>) 7 (replicate 16 1) (Some 5) = Some (Inl (FAILED_TO_RESIZE, t')) \<and> ht_items t' = []"
  using ht_put_failed_resize [of "new_table\<lparr>ht_items := replicate 9 (empty_item\<lparr>it_used := True, it_value := Some (0::nat)\<rparr>) @ replicate 7 empty_item,
        ht_len := 9\<rparr>" 7 "replicate 16 1" "Some 5"]
  by (auto simp: new_table_def)

text \<open>
  \<^verbatim>\<open>dealloc_ht\<close> deallocates every client of the table, and each table entry once: the clients it
  deallocates are those that \<^verbatim>\<open>ht_get\<close> finds, and there are as many as \<^verbatim>\<open>ht_length\<close> says.
\<close>

theorem dealloc_ht_frees_all:
  assumes "ht_inv t"
  shows "\<exists>freed t'. dealloc_ht (Some t) = Some (Inr (freed, t')) \<and> length freed = ht_length t \<and>
    (\<forall>v. v \<in> set freed \<longleftrightarrow> (\<exists>port ip. length ip = 16 \<and> ht_get t port ip = Some (Some v)))"
proof -
  have t: "items_distinct (ht_items t)" "items_values (ht_items t)" "ht_len t = used_count (ht_items t)"
    "length (ht_items t) = ht_size t" "\<not> ht_locked t"
    using assms by (auto simp: ht_inv_def ht_good_def ht_weak_def)
  let ?freed = "List.map_filter it_value (ht_items t)"
  note get = ht_get_entries [OF assms]
  have key: "length (snd k) = 16" if "ht_entries t k = Some v" for k v
    using entries_key_ok [OF assms that] by (simp add: key_ok_def)
  have "v \<in> set ?freed \<longleftrightarrow> (\<exists>port ip. length ip = 16 \<and> ht_get t port ip = Some (Some v))" for v
  proof -
    have "v \<in> set ?freed \<longleftrightarrow> (\<exists>port ip. ht_entries t (port, ip) = Some v)"
      unfolding entries_ran [OF t(1,2), symmetric] by (simp add: ran_def ht_entries_def)
    also have "\<dots> \<longleftrightarrow> (\<exists>port ip. length ip = 16 \<and> ht_entries t (port, ip) = Some v)"
      by (intro ex_cong1) (auto dest: key)
    also have "\<dots> \<longleftrightarrow> (\<exists>port ip. length ip = 16 \<and> ht_get t port ip = Some (Some v))"
      by (intro ex_cong1) (auto simp: get)
    finally show ?thesis .
  qed
  then show ?thesis using t(3-5) used_values [OF t(2)] by (simp add: dealloc_ht_def dealloc_items_def ht_length_def)
qed

theorem dealloc_ht_frees_all_witness:
  "\<exists>t'. dealloc_ht (Some (new_table :: nat ht_t)) = Some (Inr ([], t'))"
  using dealloc_ht_frees_all [OF new_table_facts(1)] by (auto simp: ht_length_def new_table_facts(2))

end
