(* ===== verification/Receiver.thy ===== *)
theory Receiver
  imports Handler Hash_Table
begin

text \<open>
  \<^verbatim>\<open>src/receiver.c\<close> and \<^verbatim>\<open>headers/receiver.h\<close>: one pass of a receiver. It takes up to \<^verbatim>\<open>window_size\<close>
  datagrams from the socket, finds the client of each by its address in the table, creates the
  clients it does not know while there is room, groups consecutive datagrams of one client into
  requests, and passes the requests to the handlers through a stream.

  What \<^verbatim>\<open>recvmmsg\<close> stored and what the allocators answer is the parameter \<open>rx_env\<close>, with one answer
  for each index of the loop. A client is its address in memory, and the store maps addresses to
  clients. The result \<open>None\<close> is a pass that does not end: an access outside an array or through a
  pointer that is null or stale, or a lock that is held.
\<close>

section \<open>Data\<close>

record rx_cfg_t =
  rc_max_clients :: nat
  rc_window_size :: nat

text \<open>Entry \<open>i\<close> of \<^verbatim>\<open>addrs\<close>, of the \<^verbatim>\<open>msg_len\<close> of \<^verbatim>\<open>msgs\<close> and of \<^verbatim>\<open>buffers\<close>.\<close>

record rx_msg =
  m_addr :: sockaddr_in6
  m_len :: nat
  m_buf :: bytes

text \<open>
  The result of \<^verbatim>\<open>recvmmsg\<close> and the arrays after it; for each index the memory for a client
  (its address and its zeroed contents), the answers to its creation, and whether there is memory
  for the table, for a node and for a request.
\<close>

record rx_env =
  x_retval :: int
  x_msgs :: "rx_msg list"
  x_client_mem :: "nat \<Rightarrow> (nat \<times> client_t) option"
  x_client :: "nat \<Rightarrow> client_env"
  x_table_mem :: "nat \<Rightarrow> bool"
  x_node_mem :: "nat \<Rightarrow> bool"
  x_req_mem :: "nat \<Rightarrow> bool"

text \<open>What a receiver works on; the table, the clients and the counter of clients are shared.\<close>

record rx_state =
  r_tx :: "hd_req_t option stream_t"
  r_rx :: "hd_req_t option stream_t"
  r_table :: "nat ht_t"
  r_clients :: "nat \<rightharpoonup> client_t"
  r_idx :: u32

text \<open>How the body of the loop goes on.\<close>

datatype rx_flow = Proceed | Continue | Break

type_synonym rx_node = "hd_req_t option option"

section \<open>One pass\<close>

definition move_ip :: "bytes \<Rightarrow> bytes \<Rightarrow> bytes option" where
  "move_ip destination source = memcpy_from destination source 0 16"

text \<open>The comparison with the datagram before.\<close>

definition same_sender :: "rx_msg \<Rightarrow> rx_msg \<Rightarrow> bool" where
  "same_sender m p \<longleftrightarrow> ip_equals (sin6_addr (m_addr m)) (sin6_addr (m_addr p)) \<and>
     sin6_port (m_addr p) = sin6_port (m_addr m)"

definition addr_len :: nat where [simp]: "addr_len = 28"

text \<open>
  The client of a datagram. The lock of the table, taken for the check of the room, is released
  before the client is put into the table and when the datagram is refused; it is not released
  when the client cannot be allocated or initialised. In the last case \<^verbatim>\<open>contained\<close> still points
  to the client, which \<^verbatim>\<open>initialize_client\<close> has freed.
\<close>

definition rx_contained :: "rx_env \<Rightarrow> rx_cfg_t \<Rightarrow> nat \<Rightarrow> sockaddr_in6 \<Rightarrow> rx_state \<Rightarrow>
    (rx_flow \<times> nat option \<times> rx_state) option" where
  "rx_contained env cfg i addr s = do {
     found \<leftarrow> ht_get (r_table s) (sin6_port addr) (sin6_addr addr);
     case found of
       Some a \<Rightarrow> Some (Proceed, Some a, s)
     | None \<Rightarrow> (let held = s\<lparr>r_table := (r_table s)\<lparr>ht_locked := True\<rparr>\<rparr> in
         if ht_len (r_table s) \<ge> rc_max_clients cfg then Some (Continue, None, s)
         else (case x_client_mem env i of
           None \<Rightarrow> Some (Break, None, held)
         | Some (a, mem) \<Rightarrow>
             (case fst (initialize_client (x_client env i) mem (r_idx s) addr addr_len) of
               Inl _ \<Rightarrow> Some (Continue, Some a, held\<lparr>r_idx := r_idx s + 1\<rparr>)
             | Inr c \<Rightarrow> do {
                 r \<leftarrow> ht_put (x_table_mem env i) (r_table s) (sin6_port addr) (sin6_addr addr) (Some a);
                 let table = (case r of Inl (_, t) \<Rightarrow> t | Inr (_, t) \<Rightarrow> t);
                 Some (Proceed, Some a, s\<lparr>r_table := table, r_idx := r_idx s + 1,
                                          r_clients := (r_clients s)(a \<mapsto> c)\<rparr>)
               })))
   }"

text \<open>
  A node for the request: one that the handlers gave back, or a new one. A node whose request
  cannot be allocated is left with a null content, and the loop ends.
\<close>

definition rx_new_node :: "rx_env \<Rightarrow> nat \<Rightarrow> rx_state \<Rightarrow> (rx_flow \<times> rx_node \<times> rx_state) option" where
  "rx_new_node env i s = (case stream_pop (r_rx s) False of
     None \<Rightarrow> None
   | Some (Some content, rx) \<Rightarrow> Some (Proceed, Some content, s\<lparr>r_rx := rx\<rparr>)
   | Some (None, rx) \<Rightarrow> (let content = (if x_req_mem env i then Some allocate_handle_request else None);
         node = (if x_node_mem env i then Some \<lparr>sn_content = None, sn_next = Null\<rparr> else None) in
       case initialize_node node content of
         Inl _ \<Rightarrow> Some (Break, (if x_node_mem env i then Some content else None), s\<lparr>r_rx := rx\<rparr>)
       | Inr n \<Rightarrow> Some (Proceed, Some (sn_content n), s\<lparr>r_rx := rx\<rparr>)))"

text \<open>The request of the node, allocated when it is missing, for the client and with no datagram yet.\<close>

definition rx_open_request :: "rx_env \<Rightarrow> nat \<Rightarrow> nat option \<Rightarrow> hd_req_t option \<Rightarrow> hd_req_t option" where
  "rx_open_request env i client content = do {
     req \<leftarrow> (case content of Some req \<Rightarrow> Some req
             | None \<Rightarrow> if x_req_mem env i then Some allocate_handle_request else None);
     Some (req\<lparr>rq_client := client, rq_num := 0\<rparr>)
   }"

text \<open>Appending a datagram to the request, unless its length is not that of a packet.\<close>

definition rx_append :: "rx_msg \<Rightarrow> hd_req_t \<Rightarrow> hd_req_t option" where
  "rx_append m req =
     (if m_len m \<le> MAX_PACKET_SIZE \<and> m_len m \<ge> MIN_PACKET_SIZE then do {
        let idx = rq_num req;
        _ \<leftarrow> rd (rq_lengths req) idx;
        row \<leftarrow> rd (rq_buffer req) idx;
        let len = (word_of_nat (m_len m) :: u16);
        row \<leftarrow> memcpy_from row (m_buf m) 0 (unat len);
        Some (req\<lparr>rq_num := idx + 1, rq_lengths := (rq_lengths req)[idx := len],
                  rq_buffer := (rq_buffer req)[idx := row]\<rparr>)
      }
      else Some req)"

definition rx_enqueue :: "rx_node \<Rightarrow> rx_state \<Rightarrow> rx_state" where
  "rx_enqueue node s = (case node of None \<Rightarrow> s | Some content \<Rightarrow> s\<lparr>r_tx := snd (stream_enqueue (r_tx s) (Some content))\<rparr>)"

text \<open>
  The test of the grouping: it reads the entry before only when there is a client, and groups
  only at the first 31 indices.
\<close>

definition rx_same :: "rx_env \<Rightarrow> nat \<Rightarrow> nat option \<Rightarrow> rx_msg \<Rightarrow> bool option" where
  "rx_same env i client m = (if client = None then Some False
     else if i = 0 then None
     else do { p \<leftarrow> rd (x_msgs env) (i - 1); Some (same_sender m p \<and> i < MAX_WINDOW_SIZE) })"

text \<open>One datagram: the flow, \<^verbatim>\<open>contained\<close>, the open node and the state.\<close>

definition rx_message :: "rx_env \<Rightarrow> rx_cfg_t \<Rightarrow> nat \<Rightarrow> nat option \<Rightarrow> rx_node \<Rightarrow> rx_state \<Rightarrow>
    (rx_flow \<times> nat option \<times> rx_node \<times> rx_state) option" where
  "rx_message env cfg i client node s = do {
     m \<leftarrow> rd (x_msgs env) i;
     same \<leftarrow> rx_same env i client m;
     if same then do {
       content \<leftarrow> node;
       req \<leftarrow> content;
       req \<leftarrow> rx_append m req;
       Some (Proceed, client, Some (Some req), s)
     }
     else do {
       (flow, client, s) \<leftarrow> rx_contained env cfg i (m_addr m) (rx_enqueue node s);
       if flow \<noteq> Proceed then Some (flow, client, None, s)
       else do {
         (flow, node, s) \<leftarrow> rx_new_node env i s;
         if flow \<noteq> Proceed then Some (flow, client, node, s)
         else do {
           content \<leftarrow> node;
           req \<leftarrow> rx_open_request env i client content;
           req \<leftarrow> rx_append m req;
           Some (Proceed, client, Some (Some req), s)
         }
       }
     }
   }"

fun rx_loop :: "rx_env \<Rightarrow> rx_cfg_t \<Rightarrow> nat list \<Rightarrow> nat option \<Rightarrow> rx_node \<Rightarrow> rx_state \<Rightarrow> (rx_node \<times> rx_state) option" where
  "rx_loop env cfg [] client node s = Some (node, s)"
| "rx_loop env cfg (i # is) client node s = (case rx_message env cfg i client node s of
     None \<Rightarrow> None
   | Some (flow, client, node, s) \<Rightarrow>
       if flow = Break then Some (node, s) else rx_loop env cfg is client node s)"

text \<open>The pass: a failed or empty \<^verbatim>\<open>recvmmsg\<close> is only logged.\<close>

definition rx_run_once :: "rx_env \<Rightarrow> rx_cfg_t \<Rightarrow> rx_state \<Rightarrow> rx_state option" where
  "rx_run_once env cfg s = (if x_retval env < 1 then Some s else do {
     (node, s) \<leftarrow> rx_loop env cfg [0..<nat (x_retval env)] None None s;
     Some (rx_enqueue node s)
   })"

section \<open>Requests\<close>

text \<open>What a request carries: for each datagram the client and the bytes.\<close>

definition req_items :: "hd_req_t \<Rightarrow> (nat option \<times> bytes) list" where
  "req_items req = map (\<lambda>j. (rq_client req, datagram req j)) [0..<rq_num req]"

definition node_items :: "hd_req_t option \<Rightarrow> (nat option \<times> bytes) list" where
  "node_items content = (case content of None \<Rightarrow> [] | Some req \<Rightarrow> req_items req)"

definition open_items :: "rx_node \<Rightarrow> (nat option \<times> bytes) list" where
  "open_items node = (case node of None \<Rightarrow> [] | Some content \<Rightarrow> node_items content)"

definition msg_valid :: "rx_msg \<Rightarrow> bool" where
  "msg_valid m \<longleftrightarrow> m_len m \<le> MAX_PACKET_SIZE \<and> m_len m \<ge> MIN_PACKET_SIZE"

definition msg_ok :: "rx_msg \<Rightarrow> bool" where
  "msg_ok m \<longleftrightarrow> length (sin6_addr (m_addr m)) = 16 \<and> length (m_buf m) = MAX_PACKET_SIZE"

definition addr_key :: "sockaddr_in6 \<Rightarrow> u16 \<times> bytes" where
  "addr_key addr = (sin6_port addr, sin6_addr addr)"

definition msg_key :: "rx_msg \<Rightarrow> u16 \<times> bytes" where
  "msg_key m = addr_key (m_addr m)"

lemma same_sender_key: "msg_ok m \<Longrightarrow> msg_ok p \<Longrightarrow> same_sender m p \<longleftrightarrow> msg_key m = msg_key p"
  by (auto simp: msg_ok_def same_sender_def msg_key_def addr_key_def ip_equals_def)

text \<open>A request that may be given to a handler.\<close>

definition sendable :: "hd_req_t \<Rightarrow> bool" where
  "sendable req \<longleftrightarrow> req_ok req \<and> \<not> rq_stop req"

lemma sendable_new: "sendable allocate_handle_request"
  by (simp add: sendable_def req_ok_def allocate_handle_request_def)

lemma sendable_open: "sendable req \<Longrightarrow> sendable (req\<lparr>rq_client := a, rq_num := 0\<rparr>)"
  by (simp add: sendable_def req_ok_def)

lemma req_ok_contents:
  assumes "n \<le> MAX_WINDOW_SIZE" "length ls = MAX_WINDOW_SIZE" "length bs = MAX_WINDOW_SIZE"
    "\<forall>b \<in> set bs. length b = MAX_PACKET_SIZE" "\<forall>j < n. unat (ls ! j) \<le> MAX_PACKET_SIZE"
  shows "req_ok (req\<lparr>rq_num := n, rq_lengths := ls, rq_buffer := bs\<rparr>)"
  using assms by (simp add: req_ok_def)

lemma rx_append_ok:
  assumes "sendable req" "rq_num req < MAX_WINDOW_SIZE" "msg_ok m"
  shows "\<exists>req'. rx_append m req = Some req' \<and> sendable req' \<and> rq_client req' = rq_client req \<and>
    rq_num req' \<le> rq_num req + 1 \<and>
    req_items req' = req_items req @ (if msg_valid m then [(rq_client req, take (m_len m) (m_buf m))] else [])"
proof (cases "msg_valid m")
  case False
  then have "rx_append m req = Some req" by (auto simp: rx_append_def msg_valid_def)
  with False assms(1) show ?thesis by simp
next
  case True
  let ?i = "rq_num req"
  have r: "req_ok req" "\<not> rq_stop req" "length (rq_lengths req) = MAX_WINDOW_SIZE" "length (rq_buffer req) = MAX_WINDOW_SIZE"
    "?i < length (rq_lengths req)" "?i < length (rq_buffer req)"
    using assms(1,2) by (auto simp: sendable_def req_ok_def)
  have row: "length (rq_buffer req ! ?i) = MAX_PACKET_SIZE" using r by (simp add: req_ok_def)
  have len: "unat (word_of_nat (m_len m) :: u16) = m_len m" "m_len m \<le> length (m_buf m)"
    using True assms(3) by (simp_all add: msg_valid_def msg_ok_def unat_of_nat take_bit_nat_eq_self)
  let ?row = "take (m_len m) (m_buf m) @ drop (m_len m) (rq_buffer req ! ?i)"
  let ?req = "req\<lparr>rq_num := ?i + 1, rq_lengths := (rq_lengths req)[?i := word_of_nat (m_len m)],
    rq_buffer := (rq_buffer req)[?i := ?row]\<rparr>"
  have "memcpy_from (rq_buffer req ! ?i) (m_buf m) 0 (unat (word_of_nat (m_len m) :: u16)) = Some ?row"
    using True len row by (simp only: len(1)) (simp add: memcpy_from_def msg_valid_def)
  then have app: "rx_append m req = Some ?req"
    using True unfolding rx_append_def Let_def rd_Some [OF r(5)] rd_Some [OF r(6)] msg_valid_def by simp
  have "length ?row = MAX_PACKET_SIZE" using True len(2) row by (simp add: msg_valid_def)
  then have "\<forall>b \<in> set ((rq_buffer req)[?i := ?row]). length b = MAX_PACKET_SIZE"
    using r(1) set_update_subset_insert [of "rq_buffer req" ?i ?row] unfolding req_ok_def by blast
  moreover have "\<forall>j < ?i + 1. unat ((rq_lengths req)[?i := word_of_nat (m_len m)] ! j) \<le> MAX_PACKET_SIZE"
    using r(1,5) len(1) True by (simp add: req_ok_def nth_list_update less_Suc_eq msg_valid_def)
  ultimately have "req_ok ?req"
    using r(3,4) assms(2) by (intro req_ok_contents) (simp_all only: length_list_update Suc_eq_plus1 [symmetric] Suc_le_eq)
  moreover have "datagram ?req j = datagram req j" if "j < ?i" for j
    using that by (simp add: datagram_def)
  moreover have "datagram ?req ?i = take (m_len m) (m_buf m)" using r(5,6) len by (simp add: datagram_def)
  ultimately have "sendable ?req" "req_items ?req = req_items req @ [(rq_client req, take (m_len m) (m_buf m))]"
    using r(2) by (simp_all add: sendable_def req_items_def)
  with app True show ?thesis by (intro exI [of _ ?req]) simp
qed

section \<open>The state between passes\<close>

text \<open>A request for a client of the table.\<close>

definition request_for :: "nat ht_t \<Rightarrow> hd_req_t \<Rightarrow> bool" where
  "request_for t req \<longleftrightarrow> sendable req \<and> (\<exists>a k. rq_client req = Some a \<and> ht_entries t k = Some a)"

text \<open>
  The table satisfies its invariant and is within the limit, its clients exist and have the
  address that is their key, all clients are well formed, and the nodes that came back have
  well-formed requests.
\<close>

definition rx_ok :: "rx_cfg_t \<Rightarrow> rx_state \<Rightarrow> bool" where
  "rx_ok cfg s \<longleftrightarrow> ht_inv (r_table s) \<and> ht_len (r_table s) \<le> rc_max_clients cfg \<and>
     (\<forall>k a. ht_entries (r_table s) k = Some a \<longrightarrow> (\<exists>c. r_clients s a = Some c \<and> addr_key (c_address c) = k)) \<and>
     (\<forall>a c. r_clients s a = Some c \<longrightarrow> client_ok c) \<and>
     (\<forall>req. Some req \<in> set (queue_of (r_rx s)) \<longrightarrow> sendable req)"

text \<open>
  The environment grants every request: enough memory, at addresses that are new, and every step
  of the creation of a client succeeds; \<^verbatim>\<open>recvmmsg\<close> fills no more than the entries there are.
\<close>

definition rx_env_ok :: "rx_env \<Rightarrow> rx_state \<Rightarrow> bool" where
  "rx_env_ok env s \<longleftrightarrow> x_retval env \<le> int (length (x_msgs env)) \<and> (\<forall>m \<in> set (x_msgs env). msg_ok m) \<and>
     (\<forall>i < length (x_msgs env). x_client_mem env i \<noteq> None \<and> env_ok (x_client env i) \<and>
        (\<forall>mem. e_window_mem (x_client env i) = Some mem \<longrightarrow> length (nodes mem) = MAX_BUFFER_SIZE) \<and>
        x_table_mem env i \<and> x_node_mem env i \<and> x_req_mem env i) \<and>
     (\<forall>i < length (x_msgs env). r_clients s (fst (the (x_client_mem env i))) = None) \<and>
     distinct (map (\<lambda>i. fst (the (x_client_mem env i))) [0..<length (x_msgs env)])"

text \<open>The clients that memory at the indices from \<open>k\<close> on is for do not exist yet.\<close>

definition fresh_from :: "rx_env \<Rightarrow> nat \<Rightarrow> rx_state \<Rightarrow> bool" where
  "fresh_from env k s \<longleftrightarrow> (\<forall>i < length (x_msgs env). k \<le> i \<longrightarrow> r_clients s (fst (the (x_client_mem env i))) = None)"

lemma fresh_from_Suc: "fresh_from env k s \<Longrightarrow> fresh_from env (Suc k) s"
  by (simp add: fresh_from_def)

text \<open>The client of a datagram is known, or there was room and it is new.\<close>

definition rx_admitted :: "rx_env \<Rightarrow> rx_cfg_t \<Rightarrow> nat \<Rightarrow> rx_msg \<Rightarrow> rx_state \<Rightarrow> nat \<Rightarrow> rx_state \<Rightarrow> bool" where
  "rx_admitted env cfg i m s a s' \<longleftrightarrow> rx_contained env cfg i (m_addr m) s = Some (Proceed, Some a, s') \<and> rx_ok cfg s' \<and>
      ht_entries (r_table s') (msg_key m) = Some a \<and> r_tx s' = r_tx s \<and> r_rx s' = r_rx s \<and>
      r_clients s \<subseteq>\<^sub>m r_clients s' \<and> fresh_from env (Suc i) s' \<and>
      (s' = s \<or> ht_len (r_table s) < rc_max_clients cfg \<and>
         ht_entries (r_table s') = (ht_entries (r_table s))(msg_key m \<mapsto> a) \<and>
         ht_entries (r_table s) (msg_key m) = None \<and> new_client (m_addr m) (the (r_clients s' a)))"

lemma rx_contained_ok:
  assumes "rx_ok cfg s" "rx_env_ok env s0" "fresh_from env i s" "i < length (x_msgs env)" "rc_max_clients cfg \<le> 32769"
    and m: "m = x_msgs env ! i"
  shows "(ht_entries (r_table s) (msg_key m) = None \<and> rc_max_clients cfg \<le> ht_len (r_table s) \<and>
      rx_contained env cfg i (m_addr m) s = Some (Continue, None, s)) \<or>
    (\<exists>a s'. rx_admitted env cfg i m s a s')"
proof -
  have ok: "ht_inv (r_table s)" "msg_ok m" using assms(1,2,4) m by (auto simp: rx_ok_def rx_env_ok_def)
  have key: "key_ok (sin6_port (m_addr m), sin6_addr (m_addr m))" using ok(2) by (simp add: msg_ok_def key_ok_def)
  have get: "ht_get (r_table s) (sin6_port (m_addr m)) (sin6_addr (m_addr m)) = Some (ht_entries (r_table s) (msg_key m))"
    using ht_get_entries [OF ok(1)] ok(2) by (simp add: msg_ok_def msg_key_def addr_key_def)
  show ?thesis
  proof (cases "ht_entries (r_table s) (msg_key m)")
    case (Some a)
    then show ?thesis using get assms(1,3) fresh_from_Suc by (auto simp: rx_contained_def rx_admitted_def)
  next
    case None
    show ?thesis
    proof (cases "rc_max_clients cfg \<le> ht_len (r_table s)")
      case True
      then show ?thesis using None get by (simp add: rx_contained_def)
    next
      case False
      have "x_client_mem env i \<noteq> None" "r_clients s (fst (the (x_client_mem env i))) = None"
        using assms(2-4) by (auto simp: rx_env_ok_def fresh_from_def)
      then obtain a mem where a: "x_client_mem env i = Some (a, mem)" "r_clients s a = None" by auto
      have e: "env_ok (x_client env i)" "x_table_mem env i"
        "\<forall>mem. e_window_mem (x_client env i) = Some mem \<longrightarrow> length (nodes mem) = MAX_BUFFER_SIZE"
        using assms(2,4) by (auto simp: rx_env_ok_def)
      obtain c where c: "fst (initialize_client (x_client env i) mem (r_idx s) (m_addr m) addr_len) = Inr c"
        "new_client (m_addr m) c" using initialize_client_new [OF e(3,1)] by blast
      have "ht_fits (r_table s)" using False assms(5) by (simp add: ht_fits_def)
      from ht_put_update [OF ok(1) this key, of a] None obtain t where t:
        "ht_put True (r_table s) (sin6_port (m_addr m)) (sin6_addr (m_addr m)) (Some a) = Some (Inr (None, t))" "ht_inv t"
        "ht_entries t = (ht_entries (r_table s))(msg_key m \<mapsto> a)" "ht_len t = ht_len (r_table s) + 1"
        by (auto simp: msg_key_def addr_key_def)
      let ?s = "s\<lparr>r_table := t, r_idx := r_idx s + 1, r_clients := (r_clients s)(a \<mapsto> c)\<rparr>"
      have run: "rx_contained env cfg i (m_addr m) s = Some (Proceed, Some a, ?s)"
        using get None False a(1) c(1) e(2) t(1) by (simp add: rx_contained_def Let_def)
      have ok': "rx_ok cfg ?s"
        using assms(1) False t(2-4) c(2) a(2) by (fastforce simp: rx_ok_def new_client_def msg_key_def)
      have "inj_on (\<lambda>i. fst (the (x_client_mem env i))) {0..<length (x_msgs env)}"
        using assms(2) by (simp add: rx_env_ok_def distinct_map)
      then have "a \<noteq> fst (the (x_client_mem env j))" if "Suc i \<le> j" "j < length (x_msgs env)" for j
        using inj_onD [of _ _ i j] assms(4) a(1) that by fastforce
      then have "fresh_from env (Suc i) ?s" using assms(3) by (auto simp: fresh_from_def)
      with run ok' t(3) a(2) False None c(2) show ?thesis by (auto simp: map_le_def rx_admitted_def)
    qed
  qed
qed

lemma rx_new_request_ok:
  assumes "rx_ok cfg s" "rx_env_ok env s0" "i < length (x_msgs env)"
  shows "\<exists>content req q. rx_new_node env i s = Some (Proceed, Some content, s\<lparr>r_rx := q\<rparr>) \<and> rx_ok cfg (s\<lparr>r_rx := q\<rparr>) \<and>
    rx_open_request env i client content = Some req \<and> sendable req \<and> rq_client req = client \<and> rq_num req = 0"
proof -
  have e: "x_node_mem env i" "x_req_mem env i" using assms(2,3) by (auto simp: rx_env_ok_def)
  have q: "\<forall>req. Some req \<in> set (queue_of (r_rx s)) \<longrightarrow> sendable req" using assms(1) by (simp add: rx_ok_def)
  obtain r q where pop: "stream_pop (r_rx s) False = Some (r, q)"
    by (simp add: stream_pop_def) (cases "pop_locked (r_rx s)", auto)
  note queue = stream_pop_queue [OF pop]
  have keep: "rx_ok cfg (s\<lparr>r_rx := q\<rparr>)"
    using assms(1) queue by (cases r) (auto simp: rx_ok_def)
  show ?thesis
  proof (cases r)
    case None
    then show ?thesis using pop e keep sendable_open [OF sendable_new]
      by (auto simp: rx_new_node_def rx_open_request_def initialize_node_def Let_def)
  next
    case (Some content)
    have "sendable req" if "content = Some req" for req using that queue q Some by simp
    then show ?thesis using Some pop e keep sendable_open sendable_new
      by (cases content) (auto simp: rx_new_node_def rx_open_request_def)
  qed
qed

section \<open>The loop\<close>

text \<open>What a datagram should become, by the table at the end: the client and the bytes, or nothing.\<close>

definition arrival :: "nat ht_t \<Rightarrow> rx_msg \<Rightarrow> (nat option \<times> bytes) option" where
  "arrival t m = (case ht_entries t (msg_key m) of None \<Rightarrow> None
     | Some a \<Rightarrow> if msg_valid m then Some (Some a, take (m_len m) (m_buf m)) else None)"

lemma arrivals_cong:
  assumes "\<forall>m \<in> set ms. ht_entries t (msg_key m) = ht_entries t' (msg_key m)"
  shows "List.map_filter (arrival t) ms = List.map_filter (arrival t') ms"
  using assms by (induction ms) (simp_all add: map_filter_def arrival_def)

lemma map_filter_snoc:
  "List.map_filter f (xs @ [x]) = List.map_filter f xs @ (case f x of None \<Rightarrow> [] | Some y \<Rightarrow> [y])"
  by (simp add: map_filter_def split: option.splits)

text \<open>
  Before index \<open>k\<close>: the requests put on the stream since the start and the open one carry what the
  first \<open>k\<close> datagrams should become; a datagram has no client only when the table is full; and the
  open request is for the client of the datagram before.
\<close>

definition handed_over :: "rx_env \<Rightarrow> rx_state \<Rightarrow> nat \<Rightarrow> rx_node \<Rightarrow> rx_state \<Rightarrow> bool" where
  "handed_over env s0 k node s \<longleftrightarrow> (\<exists>reqs. queue_of (r_tx s) = queue_of (r_tx s0) @ map Some reqs \<and>
     st_length (r_tx s) = st_length (r_tx s0) + int (length reqs) \<and>
     (\<forall>req \<in> set reqs. request_for (r_table s) req) \<and>
     concat (map req_items reqs) @ open_items node = List.map_filter (arrival (r_table s)) (take k (x_msgs env)))"

definition refused_full :: "rx_env \<Rightarrow> rx_cfg_t \<Rightarrow> nat \<Rightarrow> rx_state \<Rightarrow> bool" where
  "refused_full env cfg k s \<longleftrightarrow> (\<forall>m \<in> set (take k (x_msgs env)). ht_entries (r_table s) (msg_key m) = None \<longrightarrow>
     rc_max_clients cfg \<le> ht_len (r_table s))"

definition open_for :: "rx_env \<Rightarrow> nat \<Rightarrow> nat option \<Rightarrow> rx_node \<Rightarrow> rx_state \<Rightarrow> bool" where
  "open_for env k client node s \<longleftrightarrow> (case client of None \<Rightarrow> node = None
     | Some a \<Rightarrow> k \<noteq> 0 \<and> ht_entries (r_table s) (msg_key (x_msgs env ! (k - 1))) = Some a \<and>
         (\<exists>req. node = Some (Some req) \<and> request_for (r_table s) req \<and> rq_client req = Some a \<and> rq_num req \<le> k))"

text \<open>A client that was not in the table at the start has just been created.\<close>

definition newcomers :: "rx_state \<Rightarrow> rx_state \<Rightarrow> bool" where
  "newcomers s0 s \<longleftrightarrow> (\<forall>k a. ht_entries (r_table s) k = Some a \<longrightarrow> ht_entries (r_table s0) k = Some a \<or>
     ht_entries (r_table s0) k = None \<and> (\<exists>c. r_clients s a = Some c \<and> new_client (c_address c) c))"

definition rx_inv :: "rx_env \<Rightarrow> rx_cfg_t \<Rightarrow> rx_state \<Rightarrow> nat \<Rightarrow> nat option \<Rightarrow> rx_node \<Rightarrow> rx_state \<Rightarrow> bool" where
  "rx_inv env cfg s0 k client node s \<longleftrightarrow> rx_ok cfg s \<and> fresh_from env k s \<and> r_clients s0 \<subseteq>\<^sub>m r_clients s \<and>
     ht_entries (r_table s0) \<subseteq>\<^sub>m ht_entries (r_table s) \<and> newcomers s0 s \<and> refused_full env cfg k s \<and>
     handed_over env s0 k node s \<and> open_for env k client node s"

lemma request_for_mono: "request_for t req \<Longrightarrow> ht_entries t \<subseteq>\<^sub>m ht_entries t' \<Longrightarrow> request_for t' req"
  unfolding request_for_def by (elim conjE exE) (intro conjI exI, assumption+, rule map_leD)

text \<open>Closing the open request.\<close>

lemma handed_over_enqueue:
  assumes "handed_over env s0 k node s" "node = None \<or> (\<exists>req. node = Some (Some req) \<and> request_for (r_table s) req)"
  shows "handed_over env s0 k None (rx_enqueue node s)"
proof (cases node)
  case None
  then show ?thesis using assms(1) by (simp add: rx_enqueue_def)
next
  case (Some content)
  then obtain req where req: "content = Some req" "request_for (r_table s) req" using assms(2) by auto
  obtain reqs where "queue_of (r_tx s) = queue_of (r_tx s0) @ map Some reqs" "\<forall>req \<in> set reqs. request_for (r_table s) req"
    "st_length (r_tx s) = st_length (r_tx s0) + int (length reqs)"
    "concat (map req_items reqs) @ req_items req = List.map_filter (arrival (r_table s)) (take k (x_msgs env))"
    using assms(1) Some req(1) by (auto simp: handed_over_def open_items_def node_items_def)
  with Some req show ?thesis
    unfolding handed_over_def
    by (intro exI [of _ "reqs @ [req]"]) (auto simp: rx_enqueue_def open_items_def stream_enqueue_def queue_of_def)
qed

lemma rx_enqueue_simps [simp]:
  "r_rx (rx_enqueue node s) = r_rx s" "r_table (rx_enqueue node s) = r_table s"
  "r_clients (rx_enqueue node s) = r_clients s" "rx_ok cfg (rx_enqueue node s) = rx_ok cfg s"
  "fresh_from env k (rx_enqueue node s) = fresh_from env k s"
  by (simp_all add: rx_enqueue_def rx_ok_def fresh_from_def split: option.splits)

lemma newcomers_admitted:
  assumes "newcomers s0 s" "ht_entries (r_table s0) \<subseteq>\<^sub>m ht_entries (r_table s)" "rx_ok cfg s'" "r_clients s \<subseteq>\<^sub>m r_clients s'"
    and "s' = s \<or> P \<and> ht_entries (r_table s') = (ht_entries (r_table s))(key \<mapsto> a) \<and>
      ht_entries (r_table s) key = None \<and> new_client addr (the (r_clients s' a))"
  shows "newcomers s0 s'"
  unfolding newcomers_def
proof (intro allI impI)
  fix k b assume b: "ht_entries (r_table s') k = Some b"
  show "ht_entries (r_table s0) k = Some b \<or>
     ht_entries (r_table s0) k = None \<and> (\<exists>c. r_clients s' b = Some c \<and> new_client (c_address c) c)"
  proof (cases "ht_entries (r_table s) k = Some b")
    case True
    then show ?thesis using assms(1) map_leD [OF assms(4)] unfolding newcomers_def by blast
  next
    case False
    then have new: "k = key" "b = a" "ht_entries (r_table s) k = None" "new_client addr (the (r_clients s' a))"
      using assms(5) b by (auto split: if_splits)
    obtain c where "r_clients s' a = Some c" using assms(3) b new(2) unfolding rx_ok_def by blast
    moreover have "ht_entries (r_table s0) k = None" 
      using map_leD [OF assms(2), of k] new(3) by (cases "ht_entries (r_table s0) k") simp_all
    ultimately show ?thesis using new by (auto simp: new_client_def)
  qed
qed

lemma handed_over_next:
  assumes "handed_over env s0 k node s" "k < length (x_msgs env)" "r_tx s' = r_tx s"
    and "ht_entries (r_table s) \<subseteq>\<^sub>m ht_entries (r_table s')"
    and "\<forall>m \<in> set (take k (x_msgs env)). ht_entries (r_table s) (msg_key m) = ht_entries (r_table s') (msg_key m)"
    and "open_items node' = open_items node @ (case arrival (r_table s') (x_msgs env ! k) of None \<Rightarrow> [] | Some y \<Rightarrow> [y])"
  shows "handed_over env s0 (Suc k) node' s'"
proof -
  obtain reqs where reqs: "queue_of (r_tx s) = queue_of (r_tx s0) @ map Some reqs"
    "\<forall>req \<in> set reqs. request_for (r_table s) req"
    "concat (map req_items reqs) @ open_items node = List.map_filter (arrival (r_table s)) (take k (x_msgs env))"
    "st_length (r_tx s) = st_length (r_tx s0) + int (length reqs)"
    using assms(1) unfolding handed_over_def by blast
  have "concat (map req_items reqs) @ open_items node' =
      List.map_filter (arrival (r_table s')) (take (Suc k) (x_msgs env))"
    using reqs(3) assms(6) arrivals_cong [OF assms(5)]
    by (simp add: take_Suc_conv_app_nth [OF assms(2)] map_filter_snoc flip: append_assoc)
  with reqs(1,2,4) assms(3,4) show ?thesis
    unfolding handed_over_def by (intro exI [of _ reqs]) (auto intro: request_for_mono)
qed

lemma arrival_valid:
  "ht_entries t (msg_key m) = Some a \<Longrightarrow> (case arrival t m of None \<Rightarrow> [] | Some y \<Rightarrow> [y]) =
     (if msg_valid m then [(Some a, take (m_len m) (m_buf m))] else [])"
  by (simp add: arrival_def)

lemma refused_full_Suc:
  "k < length (x_msgs env) \<Longrightarrow> refused_full env cfg (Suc k) s \<longleftrightarrow> refused_full env cfg k s \<and>
     (ht_entries (r_table s) (msg_key (x_msgs env ! k)) = None \<longrightarrow> rc_max_clients cfg \<le> ht_len (r_table s))"
  by (auto simp: refused_full_def take_Suc_conv_app_nth)

lemma rx_grouped:
  assumes "rx_inv env cfg s0 k client node s" "rx_env_ok env s0" "k < length (x_msgs env)"
    and "rx_same env k client (x_msgs env ! k) = Some True"
  shows "\<exists>node'. rx_message env cfg k client node s = Some (Proceed, client, node', s) \<and> rx_inv env cfg s0 (Suc k) client node' s"
proof -
  let ?m = "x_msgs env ! k"
  obtain a where a: "client = Some a" "k < MAX_WINDOW_SIZE" "k \<noteq> 0" "same_sender ?m (x_msgs env ! (k - 1))"
    using assms(3,4) by (auto simp: rx_same_def split: if_splits option.splits)
  have ok: "msg_ok ?m" "msg_ok (x_msgs env ! (k - 1))" using assms(2,3) by (auto simp: rx_env_ok_def)
  obtain req where req: "node = Some (Some req)" "request_for (r_table s) req" "rq_client req = Some a" "rq_num req \<le> k"
    and entry: "ht_entries (r_table s) (msg_key ?m) = Some a"
    using assms(1) a same_sender_key [OF ok] by (auto simp: rx_inv_def open_for_def)
  have "sendable req" "rq_num req < MAX_WINDOW_SIZE" using req(2,4) a(2) by (simp_all add: request_for_def)
  from rx_append_ok [OF this ok(1)] obtain req' where req': "rx_append ?m req = Some req'" "sendable req'"
    "rq_client req' = rq_client req" "rq_num req' \<le> rq_num req + 1"
    "req_items req' = req_items req @ (if msg_valid ?m then [(rq_client req, take (m_len ?m) (m_buf ?m))] else [])"
    by blast
  have run: "rx_message env cfg k client node s = Some (Proceed, client, Some (Some req'), s)"
    using assms(3,4) req(1) req'(1) by (simp add: rx_message_def)
  have for': "request_for (r_table s) req'" using req(2) req'(2,3) by (simp add: request_for_def)
  have "handed_over env s0 (Suc k) (Some (Some req')) s"
    using assms(1,3) req(1,3) req'(5) entry
    by (intro handed_over_next [where node = node and s = s])
      (simp_all add: rx_inv_def open_items_def node_items_def arrival_valid)
  with assms(1,3) req'(3,4) req(3,4) for' a(1) entry
  have "rx_inv env cfg s0 (Suc k) client (Some (Some req')) s"
    by (simp add: rx_inv_def open_for_def refused_full_Suc fresh_from_Suc)
  with run show ?thesis by blast
qed

text \<open>
  A datagram that is not grouped: the open request is enqueued; then its sender is refused, or it
  is admitted and its request is opened.
\<close>

lemma rx_refused:
  assumes "rx_inv env cfg s0 k None None s" "k < length (x_msgs env)"
    and "ht_entries (r_table s) (msg_key (x_msgs env ! k)) = None" "rc_max_clients cfg \<le> ht_len (r_table s)"
  shows "rx_inv env cfg s0 (Suc k) None None s"
proof -
  have "handed_over env s0 (Suc k) None s"
    using assms by (intro handed_over_next [where node = None and s = s]) (simp_all add: arrival_def rx_inv_def)
  then show ?thesis using assms by (simp add: rx_inv_def open_for_def refused_full_Suc fresh_from_Suc)
qed

lemma rx_opened:
  assumes "rx_inv env cfg s0 k None None s" "rx_env_ok env s0" "k < length (x_msgs env)"
    and "rx_admitted env cfg k (x_msgs env ! k) s a s2"
  shows "\<exists>content req req' q. rx_new_node env k s2 = Some (Proceed, Some content, s2\<lparr>r_rx := q\<rparr>) \<and>
    rx_open_request env k (Some a) content = Some req \<and> rx_append (x_msgs env ! k) req = Some req' \<and>
    rx_inv env cfg s0 (Suc k) (Some a) (Some (Some req')) (s2\<lparr>r_rx := q\<rparr>)"
proof -
  let ?m = "x_msgs env ! k"
  have ok: "msg_ok ?m" using assms(2,3) by (auto simp: rx_env_ok_def)
  have inv: "rx_ok cfg s" "fresh_from env k s" "refused_full env cfg k s" "r_clients s0 \<subseteq>\<^sub>m r_clients s"
    "ht_entries (r_table s0) \<subseteq>\<^sub>m ht_entries (r_table s)" "newcomers s0 s" "handed_over env s0 k None s"
    using assms(1) by (simp_all add: rx_inv_def)
  have s2: "rx_ok cfg s2"
    "ht_entries (r_table s2) (msg_key ?m) = Some a" "r_tx s2 = r_tx s" "r_rx s2 = r_rx s"
    "r_clients s \<subseteq>\<^sub>m r_clients s2" "fresh_from env (Suc k) s2"
    "s2 = s \<or> ht_len (r_table s) < rc_max_clients cfg \<and>
       ht_entries (r_table s2) = (ht_entries (r_table s))(msg_key ?m \<mapsto> a) \<and>
       ht_entries (r_table s) (msg_key ?m) = None \<and> new_client (m_addr ?m) (the (r_clients s2 a))"
    using assms(4) unfolding rx_admitted_def by blast+
  have known: "\<forall>m \<in> set (take k (x_msgs env)). ht_entries (r_table s) (msg_key m) = ht_entries (r_table s2) (msg_key m)"
    and more: "ht_entries (r_table s) \<subseteq>\<^sub>m ht_entries (r_table s2)" and full: "refused_full env cfg k s2"
    using s2(7) inv(3) by (fastforce simp: refused_full_def map_le_def)+
  obtain content req q where req: "rx_new_node env k s2 = Some (Proceed, Some content, s2\<lparr>r_rx := q\<rparr>)"
    "rx_ok cfg (s2\<lparr>r_rx := q\<rparr>)" "rx_open_request env k (Some a) content = Some req" "sendable req"
    "rq_client req = Some a" "rq_num req = 0"
    using rx_new_request_ok [OF s2(1) assms(2,3)] by blast
  have "rq_num req < MAX_WINDOW_SIZE" using req(6) by simp
  from rx_append_ok [OF req(4) this ok] obtain req' where req': "rx_append ?m req = Some req'" "sendable req'"
    "rq_client req' = rq_client req" "rq_num req' \<le> rq_num req + 1"
    "req_items req' = req_items req @ (if msg_valid ?m then [(rq_client req, take (m_len ?m) (m_buf ?m))] else [])"
    by blast
  let ?s3 = "s2\<lparr>r_rx := q\<rparr>"
  have for': "request_for (r_table s2) req'"
    using s2(2) req(5) req'(2,3) unfolding request_for_def by metis
  have "handed_over env s0 (Suc k) (Some (Some req')) ?s3"
    using inv(7) assms(3) s2(2,3) more known req(5,6) req'(5)
    by (intro handed_over_next [where node = None and s = s])
      (simp_all add: open_items_def node_items_def arrival_valid req_items_def)
  moreover have "refused_full env cfg (Suc k) ?s3"
    using full s2(2) unfolding refused_full_Suc [OF assms(3)] by (simp add: refused_full_def)
  moreover have "newcomers s0 ?s3"
    using newcomers_admitted [OF inv(6,5) s2(1,5,7)] by (simp add: newcomers_def)
  moreover have "r_clients s0 \<subseteq>\<^sub>m r_clients s2" "ht_entries (r_table s0) \<subseteq>\<^sub>m ht_entries (r_table s2)"
    using map_le_trans [OF inv(4) s2(5)] map_le_trans [OF inv(5) more] by simp_all
  ultimately have "rx_inv env cfg s0 (Suc k) (Some a) (Some (Some req')) ?s3"
    using req(2,5,6) req'(3,4) for' s2(2,6) by (simp add: rx_inv_def open_for_def fresh_from_def)
  with req(1,3) req'(1) show ?thesis by blast
qed

lemma rx_regrouped:
  assumes "rx_inv env cfg s0 k client node s" "rx_env_ok env s0" "k < length (x_msgs env)" "rc_max_clients cfg \<le> 32769"
    and "rx_same env k client (x_msgs env ! k) = Some False"
  shows "\<exists>flow client' node' s'. rx_message env cfg k client node s = Some (flow, client', node', s') \<and> flow \<noteq> Break \<and>
    rx_inv env cfg s0 (Suc k) client' node' s'"
proof -
  let ?m = "x_msgs env ! k" and ?s1 = "rx_enqueue node s"
  have "handed_over env s0 k None ?s1"
    using assms(1) by (intro handed_over_enqueue) (auto simp: rx_inv_def open_for_def split: option.splits)
  then have inv: "rx_inv env cfg s0 k None None ?s1"
    using assms(1) by (simp add: rx_inv_def refused_full_def newcomers_def open_for_def)
  then have "rx_ok cfg ?s1" "fresh_from env k ?s1" by (simp_all add: rx_inv_def)
  from rx_contained_ok [OF this(1) assms(2) this(2) assms(3,4) refl] show ?thesis
  proof
    assume "ht_entries (r_table ?s1) (msg_key ?m) = None \<and> rc_max_clients cfg \<le> ht_len (r_table ?s1) \<and>
      rx_contained env cfg k (m_addr ?m) ?s1 = Some (Continue, None, ?s1)"
    then have full: "ht_entries (r_table ?s1) (msg_key ?m) = None" "rc_max_clients cfg \<le> ht_len (r_table ?s1)"
      "rx_contained env cfg k (m_addr ?m) ?s1 = Some (Continue, None, ?s1)" by blast+
    have "rx_message env cfg k client node s = Some (Continue, None, None, ?s1)"
      using assms(3,5) full(3) by (simp add: rx_message_def)
    with rx_refused [OF inv assms(3) full(1,2)] show ?thesis by blast
  next
    assume "\<exists>a s2. rx_admitted env cfg k ?m ?s1 a s2"
    then obtain a s2 where a: "rx_admitted env cfg k ?m ?s1 a s2" by blast
    then have c: "rx_contained env cfg k (m_addr ?m) ?s1 = Some (Proceed, Some a, s2)" unfolding rx_admitted_def by blast
    obtain content req req' q where o: "rx_new_node env k s2 = Some (Proceed, Some content, s2\<lparr>r_rx := q\<rparr>)"
      "rx_open_request env k (Some a) content = Some req" "rx_append ?m req = Some req'"
      "rx_inv env cfg s0 (Suc k) (Some a) (Some (Some req')) (s2\<lparr>r_rx := q\<rparr>)"
      using rx_opened [OF inv assms(2,3) a] by blast
    have "rx_message env cfg k client node s = Some (Proceed, Some a, Some (Some req'), s2\<lparr>r_rx := q\<rparr>)"
      using assms(3,5) c o(1-3) by (simp add: rx_message_def)
    with o(4) show ?thesis by blast
  qed
qed

lemma rx_message_step:
  assumes "rx_inv env cfg s0 k client node s" "rx_env_ok env s0" "k < length (x_msgs env)" "rc_max_clients cfg \<le> 32769"
  shows "\<exists>flow client' node' s'. rx_message env cfg k client node s = Some (flow, client', node', s') \<and> flow \<noteq> Break \<and>
    rx_inv env cfg s0 (Suc k) client' node' s'"
proof -
  have "\<exists>b. rx_same env k client (x_msgs env ! k) = Some b"
    using assms(1,3) by (auto simp: rx_same_def rx_inv_def open_for_def split: option.splits)
  then obtain b where b: "rx_same env k client (x_msgs env ! k) = Some b" by blast
  show ?thesis
  proof (cases b)
    case True
    then obtain node' where "rx_message env cfg k client node s = Some (Proceed, client, node', s)"
      "rx_inv env cfg s0 (Suc k) client node' s" using rx_grouped [OF assms(1-3)] b by auto
    then show ?thesis by (intro exI [of _ Proceed]) auto
  next
    case False
    then show ?thesis using rx_regrouped [OF assms] b by simp
  qed
qed

lemma rx_loop_inv:
  assumes "rx_inv env cfg s0 k client node s" "rx_env_ok env s0" "k + n \<le> length (x_msgs env)" "rc_max_clients cfg \<le> 32769"
  shows "\<exists>client' node' s'. rx_loop env cfg [k..<k + n] client node s = Some (node', s') \<and>
    rx_inv env cfg s0 (k + n) client' node' s'"
  using assms
proof (induction n arbitrary: k client node s)
  case 0
  then show ?case by auto
next
  case (Suc n)
  have k: "k < length (x_msgs env)" using Suc.prems(3) by simp
  from rx_message_step [OF Suc.prems(1,2) k Suc.prems(4)] obtain flow client' node' s' where
    step: "rx_message env cfg k client node s = Some (flow, client', node', s')" "flow \<noteq> Break"
    "rx_inv env cfg s0 (Suc k) client' node' s'" by blast
  have "[k..<k + Suc n] = k # [Suc k..<Suc k + n]" by (simp add: upt_conv_Cons)
  moreover from Suc.IH [OF step(3) Suc.prems(2) _ Suc.prems(4)] Suc.prems(3)
  obtain client'' node'' s'' where "rx_loop env cfg [Suc k..<Suc k + n] client' node' s' = Some (node'', s'')"
    "rx_inv env cfg s0 (Suc k + n) client'' node'' s''" by auto
  ultimately show ?case using step(1,2) by auto
qed

lemma rx_run_once_inv:
  assumes "rx_ok cfg s" "rx_env_ok env s" "rc_max_clients cfg \<le> 32769"
  shows "\<exists>s'. rx_run_once env cfg s = Some s' \<and> rx_inv env cfg s (nat (x_retval env)) None None s'"
proof -
  let ?n = "nat (x_retval env)"
  have "handed_over env s 0 None s" by (auto simp: handed_over_def open_items_def map_filter_def)
  then have start: "rx_inv env cfg s 0 None None s"
    using assms(1,2) by (auto simp: rx_inv_def refused_full_def open_for_def fresh_from_def rx_env_ok_def newcomers_def)
  have "0 + ?n \<le> length (x_msgs env)" using assms(2) unfolding rx_env_ok_def by linarith
  from rx_loop_inv [OF start assms(2) this assms(3)] obtain client node s' where
    s': "rx_loop env cfg [0..<?n] None None s = Some (node, s')" "rx_inv env cfg s ?n client node s'" by auto
  have "handed_over env s ?n None (rx_enqueue node s')"
    using s'(2) by (intro handed_over_enqueue) (auto simp: rx_inv_def open_for_def split: option.splits)
  then have end_inv: "rx_inv env cfg s ?n None None (rx_enqueue node s')"
    using s'(2) by (simp add: rx_inv_def open_for_def refused_full_def newcomers_def)
  show ?thesis
  proof (cases "x_retval env < 1")
    case True
    then show ?thesis using start by (simp add: rx_run_once_def)
  next
    case False
    then show ?thesis using s'(1) end_inv by (simp add: rx_run_once_def)
  qed
qed

section \<open>Properties\<close>

text \<open>
  C12. A pass of the receiver hands over what arrived. From a well-formed state, when memory and files
  are available, a pass ends in a well-formed state; the requests it adds to the stream, taken
  together and in order, carry exactly the datagrams whose length is that of a packet and whose
  sender has a client in the table, each once, in the order of arrival, with its bytes and its
  client; each of them is a well-formed request, of at most 31 datagrams, for a client that
  exists; and the clients that were there are unchanged.
\<close>

theorem rx_run_once_delivers:
  assumes "rx_ok cfg s" "rx_env_ok env s" "rc_max_clients cfg \<le> 32769"
  shows "\<exists>s' reqs. rx_run_once env cfg s = Some s' \<and> rx_ok cfg s' \<and>
    queue_of (r_tx s') = queue_of (r_tx s) @ map Some reqs \<and>
    concat (map req_items reqs) = List.map_filter (arrival (r_table s')) (take (nat (x_retval env)) (x_msgs env)) \<and>
    (\<forall>req \<in> set reqs. req_ok req \<and> \<not> rq_stop req \<and> (\<exists>a c. rq_client req = Some a \<and> r_clients s' a = Some c \<and> client_ok c)) \<and>
    r_clients s \<subseteq>\<^sub>m r_clients s' \<and> ht_entries (r_table s) \<subseteq>\<^sub>m ht_entries (r_table s')"
proof -
  obtain s' where s': "rx_run_once env cfg s = Some s'" "rx_inv env cfg s (nat (x_retval env)) None None s'"
    using rx_run_once_inv [OF assms] by blast
  then obtain reqs where "queue_of (r_tx s') = queue_of (r_tx s) @ map Some reqs"
    "\<forall>req \<in> set reqs. request_for (r_table s') req"
    "concat (map req_items reqs) = List.map_filter (arrival (r_table s')) (take (nat (x_retval env)) (x_msgs env))"
    by (auto simp: rx_inv_def handed_over_def open_items_def)
  moreover have "\<exists>a c. rq_client req = Some a \<and> r_clients s' a = Some c \<and> client_ok c"
    if "request_for (r_table s') req" for req
  proof -
    obtain a k where "rq_client req = Some a" "ht_entries (r_table s') k = Some a"
      using \<open>request_for (r_table s') req\<close> unfolding request_for_def by blast
    moreover have "rx_ok cfg s'" using s'(2) by (simp add: rx_inv_def)
    ultimately show ?thesis unfolding rx_ok_def by blast
  qed
  ultimately show ?thesis
    using s' by (intro exI [of _ s'] exI [of _ reqs]) (simp add: rx_inv_def request_for_def sendable_def)
qed

text \<open>
  C29. The limit on clients holds, and is the only reason to refuse a sender: after a pass the table
  has at most the configured number of clients, and if the sender of a datagram has none, then
  the table is full.
\<close>

theorem rx_client_limit:
  assumes "rx_ok cfg s" "rx_env_ok env s" "rc_max_clients cfg \<le> 32769"
  shows "\<exists>s'. rx_run_once env cfg s = Some s' \<and> ht_length (r_table s') \<le> rc_max_clients cfg \<and>
    (\<forall>m \<in> set (take (nat (x_retval env)) (x_msgs env)).
       ht_get (r_table s') (sin6_port (m_addr m)) (sin6_addr (m_addr m)) = Some None \<longrightarrow>
       ht_length (r_table s') = rc_max_clients cfg)"
proof -
  obtain s' where s': "rx_run_once env cfg s = Some s'" "rx_inv env cfg s (nat (x_retval env)) None None s'"
    using rx_run_once_inv [OF assms] by blast
  then have inv: "ht_inv (r_table s')" "ht_len (r_table s') \<le> rc_max_clients cfg"
    "refused_full env cfg (nat (x_retval env)) s'" by (simp_all add: rx_inv_def rx_ok_def)
  have "ht_len (r_table s') = rc_max_clients cfg"
    if m: "m \<in> set (take (nat (x_retval env)) (x_msgs env))"
      "ht_get (r_table s') (sin6_port (m_addr m)) (sin6_addr (m_addr m)) = Some None" for m
  proof -
    have "msg_ok m" using assms(2) m(1) by (auto simp: rx_env_ok_def dest: in_set_takeD)
    then have "ht_entries (r_table s') (msg_key m) = None"
      using ht_get_entries [OF inv(1)] m(2) by (simp add: msg_ok_def msg_key_def addr_key_def)
    with inv(2,3) m(1) show ?thesis by (auto simp: refused_full_def)
  qed
  with s'(1) inv(2) show ?thesis by (auto simp: ht_length_def)
qed

text \<open>
  C37. When the client of a new sender cannot be allocated or initialised, the pass leaves the loop or
  goes on without releasing the lock of the table: it ends with the lock held, and from then on
  no pass that receives a datagram ends.
\<close>

theorem rx_failure_keeps_lock:
  assumes "ht_inv (r_table s)" "x_msgs env = [m]" "x_retval env = 1" "msg_ok m"
    and "ht_get (r_table s) (sin6_port (m_addr m)) (sin6_addr (m_addr m)) = Some None"
    and "ht_len (r_table s) < rc_max_clients cfg"
    and "case x_client_mem env 0 of None \<Rightarrow> True
      | Some (a, mem) \<Rightarrow> \<exists>e. fst (initialize_client (x_client env 0) mem (r_idx s) (m_addr m) addr_len) = Inl e"
  shows "\<exists>s'. rx_run_once env cfg s = Some s' \<and> ht_locked (r_table s') \<and>
    (\<forall>env' cfg'. 1 \<le> x_retval env' \<longrightarrow> rx_run_once env' cfg' s' = None)"
proof -
  obtain flow client s' where s': "rx_contained env cfg 0 (m_addr m) s = Some (flow, client, s')" "flow \<noteq> Proceed"
    "ht_locked (r_table s')"
    using assms(5-7) by (cases "x_client_mem env 0") (auto simp: rx_contained_def Let_def)
  have "rx_message env cfg 0 None None s = Some (flow, client, None, s')"
    using assms(2) s'(1,2) by (simp add: rx_message_def rx_same_def rx_enqueue_def rd_def)
  then have run: "rx_run_once env cfg s = Some s'"
    using assms(3) by (simp add: rx_run_once_def rx_enqueue_def)
  have "rx_run_once env' cfg' s' = None" if "1 \<le> x_retval env'" for env' cfg'
  proof -
    have "rx_message env' cfg' 0 None None s' = None"
      using s'(3) by (auto simp: rx_message_def rx_same_def rx_enqueue_def rx_contained_def ht_get_def rd_def)
    then have "rx_loop env' cfg' [0..<nat (x_retval env')] None None s' = None"
      using that by (simp add: upt_conv_Cons)
    with that show ?thesis by (simp add: rx_run_once_def)
  qed
  with run s'(3) show ?thesis by blast
qed

section \<open>Witnesses\<close>

text \<open>Two datagrams of one sender, the second too short, and none of the memory used before.\<close>

definition sample_msgs :: "rx_msg list" where
  "sample_msgs = [\<lparr>m_addr = sample_address, m_len = 11, m_buf = replicate MAX_PACKET_SIZE 7\<rparr>,
     \<lparr>m_addr = sample_address, m_len = 3, m_buf = replicate MAX_PACKET_SIZE 7\<rparr>]"

definition sample_rx_env :: "rx_msg list \<Rightarrow> bool \<Rightarrow> rx_env" where
  "sample_rx_env ms b = \<lparr>x_retval = int (length ms), x_msgs = ms, x_client_mem = (\<lambda>i. Some (i, sample_client)),
     x_client = (\<lambda>i. sample_env b), x_table_mem = (\<lambda>i. True), x_node_mem = (\<lambda>i. True), x_req_mem = (\<lambda>i. True)\<rparr>"

definition sample_rx_cfg :: rx_cfg_t where
  "sample_rx_cfg = \<lparr>rc_max_clients = 1, rc_window_size = 31\<rparr>"

definition sample_rx_state :: rx_state where
  "sample_rx_state = \<lparr>r_tx = initialize_stream, r_rx = initialize_stream, r_table = new_table,
     r_clients = Map.empty, r_idx = 0\<rparr>"

lemma sample_rx_ok: "rx_ok sample_rx_cfg sample_rx_state"
  by (simp add: rx_ok_def sample_rx_state_def initialize_stream_def queue_of_def new_table_facts)

lemma sample_rx_env_ok: "rx_env_ok (sample_rx_env sample_msgs True) sample_rx_state"
  using sample_env_mem [of True]
  by (auto simp: rx_env_ok_def sample_rx_env_def sample_rx_state_def sample_msgs_def msg_ok_def sample_address_def
      env_ok_def sample_env_def)

theorem rx_run_once_delivers_witness:
  "\<exists>s' reqs. rx_run_once (sample_rx_env sample_msgs True) sample_rx_cfg sample_rx_state = Some s' \<and>
    queue_of (r_tx s') = map Some reqs \<and>
    concat (map req_items reqs) = List.map_filter (arrival (r_table s')) sample_msgs"
  using rx_run_once_delivers [OF sample_rx_ok sample_rx_env_ok]
  by (auto simp: sample_rx_cfg_def sample_rx_env_def sample_rx_state_def initialize_stream_def queue_of_def)

theorem rx_client_limit_witness:
  "\<exists>s'. rx_run_once (sample_rx_env sample_msgs True) sample_rx_cfg sample_rx_state = Some s' \<and> ht_length (r_table s') \<le> 1"
  using rx_client_limit [OF sample_rx_ok sample_rx_env_ok] by (auto simp: sample_rx_cfg_def)

theorem rx_failure_keeps_lock_witness:
  "\<exists>s'. rx_run_once (sample_rx_env [hd sample_msgs] False) sample_rx_cfg sample_rx_state = Some s' \<and> ht_locked (r_table s')"
proof -
  have "\<not> (\<forall>i < MAX_BUFFER_SIZE. e_packets (sample_env False) i \<noteq> None)"
    by (auto simp: sample_env_def intro!: exI [of _ 5])
  from initialize_window_fails [OF _ this, of "empty_window 9 sample_packet_memory"]
  have "\<exists>e. fst (initialize_client (sample_env False) sample_client 0 sample_address addr_len) = Inl e"
    by (auto simp: initialize_client_def sample_env_def empty_window_def Let_def)
  then show ?thesis
    using rx_failure_keeps_lock [of sample_rx_state "sample_rx_env [hd sample_msgs] False" "hd sample_msgs" sample_rx_cfg]
    by (auto simp: ht_get_entries [OF new_table_facts(1)] new_table_facts sample_rx_env_def sample_rx_state_def sample_rx_cfg_def sample_msgs_def msg_ok_def sample_address_def)
qed

end
