(* ===== verification/Main_Loop.thy ===== *)
theory Main_Loop
  imports Receiver Complex_Main
begin

text \<open>
  The loops around the passes: \<^verbatim>\<open>handle_thread\<close> of \<^verbatim>\<open>src/handler.c\<close>, and from \<^verbatim>\<open>src/main.c\<close> the iteration
  of the sequential mode, which runs the receiver and then the handler until no request is left,
  and the removal of the clients whose transfer ended some time ago.

  The answers of the environment are sequences, one element for each pass. The result \<open>None\<close> is a
  loop that does not end: a pass faults, or waits for something that no other thread provides.
  In the sequential mode one thread does everything, so the model is exact for it; for the
  threaded mode it describes a handler thread while no other thread interferes.
\<close>

section \<open>The handler thread\<close>

text \<open>What a pass is given: the answers of the system and the values of the uninitialised variables.\<close>

type_synonym hd_answers = "nat \<Rightarrow> hd_env \<times> bool \<times> packet_t"

partial_function (option) handle_loop :: "hd_answers \<Rightarrow> hd_cfg_t \<Rightarrow> nat \<Rightarrow> hd_state \<Rightarrow> hd_state option" where
  "handle_loop answers cfg i s = (if s_exit s then Some s
     else (case answers i of (env, remove, to_send) \<Rightarrow>
       (case hd_run_once env remove to_send True cfg s of
         Some (Some s) \<Rightarrow> handle_loop answers cfg (Suc i) s
       | _ \<Rightarrow> None)))"

text \<open>
  The thread allocates its packet and initialises it once more, which fails for a null pointer;
  without a packet it ends at once, with one it loops until the stop request.
  The message rows and the file buffer are local arrays with arbitrary contents.
\<close>

definition handle_thread :: "hd_answers \<Rightarrow> hd_cfg_t \<Rightarrow> packet_t option \<Rightarrow> hd_state \<Rightarrow> hd_state option" where
  "handle_thread answers cfg mem s = (case init_packet (allocate_packet mem) of
     Inl _ \<Rightarrow> Some s
   | Inr decoded \<Rightarrow> handle_loop answers cfg 0 (s\<lparr>s_decoded := Some decoded, s_exit := False\<rparr>))"

section \<open>The sequential mode\<close>

text \<open>The inner loop: \<^verbatim>\<open>while (hd_configs[0]->rx->length != 0) hd_run_once(false, ...)\<close>.\<close>

partial_function (option) drain_requests :: "hd_answers \<Rightarrow> hd_cfg_t \<Rightarrow> nat \<Rightarrow> hd_state \<Rightarrow> hd_state option" where
  "drain_requests answers cfg i s = (if st_length (s_rx s) = 0 then Some s
     else (case answers i of (env, remove, to_send) \<Rightarrow>
       (case hd_run_once env remove to_send False cfg s of
         Some (Some s) \<Rightarrow> drain_requests answers cfg (Suc i) s
       | _ \<Rightarrow> None)))"

text \<open>The state of the main thread: what the handler works on, the table and the counter of clients.\<close>

record main_state =
  m_hd :: hd_state
  m_table :: "nat ht_t"
  m_idx :: u32

text \<open>The receiver sees the two streams from the other side.\<close>

definition rx_view :: "main_state \<Rightarrow> rx_state" where
  "rx_view ms = \<lparr>r_tx = s_rx (m_hd ms), r_rx = s_tx (m_hd ms), r_table = m_table ms,
     r_clients = s_clients (m_hd ms), r_idx = m_idx ms\<rparr>"

definition with_rx :: "rx_state \<Rightarrow> main_state \<Rightarrow> main_state" where
  "with_rx s ms = \<lparr>m_hd = (m_hd ms)\<lparr>s_rx := r_tx s, s_tx := r_rx s, s_clients := r_clients s\<rparr>,
     m_table = r_table s, m_idx = r_idx s\<rparr>"

definition seq_round :: "rx_env \<Rightarrow> rx_cfg_t \<Rightarrow> hd_answers \<Rightarrow> hd_cfg_t \<Rightarrow> main_state \<Rightarrow> main_state option" where
  "seq_round rx rx_cfg answers hd_cfg ms = do {
     s \<leftarrow> rx_run_once rx rx_cfg (rx_view ms);
     let ms = with_rx s ms;
     h \<leftarrow> drain_requests answers hd_cfg 0 (m_hd ms);
     Some (ms\<lparr>m_hd := h\<rparr>)
   }"

section \<open>Removing finished clients\<close>

text \<open>
  \<^verbatim>\<open>time_inactive\<close> is computed in floating point: the function of the two times is a parameter. The
  sequential mode compares with \<^verbatim>\<open>>\<close> (\<open>strict\<close>), the threaded mode with \<^verbatim>\<open>>=\<close>.
\<close>

type_synonym inactivity = "timespec \<Rightarrow> timespec \<Rightarrow> rat"

definition expired :: "inactivity \<Rightarrow> bool \<Rightarrow> timespec \<Rightarrow> client_t \<Rightarrow> bool" where
  "expired inactive strict now c = (case c_end_time c of None \<Rightarrow> False
     | Some end_time \<Rightarrow> \<not> c_active c \<and> (if strict then inactive now end_time > 30 else inactive now end_time \<ge> 30))"

text \<open>
  The collecting loop over the slots of the table: the client of a used slot is read through its
  pointer. It runs with the lock of the table held.
\<close>

fun collect_expired :: "inactivity \<Rightarrow> bool \<Rightarrow> timespec \<Rightarrow> (nat \<rightharpoonup> client_t) \<Rightarrow> nat item_t list \<Rightarrow> nat list option" where
  "collect_expired inactive strict now clients [] = Some []"
| "collect_expired inactive strict now clients (it # its) = (if it_used it then do {
     a \<leftarrow> it_value it;
     c \<leftarrow> clients a;
     rest \<leftarrow> collect_expired inactive strict now clients its;
     Some (if expired inactive strict now c then a # rest else rest)
   } else collect_expired inactive strict now clients its)"

text \<open>
  The removing loop: the client is removed from the table by its address and deallocated, whether
  the table had it or not. A client is read once more for its address before it is freed.
\<close>

fun remove_clients :: "(nat \<Rightarrow> bool \<times> bool) \<Rightarrow> nat list \<Rightarrow> nat ht_t \<Rightarrow> (nat \<rightharpoonup> client_t) \<Rightarrow>
    (event list list \<times> nat ht_t \<times> (nat \<rightharpoonup> client_t)) option" where
  "remove_clients mem [] t clients = Some ([], t, clients)"
| "remove_clients mem (a # as) t clients = do {
     c \<leftarrow> clients a;
     (_, t) \<leftarrow> ht_remove (fst (mem a)) (snd (mem a)) t (sin6_port (c_address c)) (sin6_addr (c_address c));
     (freed, t, clients) \<leftarrow> remove_clients mem as t (clients(a := None));
     Some (deallocate_client (Some c) True True # freed, t, clients)
   }"

definition clean_up :: "inactivity \<Rightarrow> bool \<Rightarrow> timespec \<Rightarrow> (nat \<Rightarrow> bool \<times> bool) \<Rightarrow> nat ht_t \<Rightarrow> (nat \<rightharpoonup> client_t) \<Rightarrow>
    (event list list \<times> nat ht_t \<times> (nat \<rightharpoonup> client_t)) option" where
  "clean_up inactive strict now mem t clients = (if ht_locked t \<or> length (ht_items t) < ht_size t then None else do {
     as \<leftarrow> collect_expired inactive strict now clients (take (ht_size t) (ht_items t));
     remove_clients mem as t clients
   })"

text \<open>One iteration of the sequential loop, the clean-up at every tenth.\<close>

definition seq_iteration :: "rx_env \<Rightarrow> rx_cfg_t \<Rightarrow> hd_answers \<Rightarrow> hd_cfg_t \<Rightarrow> inactivity \<Rightarrow> timespec \<Rightarrow>
    (nat \<Rightarrow> bool \<times> bool) \<Rightarrow> nat \<Rightarrow> main_state \<Rightarrow> main_state option" where
  "seq_iteration rx rx_cfg answers hd_cfg inactive now mem cnt ms = do {
     ms \<leftarrow> seq_round rx rx_cfg answers hd_cfg ms;
     if cnt mod 10 = 0 then do {
       (_, t, clients) \<leftarrow> clean_up inactive True now mem (m_table ms) (s_clients (m_hd ms));
       Some (ms\<lparr>m_table := t, m_hd := (m_hd ms)\<lparr>s_clients := clients\<rparr>\<rparr>)
     }
     else Some ms
   }"

section \<open>A pass in general\<close>

definition unlocked :: "(nat \<rightharpoonup> client_t) \<Rightarrow> bool" where
  "unlocked clients \<longleftrightarrow> (\<forall>a c. clients a = Some c \<longrightarrow> \<not> c_locked c)"

text \<open>A stream whose counter agrees with its nodes.\<close>

definition counted :: "'n stream_t \<Rightarrow> bool" where
  "counted q \<longleftrightarrow> st_length q = int (length (queue_of q))"

lemma counted_pop:
  assumes "counted q" "queue_of q = n # ns"
  obtains q' where "stream_pop q wait = Some (Some n, q')" "queue_of q' = ns" "counted q'"
proof -
  obtain r q' where p: "pop_locked q = (r, q')" by fastforce
  have "st_length q \<noteq> 0" using assms by (simp add: counted_def)
  moreover have "r = Some n" "queue_of q' = ns" "counted q'"
    using pop_locked_nonempty [OF assms(2)] p assms by (simp_all add: counted_def)
  ultimately show thesis using p by (intro that [of q']) (simp_all add: stream_pop_def)
qed

lemma counted_enqueue: "counted q \<Longrightarrow> counted (snd (stream_enqueue q (Some n)))"
  by (simp add: counted_def stream_enqueue_def queue_of_def)

lemma counted_initial: "counted initialize_stream"
  by (simp add: counted_def initialize_stream_def queue_of_def)

text \<open>The same clients, with the same addresses.\<close>

definition same_clients :: "(nat \<rightharpoonup> client_t) \<Rightarrow> (nat \<rightharpoonup> client_t) \<Rightarrow> bool" where
  "same_clients clients clients' \<longleftrightarrow> (\<forall>a. map_option c_address (clients' a) = map_option c_address (clients a))"

lemma same_clients_dom: "same_clients clients clients' \<Longrightarrow> dom clients' = dom clients"
  unfolding same_clients_def dom_def by (metis option.map_disc_iff)

text \<open>A request that stops the handler, and the nodes a pass does something else with.\<close>

definition stop_node :: "hd_req_t option \<Rightarrow> bool" where
  "stop_node node = (case node of None \<Rightarrow> False | Some req \<Rightarrow> rq_stop req)"

lemma finished_simps [simp]: "c_address (finished env m c) = c_address c"
  by (simp add: finished_def Let_def)

lemma hd_pass:
  assumes "state_ok s" "unlocked (s_clients s)" "calls_succeed env" "stream_pop (s_rx s) wait = Some (Some node, rx)"
    "queue_of (s_rx s) = node # queue_of rx"
  shows "\<exists>s'. hd_run_once env remove to_send wait cfg s = Some (Some s') \<and> s_rx s' = rx \<and> same_clients (s_clients s) (s_clients s') \<and>
    (\<forall>req. Some req \<in> set (queue_of (s_tx s')) \<longrightarrow> Some req \<in> set (queue_of (s_tx s)) \<or> sendable req) \<and>
    (if stop_node node then s_exit s' \<and> unlocked (s_clients s') \<and> (\<forall>d. packet_mem d \<longrightarrow> state_ok (s'\<lparr>s_decoded := d\<rparr>))
     else state_ok s' \<and> unlocked (s_clients s') \<and> s_exit s' = s_exit s)"
proof (cases "stop_node node \<or> node = None")
  case True
  have "state_ok (s\<lparr>s_rx := rx\<rparr>)" "\<forall>d. packet_mem d \<longrightarrow> state_ok (s\<lparr>s_rx := rx, s_exit := True, s_decoded := d\<rparr>)"
    using assms(1,5) by (simp_all add: state_ok_def buffers_ok_def)
  then show ?thesis
    using True assms(2,4) by (cases node) (auto simp: hd_run_once_def stop_node_def unlocked_def same_clients_def)
next
  case False
  then obtain req where req: "node = Some req" "\<not> rq_stop req" by (cases node) (auto simp: stop_node_def)
  have "request_ok (s_clients s) node" using assms(1,5) by (simp add: state_ok_def)
  then obtain key c where k: "req_ok req" "rq_client req = Some key" "s_clients s key = Some c"
    using req by (auto simp: request_ok_def)
  have c: "client_ok c" "\<not> c_locked c" using assms(1,2) k(3) by (auto simp: state_ok_def unlocked_def)
  have b: "buffers_ok s" using assms(1) by (simp add: state_ok_def)
  have addr: "\<forall>j x x'. j < rq_num req \<longrightarrow> c_address x = c_address c \<longrightarrow> datagram_effect req j x x' \<longrightarrow> c_address x' = c_address c"
    by (auto simp: datagram_effect_def)
  from hd_run_once_request [where Q = "\<lambda>j x. c_address x = c_address c" and remove = remove and to_send = to_send and cfg = cfg,
      OF assms(4) [unfolded req(1)] req(2) k(2,3) c(2) b c(1) k(1) assms(3) _ addr]
  obtain s' c1 c' m req' where s': "hd_run_once env remove to_send wait cfg s = Some (Some s')" "s_exit s' = s_exit s"
    "s_clients s' = (s_clients s)(key \<mapsto> c')" "s_rx s' = rx" "buffers_ok s'" "client_ok c'" "c' = (finished env m c1)\<lparr>c_locked := False\<rparr>"
    "c_address c1 = c_address c" "queue_of (s_tx s') = queue_of (s_tx s) @ [Some req']" "req_ok req'" "\<not> rq_stop req'"
    by auto
  have "request_ok (s_clients s') x" if "request_ok (s_clients s) x" for x
    using that s'(3) by (auto simp: request_ok_def split: option.splits)
  then have "state_ok s'" using assms(1,5) s'(3-6) by (auto simp: state_ok_def split: if_splits)
  moreover have "unlocked (s_clients s')" using assms(2) s'(3,7) by (auto simp: unlocked_def)
  moreover have "same_clients (s_clients s) (s_clients s')" using s'(3,7,8) k(3) by (simp add: same_clients_def)
  moreover have "Some x \<in> set (queue_of (s_tx s)) \<or> sendable x" if "Some x \<in> set (queue_of (s_tx s'))" for x
    using that s'(9-11) by (auto simp: sendable_def)
  ultimately show ?thesis using s'(1,2,4) req by (simp add: stop_node_def)
qed

section \<open>The handler thread ends at the stop request\<close>

text \<open>A state that a handler thread can start from: well formed once the thread has its packet.\<close>

definition startable :: "hd_state \<Rightarrow> bool" where
  "startable s \<longleftrightarrow> unlocked (s_clients s) \<and> counted (s_rx s) \<and> (\<forall>d. packet_mem d \<longrightarrow> state_ok (s\<lparr>s_decoded := d\<rparr>))"

lemma handle_loop_stops:
  assumes "state_ok s" "unlocked (s_clients s)" "counted (s_rx s)" "\<forall>i. calls_succeed (fst (answers i))" "\<not> s_exit s"
    "queue_of (s_rx s) = before @ node # after" "stop_node node" "\<forall>x \<in> set before. \<not> stop_node x"
  shows "\<exists>s'. handle_loop answers cfg i s = Some s' \<and> s_exit s' \<and> queue_of (s_rx s') = after \<and> startable s' \<and>
    dom (s_clients s') = dom (s_clients s)"
  using assms
proof (induction before arbitrary: s i)
  case Nil
  obtain env remove to_send where a: "answers i = (env, remove, to_send)" "calls_succeed env"
    using Nil.prems(4) by (metis prod_cases3 fst_conv)
  obtain q where q: "stream_pop (s_rx s) True = Some (Some node, q)" "queue_of q = after" "counted q"
    using counted_pop [OF Nil.prems(3), of node after True] Nil.prems(6) by auto
  obtain s' where s': "hd_run_once env remove to_send True cfg s = Some (Some s')" "s_rx s' = q" "s_exit s'" "dom (s_clients s') = dom (s_clients s)"
    "unlocked (s_clients s')" "\<forall>d. packet_mem d \<longrightarrow> state_ok (s'\<lparr>s_decoded := d\<rparr>)"
    using hd_pass [OF Nil.prems(1,2) a(2) q(1), of remove to_send cfg] q(2) Nil.prems(6,7) by (auto dest: same_clients_dom)
  have "handle_loop answers cfg (Suc i) s' = Some s'" using s'(3) by (subst handle_loop.simps) simp
  with Nil.prems(5) a(1) s' q(2,3) show ?case by (subst handle_loop.simps) (simp add: startable_def)
next
  case (Cons x before)
  obtain env remove to_send where a: "answers i = (env, remove, to_send)" "calls_succeed env"
    using Cons.prems(4) by (metis prod_cases3 fst_conv)
  obtain q where q: "stream_pop (s_rx s) True = Some (Some x, q)" "queue_of q = before @ node # after" "counted q"
    using counted_pop [OF Cons.prems(3), of x "before @ node # after" True] Cons.prems(6) by auto
  obtain s' where s': "hd_run_once env remove to_send True cfg s = Some (Some s')" "s_rx s' = q" "state_ok s'" "dom (s_clients s') = dom (s_clients s)"
    "unlocked (s_clients s')" "s_exit s' = s_exit s"
    using hd_pass [OF Cons.prems(1,2) a(2) q(1), of remove to_send cfg] q(2) Cons.prems(6,8) by (auto dest: same_clients_dom)
  have "\<exists>s''. handle_loop answers cfg (Suc i) s' = Some s'' \<and> s_exit s'' \<and> queue_of (s_rx s'') = after \<and> startable s'' \<and>
      dom (s_clients s'') = dom (s_clients s')"
    using s' q Cons.prems by (intro Cons.IH) simp_all
  with Cons.prems(5) a(1) s'(1,4) show ?case by (subst handle_loop.simps) simp
qed

lemma handle_thread_stops:
  assumes "startable s" "\<forall>i. calls_succeed (fst (answers i))"
    and "queue_of (s_rx s) = before @ node # after" "stop_node node" "\<forall>x \<in> set before. \<not> stop_node x"
  shows "\<exists>s'. handle_thread answers cfg (Some p) s = Some s' \<and> s_exit s' \<and> queue_of (s_rx s') = after \<and> startable s' \<and>
    dom (s_clients s') = dom (s_clients s)"
proof -
  obtain d where d: "init_packet (allocate_packet (Some p)) = Inr d" "length (pk_payload d) = MAX_PAYLOAD_SIZE"
    by (simp add: allocate_packet_def init_packet_def)
  have s: "unlocked (s_clients s)" "counted (s_rx s)" "state_ok (s\<lparr>s_decoded := Some d\<rparr>)"
    using assms(1) d(2) by (auto simp: startable_def packet_mem_def)
  then have "state_ok (s\<lparr>s_decoded := Some d, s_exit := False\<rparr>)" by (simp add: state_ok_def buffers_ok_def)
  then show ?thesis
    using s(1,2) assms(2-5) d(1) handle_loop_stops [of "s\<lparr>s_decoded := Some d, s_exit := False\<rparr>" answers before node after cfg 0]
    by (simp add: handle_thread_def)
qed

section \<open>Delivery by the sequential mode\<close>

text \<open>
  A datagram of a sender that respects the window: a data packet carries the chunk of a number
  below \<open>bound\<close> and at most 225 below it, so that its 8-bit sequence number is not ambiguous.
\<close>

definition genuine :: "(nat \<Rightarrow> bytes) \<Rightarrow> nat \<Rightarrow> bytes \<Rightarrow> bool" where
  "genuine src bound bs \<longleftrightarrow> (\<forall>d. wf_packet d \<and> bs = wire d \<and> pk_type d = DATA \<and> \<not> pk_truncated d \<longrightarrow>
     (\<exists>N. pk_seqnum d = word_of_nat N \<and> chunk d = src N \<and> N < bound \<and> bound \<le> N + 225))"

text \<open>A client in step with a sender that has sent nothing from number \<open>bound\<close> on.\<close>

definition delivering_upto :: "(nat \<Rightarrow> bytes) \<Rightarrow> nat \<Rightarrow> nat \<Rightarrow> client_t \<Rightarrow> bool" where
  "delivering_upto src n bound c \<longleftrightarrow> delivering src n c \<and> n \<le> bound \<and>
     (\<forall>s p. held (c_window c) s = Some p \<longrightarrow> n + unat (s - window_low (c_window c)) < bound)"

lemma delivering_locked [simp]:
  "delivering src n (c\<lparr>c_locked := b\<rparr>) = delivering src n c"
  "delivering_upto src n bound (c\<lparr>c_locked := b\<rparr>) = delivering_upto src n bound c"
  by (simp_all add: delivering_upto_def) (simp_all add: delivering_def client_ok_def)

lemma unat_u8_small: "k < 256 \<Longrightarrow> unat (word_of_nat k :: u8) = k"
  by (simp add: unat_of_nat take_bit_nat_eq_self)

lemma number_of_offset:
  assumes "N < bound" "bound \<le> N + 225" "n \<le> bound" "bound \<le> n + 31"
    "unat (word_of_nat N - word_of_nat n :: u8) < 31"
  shows "N = n + unat (word_of_nat N - word_of_nat n :: u8)"
proof (cases "n \<le> N")
  case True
  then have e: "(word_of_nat N - word_of_nat n :: u8) = word_of_nat (N - n)" by (simp add: of_nat_diff)
  have "N - n < 256" using assms(1,4) by linarith
  then have "unat (word_of_nat N - word_of_nat n :: u8) = N - n" unfolding e by (rule unat_u8_small)
  with True show ?thesis by linarith
next
  case False
  have "(word_of_nat (n - N) :: u8) = word_of_nat n - word_of_nat N" using False by (simp add: of_nat_diff)
  then have e: "(word_of_nat N - word_of_nat n :: u8) = - word_of_nat (n - N)" by simp
  have small: "0 < n - N" "n - N \<le> 225" using False assms(2,3) by linarith+
  have "(word_of_nat (256 - (n - N)) :: u8) = word_of_nat 256 - word_of_nat (n - N)"
    using small(2) by (intro of_nat_diff) linarith
  then have "(- word_of_nat (n - N) :: u8) = word_of_nat (256 - (n - N))" by simp
  then have "unat (- word_of_nat (n - N) :: u8) = 256 - (n - N)"
    using small by (simp only: unat_u8_small)
  with e assms(5) small(2) show ?thesis by simp
qed

lemma honest_genuine:
  assumes "\<forall>i < rq_num req. genuine src bound (datagram req i)" "n \<le> bound" "bound \<le> n + 31"
  shows "honest src n req"
  unfolding honest_def
proof (intro allI impI)
  fix i d assume i: "i < rq_num req" "carries req i d" "unat (pk_seqnum d - word_of_nat n) < MAX_WINDOW_SIZE"
  obtain N where N: "pk_seqnum d = word_of_nat N" "chunk d = src N" "N < bound" "bound \<le> N + 225"
    using assms(1) i(1,2) by (fastforce simp: genuine_def carries_def)
  then have "N = n + unat (pk_seqnum d - word_of_nat n)"
    using number_of_offset [OF N(3,4) assms(2,3)] i(3) by simp
  with N(2) show "chunk d = src (n + unat (pk_seqnum d - word_of_nat n))" by simp
qed

lemma delivering_upto_effect:
  assumes "delivering_upto src n bound c" "\<forall>i < rq_num req. genuine src bound (datagram req i)" "bound \<le> n + 31"
    "j < rq_num req" "datagram_effect req j c c'"
  shows "delivering_upto src n bound c'"
proof -
  have d: "delivering src n c" "n \<le> bound" using assms(1) by (simp_all add: delivering_upto_def)
  have d': "delivering src n c'"
    using delivering_effect [OF d(1) honest_genuine [OF assms(2) d(2) assms(3)] assms(4,5)] .
  have "n + unat (s - window_low (c_window c')) < bound" if h: "held (c_window c') s = Some p" for s p
  proof (cases "c' = c")
    case True
    then show ?thesis using assms(1) h by (simp add: delivering_upto_def)
  next
    case False
    then obtain x where x: "carries req j x" "unat (pk_seqnum x - window_low (c_window c)) < MAX_WINDOW_SIZE"
      "c' = c\<lparr>c_window := store (c_window c) (pk_seqnum x) x\<rparr>" using assms(5) by (auto simp: datagram_effect_def)
    have w: "window_inv (c_window c)" "window_low (c_window c) = word_of_nat n"
      using d(1) by (simp_all add: delivering_def client_ok_def)
    have held': "held (c_window c') = (held (c_window c))(pk_seqnum x \<mapsto> x)"
      using win.held_store [OF w(1) x(2)] x(3) by simp
    show ?thesis
    proof (cases "s = pk_seqnum x")
      case True
      obtain N where N: "pk_seqnum x = word_of_nat N" "N < bound" "bound \<le> N + 225"
        using assms(2,4) x(1) by (fastforce simp: genuine_def carries_def)
      then have "N = n + unat (pk_seqnum x - word_of_nat n)"
        using number_of_offset [OF N(2,3) d(2) assms(3)] x(2) w(2) by simp
      with N(2) True x(3) w(2) show ?thesis by simp
    next
      case False
      then show ?thesis using h held' assms(1) x(3) by (simp add: delivering_upto_def)
    qed
  qed
  with d' d(2) show ?thesis by (simp add: delivering_upto_def)
qed

lemma delivering_upto_finished:
  assumes "delivering_upto src n bound c" "\<forall>k < m. held (c_window c) (window_low (c_window c) + word_of_nat k) \<noteq> None"
    "m \<le> MAX_WINDOW_SIZE"
  shows "delivering_upto src (n + m) bound ((finished env m c)\<lparr>c_locked := False\<rparr>)"
proof -
  let ?c' = "(finished env m c)\<lparr>c_locked := False\<rparr>"
  let ?w = "c_window c"
  have d: "delivering src n c" "n \<le> bound" using assms(1) by (simp_all add: delivering_upto_def)
  have w: "window_inv ?w" using d(1) by (simp add: delivering_def client_ok_def)
  have d': "delivering src (n + m) ?c'"
    using delivering_finished [OF d(1) assms(2), of env] by simp
  note off = unat_u8_small
  have le: "n + m \<le> bound"
  proof (cases m)
    case (Suc k)
    then obtain p where "held ?w (window_low ?w + word_of_nat k) = Some p" using assms(2) by blast
    then have "n + unat (window_low ?w + word_of_nat k - window_low ?w) < bound"
      using assms(1) unfolding delivering_upto_def by blast
    then show ?thesis using Suc assms(3) off [of k] by simp
  qed (use d(2) in simp)
  have win': "c_window ?c' = drain ?w m"
    by (cases "m = 0") (simp_all add: finished_def Let_def drain_def slide_def)
  have "n + m + unat (s - window_low (c_window ?c')) < bound" if h: "held (c_window ?c') s = Some p" for s p
  proof -
    have o: "\<not> unat (s - window_low ?w) < m" "held ?w s = Some p"
      using h unfolding win' win.held_drain [OF w assms(2)] by (auto split: if_splits)
    have e: "s - window_low (c_window ?c') = (s - window_low ?w) - word_of_nat m" unfolding win' by simp
    have "(word_of_nat m :: u8) \<le> s - window_low ?w" "unat (word_of_nat m :: u8) = m"
      using o(1) off [of m] assms(3) by (simp_all add: word_le_nat_alt)
    then have "unat (s - window_low (c_window ?c')) = unat (s - window_low ?w) - m"
      unfolding e by (simp only: unat_sub)
    moreover have "n + unat (s - window_low ?w) < bound" using assms(1) o(2) by (simp add: delivering_upto_def)
    ultimately show ?thesis using o(1) by linarith
  qed
  with d' le show ?thesis by (simp add: delivering_upto_def)
qed

section \<open>What a round keeps of every client\<close>

text \<open>
  The main thread between two rounds: a well-formed state for the receiver and the handler, no
  request left, no client of the table locked.
\<close>

definition main_ok :: "rx_cfg_t \<Rightarrow> main_state \<Rightarrow> bool" where
  "main_ok cfg ms \<longleftrightarrow> rx_ok cfg (rx_view ms) \<and> buffers_ok (m_hd ms) \<and> queue_of (s_rx (m_hd ms)) = [] \<and>
     counted (s_rx (m_hd ms)) \<and>
     (\<forall>k a c. ht_entries (m_table ms) k = Some a \<longrightarrow> s_clients (m_hd ms) a = Some c \<longrightarrow> \<not> c_locked c)"

lemma rx_view_simps [simp]:
  "r_tx (rx_view ms) = s_rx (m_hd ms)" "r_rx (rx_view ms) = s_tx (m_hd ms)" "r_table (rx_view ms) = m_table ms"
  "r_clients (rx_view ms) = s_clients (m_hd ms)"
  by (simp_all add: rx_view_def)

text \<open>
  The state of the inner loop. \<open>place k p c\<close> says that the client of the sender with key \<open>k\<close> is at
  position \<open>p\<close>, \<open>good k bs\<close> what is known of its datagrams; \<open>n\<close> has the positions at the start of the
  round and \<open>pos\<close> those reached.
\<close>

type_synonym sender = "u16 \<times> bytes"

definition clients_at :: "(sender \<Rightarrow> nat \<Rightarrow> client_t \<Rightarrow> bool) \<Rightarrow> (sender \<Rightarrow> nat) \<Rightarrow> nat ht_t \<Rightarrow> (nat \<rightharpoonup> client_t) \<Rightarrow> bool" where
  "clients_at place pos t clients \<longleftrightarrow> (\<forall>k a. ht_entries t k = Some a \<longrightarrow>
     (\<exists>c. clients a = Some c \<and> addr_key (c_address c) = k \<and> \<not> c_locked c \<and> place k (pos k) c))"

definition good_request :: "(sender \<Rightarrow> bytes \<Rightarrow> bool) \<Rightarrow> nat ht_t \<Rightarrow> hd_req_t \<Rightarrow> bool" where
  "good_request good t req \<longleftrightarrow> sendable req \<and> (\<exists>k a. rq_client req = Some a \<and> ht_entries t k = Some a \<and>
     (\<forall>i < rq_num req. good k (datagram req i)))"

definition seq_inv :: "(sender \<Rightarrow> nat \<Rightarrow> client_t \<Rightarrow> bool) \<Rightarrow> (sender \<Rightarrow> bytes \<Rightarrow> bool) \<Rightarrow> (sender \<Rightarrow> nat) \<Rightarrow>
    (sender \<Rightarrow> nat) \<Rightarrow> nat ht_t \<Rightarrow> hd_state \<Rightarrow> bool" where
  "seq_inv place good n pos t h \<longleftrightarrow> buffers_ok h \<and> counted (s_rx h) \<and>
     clients_at place pos t (s_clients h) \<and> (\<forall>a c. s_clients h a = Some c \<longrightarrow> client_ok c) \<and>
     (\<forall>node \<in> set (queue_of (s_rx h)). \<exists>req. node = Some req \<and> good_request good t req) \<and>
     (\<forall>req. Some req \<in> set (queue_of (s_tx h)) \<longrightarrow> sendable req) \<and>
     (\<forall>k. n k \<le> pos k \<and> (ht_entries t k = None \<longrightarrow> pos k = n k))"

lemma good_requests:
  assumes "rx_ok cfg s" "\<forall>req \<in> set reqs. request_for (r_table s) req"
    and "concat (map req_items reqs) = List.map_filter (arrival (r_table s)) ms"
    and "\<forall>m \<in> set ms. msg_valid m \<longrightarrow> good (msg_key m) (take (m_len m) (m_buf m))"
    and "req \<in> set reqs"
  shows "good_request good (r_table s) req"
proof -
  obtain a k where a: "sendable req" "rq_client req = Some a" "ht_entries (r_table s) k = Some a"
    using assms(2,5) unfolding request_for_def by blast
  have key: "k' = k" if "ht_entries (r_table s) k' = Some a" for k'
  proof -
    have keyed: "\<forall>k a. ht_entries (r_table s) k = Some a \<longrightarrow> (\<exists>c. r_clients s a = Some c \<and> addr_key (c_address c) = k)"
      using assms(1) unfolding rx_ok_def by blast
    obtain c where "r_clients s a = Some c" "addr_key (c_address c) = k" using keyed a(3) by blast
    moreover obtain c' where "r_clients s a = Some c'" "addr_key (c_address c') = k'"
      using keyed \<open>ht_entries (r_table s) k' = Some a\<close> by blast
    ultimately show ?thesis by simp
  qed
  have "good k (datagram req i)" if "i < rq_num req" for i
  proof -
    have "(Some a, datagram req i) \<in> set (req_items req)" using that a(2) by (auto simp: req_items_def)
    then have "(Some a, datagram req i) \<in> set (List.map_filter (arrival (r_table s)) ms)"
      using assms(5) by (auto simp flip: assms(3))
    then obtain m where m: "m \<in> set ms" "arrival (r_table s) m = Some (Some a, datagram req i)"
      by (auto simp: set_map_filter)
    then have m': "ht_entries (r_table s) (msg_key m) = Some a" "msg_valid m" "datagram req i = take (m_len m) (m_buf m)"
      by (auto simp: arrival_def split: option.splits if_splits)
    then show ?thesis using assms(4) m(1) key [OF m'(1)] by auto
  qed
  then show ?thesis using a unfolding good_request_def by blast
qed

lemma clients_at_start:
  assumes "main_ok cfg ms" "rx_inv env cfg (rx_view ms) j None None s"
    and old: "\<And>k a. ht_entries (m_table ms) k = Some a \<Longrightarrow> \<exists>c. s_clients (m_hd ms) a = Some c \<and> place k (n k) c"
    and new: "\<And>k c. ht_entries (m_table ms) k = None \<Longrightarrow> new_client (c_address c) c \<Longrightarrow> place k (n k) c"
  shows "clients_at place n (r_table s) (r_clients s)"
  unfolding clients_at_def
proof (intro allI impI)
  fix k a assume e: "ht_entries (r_table s) k = Some a"
  have inv: "rx_ok cfg s" "r_clients (rx_view ms) \<subseteq>\<^sub>m r_clients s" "newcomers (rx_view ms) s"
    using assms(2) by (simp_all add: rx_inv_def)
  obtain c where c: "r_clients s a = Some c" "addr_key (c_address c) = k" using inv(1) e unfolding rx_ok_def by blast
  have origin: "ht_entries (m_table ms) k = Some a \<or>
      ht_entries (m_table ms) k = None \<and> (\<exists>c. r_clients s a = Some c \<and> new_client (c_address c) c)"
    using inv(3) e unfolding newcomers_def rx_view_simps by blast
  have "place k (n k) c \<and> \<not> c_locked c"
  proof (cases "ht_entries (m_table ms) k")
    case (Some b)
    then have ab: "a = b" using origin by simp
    obtain x where x: "s_clients (m_hd ms) a = Some x" "place k (n k) x" using old [OF Some] ab by auto
    then have "x = c" using map_leD [OF inv(2), of a x] c(1) by simp
    then show ?thesis using x assms(1) Some ab unfolding main_ok_def by blast
  next
    case None
    then have "new_client (c_address c) c" using origin c(1) by auto
    then show ?thesis using new [OF None] by (auto simp: new_client_def)
  qed
  with c show "\<exists>c. r_clients s a = Some c \<and> addr_key (c_address c) = k \<and> \<not> c_locked c \<and> place k (n k) c" by blast
qed

text \<open>
  A property of clients and positions that every datagram of a good request and the writing of \<open>m\<close>
  packets respect holds throughout a round.
\<close>

locale client_progress =
  fixes place :: "u16 \<times> bytes \<Rightarrow> nat \<Rightarrow> client_t \<Rightarrow> bool"
    and good :: "u16 \<times> bytes \<Rightarrow> bytes \<Rightarrow> bool"
  assumes place_locked: "place k p (c\<lparr>c_locked := b\<rparr>) = place k p c"
    and place_effect: "place k p c \<Longrightarrow> \<forall>i < rq_num req. good k (datagram req i) \<Longrightarrow> j < rq_num req \<Longrightarrow>
      datagram_effect req j c c' \<Longrightarrow> place k p c'"
    and place_finished: "place k p c \<Longrightarrow> m \<le> MAX_WINDOW_SIZE \<Longrightarrow>
      \<forall>i < m. held (c_window c) (window_low (c_window c) + word_of_nat i) \<noteq> None \<Longrightarrow> place k (p + m) (finished env m c)"
begin

lemma clients_at_update:
  assumes "clients_at place pos t clients" "ht_entries t k = Some a" "clients a = Some c"
    and "place k p c'" "c_address c' = c_address c" "\<not> c_locked c'"
  shows "clients_at place (pos(k := p)) t (clients(a \<mapsto> c'))"
  unfolding clients_at_def
proof (intro allI impI)
  fix k' a' assume e: "ht_entries t k' = Some a'"
  have key: "addr_key (c_address c) = k" using assms(1-3) unfolding clients_at_def by (metis option.inject)
  obtain x where x: "clients a' = Some x" "addr_key (c_address x) = k'" "place k' (pos k') x" "\<not> c_locked x"
    using assms(1) e unfolding clients_at_def by blast
  have "k' = k \<longleftrightarrow> a' = a" using e assms(2,3) x(1,2) key by auto
  with x key assms(4-6) show "\<exists>x. (clients(a \<mapsto> c')) a' = Some x \<and> addr_key (c_address x) = k' \<and> \<not> c_locked x \<and>
      place k' ((pos(k := p)) k') x" by (cases "a' = a") auto
qed

lemma seq_step:
  assumes "seq_inv place good n pos t h" "calls_succeed env" "queue_of (s_rx h) = node # rest"
  shows "\<exists>h' pos'. hd_run_once env remove to_send False cfg h = Some (Some h') \<and> seq_inv place good n pos' t h' \<and>
    queue_of (s_rx h') = rest"
proof -
  have inv: "buffers_ok h" "counted (s_rx h)" "clients_at place pos t (s_clients h)"
    "\<forall>a c. s_clients h a = Some c \<longrightarrow> client_ok c" "\<forall>k. n k \<le> pos k \<and> (ht_entries t k = None \<longrightarrow> pos k = n k)"
    using assms(1) by (simp_all add: seq_inv_def)
  obtain req k a where req: "node = Some req" "sendable req" "rq_client req = Some a" "ht_entries t k = Some a"
    "\<forall>i < rq_num req. good k (datagram req i)"
    using assms(1,3) unfolding seq_inv_def good_request_def by force
  obtain c where c: "s_clients h a = Some c" "place k (pos k) c" "\<not> c_locked c"
    using inv(3) req(4) unfolding clients_at_def by blast
  have cok: "client_ok c" and r: "req_ok req" "\<not> rq_stop req"
    using inv(4) c(1) req(2) by (auto simp: sendable_def)
  obtain q where q: "stream_pop (s_rx h) False = Some (Some node, q)" "queue_of q = rest" "counted q"
    using counted_pop [OF inv(2) assms(3)] by blast
  let ?Q = "\<lambda>j x. place k (pos k) x \<and> c_address x = c_address c"
  have start: "?Q 0 (c\<lparr>c_locked := True\<rparr>)" using c(2) place_locked by simp
  have keep: "\<forall>j x x'. j < rq_num req \<longrightarrow> ?Q j x \<longrightarrow> datagram_effect req j x x' \<longrightarrow> ?Q (Suc j) x'"
  proof (intro allI impI conjI)
    fix j x x' assume j: "j < rq_num req" "?Q j x" "datagram_effect req j x x'"
    then show "place k (pos k) x'" using place_effect [OF _ req(5)] by blast
    show "c_address x' = c_address c" using j(2,3) by (auto simp: datagram_effect_def)
  qed
  from hd_run_once_request [where Q = ?Q and remove = remove and to_send = to_send and cfg = cfg,
      OF q(1) [unfolded req(1)] r(2) req(3) c(1,3) inv(1) cok r(1) assms(2) start keep]
  obtain h' c1 c' m req' where h': "hd_run_once env remove to_send False cfg h = Some (Some h')"
    "s_clients h' = (s_clients h)(a \<mapsto> c')" "s_rx h' = q" "buffers_ok h'" "?Q (rq_num req) c1" "client_ok c'"
    "c' = (finished env m c1)\<lparr>c_locked := False\<rparr>" "run_end (c_window c1) m"
    "\<forall>k < m. held (c_window c1) (window_low (c_window c1) + word_of_nat k) \<noteq> None"
    "queue_of (s_tx h') = queue_of (s_tx h) @ [Some req']" "req_ok req'" "\<not> rq_stop req'" by blast
  have m: "m \<le> MAX_WINDOW_SIZE" using h'(8) by (simp add: run_end_def)
  have c': "place k (pos k + m) c'" "c_address c' = c_address c" "\<not> c_locked c'"
    using place_finished [OF _ m h'(9), of k "pos k" env] h'(5,7) place_locked by simp_all
  let ?pos = "pos(k := pos k + m)"
  have "clients_at place ?pos t (s_clients h')"
    using clients_at_update [OF inv(3) req(4) c(1) c'] h'(2) by simp
  moreover have "\<forall>k. n k \<le> ?pos k \<and> (ht_entries t k = None \<longrightarrow> ?pos k = n k)"
    using inv(5) req(4) by (auto simp: trans_le_add1)
  moreover have "\<forall>a c. s_clients h' a = Some c \<longrightarrow> client_ok c" using inv(4) h'(2,6) by auto
  moreover have "\<forall>node \<in> set (queue_of (s_rx h')). \<exists>req. node = Some req \<and> good_request good t req"
    "\<forall>req. Some req \<in> set (queue_of (s_tx h')) \<longrightarrow> sendable req"
    using assms(1,3) h'(3,10-12) q(2) by (auto simp: seq_inv_def sendable_def)
  ultimately have "seq_inv place good n ?pos t h'" using h'(3,4) q(3) unfolding seq_inv_def by blast
  with h'(1,3) q(2) show ?thesis by blast
qed

lemma drain_requests_all:
  assumes "seq_inv place good n pos t h" "\<forall>i. calls_succeed (fst (answers i))" "queue_of (s_rx h) = rest"
  shows "\<exists>h' pos'. drain_requests answers cfg i h = Some h' \<and> seq_inv place good n pos' t h' \<and> queue_of (s_rx h') = []"
  using assms
proof (induction rest arbitrary: h i pos)
  case Nil
  then have "st_length (s_rx h) = 0" by (simp add: seq_inv_def counted_def)
  then show ?case using Nil by (subst drain_requests.simps) auto
next
  case (Cons node rest)
  obtain env remove to_send where a: "answers i = (env, remove, to_send)" "calls_succeed env"
    using Cons.prems(2) by (metis prod_cases3 fst_conv)
  obtain h1 pos1 where h1: "hd_run_once env remove to_send False cfg h = Some (Some h1)"
    "seq_inv place good n pos1 t h1" "queue_of (s_rx h1) = rest"
    using seq_step [OF Cons.prems(1) a(2) Cons.prems(3)] by blast
  have "st_length (s_rx h) \<noteq> 0" using Cons.prems(1,3) by (simp add: seq_inv_def counted_def)
  moreover obtain h2 pos2 where "drain_requests answers cfg (Suc i) h1 = Some h2" "seq_inv place good n pos2 t h2"
    "queue_of (s_rx h2) = []" using Cons.IH [OF h1(2) Cons.prems(2) h1(3)] by blast
  ultimately show ?case using a(1) h1(1) by (subst drain_requests.simps) auto
qed

lemma round_keeps:
  assumes "main_ok cfg ms" "rx_env_ok rx (rx_view ms)" "rc_max_clients cfg \<le> 32769"
    and "\<forall>i. calls_succeed (fst (answers i))"
    and "\<forall>m \<in> set (take (nat (x_retval rx)) (x_msgs rx)). msg_valid m \<longrightarrow> good (msg_key m) (take (m_len m) (m_buf m))"
    and "\<And>k a. ht_entries (m_table ms) k = Some a \<Longrightarrow> \<exists>c. s_clients (m_hd ms) a = Some c \<and> place k (n k) c"
    and "\<And>k c. ht_entries (m_table ms) k = None \<Longrightarrow> new_client (c_address c) c \<Longrightarrow> place k (n k) c"
  shows "\<exists>ms' n'. seq_round rx cfg answers hd_cfg ms = Some ms' \<and> main_ok cfg ms' \<and>
    clients_at place n' (m_table ms') (s_clients (m_hd ms')) \<and>
    (\<forall>k. n k \<le> n' k \<and> (ht_entries (m_table ms') k = None \<longrightarrow> n' k = n k)) \<and>
    ht_entries (m_table ms) \<subseteq>\<^sub>m ht_entries (m_table ms')"
proof -
  have ok: "rx_ok cfg (rx_view ms)" "buffers_ok (m_hd ms)" "queue_of (s_rx (m_hd ms)) = []" "counted (s_rx (m_hd ms))"
    using assms(1) by (simp_all add: main_ok_def)
  obtain s where s: "rx_run_once rx cfg (rx_view ms) = Some s" "rx_inv rx cfg (rx_view ms) (nat (x_retval rx)) None None s"
    using rx_run_once_inv [OF ok(1) assms(2,3)] by blast
  then have inv: "rx_ok cfg s" "handed_over rx (rx_view ms) (nat (x_retval rx)) None s"
    "ht_entries (m_table ms) \<subseteq>\<^sub>m ht_entries (r_table s)" by (simp_all add: rx_inv_def)
  then obtain reqs where reqs: "queue_of (r_tx s) = map Some reqs" "st_length (r_tx s) = int (length reqs)"
    "\<forall>req \<in> set reqs. request_for (r_table s) req"
    "concat (map req_items reqs) = List.map_filter (arrival (r_table s)) (take (nat (x_retval rx)) (x_msgs rx))"
    using ok(3,4) by (auto simp: handed_over_def open_items_def counted_def)
  let ?h = "m_hd (with_rx s ms)"
  have gen: "good_request good (r_table s) req" if "req \<in> set reqs" for req
    using good_requests [OF inv(1) reqs(3,4) assms(5) that] .
  have at_start: "clients_at place n (r_table s) (r_clients s)" 
    by (rule clients_at_start [where place = place and n = n, OF assms(1) s(2) assms(6,7)])
  have "seq_inv place good n n (r_table s) ?h"
    using ok(2) inv(1) at_start reqs(1,2) gen
    by (auto simp: seq_inv_def with_rx_def buffers_ok_def counted_def rx_ok_def)
  from drain_requests_all [OF this assms(4) refl] obtain h pos where
    h: "drain_requests answers hd_cfg 0 ?h = Some h" "seq_inv place good n pos (r_table s) h" "queue_of (s_rx h) = []" by blast
  let ?ms = "(with_rx s ms)\<lparr>m_hd := h\<rparr>"
  have round: "seq_round rx cfg answers hd_cfg ms = Some ?ms" using s(1) h(1) by (simp add: seq_round_def)
  have pos: "clients_at place pos (r_table s) (s_clients h)" "\<forall>k. n k \<le> pos k \<and> (ht_entries (r_table s) k = None \<longrightarrow> pos k = n k)"
    using h(2) by (simp_all add: seq_inv_def)
  have t: "m_table ?ms = r_table s" "m_hd ?ms = h" by (simp_all add: with_rx_def)
  have "\<exists>c. s_clients h a = Some c \<and> addr_key (c_address c) = k" if "ht_entries (r_table s) k = Some a" for k a
    using pos(1) that unfolding clients_at_def by blast
  then have "rx_ok cfg (rx_view ?ms)"
    using inv(1) h(2) by (auto simp: rx_ok_def t seq_inv_def)
  moreover have "\<not> c_locked c" if "ht_entries (r_table s) k = Some a" "s_clients h a = Some c" for k a c
    using pos(1) that unfolding clients_at_def by fastforce
  ultimately have "main_ok cfg ?ms"
    using h(2,3) unfolding main_ok_def t seq_inv_def by blast
  with round pos inv(3) show ?thesis by (intro exI [of _ ?ms] exI [of _ pos]) (simp add: t)
qed

end

text \<open>Whatever the datagrams are, the clients stay well formed: the property that holds of every client.\<close>

interpretation hostile: client_progress "\<lambda>k p c. True" "\<lambda>k bs. True"
  by unfold_locales simp_all

text \<open>
  In step with senders that respect the window: \<open>src\<close> has what they send, \<open>n\<close> their positions at the
  start of the round.
\<close>

interpretation honest_senders: client_progress
    "\<lambda>k p c. n k \<le> p \<and> delivering_upto (src k) p (n k + 31) c" "\<lambda>k. genuine (src k) (n k + 31)"
  for src :: "u16 \<times> bytes \<Rightarrow> nat \<Rightarrow> bytes" and n :: "u16 \<times> bytes \<Rightarrow> nat"
proof unfold_locales
  fix k p c c' req j
  assume a: "n k \<le> p \<and> delivering_upto (src k) p (n k + 31) c" "\<forall>i < rq_num req. genuine (src k) (n k + 31) (datagram req i)"
    "j < rq_num req" "datagram_effect req j c c'"
  then show "n k \<le> p \<and> delivering_upto (src k) p (n k + 31) c'"
    using delivering_upto_effect [OF _ a(2) _ a(3,4), of p] by simp
qed (use delivering_upto_finished in auto)

text \<open>
  Every client of the table is in step with its sender, which is at position \<open>n\<close>; a sender without a
  client is at the start.
\<close>

definition in_step :: "(u16 \<times> bytes \<Rightarrow> nat \<Rightarrow> bytes) \<Rightarrow> (u16 \<times> bytes \<Rightarrow> nat) \<Rightarrow> main_state \<Rightarrow> bool" where
  "in_step src n ms \<longleftrightarrow> (\<forall>k. case ht_entries (m_table ms) k of None \<Rightarrow> n k = 0
     | Some a \<Rightarrow> \<exists>c. s_clients (m_hd ms) a = Some c \<and> delivering (src k) (n k) c)"

lemma delivering_window: "delivering src n c \<Longrightarrow> delivering_upto src n (n + 31) c"
  by (auto simp: delivering_upto_def held_def split: if_splits)

lemma delivering_new: "new_client addr c \<Longrightarrow> delivering src 0 c"
  by (simp add: delivering_def new_client_def)

section \<open>Removing clients from the table\<close>

text \<open>The clients of the table exist and have the address that is their key.\<close>

definition keyed :: "nat ht_t \<Rightarrow> (nat \<rightharpoonup> client_t) \<Rightarrow> bool" where
  "keyed t clients \<longleftrightarrow> (\<forall>k a. ht_entries t k = Some a \<longrightarrow> (\<exists>c. clients a = Some c \<and> addr_key (c_address c) = k))"

text \<open>The entries without those of some clients.\<close>

definition without :: "nat set \<Rightarrow> (u16 \<times> bytes \<rightharpoonup> nat) \<Rightarrow> u16 \<times> bytes \<rightharpoonup> nat" where
  "without A m = (\<lambda>k. case m k of None \<Rightarrow> None | Some a \<Rightarrow> if a \<in> A then None else Some a)"

lemma collect_expired_eq:
  assumes "items_values its" "\<forall>it \<in> set its. \<forall>a. it_value it = Some a \<longrightarrow> clients a \<noteq> None"
  shows "collect_expired inactive strict now clients its =
    Some (filter (\<lambda>a. expired inactive strict now (the (clients a))) (List.map_filter it_value its))"
  using assms
proof (induction its)
  case (Cons it its)
  have rest: "items_values its" using Cons.prems(1) by (simp add: items_values_def)
  show ?case
  proof (cases "it_value it")
    case None
    then have "\<not> it_used it" using Cons.prems(1) by (simp add: items_values_def)
    then show ?thesis using Cons.IH [OF rest] Cons.prems(2) None by (simp add: map_filter_def)
  next
    case (Some a)
    then have "it_used it" using Cons.prems(1) by (simp add: items_values_def)
    moreover obtain c where "clients a = Some c" using Cons.prems(2) Some by auto
    ultimately show ?thesis using Cons.IH [OF rest] Cons.prems(2) Some by (simp add: map_filter_def)
  qed
qed (simp add: map_filter_def)

lemma table_values:
  assumes "ht_inv t" "keyed t clients"
  shows "items_values (ht_items t)" "\<forall>it \<in> set (ht_items t). \<forall>a. it_value it = Some a \<longrightarrow> clients a \<noteq> None"
    "\<forall>a \<in> set (List.map_filter it_value (ht_items t)). \<exists>k. ht_entries t k = Some a"
    "distinct (List.map_filter it_value (ht_items t))"
proof -
  have t: "items_distinct (ht_items t)" "items_values (ht_items t)"
    using assms(1) by (auto simp: ht_inv_def ht_good_def ht_weak_def)
  show "items_values (ht_items t)" by (rule t(2))
  have at: "it_used it \<and> ht_entries t (item_key it) = Some a" if "it \<in> set (ht_items t)" "it_value it = Some a" for it a
  proof -
    have u: "it_used it" using t(2) that by (auto simp: items_values_def)
    obtain i where "i < length (ht_items t)" "ht_items t ! i = it"
      using \<open>it \<in> set (ht_items t)\<close> by (auto simp: in_set_conv_nth)
    then show ?thesis using entries_at [OF t(1), of i "item_key it"] u that(2) by (simp add: has_key_def ht_entries_def)
  qed
  show "\<forall>it \<in> set (ht_items t). \<forall>a. it_value it = Some a \<longrightarrow> clients a \<noteq> None"
    using at assms(2) unfolding keyed_def by blast
  show "\<forall>a \<in> set (List.map_filter it_value (ht_items t)). \<exists>k. ht_entries t k = Some a"
  proof
    fix a assume "a \<in> set (List.map_filter it_value (ht_items t))"
    then obtain it where "it \<in> set (ht_items t)" "it_value it = Some a" unfolding set_map_filter by blast
    then show "\<exists>k. ht_entries t k = Some a" using at by blast
  qed
  have same: "item_key it = item_key it'" if "it \<in> set (ht_items t)" "it' \<in> set (ht_items t)" "it_value it = Some a" "it_value it' = Some a" for it it' a
    using at [OF that(1,3)] at [OF that(2,4)] assms(2) unfolding keyed_def by (metis option.inject)
  have "distinct (List.map_filter it_value xs)"
    if "items_distinct xs" "items_values xs" "set xs \<subseteq> set (ht_items t)" for xs
    using that
  proof (induction xs)
    case (Cons x xs)
    note d = items_distinct_Cons [OF Cons.prems(1)]
    have vals: "items_values xs" using Cons.prems(2) by (simp add: items_values_def)
    have "distinct (List.map_filter it_value xs)" using Cons.IH [OF d(1) vals] Cons.prems(3) by simp
    moreover have "a \<notin> set (List.map_filter it_value xs)" if v: "it_value x = Some a" for a
    proof
      assume "a \<in> set (List.map_filter it_value xs)"
      then obtain y where y: "y \<in> set xs" "it_value y = Some a" unfolding set_map_filter by blast
      then have "it_used y" "item_key y = item_key x"
        using vals Cons.prems(3) v same [of y x a] by (auto simp: items_values_def)
      moreover obtain i where "i < length xs" "xs ! i = y" using y(1) by (auto simp: in_set_conv_nth)
      ultimately have "items_entries xs (item_key x) \<noteq> None"
        using entries_None_iff [OF d(1) vals, of "item_key x"] by (auto simp: has_key_def)
      moreover have "it_used x" using Cons.prems(2) v by (simp add: items_values_def)
      ultimately show False using d(2) by simp
    qed
    ultimately show ?case by (cases "it_value x") (simp_all add: map_filter_def)
  qed (simp add: map_filter_def)
  then show "distinct (List.map_filter it_value (ht_items t))" using t by blast
qed

lemma remove_clients_eq:
  assumes "ht_inv t" "ht_fits t" "keyed t clients" "distinct as" "\<forall>a \<in> set as. \<exists>k. ht_entries t k = Some a"
  shows "\<exists>t'. remove_clients (\<lambda>_. (True, True)) as t clients =
      Some (map (\<lambda>a. deallocate_client (clients a) True True) as, t', clients |` (- set as)) \<and>
    ht_inv t' \<and> ht_len t' \<le> ht_len t \<and> ht_entries t' = without (set as) (ht_entries t)"
  using assms
proof (induction as arbitrary: t clients)
  case Nil
  have "without {} (ht_entries t) = ht_entries t" by (rule ext) (simp add: without_def split: option.split)
  then show ?case using Nil by simp
next
  case (Cons a as)
  obtain k where k: "ht_entries t k = Some a" using Cons.prems(5) by auto
  obtain c where c: "clients a = Some c" "addr_key (c_address c) = k" using Cons.prems(3) k unfolding keyed_def by blast
  have "key_ok (sin6_port (c_address c), sin6_addr (c_address c))"
    using entries_key_ok [OF Cons.prems(1) k] c(2) by (simp add: addr_key_def)
  from ht_remove_delete [OF Cons.prems(1,2) this] obtain t1 where t1:
    "ht_remove True True t (sin6_port (c_address c)) (sin6_addr (c_address c)) = Some (ht_entries t k, t1)" "ht_inv t1"
    "ht_entries t1 = (ht_entries t)(k := None)" "ht_len t1 \<le> ht_len t"
    using c(2) by (auto simp: addr_key_def)
  have unique: "b \<noteq> a" if "ht_entries t1 k' = Some b" for k' b
  proof
    assume "b = a"
    with that t1(3) have "k' \<noteq> k" "ht_entries t k' = Some a" by (auto split: if_splits)
    then show False using Cons.prems(3) c unfolding keyed_def by fastforce
  qed
  have keyed1: "keyed t1 (clients(a := None))"
    using Cons.prems(3) unique t1(3) unfolding keyed_def by (metis fun_upd_apply option.distinct(1))
  have present1: "\<forall>b \<in> set as. \<exists>k. ht_entries t1 k = Some b"
  proof
    fix b assume b: "b \<in> set as"
    then obtain k' where "ht_entries t k' = Some b" using Cons.prems(5) by auto
    moreover have "b \<noteq> a" using Cons.prems(4) b by auto
    ultimately have "ht_entries t1 k' = Some b" using t1(3) k by auto
    then show "\<exists>k. ht_entries t1 k = Some b" ..
  qed
  have fits1: "ht_fits t1" using Cons.prems(2) t1(4) by (simp add: ht_fits_def)
  have "distinct as" using Cons.prems(4) by simp
  from Cons.IH [OF t1(2) fits1 keyed1 this present1]
  obtain t2 where t2: "remove_clients (\<lambda>_. (True, True)) as t1 (clients(a := None)) =
      Some (map (\<lambda>b. deallocate_client ((clients(a := None)) b) True True) as, t2, clients(a := None) |` (- set as))"
    "ht_inv t2" "ht_len t2 \<le> ht_len t1" "ht_entries t2 = without (set as) (ht_entries t1)"
    by (elim exE conjE)
  have "map (\<lambda>b. deallocate_client ((clients(a := None)) b) True True) as = map (\<lambda>b. deallocate_client (clients b) True True) as"
    using Cons.prems(4) by auto
  moreover have "clients(a := None) |` (- set as) = clients |` (- set (a # as))"
    by (auto simp: restrict_map_def fun_eq_iff)
  moreover have "without (set as) (ht_entries t1) k' = without (set (a # as)) (ht_entries t) k'" for k'
  proof (cases "k' = k")
    case False
    then have "ht_entries t1 k' = ht_entries t k'" using t1(3) by simp
    then show ?thesis using unique [of k'] by (auto simp: without_def split: option.split)
  qed (use t1(3) k in \<open>simp add: without_def\<close>)
  then have "ht_entries t2 = without (set (a # as)) (ht_entries t)" unfolding t2(4) by blast
  ultimately show ?case using c(1) t1(1,4) t2(1-3) by auto
qed

lemma clean_up_eq:
  assumes "ht_inv t" "ht_fits t" "keyed t clients"
  shows "\<exists>as t'. clean_up inactive strict now (\<lambda>_. (True, True)) t clients =
      Some (map (\<lambda>a. deallocate_client (clients a) True True) as, t', clients |` (- set as)) \<and>
    ht_inv t' \<and> ht_len t' \<le> ht_len t \<and> ht_entries t' = without (set as) (ht_entries t) \<and> distinct as \<and>
    (\<forall>a. a \<in> set as \<longleftrightarrow> (\<exists>k. ht_entries t k = Some a) \<and> expired inactive strict now (the (clients a)))"
proof -
  note v = table_values [OF assms(1,3)]
  have t: "\<not> ht_locked t" "length (ht_items t) = ht_size t" "items_distinct (ht_items t)"
    using assms(1) by (auto simp: ht_inv_def ht_good_def ht_weak_def)
  let ?all = "List.map_filter it_value (ht_items t)"
  let ?as = "filter (\<lambda>a. expired inactive strict now (the (clients a))) ?all"
  have "a \<in> set ?all \<longleftrightarrow> (\<exists>k. ht_entries t k = Some a)" for a
    using entries_ran [OF t(3) v(1)] by (auto simp: ran_def ht_entries_def)
  then have mem: "a \<in> set ?as \<longleftrightarrow> (\<exists>k. ht_entries t k = Some a) \<and> expired inactive strict now (the (clients a))" for a
    by auto
  have "distinct ?as" "\<forall>a \<in> set ?as. \<exists>k. ht_entries t k = Some a" using v(3,4) by auto
  from remove_clients_eq [OF assms this] obtain t' where
    "remove_clients (\<lambda>_. (True, True)) ?as t clients =
      Some (map (\<lambda>a. deallocate_client (clients a) True True) ?as, t', clients |` (- set ?as))"
    "ht_inv t'" "ht_len t' \<le> ht_len t" "ht_entries t' = without (set ?as) (ht_entries t)" by blast
  moreover have "collect_expired inactive strict now clients (take (ht_size t) (ht_items t)) = Some ?as"
    using collect_expired_eq [OF v(1,2)] t(2) by simp
  ultimately show ?thesis
    using t(1,2) mem \<open>distinct ?as\<close> by (intro exI [of _ ?as] exI [of _ t']) (simp add: clean_up_def)
qed

lemma main_ok_without:
  assumes "main_ok cfg ms" "ht_inv t'" "ht_len t' \<le> ht_len (m_table ms)"
    "ht_entries t' = without (set as) (ht_entries (m_table ms))"
  shows "main_ok cfg (ms\<lparr>m_table := t', m_hd := (m_hd ms)\<lparr>s_clients := s_clients (m_hd ms) |` (- set as)\<rparr>\<rparr>)"
proof -
  have e: "ht_entries (m_table ms) k = Some a \<and> a \<notin> set as" if "ht_entries t' k = Some a" for k a
    using that assms(4) by (auto simp: without_def split: option.splits if_splits)
  have "keyed (m_table ms) (s_clients (m_hd ms))" using assms(1) by (simp add: main_ok_def rx_ok_def keyed_def)
  then have "keyed t' (s_clients (m_hd ms) |` (- set as))" using e unfolding keyed_def by (metis ComplI restrict_in)
  moreover have "\<not> c_locked c" if "ht_entries t' k = Some a" "(s_clients (m_hd ms) |` (- set as)) a = Some c" for k a c
    using assms(1) e [OF that(1)] that(2) unfolding main_ok_def by (metis ComplI restrict_in)
  moreover have "client_ok c" if "(s_clients (m_hd ms) |` (- set as)) a = Some c" for a c
    using assms(1) that by (auto simp: main_ok_def rx_ok_def restrict_map_def split: if_splits)
  ultimately show ?thesis
    using assms(1-3) unfolding main_ok_def rx_ok_def keyed_def
    by (simp add: buffers_ok_def)
qed

section \<open>The loop of the sequential mode\<close>

text \<open>
  The state before the first iteration: empty streams, an empty table, a decoded packet in memory
  with any contents, and arrays on the stack with any contents.
\<close>

definition main_start :: "packet_t option \<Rightarrow> bytes list \<Rightarrow> bytes \<Rightarrow> main_state option" where
  "main_start mem packets_to_send file_buffer = (case allocate_ht True True True of Inl _ \<Rightarrow> None
     | Inr clients \<Rightarrow> (case allocate_packet mem of None \<Rightarrow> None
       | Some decoded \<Rightarrow> Some \<lparr>m_hd = \<lparr>s_rx = initialize_stream, s_tx = initialize_stream, s_clients = Map.empty,
             s_decoded = Some decoded, s_msg = map (\<lambda>row. \<lparr>msg_name = None, msg_row = row\<rparr>) packets_to_send,
             s_file_buffer = file_buffer, s_exit = False, s_sent = []\<rparr>,
           m_table = clients, m_idx = 0\<rparr>))"

text \<open>
  The states between two iterations, with the number of iterations. Any datagrams may arrive and the
  clock may show anything; memory and the calls of the handler are granted.
\<close>

inductive seq_reachable :: "rx_cfg_t \<Rightarrow> hd_cfg_t \<Rightarrow> inactivity \<Rightarrow> nat \<Rightarrow> main_state \<Rightarrow> bool"
  for cfg hd_cfg inactive where
  start: "seq_reachable cfg hd_cfg inactive 0 ms"
    if "main_start (Some mem) rows file_buffer = Some ms" "length rows = MAX_WINDOW_SIZE + 1"
      "list_all (\<lambda>row. length row = 12) rows" "length file_buffer = MAX_PACKET_SIZE * MAX_WINDOW_SIZE"
| iteration: "seq_reachable cfg hd_cfg inactive (Suc cnt) ms'"
    if "seq_reachable cfg hd_cfg inactive cnt ms" "rx_env_ok rx (rx_view ms)" "\<forall>i. calls_succeed (fst (answers i))"
      "seq_iteration rx cfg answers hd_cfg inactive now (\<lambda>_. (True, True)) (Suc cnt) ms = Some ms'"

lemma main_start_ok:
  assumes "main_start (Some mem) rows file_buffer = Some ms" "length rows = MAX_WINDOW_SIZE + 1"
    "list_all (\<lambda>row. length row = 12) rows" "length file_buffer = MAX_PACKET_SIZE * MAX_WINDOW_SIZE"
  shows "main_ok cfg ms"
proof -
  have e: "queue_of (initialize_stream :: hd_req_t option stream_t) = []" by (simp add: initialize_stream_def queue_of_def)
  have "m_table ms = new_table" "s_clients (m_hd ms) = Map.empty" "s_rx (m_hd ms) = initialize_stream"
    "s_tx (m_hd ms) = initialize_stream" "buffers_ok (m_hd ms)"
    using assms
    by (auto simp: main_start_def allocate_new_table allocate_packet_def init_packet_def buffers_ok_def packet_mem_def
        msgs_ok_def list_all_iff)
  then show ?thesis using e by (simp add: main_ok_def rx_ok_def new_table_facts counted_initial)
qed

lemma seq_iteration_ok:
  assumes "main_ok cfg ms" "rx_env_ok rx (rx_view ms)" "rc_max_clients cfg \<le> 32768"
    and "\<forall>i. calls_succeed (fst (answers i))"
  shows "\<exists>ms'. seq_iteration rx cfg answers hd_cfg inactive now (\<lambda>_. (True, True)) cnt ms = Some ms' \<and> main_ok cfg ms'"
proof -
  have lim: "rc_max_clients cfg \<le> 32769" using assms(3) by simp
  have "\<And>k a. ht_entries (m_table ms) k = Some a \<Longrightarrow> \<exists>c. s_clients (m_hd ms) a = Some c \<and> True"
    using assms(1) by (force simp: main_ok_def rx_ok_def)
  then obtain ms1 where ms1: "seq_round rx cfg answers hd_cfg ms = Some ms1" "main_ok cfg ms1"
    using hostile.round_keeps [OF assms(1,2) lim assms(4), where n = "\<lambda>_. 0"] by blast
  have "ht_inv (m_table ms1)" "ht_fits (m_table ms1)" "keyed (m_table ms1) (s_clients (m_hd ms1))"
    using ms1(2) assms(3) by (simp_all add: main_ok_def rx_ok_def ht_fits_def keyed_def)
  from clean_up_eq [OF this, of inactive True now] obtain as t' where
    c: "clean_up inactive True now (\<lambda>_. (True, True)) (m_table ms1) (s_clients (m_hd ms1)) =
      Some (map (\<lambda>a. deallocate_client (s_clients (m_hd ms1) a) True True) as, t', s_clients (m_hd ms1) |` (- set as))"
    and t': "ht_inv t'" "ht_len t' \<le> ht_len (m_table ms1)" "ht_entries t' = without (set as) (ht_entries (m_table ms1))"
    by blast
  have "main_ok cfg (ms1\<lparr>m_table := t', m_hd := (m_hd ms1)\<lparr>s_clients := s_clients (m_hd ms1) |` (- set as)\<rparr>\<rparr>)"
    using main_ok_without [OF ms1(2) t'] .
  with ms1 c show ?thesis by (simp add: seq_iteration_def)
qed

lemma seq_reachable_ok:
  assumes "seq_reachable cfg hd_cfg inactive cnt ms" "rc_max_clients cfg \<le> 32768"
  shows "main_ok cfg ms"
  using assms
proof (induction rule: seq_reachable.induct)
  case (iteration cnt ms rx answers now ms')
  then show ?case
    using seq_iteration_ok [OF iteration.IH [OF iteration.prems] iteration.hyps(2) iteration.prems iteration.hyps(3), of hd_cfg inactive now "Suc cnt"]
    by simp
qed (rule main_start_ok)

section \<open>Properties\<close>



text \<open>
  C30. The clean-up removes the clients that are inactive for long enough and no others: each of them
  leaves the table and is deallocated, with its address and its file, exactly once; every
  other client stays, unchanged, under its key.
\<close>

theorem clean_up_removes_expired:
  assumes "ht_inv t" "ht_fits t" "keyed t clients"
  shows "\<exists>as t' clients'. clean_up inactive strict now (\<lambda>_. (True, True)) t clients =
      Some (map (\<lambda>a. deallocate_client (clients a) True True) as, t', clients') \<and> ht_inv t' \<and> distinct as \<and>
    (\<forall>a. a \<in> set as \<longleftrightarrow> (\<exists>k. ht_entries t k = Some a) \<and> expired inactive strict now (the (clients a))) \<and>
    (\<forall>a. clients' a = (if a \<in> set as then None else clients a)) \<and>
    (\<forall>k a. ht_entries t' k = Some a \<longleftrightarrow> ht_entries t k = Some a \<and> a \<notin> set as)"
proof -
  obtain as t' where c: "clean_up inactive strict now (\<lambda>_. (True, True)) t clients =
      Some (map (\<lambda>a. deallocate_client (clients a) True True) as, t', clients |` (- set as))"
    "ht_inv t'" "ht_entries t' = without (set as) (ht_entries t)" "distinct as"
    "\<forall>a. a \<in> set as \<longleftrightarrow> (\<exists>k. ht_entries t k = Some a) \<and> expired inactive strict now (the (clients a))"
    using clean_up_eq [OF assms, of inactive strict now] by blast
  have "ht_entries t' k = Some a \<longleftrightarrow> ht_entries t k = Some a \<and> a \<notin> set as" for k a
    using c(3) by (auto simp: without_def split: option.splits if_splits)
  with c show ?thesis by (intro exI [of _ as] exI [of _ t'] exI [of _ "clients |` (- set as)"]) (simp add: restrict_map_def)
qed

text \<open>
  C40. In the threaded mode the clean-up does not look at the requests on their way: when the client of
  a queued request expires, it is freed all the same, and the handler that takes the request
  uses the freed client.
\<close>

theorem clean_up_leaves_requests:
  assumes "ht_inv t" "ht_fits t" "keyed t (s_clients s)" "ht_entries t k = Some a"
    and "expired inactive False now (the (s_clients s a))"
    and "stream_pop (s_rx s) True = Some (Some (Some req), rx)" "rq_client req = Some a" "\<not> rq_stop req"
  shows "\<exists>freed t' clients'. clean_up inactive False now (\<lambda>_. (True, True)) t (s_clients s) = Some (freed, t', clients') \<and>
    hd_run_once env remove to_send True cfg (s\<lparr>s_clients := clients'\<rparr>) = None"
proof -
  obtain as t' where c: "clean_up inactive False now (\<lambda>_. (True, True)) t (s_clients s) =
      Some (map (\<lambda>a. deallocate_client (s_clients s a) True True) as, t', s_clients s |` (- set as))"
    "\<forall>a. a \<in> set as \<longleftrightarrow> (\<exists>k. ht_entries t k = Some a) \<and> expired inactive False now (the (s_clients s a))"
    using clean_up_eq [OF assms(1-3), of inactive False now] by blast
  have "a \<in> set as" using c(2) assms(4,5) by blast
  then have "hd_run_once env remove to_send True cfg (s\<lparr>s_clients := s_clients s |` (- set as)\<rparr>) = None"
    using assms(6-8) by (simp add: hd_run_once_def)
  with c(1) show ?thesis by blast
qed

section \<open>Witnesses\<close>

text \<open>The start of the program: no client yet, and the first data packet of a sender arrives.\<close>

definition sample_main :: main_state where
  "sample_main = \<lparr>m_hd = (sample_state sample_client)\<lparr>s_rx := initialize_stream, s_clients := Map.empty\<rparr>,
     m_table = new_table, m_idx = 0\<rparr>"

definition first_msg :: rx_msg where
  "first_msg = \<lparr>m_addr = sample_address, m_len = 18, m_buf = wire first_data @ replicate 510 0\<rparr>"

definition sample_answers :: hd_answers where
  "sample_answers = (\<lambda>i. (sample_hd_env, True, fresh_packet))"

definition sample_inactive :: inactivity where
  "sample_inactive now end_time = of_int (tv_sec now - tv_sec end_time)"

lemma sample_main_ok: "main_ok sample_rx_cfg sample_main"
proof -
  have "rx_ok sample_rx_cfg (rx_view sample_main)"
    by (simp add: rx_ok_def sample_main_def new_table_facts sample_state_def initialize_stream_def queue_of_def)
  moreover have "buffers_ok (m_hd sample_main)"
    using sample_state_simps(2) [of sample_client] by (simp add: sample_main_def buffers_ok_def)
  ultimately show ?thesis
    using counted_initial by (simp add: main_ok_def sample_main_def new_table_facts)
      (simp add: initialize_stream_def queue_of_def)
qed

lemma first_rx_env_ok: "rx_env_ok (sample_rx_env [first_msg] True) (rx_view sample_main)"
  using sample_env_mem [of True] length_wire_first
  by (simp add: rx_env_ok_def sample_rx_env_def sample_main_def first_msg_def msg_ok_def sample_address_def
      env_ok_def sample_env_def)

lemma sample_answers_ok: "\<forall>i. calls_succeed (fst (sample_answers i))"
  by (simp add: sample_answers_def sample_calls)

lemma genuine_first: "genuine (\<lambda>N. [65, 66, 67]) (0 + 31) (wire first_data)"
  unfolding genuine_def
proof (intro allI impI)
  fix d assume d: "wf_packet d \<and> wire first_data = wire d \<and> pk_type d = DATA \<and> \<not> pk_truncated d"
  have c: "carries sample_req 0 d" using sample_carries d by (simp add: carries_def)
  have "chunk d = [65, 66, 67]"
    using carries_chunk(1) [OF c sample_carries] by (simp add: chunk_def first_data_def sample_data_def sealed_def)
  moreover have "pk_seqnum d = word_of_nat 0"
    using carries_chunk(2) [OF c sample_carries] by (simp add: first_data_def sealed_def)
  ultimately show "\<exists>N. pk_seqnum d = word_of_nat N \<and> chunk d = [65, 66, 67] \<and> N < 0 + 31 \<and> 0 + 31 \<le> N + 225"
    by (intro exI [of _ 0]) simp
qed


lemma sample_start:
  "seq_reachable sample_rx_cfg sample_cfg sample_inactive 0
     (sample_main\<lparr>m_hd := (m_hd sample_main)\<lparr>s_file_buffer := replicate (528 * 31) 0\<rparr>\<rparr>)"
proof (rule seq_reachable.start [where mem = fresh_packet and rows = "replicate 32 (replicate 12 0)" and file_buffer = "replicate (528 * 31) 0"])
  have "allocate_packet (Some fresh_packet) = Some fresh_packet"
    by (simp add: allocate_packet_def init_packet_def fresh_packet_def)
  then show "main_start (Some fresh_packet) (replicate 32 (replicate 12 0)) (replicate (528 * 31) 0) =
      Some (sample_main\<lparr>m_hd := (m_hd sample_main)\<lparr>s_file_buffer := replicate (528 * 31) 0\<rparr>\<rparr>)"
    by (simp add: main_start_def allocate_new_table sample_main_def sample_state_def map_replicate_const)
qed (simp_all add: list_all_iff)


text \<open>A client whose transfer ended at time 9, in a table of its own.\<close>

definition ended_client :: client_t where
  "ended_client = sample_client\<lparr>c_active := False, c_end_time := Some \<lparr>tv_sec = 9, tv_nsec = 0\<rparr>\<rparr>"

definition ended_table :: "nat ht_t" where
  "ended_table = (case ht_put True new_table 12345 (replicate 15 0 @ [1]) (Some 0) of Some (Inr (_, t)) \<Rightarrow> t | _ \<Rightarrow> new_table)"

lemma ended_table_facts:
  "ht_inv ended_table" "ht_fits ended_table" "ht_entries ended_table = [(12345, replicate 15 0 @ [1]) \<mapsto> 0]"
proof -
  have "ht_fits new_table" "key_ok (12345, replicate 15 0 @ [1])"
    by (simp_all add: ht_fits_def new_table_facts key_ok_def)
  from ht_put_update [OF new_table_facts(1) this, of "0 :: nat"]
  obtain t :: "nat ht_t" where t: "ht_put True new_table 12345 (replicate 15 0 @ [1]) (Some 0) = Some (Inr (None, t))"
    "ht_inv t" "ht_entries t = [(12345, replicate 15 0 @ [1]) \<mapsto> 0]" "ht_len t = 1"
    by (auto simp: new_table_facts)
  from t(1) have "ended_table = t" by (simp add: ended_table_def)
  with t show "ht_inv ended_table" "ht_fits ended_table" "ht_entries ended_table = [(12345, replicate 15 0 @ [1]) \<mapsto> 0]"
    by (simp_all add: ht_fits_def)
qed

lemma ended_keyed: "keyed ended_table [0 \<mapsto> ended_client]"
  by (simp add: keyed_def ended_table_facts ended_client_def sample_client_def sample_address_def addr_key_def)

lemma ended_expired:
  "((\<exists>k. ht_entries ended_table k = Some a) \<and>
     expired sample_inactive True \<lparr>tv_sec = 50, tv_nsec = 0\<rparr> (the ([0 \<mapsto> ended_client] a))) = (a = 0)"
proof -
  have "(\<exists>k. ht_entries ended_table k = Some a) = (a = 0)" by (auto simp: ended_table_facts split: if_splits)
  then show ?thesis by (auto simp: expired_def ended_client_def sample_inactive_def)
qed

theorem clean_up_removes_expired_witness:
  "\<exists>as t' clients'. clean_up sample_inactive True \<lparr>tv_sec = 50, tv_nsec = 0\<rparr> (\<lambda>_. (True, True)) ended_table [0 \<mapsto> ended_client] =
      Some (map (\<lambda>a. deallocate_client ([0 \<mapsto> ended_client] a) True True) as, t', clients') \<and> ht_inv t' \<and> distinct as \<and>
    (\<forall>a. a \<in> set as \<longleftrightarrow> a = 0) \<and> (\<forall>a. clients' a = (if a \<in> set as then None else [0 \<mapsto> ended_client] a)) \<and>
    (\<forall>k a. ht_entries t' k = Some a \<longleftrightarrow> ht_entries ended_table k = Some a \<and> a \<notin> set as)"
  using clean_up_removes_expired [OF ended_table_facts(1,2) ended_keyed, of sample_inactive True "\<lparr>tv_sec = 50, tv_nsec = 0\<rparr>"]
  unfolding ended_expired .

theorem clean_up_leaves_requests_witness:
  "\<exists>freed t' clients'. clean_up sample_inactive False \<lparr>tv_sec = 50, tv_nsec = 0\<rparr> (\<lambda>_. (True, True)) ended_table
      (s_clients (sample_state ended_client)) = Some (freed, t', clients') \<and>
    hd_run_once sample_hd_env True fresh_packet True sample_cfg ((sample_state ended_client)\<lparr>s_clients := clients'\<rparr>) = None"
proof (rule clean_up_leaves_requests [OF ended_table_facts(1,2) _ _ _ sample_pop sample_req_ok(3,4)])
  have c: "s_clients (sample_state ended_client) = [0 \<mapsto> ended_client]" by (simp add: sample_state_def)
  show "keyed ended_table (s_clients (sample_state ended_client))" unfolding c by (rule ended_keyed)
  show "ht_entries ended_table (12345, replicate 15 0 @ [1]) = Some 0" by (simp add: ended_table_facts)
  show "expired sample_inactive False \<lparr>tv_sec = 50, tv_nsec = 0\<rparr> (the (s_clients (sample_state ended_client) 0))"
    unfolding c by (simp add: expired_def ended_client_def sample_inactive_def)
qed

end
