(* ===== verification/Shutdown.thy ===== *)
theory Shutdown
  imports Main_Loop
begin

text \<open>
  The end of the program, from \<^verbatim>\<open>deallocate_everything\<close> of \<^verbatim>\<open>src/main.c\<close>: once the receivers have
  ended, every stream to the handlers gets as many requests to stop as there are handlers, and the
  handlers are waited for. The allocation of the nodes is a parameter.

  The handlers of a stream are run one after the other. Each takes requests until it takes a
  request to stop, so which handler takes which request depends on the schedule, but not how many
  requests to stop are taken.
\<close>

section \<open>Requests to stop\<close>

definition enqueue_stop :: "bool \<times> bool \<Rightarrow> hd_req_t option stream_t \<Rightarrow> hd_req_t option stream_t" where
  "enqueue_stop mem q = (case initialize_node (if fst mem then Some \<lparr>sn_content = None, sn_next = Null\<rparr> else None)
       (if snd mem then Some allocate_handle_request else None) of
     Inl _ \<Rightarrow> q
   | Inr node \<Rightarrow> snd (stream_enqueue q (Some (map_option (rq_stop_update (\<lambda>_. True)) (sn_content node)))))"

definition stop_streams :: "(nat \<Rightarrow> nat \<Rightarrow> bool \<times> bool) \<Rightarrow> nat \<Rightarrow> hd_req_t option stream_t list \<Rightarrow> hd_req_t option stream_t list" where
  "stop_streams mem handle_num rx_to_hd =
     fold (\<lambda>i streams. map (\<lambda>j. enqueue_stop (mem i j) (streams ! j)) [0..<length streams]) [0..<handle_num] rx_to_hd"

text \<open>The handlers of a stream: the answers each gets, its configuration and the memory for its packet.\<close>

fun run_handlers :: "(hd_answers \<times> hd_cfg_t \<times> packet_t) list \<Rightarrow> hd_state \<Rightarrow> hd_state option" where
  "run_handlers [] s = Some s"
| "run_handlers ((answers, cfg, mem) # ts) s = do {
     s \<leftarrow> handle_thread answers cfg (Some mem) s;
     run_handlers ts s
   }"

section \<open>What the streams hold\<close>

definition stop_request :: "hd_req_t option" where
  "stop_request = Some (allocate_handle_request\<lparr>rq_stop := True\<rparr>)"

lemma enqueue_stop_granted:
  assumes "counted q"
  shows "queue_of (enqueue_stop (True, True) q) = queue_of q @ [stop_request]" "counted (enqueue_stop (True, True) q)"
proof -
  have e: "enqueue_stop (True, True) q = snd (stream_enqueue q (Some stop_request))"
    by (simp add: enqueue_stop_def initialize_node_def stop_request_def)
  show "queue_of (enqueue_stop (True, True) q) = queue_of q @ [stop_request]"
    unfolding e by (simp add: stream_enqueue_def queue_of_def)
  show "counted (enqueue_stop (True, True) q)" unfolding e by (rule counted_enqueue [OF assms])
qed

lemma stop_streams_granted:
  assumes "j < length qs" "counted (qs ! j)"
  shows "length (stop_streams (\<lambda>_ _. (True, True)) n qs) = length qs \<and>
    queue_of (stop_streams (\<lambda>_ _. (True, True)) n qs ! j) = queue_of (qs ! j) @ replicate n stop_request \<and>
    counted (stop_streams (\<lambda>_ _. (True, True)) n qs ! j)"
proof (induction n)
  case (Suc n)
  let ?qs = "stop_streams (\<lambda>_ _. (True, True)) n qs"
  have "stop_streams (\<lambda>_ _. (True, True)) (Suc n) qs = map (\<lambda>j. enqueue_stop (True, True) (?qs ! j)) [0..<length ?qs]"
    by (simp add: stop_streams_def)
  then show ?case
    using Suc assms(1) enqueue_stop_granted [of "?qs ! j"] by (simp add: replicate_append_same [symmetric])
qed (use assms in \<open>simp add: stop_streams_def\<close>)

lemma stop_request_facts: "stop_node stop_request" "request_ok clients stop_request"
  by (simp_all add: stop_request_def stop_node_def request_ok_def req_ok_def allocate_handle_request_def)

section \<open>The handlers end\<close>

lemma run_handlers_end:
  assumes "startable s" "queue_of (s_rx s) = before @ replicate n stop_request" "list_all (\<lambda>x. \<not> stop_node x) before"
    and "\<forall>(answers, cfg, mem) \<in> set ts. \<forall>i. calls_succeed (fst (answers i))" "length ts \<le> n"
  shows "\<exists>s'. run_handlers ts s = Some s' \<and> (if ts = [] then s' = s else queue_of (s_rx s') = replicate (n - length ts) stop_request)"
  using assms
proof (induction ts arbitrary: s before n)
  case (Cons t ts)
  obtain answers cfg mem where t: "t = (answers, cfg, mem)" by (cases t) auto
  obtain m where m: "n = Suc m" using Cons.prems(5) by (cases n) auto
  obtain s1 where s1: "handle_thread answers cfg (Some mem) s = Some s1" "queue_of (s_rx s1) = replicate m stop_request" "startable s1"
    using handle_thread_stops [OF Cons.prems(1) _ _ stop_request_facts(1), of answers before "replicate m stop_request" cfg mem]
      Cons.prems(2-4) m t by (auto simp: list_all_iff)
  obtain s' where "run_handlers ts s1 = Some s'"
    "if ts = [] then s' = s1 else queue_of (s_rx s') = replicate (m - length ts) stop_request"
    using Cons.IH [OF s1(3), of "[]" m] s1(2) Cons.prems(4,5) m by auto
  then show ?case using t s1 m by (auto split: if_splits)
qed simp

lemma startable_append:
  assumes "startable s" "queue_of q = queue_of (s_rx s) @ replicate n stop_request" "counted q"
  shows "startable (s\<lparr>s_rx := q\<rparr>)"
  using assms stop_request_facts(2) by (auto simp: startable_def state_ok_def buffers_ok_def)

section \<open>Properties\<close>

text \<open>
  The program can end. When \<^verbatim>\<open>deallocate_everything\<close> has added its requests to stop to the streams,
  every handler ends, however many requests are still queued: the handlers of a stream, of which
  there are no more than handlers in all, handle the requests that are left, take one request to
  stop each, and leave the others in the stream.
\<close>

theorem shutdown_ends_handlers:
  assumes "j < length rx_to_hd" "rx_to_hd ! j = s_rx s" "startable s" "list_all (\<lambda>x. \<not> stop_node x) (queue_of (s_rx s))"
    and "\<forall>(answers, cfg, mem) \<in> set ts. \<forall>i. calls_succeed (fst (answers i))" "ts \<noteq> []" "length ts \<le> handle_num"
  shows "\<exists>s'. run_handlers ts (s\<lparr>s_rx := stop_streams (\<lambda>_ _. (True, True)) handle_num rx_to_hd ! j\<rparr>) = Some s' \<and>
    queue_of (s_rx s') = replicate (handle_num - length ts) stop_request"
proof -
  let ?q = "stop_streams (\<lambda>_ _. (True, True)) handle_num rx_to_hd ! j"
  have q: "queue_of ?q = queue_of (s_rx s) @ replicate handle_num stop_request" "counted ?q"
    using stop_streams_granted [of j rx_to_hd handle_num] assms(1-3) by (simp_all add: startable_def)
  show ?thesis
    using run_handlers_end [OF startable_append [OF assms(3) q], of "queue_of (s_rx s)" handle_num ts] q assms(4-7) by auto
qed

section \<open>Witnesses\<close>

theorem shutdown_ends_handlers_witness:
  "\<exists>s'. run_handlers [(sample_answers, sample_cfg, fresh_packet), (sample_answers, sample_cfg, fresh_packet)]
      ((sample_state sample_client)\<lparr>s_rx := stop_streams (\<lambda>_ _. (True, True)) 3 [s_rx (sample_state sample_client)] ! 0\<rparr>) = Some s' \<and>
    queue_of (s_rx s') = replicate (3 - 2) stop_request"
proof -
  let ?s = "sample_state sample_client"
  have q: "queue_of (s_rx ?s) = [Some sample_req]" "s_clients ?s = [0 \<mapsto> sample_client]" "counted (s_rx ?s)"
    by (simp_all add: sample_state_def queue_of_def counted_def)
  have "startable ?s"
    using sample_state_simps(2) [of sample_client] sample_client_ok sample_req_ok q
    by (auto simp: startable_def unlocked_def state_ok_def buffers_ok_def request_ok_def split: if_splits)
  then show ?thesis
    using shutdown_ends_handlers [of 0 "[s_rx ?s]" ?s
        "[(sample_answers, sample_cfg, fresh_packet), (sample_answers, sample_cfg, fresh_packet)]" 3] q
      sample_answers_ok sample_req_ok(4) by (simp add: stop_node_def)
qed

end
