(* ===== verification/Cli.thy ===== *)
theory Cli
  imports Trtp_Prelude
begin

text \<open>
  \<^verbatim>\<open>src/cli.c\<close> and \<^verbatim>\<open>headers/cli.h\<close>: the command line, the affinity file and the streams file, and
  from \<^verbatim>\<open>src/client.c\<close> the name of the output file, which the command line gives a format for.

  A C string is the list of its characters without the final zero; a file is the string of its
  bytes. The functions of the C library are modelled as far as the code uses them: \<^verbatim>\<open>strtol\<close> in base
  10, \<^verbatim>\<open>getopt\<close> with its permutation of arguments, \<^verbatim>\<open>strtok\<close>, \<^verbatim>\<open>strsep\<close>, \<^verbatim>\<open>fgets\<close>, \<^verbatim>\<open>getline\<close> and the
  conversion \<^verbatim>\<open>%d\<close> of \<^verbatim>\<open>sprintf\<close>. The answer of \<^verbatim>\<open>getaddrinfo\<close> and of the allocators is a parameter.
  The result \<open>None\<close> is an access outside an array.
\<close>

section \<open>Numbers in strings\<close>

definition is_space :: "char \<Rightarrow> bool" where
  "is_space c \<longleftrightarrow> c \<in> {CHR '' '', CHR 0x09, CHR 0x0A, CHR 0x0B, CHR 0x0C, CHR 0x0D}"

definition is_digit :: "char \<Rightarrow> bool" where
  "is_digit c \<longleftrightarrow> 48 \<le> (of_char c :: nat) \<and> (of_char c :: nat) \<le> 57"

definition digits_value :: "string \<Rightarrow> int" where
  "digits_value ds = foldl (\<lambda>n c. 10 * n + (of_char c - 48)) 0 ds"

definition LONG_MAX :: int where "LONG_MAX = 2 ^ 63 - 1"
definition LONG_MIN :: int where "LONG_MIN = - (2 ^ 63)"
definition INT_MAX :: int where "INT_MAX = 2 ^ 31 - 1"

text \<open>
  \<^verbatim>\<open>strtol(s, &end, 10)\<close>: the number, the string at \<^verbatim>\<open>end\<close>, and whether \<^verbatim>\<open>errno\<close> is set to \<^verbatim>\<open>ERANGE\<close>.
  Without a digit nothing is converted and \<^verbatim>\<open>end\<close> is the whole string.
\<close>

definition sign_of :: "string \<Rightarrow> bool \<times> string" where
  "sign_of s = (case s of [] \<Rightarrow> (False, s)
     | c # cs \<Rightarrow> if c = CHR ''-'' then (True, cs) else if c = CHR ''+'' then (False, cs) else (False, s))"

definition strtol :: "string \<Rightarrow> int \<times> string \<times> bool" where
  "strtol s = (case sign_of (dropWhile is_space s) of (neg, t) \<Rightarrow>
     (let ds = takeWhile is_digit t; v = (if neg then - digits_value ds else digits_value ds) in
      if ds = [] then (0, s, False)
      else if v > LONG_MAX then (LONG_MAX, dropWhile is_digit t, True)
      else if v < LONG_MIN then (LONG_MIN, dropWhile is_digit t, True)
      else (v, dropWhile is_digit t, False)))"

definition str2size :: "string \<Rightarrow> errors_t + u64" where
  "str2size s = (if s = [] \<or> is_space (hd s) then Inl STR2INT_INCONVERTIBLE
     else (case strtol s of (l, end, erange) \<Rightarrow>
       if l > INT_MAX \<or> erange \<and> l = LONG_MAX then Inl STR2INT_OVERFLOW
       else if l < 0 \<or> erange \<and> l = LONG_MIN then Inl STR2INT_UNDERFLOW
       else if end \<noteq> [] \<and> hd end \<noteq> CHR 0x0A then Inl STR2INT_NOT_END
       else Inr (word_of_int l)))"

text \<open>The decimal digits of a number, as \<^verbatim>\<open>%zu\<close> prints it.\<close>

fun decimal :: "nat \<Rightarrow> string" where
  "decimal n = (if n < 10 then [char_of (48 + n)] else decimal (n div 10) @ [char_of (48 + n mod 10)])"

declare decimal.simps [simp del]

lemma is_digit_int: "is_digit c \<longleftrightarrow> (48 :: int) \<le> of_char c \<and> of_char c \<le> (57 :: int)"
proof -
  have "(of_char c :: int) = int (of_char c)" by (simp only: of_nat_of_char)
  then show ?thesis by (simp add: is_digit_def)
qed

lemma is_digit_char [simp]:
  assumes "n < 10"
  shows "is_digit (char_of (48 + n))" "of_char (char_of (48 + n) :: char) = 48 + int n"
proof -
  have d: "(of_char (char_of (48 + n) :: char) :: nat) = 48 + n" using assms by simp
  then show "is_digit (char_of (48 + n))" using assms by (simp add: is_digit_def)
  have "(of_char (char_of (48 + n) :: char) :: int) = int (of_char (char_of (48 + n) :: char))"
    by (simp only: of_nat_of_char)
  then show "of_char (char_of (48 + n) :: char) = 48 + int n" unfolding d by simp
qed

lemma digits_value_append [simp]: "digits_value (ds @ [c]) = 10 * digits_value ds + (of_char c - 48)"
  by (simp add: digits_value_def)

lemma decimal_digits: "decimal n \<noteq> []" "\<forall>c \<in> set (decimal n). is_digit c" "digits_value (decimal n) = int n"
proof (induction n rule: decimal.induct)
  case (1 n)
  { case 1 show ?case by (subst decimal.simps) simp }
  { case 2 show ?case using 1(2) by (subst decimal.simps) auto }
  { case 3 show ?case
    proof (cases "n < 10")
      case True
      then show ?thesis by (subst decimal.simps) (simp add: digits_value_def)
    next
      case False
      then show ?thesis using 1(3) by (subst decimal.simps) (simp add: zdiv_int zmod_int)
    qed }
qed

lemma digit_props:
  assumes "is_digit c"
  shows "\<not> is_space c" "c \<noteq> CHR ''-''" "c \<noteq> CHR ''+''" "c \<noteq> CHR '',''" "c \<noteq> CHR '':''" "c \<noteq> CHR 0x0A" "c \<noteq> CHR ''%''" "c \<noteq> CHR ''d''"
  using assms by (auto simp: is_digit_def is_space_def)

lemma takeWhile_digits:
  assumes "\<forall>c \<in> set ds. P c" "rest = [] \<or> \<not> P (hd rest)"
  shows "takeWhile P (ds @ rest) = ds" "dropWhile P (ds @ rest) = rest"
proof -
  have "takeWhile P rest = []" "dropWhile P rest = rest" using assms(2) by (cases rest; simp)+
  then show "takeWhile P (ds @ rest) = ds" "dropWhile P (ds @ rest) = rest" using assms(1) by simp_all
qed

lemma digits_value_nonneg:
  assumes "list_all is_digit ds"
  shows "0 \<le> digits_value ds"
proof -
  have "0 \<le> foldl (\<lambda>n c. 10 * n + (of_char c - 48)) n ds" if "0 \<le> n" for n :: int
    using assms that
  proof (induction ds arbitrary: n)
    case (Cons c ds)
    have "(48 :: int) \<le> of_char c" using Cons.prems(1) by (simp add: is_digit_int)
    then show ?case using Cons by simp
  qed simp
  then show ?thesis by (simp add: digits_value_def)
qed

lemma strtol_printed:
  assumes "\<forall>c \<in> set sp. is_space c" "\<forall>c \<in> set ds. is_digit c" "ds \<noteq> []" "rest = [] \<or> \<not> is_digit (hd rest)"
    "digits_value ds \<le> LONG_MAX"
  shows "strtol (sp @ (if neg then ''-'' else []) @ ds @ rest) =
    (if neg then - digits_value ds else digits_value ds, rest, False)"
proof -
  obtain c cs where ds: "ds = c # cs" using assms(3) by (cases ds) auto
  have c: "is_digit c" using assms(2) ds by simp
  have "dropWhile is_space (sp @ (if neg then ''-'' else []) @ ds @ rest) = (if neg then ''-'' else []) @ ds @ rest"
    using assms(1) c ds digit_props(1) by (simp add: is_space_def)
  moreover have "sign_of ((if neg then ''-'' else []) @ ds @ rest) = (neg, ds @ rest)"
    using c ds digit_props(2,3) by (simp add: sign_of_def)
  moreover have "\<not> digits_value ds < LONG_MIN" "\<not> - digits_value ds > LONG_MAX"
    "\<not> - digits_value ds < LONG_MIN"
    using assms(5) digits_value_nonneg [of ds] assms(2) by (simp_all add: LONG_MIN_def LONG_MAX_def list_all_iff)
  ultimately show ?thesis
    using assms(3,5) takeWhile_digits [OF assms(2,4)] by (simp add: strtol_def)
qed

lemma str2size_InrD:
  assumes "str2size s = Inr n"
  obtains sign ds rest where "s = sign @ ds @ rest" "ds \<noteq> []" "list_all is_digit ds" "rest = [] \<or> hd rest = CHR 0x0A"
    "n = word_of_int (digits_value ds)" "digits_value ds \<le> INT_MAX"
    "sign = [] \<or> sign = ''+'' \<or> sign = ''-'' \<and> digits_value ds = 0"
proof -
  obtain c cs where s: "s = c # cs" "\<not> is_space c" using assms by (cases s) (auto simp: str2size_def split: if_splits)
  obtain neg t where t: "sign_of s = (neg, t)" by fastforce
  let ?ds = "takeWhile is_digit t" and ?rest = "dropWhile is_digit t"
  have digits: "list_all is_digit ?ds" by (auto simp: list_all_iff dest: set_takeWhileD)
  have drop: "dropWhile is_space s = s" using s by simp
  have "c \<noteq> CHR 0x0A" using s(2) by (auto simp: is_space_def)
  then have ds: "?ds \<noteq> []" using assms s t drop by (auto simp: str2size_def strtol_def Let_def split: if_splits)
  have v: "digits_value ?ds \<le> INT_MAX" "?rest = [] \<or> hd ?rest = CHR 0x0A" "n = word_of_int (digits_value ?ds)"
    "neg \<longrightarrow> digits_value ?ds = 0"
    using assms s t drop ds digits_value_nonneg [OF digits]
    by (auto simp: str2size_def strtol_def Let_def LONG_MAX_def LONG_MIN_def INT_MAX_def split: if_splits)
  obtain sign where "s = sign @ t" "sign = [] \<and> \<not> neg \<or> sign = ''+'' \<and> \<not> neg \<or> sign = ''-'' \<and> neg"
    using t s(1) by (cases "c = CHR ''-''"; cases "c = CHR ''+''") (auto simp: sign_of_def)
  then show thesis using ds v digits by (intro that [of sign ?ds ?rest]) auto
qed

lemma str2size_number:
  assumes "ds \<noteq> []" "list_all is_digit ds" "rest = [] \<or> hd rest = CHR 0x0A" "digits_value ds \<le> INT_MAX"
    "sign = [] \<or> sign = ''+'' \<or> sign = ''-'' \<and> digits_value ds = 0"
  shows "str2size (sign @ ds @ rest) = Inr (word_of_int (digits_value ds))"
proof -
  obtain c cs where ds: "ds = c # cs" using assms(1) by (cases ds) auto
  have c: "is_digit c" using assms(2) ds by simp
  obtain x xs where x: "sign @ ds @ rest = x # xs" "\<not> is_space x"
    using assms(5) ds c digit_props(1) by (auto simp: is_space_def)
  have "rest = [] \<or> \<not> is_digit (hd rest)" using assms(3) by (auto simp: is_digit_def)
  then have tw: "takeWhile is_digit (ds @ rest) = ds" "dropWhile is_digit (ds @ rest) = rest"
    using takeWhile_digits [of ds is_digit rest] assms(2) by (simp_all add: list_all_iff)
  have "sign_of (sign @ ds @ rest) = (sign = ''-'', ds @ rest)"
    using assms(5) ds c digit_props(2,3) by (auto simp: sign_of_def)
  moreover have "dropWhile is_space (sign @ ds @ rest) = sign @ ds @ rest" using x by simp
  ultimately have "strtol (sign @ ds @ rest) = (digits_value ds, rest, False)"
    using tw assms(1,4,5) digits_value_nonneg [OF assms(2)]
    by (auto simp: strtol_def LONG_MAX_def LONG_MIN_def INT_MAX_def)
  then show ?thesis using x assms(3,4) digits_value_nonneg [OF assms(2)] by (auto simp: str2size_def)
qed

lemma str2size_decimal:
  assumes "int n \<le> INT_MAX" "rest = [] \<or> hd rest = CHR 0x0A"
  shows "str2size (decimal n @ rest) = Inr (word_of_nat n)"
  using str2size_number [of "decimal n" rest "[]"] decimal_digits [of n] assms by (simp add: list_all_iff)

section \<open>The output file\<close>

text \<open>
  The expression \<^verbatim>\<open>REGEX_FORMAT\<close>: name characters, \<^verbatim>\<open>%\<close>, digits, \<^verbatim>\<open>d\<close>, name characters. In a bracket
  expression the backslash is an ordinary character. No character of one part can begin the next,
  so there is at most one way to match, which is returned.
\<close>

definition name_char :: "char \<Rightarrow> bool" where
  "name_char c \<longleftrightarrow> (97 \<le> (of_char c :: nat) \<and> (of_char c :: nat) \<le> 122) \<or>
     (65 \<le> (of_char c :: nat) \<and> (of_char c :: nat) \<le> 90) \<or> is_digit c \<or>
     c \<in> {CHR ''.'', CHR ''_'', CHR 0x5C, CHR ''/'', CHR ''-''}"

definition split_format :: "string \<Rightarrow> (string \<times> string \<times> string) option" where
  "split_format s = (case dropWhile name_char s of [] \<Rightarrow> None
     | c # r \<Rightarrow> if c \<noteq> CHR ''%'' then None
         else (case dropWhile is_digit r of [] \<Rightarrow> None
           | d # b \<Rightarrow> if d = CHR ''d'' \<and> list_all name_char b
               then Some (takeWhile name_char s, takeWhile is_digit r, b) else None))"

text \<open>
  The conversion \<^verbatim>\<open>%d\<close> with the digits between: a leading zero asks for padding with zeros, the
  number is the minimal width.
\<close>

definition print_int :: "string \<Rightarrow> int \<Rightarrow> string" where
  "print_int ds x = (let sign = (if x < 0 then ''-'' else []); num = decimal (nat \<bar>x\<bar>);
       fill = nat (digits_value ds - int (length (sign @ num))) in
     if ds \<noteq> [] \<and> hd ds = CHR ''0'' then sign @ replicate fill (CHR ''0'') @ num
     else replicate fill (CHR '' '') @ sign @ num)"

text \<open>\<^verbatim>\<open>sprintf(name, format, id)\<close>: the identifier is passed as \<^verbatim>\<open>uint32_t\<close> and printed as \<^verbatim>\<open>int\<close>.\<close>

definition out_name :: "string \<Rightarrow> u32 \<Rightarrow> string option" where
  "out_name format ident = (case split_format format of None \<Rightarrow> None
     | Some (a, ds, b) \<Rightarrow> Some (a @ print_int ds (sint ident) @ b))"

lemma digits_value_zeros: "digits_value (replicate k (CHR ''0'') @ ds) = digits_value ds"
  by (induction k) (simp_all add: digits_value_def)

lemma strtol_print_int:
  assumes "\<bar>x\<bar> \<le> LONG_MAX"
  shows "strtol (print_int ds x) = (x, [], False)"
proof -
  define fill where "fill = nat (digits_value ds - int (length ((if x < 0 then ''-'' else []) @ decimal (nat \<bar>x\<bar>))))"
  note d = decimal_digits [of "nat \<bar>x\<bar>"]
  show ?thesis
  proof (cases "ds \<noteq> [] \<and> hd ds = CHR ''0''")
    case True
    then have "print_int ds x = [] @ (if x < 0 then ''-'' else []) @ (replicate fill (CHR ''0'') @ decimal (nat \<bar>x\<bar>)) @ []"
      by (simp add: print_int_def fill_def Let_def)
    moreover have "\<forall>c \<in> set (replicate fill (CHR ''0'') @ decimal (nat \<bar>x\<bar>)). is_digit c"
      using d(2) by (auto simp: is_digit_def)
    ultimately show ?thesis
      using strtol_printed [of "[]" "replicate fill (CHR ''0'') @ decimal (nat \<bar>x\<bar>)" "[]" "x < 0"] d assms
      by (auto simp: digits_value_zeros)
  next
    case False
    then have "print_int ds x = replicate fill (CHR '' '') @ (if x < 0 then ''-'' else []) @ decimal (nat \<bar>x\<bar>) @ []"
      by (auto simp: print_int_def fill_def Let_def)
    then show ?thesis
      using strtol_printed [of "replicate fill (CHR '' '')" "decimal (nat \<bar>x\<bar>)" "[]" "x < 0"] d assms
      by (auto simp: is_space_def)
  qed
qed

lemma out_name_inject:
  assumes "out_name format i = out_name format j" "split_format format \<noteq> None"
  shows "i = j"
proof -
  obtain a ds b where f: "split_format format = Some (a, ds, b)" using assms(2) by auto
  then have "print_int ds (sint i) = print_int ds (sint j)" using assms(1) by (simp add: out_name_def)
  moreover have "\<bar>sint x\<bar> \<le> LONG_MAX" for x :: u32
    using sint_range_size [of x] by (auto simp: LONG_MAX_def word_size)
  ultimately have "sint i = sint j" using strtol_print_int by (metis fst_conv)
  then show ?thesis by (simp add: signed_word_eqI)
qed

section \<open>The configuration\<close>

text \<open>
  \<^verbatim>\<open>config_rcv_t\<close>. The counts are natural numbers; the processors and the indices of streams are words
  of 64 bits, with \<open>-1\<close> for a missing stream. A null pointer to an array is \<open>None\<close>. The addresses of
  \<^verbatim>\<open>getaddrinfo\<close> are of any type.
\<close>

record 'ai config_rcv_t =
  cf_sequential :: bool
  cf_stream_count :: nat
  cf_handle_num :: nat
  cf_handle_affinities :: "u64 list option"
  cf_handle_streams :: "u64 list option"
  cf_receive_num :: nat
  cf_receive_affinities :: "u64 list option"
  cf_receive_streams :: "u64 list option"
  cf_max_window :: nat
  cf_receive_window_size :: nat
  cf_format_len :: nat
  cf_format :: string
  cf_deallocate_format :: bool
  cf_max_connections :: nat
  cf_addr_info :: "'ai option"
  cf_port :: nat

text \<open>\<^verbatim>\<open>memset(&config, 0, sizeof(config_rcv_t))\<close>\<close>

definition empty_config :: "'ai config_rcv_t" where
  "empty_config = \<lparr>cf_sequential = False, cf_stream_count = 0, cf_handle_num = 0, cf_handle_affinities = None,
     cf_handle_streams = None, cf_receive_num = 0, cf_receive_affinities = None, cf_receive_streams = None,
     cf_max_window = 0, cf_receive_window_size = 0, cf_format_len = 0, cf_format = [], cf_deallocate_format = False,
     cf_max_connections = 0, cf_addr_info = None, cf_port = 0\<rparr>"

section \<open>The command line\<close>

text \<open>
  \<^verbatim>\<open>getopt\<close> with the options \<^verbatim>\<open>:m:o:n:w:sN:W:\<close>, in its default mode that takes options after operands
  (no \<^verbatim>\<open>POSIXLY_CORRECT\<close>). The results in order, each a character and its \<^verbatim>\<open>optarg\<close>, where \<^verbatim>\<open>:\<close> is a
  missing value and \<^verbatim>\<open>?\<close> an unknown option, and the operands that are left.
\<close>

fun getopt_cluster :: "string \<Rightarrow> string list \<Rightarrow> (char \<times> string) list \<times> string list" where
  "getopt_cluster [] args = ([], args)"
| "getopt_cluster (c # cs) args =
     (if c \<in> set ''monwNW'' then
        (if cs \<noteq> [] then ([(c, cs)], args)
         else (case args of [] \<Rightarrow> ([(CHR '':'', [])], []) | a # as \<Rightarrow> ([(c, a)], as)))
      else (case getopt_cluster cs args of (rs, as) \<Rightarrow>
        ((if c = CHR ''s'' then c else CHR ''?'', []) # rs, as)))"

lemma getopt_cluster_length: "length (snd (getopt_cluster cs args)) \<le> length args"
  by (induction cs args rule: getopt_cluster.induct) (auto split: list.splits prod.splits)

function getopt :: "string list \<Rightarrow> (char \<times> string) list \<times> string list" where
  "getopt [] = ([], [])"
| "getopt (a # as) =
     (if a = ''--'' then ([], as)
      else if 2 \<le> length a \<and> hd a = CHR ''-'' then
        (case getopt_cluster (tl a) as of (rs, rest) \<Rightarrow>
          (case getopt rest of (rs', ops) \<Rightarrow> (rs @ rs', ops)))
      else (case getopt as of (rs, ops) \<Rightarrow> (rs, a # ops)))"
  by pat_completeness auto
termination
proof (relation "measure length")
  fix a :: string and as rs rest assume "(rs, rest) = getopt_cluster (tl a) as"
  then show "(rest, a # as) \<in> measure length"
    using getopt_cluster_length [of "tl a" as] by (cases "getopt_cluster (tl a) as") auto
qed auto

text \<open>The values of the options; the defaults are the constants of \<^verbatim>\<open>headers/global.h\<close> as strings.\<close>

record cli_opts =
  o_m :: string
  o_W :: string
  o_w :: string
  o_n :: string
  o_N :: string
  o_o :: string
  o_s :: bool

definition default_opts :: cli_opts where
  "default_opts = \<lparr>o_m = ''100'', o_W = ''31'', o_w = ''31'', o_n = ''2'', o_N = ''1'', o_o = ''%d'', o_s = False\<rparr>"

fun parse_opts :: "(char \<times> string) list \<Rightarrow> cli_opts \<Rightarrow> errors_t + cli_opts" where
  "parse_opts [] os = Inr os"
| "parse_opts ((c, optarg) # rs) os =
     (if c = CHR ''m'' then parse_opts rs (os\<lparr>o_m := optarg\<rparr>)
      else if c = CHR ''W'' then parse_opts rs (os\<lparr>o_W := optarg\<rparr>)
      else if c = CHR ''o'' then parse_opts rs (os\<lparr>o_o := optarg\<rparr>)
      else if c = CHR ''w'' then parse_opts rs (os\<lparr>o_w := optarg\<rparr>)
      else if c = CHR ''n'' then parse_opts rs (os\<lparr>o_n := optarg\<rparr>)
      else if c = CHR ''N'' then parse_opts rs (os\<lparr>o_N := optarg\<rparr>)
      else if c = CHR ''s'' then parse_opts rs (os\<lparr>o_s := True\<rparr>)
      else if c = CHR '':'' then Inl CLI_O_VALUE_MISSING
      else Inl CLI_UNKNOWN_OPTION)"

text \<open>
  The quotation marks around the format. The last character is read at \<^verbatim>\<open>o + len - 1\<close>, which is
  outside the string when it is empty. The copy without the last mark is allocated.
\<close>

definition strip_quotes :: "bool \<Rightarrow> string \<Rightarrow> (errors_t + string \<times> bool) option" where
  "strip_quotes mem s = (let s = (if s \<noteq> [] \<and> hd s = CHR 0x22 then tl s else s) in
     if s = [] then None
     else if last s = CHR 0x22 then Some (if mem then Inr (butlast s, True) else Inl FAILED_TO_ALLOCATE)
     else Some (Inr (s, False)))"

text \<open>The numeric options, in the order of the code, each cast to 16 bits.\<close>

definition cast16 :: "u64 \<Rightarrow> nat" where
  "cast16 n = unat (ucast n :: u16)"

definition number :: "errors_t \<Rightarrow> string \<Rightarrow> errors_t + u64" where
  "number e s = (case str2size s of Inl _ \<Rightarrow> Inl e | Inr n \<Rightarrow> Inr n)"

definition parse_numbers :: "cli_opts \<Rightarrow> string \<Rightarrow> 'ai config_rcv_t \<Rightarrow> errors_t + 'ai config_rcv_t" where
  "parse_numbers os port config =
     (case number CLI_MAX_INVALID (o_m os) of Inl e \<Rightarrow> Inl e | Inr max_conn \<Rightarrow>
     (case number CLI_PORT_INVALID port of Inl e \<Rightarrow> Inl e | Inr port_number \<Rightarrow>
     (case number CLI_HANDLE_INVALID (o_n os) of Inl e \<Rightarrow> Inl e | Inr handle_num \<Rightarrow>
     (case number CLI_HANDLE_INVALID (o_N os) of Inl e \<Rightarrow> Inl e | Inr receive_num \<Rightarrow>
     (case number CLI_WINDOW_INVALID (o_w os) of Inl e \<Rightarrow> Inl e | Inr max_window \<Rightarrow>
     if max_window > word_of_nat MAX_WINDOW_SIZE then Inl CLI_WINDOW_INVALID else
     (case number CLI_WINDOW_INVALID (o_W os) of Inl e \<Rightarrow> Inl e | Inr receive_size \<Rightarrow>
       Inr (config\<lparr>cf_max_connections := cast16 max_conn, cf_port := cast16 port_number, cf_handle_num := cast16 handle_num,
         cf_receive_num := cast16 receive_num, cf_max_window := cast16 max_window,
         cf_receive_window_size := cast16 receive_size\<rparr>)))))))"

text \<open>
  What the system answers: memory for the copy of the format, the compilation of the expression,
  and the list of \<^verbatim>\<open>getaddrinfo\<close>, empty for an error. The configuration keeps its last element.
\<close>

record 'ai cli_env =
  ce_mem :: bool
  ce_regcomp :: bool
  ce_getaddrinfo :: "string \<Rightarrow> string \<Rightarrow> 'ai list"

definition parse_receiver :: "'ai cli_env \<Rightarrow> string list \<Rightarrow> 'ai config_rcv_t \<Rightarrow> (errors_t + 'ai config_rcv_t) option" where
  "parse_receiver env argv config = (case getopt (tl argv) of (rs, ops) \<Rightarrow>
     (case parse_opts rs default_opts of Inl e \<Rightarrow> Some (Inl e) | Inr os \<Rightarrow>
     (case ops of
       [] \<Rightarrow> Some (Inl CLI_IP_MISSING)
     | [ip] \<Rightarrow> Some (Inl CLI_PORT_MISSING)
     | ip # port # extra \<Rightarrow> if extra \<noteq> [] then Some (Inl CLI_TOO_MANY_ARGUMENTS) else
       (case strip_quotes (ce_mem env) (o_o os) of None \<Rightarrow> None | Some (Inl e) \<Rightarrow> Some (Inl e) | Some (Inr (format, dealloc)) \<Rightarrow>
        if \<not> ce_regcomp env then Some (Inl REGEX_COMPILATION_FAILED)
        else if split_format format = None then Some (Inl CLI_FORMAT_VALIDATION_FAILED)
        else Some (case parse_numbers os port (config\<lparr>cf_sequential := o_s os, cf_deallocate_format := dealloc, cf_format := format,
            cf_format_len := length format\<rparr>) of
            Inl e \<Rightarrow> Inl e
          | Inr config \<Rightarrow> (case ce_getaddrinfo env ip port of
              [] \<Rightarrow> Inl CLI_IP_INVALID
            | a # as \<Rightarrow> Inr (config\<lparr>cf_addr_info := Some (last (a # as)),
                cf_handle_affinities := None, cf_receive_affinities := None\<rparr>)))))))"

section \<open>The affinity file\<close>

text \<open>\<^verbatim>\<open>strsep\<close> until the string is used up: the pieces between the separators, empty ones included.\<close>

fun strsep :: "char \<Rightarrow> string \<Rightarrow> string list" where
  "strsep d [] = [[]]"
| "strsep d (c # cs) = (if c = d then [] # strsep d cs
     else (case strsep d cs of [] \<Rightarrow> [[c]] | t # ts \<Rightarrow> (c # t) # ts))"

text \<open>\<^verbatim>\<open>getline\<close>: the line with its end, and the rest of the file; \<open>None\<close> at the end of the file.\<close>

definition getline :: "string \<Rightarrow> (string \<times> string) option" where
  "getline s = (if s = [] then None
     else Some (takeWhile (\<lambda>c. c \<noteq> CHR 0x0A) s @ take 1 (dropWhile (\<lambda>c. c \<noteq> CHR 0x0A) s),
                drop 1 (dropWhile (\<lambda>c. c \<noteq> CHR 0x0A) s)))"

text \<open>
  The loop over one line: the entries of the array that are filled so far, against the number
  there must be. The result is the whole array, or \<open>None\<close> for a line that is refused.
\<close>

fun parse_cpus :: "nat \<Rightarrow> string list \<Rightarrow> u64 list \<Rightarrow> u64 list option" where
  "parse_cpus num [] cpus = (if length cpus \<noteq> num then None else Some cpus)"
| "parse_cpus num (token # ts) cpus =
     (if length cpus \<ge> num then None
      else (case str2size token of Inl _ \<Rightarrow> None | Inr cpu \<Rightarrow> parse_cpus num ts (cpus @ [cpu])))"

text \<open>
  The two lines of the file. \<open>mem1\<close> and \<open>mem2\<close> say whether the arrays can be allocated; the file is
  \<open>None\<close> when it cannot be opened. The result is whether 0 is returned, and the configuration.
\<close>

definition affinity_lines :: "nat \<Rightarrow> nat \<Rightarrow> string \<Rightarrow> (u64 list \<times> u64 list) option" where
  "affinity_lines receive_num handle_num file = do {
     (line, file) \<leftarrow> getline file;
     receivers \<leftarrow> parse_cpus receive_num (strsep (CHR '','') line) [];
     (line, file) \<leftarrow> getline file;
     handlers \<leftarrow> parse_cpus handle_num (strsep (CHR '','') line) [];
     Some (receivers, handlers)
   }"

definition parse_affinity_file :: "bool \<Rightarrow> bool \<Rightarrow> string option \<Rightarrow> 'ai config_rcv_t \<Rightarrow> bool \<times> 'ai config_rcv_t" where
  "parse_affinity_file mem1 mem2 file config =
     (if \<not> mem1 then (False, config\<lparr>cf_handle_affinities := None\<rparr>)
      else let config = config\<lparr>cf_handle_affinities := None, cf_receive_affinities := None\<rparr> in
        if \<not> mem2 then (False, config)
        else (case file of None \<Rightarrow> (True, config)
          | Some s \<Rightarrow> (case affinity_lines (cf_receive_num config) (cf_handle_num config) s of
              None \<Rightarrow> (False, config)
            | Some (receivers, handlers) \<Rightarrow>
                (True, config\<lparr>cf_handle_affinities := Some handlers, cf_receive_affinities := Some receivers\<rparr>))))"

section \<open>The streams file\<close>

text \<open>\<^verbatim>\<open>strtok\<close> with one separator: the token, and the string at the saved pointer.\<close>

definition strtok :: "char \<Rightarrow> string \<Rightarrow> string option \<times> string" where
  "strtok d s = (let s = dropWhile (\<lambda>c. c = d) s in
     if s = [] then (None, [])
     else (Some (takeWhile (\<lambda>c. c \<noteq> d) s), drop 1 (dropWhile (\<lambda>c. c \<noteq> d) s)))"

lemma strtok_shorter:
  assumes "strtok d s = (Some t, s')"
  shows "length s' < length s"
proof -
  define u where "u = dropWhile (\<lambda>c. c = d) s"
  define v where "v = dropWhile (\<lambda>c. c \<noteq> d) u"
  have s: "u \<noteq> []" "s' = drop 1 v"
    using assms unfolding strtok_def Let_def u_def [symmetric] v_def [symmetric] by (cases "u = []"; simp)+
  have "length v \<le> length u" "length u \<le> length s" unfolding u_def v_def by (rule length_dropWhile_le)+
  moreover have "length u > 0" using s(1) by simp
  ultimately show ?thesis unfolding s(2) length_drop by linarith
qed

function tokens :: "char \<Rightarrow> string \<Rightarrow> string list" where
  "tokens d s = (case strtok d s of (None, _) \<Rightarrow> [] | (Some t, s') \<Rightarrow> t # tokens d s')"
  by pat_completeness auto
termination
  by (relation "measure (\<lambda>(d, s). length s)") (auto dest: strtok_shorter [OF sym])

declare tokens.simps [simp del]

text \<open>
  The loop over the receivers, and over the handlers, of a line: the number is written to the next
  place of an array with \<open>num\<close> places before anything is checked. The result is whether the line is
  accepted, and the streams.
\<close>

fun associate :: "nat \<Rightarrow> nat \<Rightarrow> string list \<Rightarrow> nat \<Rightarrow> u64 list \<Rightarrow> (bool \<times> u64 list) option" where
  "associate num idx [] k streams = Some (True, streams)"
| "associate num idx (chunk # cs) k streams = (case str2size chunk of
     Inl _ \<Rightarrow> Some (False, streams)
   | Inr v \<Rightarrow> if k \<ge> num then None
       else if unat v \<ge> num then Some (False, streams)
       else if streams ! unat v \<noteq> -1 then Some (False, streams)
       else associate num idx cs (Suc k) (streams[unat v := word_of_nat idx]))"

text \<open>
  One line. A missing part is a null pointer, for which \<^verbatim>\<open>strtok\<close> goes on at its saved pointer; that
  is at the end of the string then.
\<close>

definition stream_line :: "nat \<Rightarrow> string \<Rightarrow> u64 list \<Rightarrow> u64 list \<Rightarrow> (bool \<times> u64 list \<times> u64 list) option" where
  "stream_line idx line rs hs = (case strtok (CHR '':'') line of (receivers, saved) \<Rightarrow>
     (case strtok (CHR '':'') saved of (handlers, saved) \<Rightarrow> do {
       (ok, rs) \<leftarrow> associate (length rs) idx (tokens (CHR '','') (case receivers of None \<Rightarrow> saved | Some t \<Rightarrow> t)) 0 rs;
       if \<not> ok then Some (False, rs, hs)
       else do {
         (ok, hs) \<leftarrow> associate (length hs) idx (case handlers of None \<Rightarrow> [] | Some t \<Rightarrow> tokens (CHR '','') t) 0 hs;
         Some (ok, rs, hs)
       }
     }))"

text \<open>\<^verbatim>\<open>fgets(str, 128, file)\<close>\<close>

definition fgets :: "string \<Rightarrow> (string \<times> string) option" where
  "fgets s = (if s = [] then None
     else let n = min 127 (length (takeWhile (\<lambda>c. c \<noteq> CHR 0x0A) s) + 1) in Some (take n s, drop n s))"

lemma fgets_shorter: "fgets s = Some (l, s') \<Longrightarrow> length s' < length s"
  by (auto simp: fgets_def Let_def split: if_splits)

function stream_lines :: "nat \<Rightarrow> string \<Rightarrow> u64 list \<Rightarrow> u64 list \<Rightarrow> (bool \<times> nat \<times> u64 list \<times> u64 list) option" where
  "stream_lines i file rs hs = (case fgets file of None \<Rightarrow> Some (True, i, rs, hs)
     | Some (line, file) \<Rightarrow> if i \<ge> length rs then Some (False, i, rs, hs)
         else (case stream_line i line rs hs of None \<Rightarrow> None
           | Some (ok, rs, hs) \<Rightarrow> if ok then stream_lines (Suc i) file rs hs else Some (False, Suc i, rs, hs)))"
  by pat_completeness auto
termination
  by (relation "measure (\<lambda>(i, file, rs, hs). length file)") (auto dest: fgets_shorter)

declare stream_lines.simps [simp del]

definition parse_streams_file :: "bool \<Rightarrow> bool \<Rightarrow> string option \<Rightarrow> 'ai config_rcv_t \<Rightarrow> (bool \<times> 'ai config_rcv_t) option" where
  "parse_streams_file mem1 mem2 file config =
     (if \<not> mem1 then Some (False, config\<lparr>cf_receive_streams := None\<rparr>)
      else if \<not> mem2 then Some (False, config\<lparr>cf_receive_streams := None, cf_handle_streams := None\<rparr>)
      else let rs = replicate (cf_receive_num config) (-1); hs = replicate (cf_handle_num config) (-1) in
        (case file of None \<Rightarrow> Some (False, config\<lparr>cf_receive_streams := Some rs, cf_handle_streams := Some hs\<rparr>)
         | Some s \<Rightarrow> (case stream_lines 0 s rs hs of None \<Rightarrow> None
           | Some (ok, i, rs, hs) \<Rightarrow>
               let config = config\<lparr>cf_receive_streams := Some rs, cf_handle_streams := Some hs\<rparr> in
               if \<not> ok then Some (False, config)
               else Some (i > 0 \<and> -1 \<notin> set hs \<and> -1 \<notin> set rs, config\<lparr>cf_stream_count := i\<rparr>))))"

section \<open>The start of main\<close>

text \<open>
  What \<^verbatim>\<open>main\<close> makes of the configuration: one receiver, one handler and one stream in the sequential
  mode; otherwise the two files, and one stream for all when the streams file is not usable. The
  parameters are the memory for the four arrays and for the replacements, and the two files. The
  result \<open>Some None\<close> is the end of the program.
\<close>

record config_env =
  k_affinity_mem :: "bool \<times> bool"
  k_affinity_file :: "string option"
  k_streams_mem :: "bool \<times> bool"
  k_streams_file :: "string option"
  k_fallback_mem :: "bool \<times> bool"

definition one_stream :: "config_env \<Rightarrow> 'ai config_rcv_t \<Rightarrow> 'ai config_rcv_t option" where
  "one_stream env config =
     (if cf_handle_streams config = None \<and> \<not> fst (k_fallback_mem env) then None
      else if cf_receive_streams config = None \<and> \<not> snd (k_fallback_mem env) then None
      else Some (config\<lparr>cf_handle_streams := Some (replicate (cf_handle_num config) 0),
        cf_receive_streams := Some (replicate (cf_receive_num config) 0), cf_stream_count := 1\<rparr>))"

definition configure :: "config_env \<Rightarrow> 'ai config_rcv_t \<Rightarrow> 'ai config_rcv_t option option" where
  "configure env config =
     (if cf_sequential config
      then Some (one_stream env (config\<lparr>cf_handle_num := 1, cf_receive_num := 1, cf_stream_count := 1\<rparr>))
      else (case parse_affinity_file (fst (k_affinity_mem env)) (snd (k_affinity_mem env)) (k_affinity_file env) config of
        (_, config) \<Rightarrow>
          (case parse_streams_file (fst (k_streams_mem env)) (snd (k_streams_mem env)) (k_streams_file env) config of
             None \<Rightarrow> None
           | Some (ok, config) \<Rightarrow> Some (if ok then Some config else one_stream env config))))"

text \<open>
  The resources of a thread: the socket and the two streams at the index of its stream, and the
  pointer to its affinity. \<open>None\<close> is an access outside an array.
\<close>

definition thread_resources :: "u64 list option \<Rightarrow> u64 list option \<Rightarrow> 'fd list \<Rightarrow> 's list \<Rightarrow> 's list \<Rightarrow> nat \<Rightarrow>
    ('fd \<times> 's \<times> 's \<times> u64 option) option" where
  "thread_resources streams affinities sockfds rx_to_hd hd_to_rx i = do {
     ss \<leftarrow> streams;
     stream \<leftarrow> rd ss i;
     fd \<leftarrow> rd sockfds (unat stream);
     forth \<leftarrow> rd rx_to_hd (unat stream);
     back \<leftarrow> rd hd_to_rx (unat stream);
     affinity \<leftarrow> (case affinities of None \<Rightarrow> Some None | Some as \<Rightarrow> map_option Some (rd as i));
     Some (fd, forth, back, affinity)
   }"

section \<open>Lists of numbers\<close>

fun join :: "char \<Rightarrow> string list \<Rightarrow> string" where
  "join d [] = []"
| "join d [t] = t"
| "join d (t # ts) = t @ d # join d ts"

lemma strsep_nonempty [simp]: "strsep d s \<noteq> []"
  by (induction s) (auto split: list.split)

lemma strsep_prefix: "d \<notin> set t \<Longrightarrow> strsep d (t @ r) = (t @ hd (strsep d r)) # tl (strsep d r)"
  by (induction t) (auto split: list.split)

lemma strsep_join:
  assumes "ts \<noteq> []" "\<forall>t \<in> set ts. d \<notin> set t" "d \<notin> set e"
  shows "strsep d (join d ts @ e) = butlast ts @ [last ts @ e]"
  using assms
proof (induction d ts rule: join.induct)
  case (2 d t)
  then show ?case using strsep_prefix [of d "t @ e" "[]"] by simp
next
  case (3 d t u us)
  then show ?case using strsep_prefix [of d t "d # join d (u # us) @ e"] by simp
qed simp

lemma parse_cpus_numbers:
  assumes "list_all2 (\<lambda>t v. str2size t = Inr v) ts vs" "length acc + length vs = num"
  shows "parse_cpus num ts acc = Some (acc @ vs)"
  using assms by (induction arbitrary: acc rule: list_all2_induct) auto

lemma parse_cpus_length: "parse_cpus num ts acc = Some vs \<Longrightarrow> length vs = num"
  by (induction num ts acc rule: parse_cpus.induct) (auto split: if_splits sum.splits)

lemma getline_line:
  assumes "CHR 0x0A \<notin> set l"
  shows "getline (l @ CHR 0x0A # r) = Some (l @ [CHR 0x0A], r)"
proof -
  have "\<forall>c \<in> set l. c \<noteq> CHR 0x0A" using assms by auto
  from takeWhile_digits [OF this, of "CHR 0x0A # r"] show ?thesis by (simp add: getline_def)
qed

lemma join_chars: "set (join d ts) \<subseteq> insert d (\<Union> (set (map set ts)))"
  by (induction d ts rule: join.induct) auto

text \<open>A line of the affinity file.\<close>

definition cpu_line :: "nat list \<Rightarrow> string" where
  "cpu_line cpus = join (CHR '','') (map decimal cpus)"

lemma cpu_line_chars: "CHR 0x0A \<notin> set (cpu_line cpus)"
proof
  assume "CHR 0x0A \<in> set (cpu_line cpus)"
  then have "CHR 0x0A \<in> insert (CHR '','') (\<Union> (set (map set (map decimal cpus))))"
    unfolding cpu_line_def using join_chars by blast
  then obtain n where "CHR 0x0A \<in> set (decimal n)" by auto
  then have "is_digit (CHR 0x0A)" using decimal_digits(2) by blast
  then show False by (simp add: is_digit_def)
qed

lemma parse_cpu_line:
  assumes "cpus \<noteq> []" "\<forall>cpu \<in> set cpus. int cpu \<le> INT_MAX"
  shows "parse_cpus (length cpus) (strsep (CHR '','') (cpu_line cpus @ [CHR 0x0A])) [] = Some (map word_of_nat cpus)"
proof -
  let ?ts = "butlast (map decimal cpus) @ [last (map decimal cpus) @ [CHR 0x0A]]"
  have "\<forall>t \<in> set (map decimal cpus). CHR '','' \<notin> set t" using decimal_digits(2) digit_props(4) by auto
  then have ts: "strsep (CHR '','') (cpu_line cpus @ [CHR 0x0A]) = ?ts"
    using strsep_join [of "map decimal cpus" "CHR '',''" "[CHR 0x0A]"] assms(1) by (simp add: cpu_line_def)
  obtain xs x where x: "cpus = xs @ [x]" using assms(1) by (metis rev_exhaust)
  have xs: "list_all2 (\<lambda>t v. str2size t = Inr v) (map decimal xs) (map word_of_nat xs)"
    unfolding list_all2_map1 list_all2_map2 list_all2_same
    using assms(2) x str2size_decimal [of _ "[]"] by simp
  have "str2size (decimal x @ [CHR 0x0A]) = Inr (word_of_nat x)"
    using assms(2) x str2size_decimal [of x "[CHR 0x0A]"] by simp
  then have "list_all2 (\<lambda>t v. str2size t = Inr v) [decimal x @ [CHR 0x0A]] [word_of_nat x]" by simp
  from list_all2_appendI [OF xs this] have "list_all2 (\<lambda>t v. str2size t = Inr v) ?ts (map word_of_nat cpus)"
    using x by simp
  then show ?thesis unfolding ts using parse_cpus_numbers [of ?ts "map word_of_nat cpus" "[]"] by simp
qed

section \<open>Streams in range\<close>

definition assigned :: "nat \<Rightarrow> u64 list \<Rightarrow> bool" where
  "assigned n ss \<longleftrightarrow> (\<forall>s \<in> set ss. s = -1 \<or> unat s < n)"

lemma assigned_mono: "assigned n ss \<Longrightarrow> n \<le> n' \<Longrightarrow> assigned n' ss"
  by (auto simp: assigned_def)

lemma associate_streams:
  assumes "associate num idx cs k ss = Some (ok, ss')" "assigned (Suc idx) ss"
  shows "length ss' = length ss \<and> assigned (Suc idx) ss'"
  using assms
proof (induction num idx cs k ss rule: associate.induct)
  case (2 num idx chunk cs k ss)
  have "unat (word_of_nat idx :: u64) < Suc idx" by (simp add: unat_of_nat le_imp_less_Suc take_bit_nat_less_eq_self)
  then have "assigned (Suc idx) (ss[i := word_of_nat idx])" for i
    using 2(3) set_update_subset_insert [of ss i "word_of_nat idx"] by (auto simp: assigned_def)
  with 2 show ?case by (auto split: sum.splits if_splits)
qed simp

lemma stream_line_streams:
  assumes "stream_line idx line rs hs = Some (ok, rs', hs')" "assigned idx rs" "assigned idx hs"
  shows "length rs' = length rs \<and> length hs' = length hs \<and> assigned (Suc idx) rs' \<and> assigned (Suc idx) hs'"
proof -
  have a: "assigned (Suc idx) rs" "assigned (Suc idx) hs" using assms(2,3) assigned_mono by auto
  then show ?thesis
    using assms(1) by (auto simp: stream_line_def split: prod.splits if_splits bind_splits dest: associate_streams)
qed

lemma stream_lines_streams:
  assumes "stream_lines i file rs hs = Some (ok, i', rs', hs')" "assigned i rs" "assigned i hs" "i \<le> length rs"
  shows "length rs' = length rs \<and> length hs' = length hs \<and> assigned i' rs' \<and> assigned i' hs'"
  using assms
proof (induction i "file" rs hs rule: stream_lines.induct)
  case (1 i "file" rs hs)
  show ?case
  proof (cases "fgets file")
    case None
    then show ?thesis using 1(2-) by (simp add: stream_lines.simps [of i "file"])
  next
    case (Some p)
    obtain line file' where p: "p = (line, file')" by fastforce
    show ?thesis
    proof (cases "i \<ge> length rs")
      case True
      then show ?thesis using 1(2-) Some p by (simp add: stream_lines.simps [of i "file"])
    next
      case False
      then obtain ok1 rs1 hs1 where l: "stream_line i line rs hs = Some (ok1, rs1, hs1)"
        using 1(2) Some p by (cases "stream_line i line rs hs") (auto simp: stream_lines.simps [of i "file"])
      note inv = stream_line_streams [OF l 1(3,4)]
      show ?thesis
      proof (cases ok1)
        case True
        then have "stream_lines (Suc i) file' rs1 hs1 = Some (ok, i', rs', hs')"
          using 1(2) Some p l False by (simp add: stream_lines.simps [of i "file"])
        then show ?thesis using 1(1) [OF Some p [symmetric] False l refl refl] True inv False by auto
      next
        case False
        then show ?thesis using 1(2) Some p l \<open>\<not> i \<ge> length rs\<close> inv by (auto simp: stream_lines.simps [of i "file"])
      qed
    qed
  qed
qed

text \<open>Every thread has a stream, and, when there are affinities, a processor.\<close>

definition config_ok :: "'ai config_rcv_t \<Rightarrow> bool" where
  "config_ok c \<longleftrightarrow> 0 < cf_stream_count c \<and>
     (\<forall>(n, streams, affinities) \<in> {(cf_receive_num c, cf_receive_streams c, cf_receive_affinities c),
                                     (cf_handle_num c, cf_handle_streams c, cf_handle_affinities c)}.
        (\<exists>ss. streams = Some ss \<and> length ss = n \<and> (\<forall>s \<in> set ss. unat s < cf_stream_count c)) \<and>
        (case affinities of None \<Rightarrow> True | Some as \<Rightarrow> length as = n))"

lemma parse_affinity_file_arrays:
  assumes "parse_affinity_file mem1 mem2 file config = (ok, c)" "cf_receive_affinities config = None"
  shows "\<exists>hs rs. c = config\<lparr>cf_handle_affinities := hs, cf_receive_affinities := rs\<rparr> \<and>
    (\<forall>as. hs = Some as \<longrightarrow> length as = cf_handle_num config) \<and> (\<forall>as. rs = Some as \<longrightarrow> length as = cf_receive_num config)"
proof -
  have keep: "config\<lparr>cf_handle_affinities := None\<rparr> = config\<lparr>cf_handle_affinities := None, cf_receive_affinities := None\<rparr>"
    using assms(2) by simp
  have lines: "length hs = h \<and> length rs = r" if "affinity_lines r h f = Some (rs, hs)" for r h f rs hs
    using that by (auto simp: affinity_lines_def split: bind_splits prod.splits dest: parse_cpus_length)
  show ?thesis
  proof (cases "mem1 \<and> mem2 \<and> c \<noteq> config\<lparr>cf_handle_affinities := None, cf_receive_affinities := None\<rparr>")
    case True
    then obtain rs hs f where a: "affinity_lines (cf_receive_num config) (cf_handle_num config) f = Some (rs, hs)"
      "c = config\<lparr>cf_handle_affinities := Some hs, cf_receive_affinities := Some rs\<rparr>"
      using assms(1) by (auto simp: parse_affinity_file_def Let_def split: option.splits)
    then show ?thesis using lines [OF a(1)] by (intro exI [of _ "Some hs"] exI [of _ "Some rs"]) simp
  next
    case False
    then have "c = config\<lparr>cf_handle_affinities := None, cf_receive_affinities := None\<rparr>"
      using assms(1) keep by (auto simp: parse_affinity_file_def Let_def split: if_splits)
    then show ?thesis by (intro exI [of _ None] exI [of _ None]) simp
  qed
qed

lemma parse_streams_file_arrays:
  assumes "parse_streams_file mem1 mem2 file config = Some (True, c)"
  shows "\<exists>rs hs i. c = config\<lparr>cf_receive_streams := Some rs, cf_handle_streams := Some hs, cf_stream_count := i\<rparr> \<and> 0 < i \<and>
    length rs = cf_receive_num config \<and> length hs = cf_handle_num config \<and>
    (\<forall>s \<in> set rs. unat s < i) \<and> (\<forall>s \<in> set hs. unat s < i)"
proof -
  obtain f i rs hs where l: "stream_lines 0 f (replicate (cf_receive_num config) (-1)) (replicate (cf_handle_num config) (-1)) = Some (True, i, rs, hs)"
    "0 < i" "-1 \<notin> set rs" "-1 \<notin> set hs"
    "c = config\<lparr>cf_receive_streams := Some rs, cf_handle_streams := Some hs, cf_stream_count := i\<rparr>"
    using assms by (auto simp: parse_streams_file_def Let_def split: if_splits option.splits prod.splits)
  have "assigned 0 (replicate n (-1))" for n by (auto simp: assigned_def)
  from stream_lines_streams [OF l(1) this this]
  have "length rs = cf_receive_num config" "length hs = cf_handle_num config" "assigned i rs" "assigned i hs" by simp_all
  moreover from this l(3,4) have "\<forall>s \<in> set rs. unat s < i" "\<forall>s \<in> set hs. unat s < i"
    unfolding assigned_def by metis+
  ultimately show ?thesis using l(2,5) by (intro exI [of _ rs] exI [of _ hs] exI [of _ i]) simp
qed

lemma one_stream_ok:
  assumes "one_stream env config = Some c"
    "\<forall>as. cf_handle_affinities config = Some as \<longrightarrow> length as = cf_handle_num config"
    "\<forall>as. cf_receive_affinities config = Some as \<longrightarrow> length as = cf_receive_num config"
  shows "config_ok c"
  using assms by (auto simp: one_stream_def config_ok_def split: if_splits option.splits)

lemma configure_ok:
  assumes "configure env config = Some (Some c)" "cf_handle_affinities config = None" "cf_receive_affinities config = None"
  shows "config_ok c"
proof (cases "cf_sequential config")
  case True
  then show ?thesis using assms by (auto simp: configure_def intro: one_stream_ok)
next
  case False
  obtain ok c1 where a: "parse_affinity_file (fst (k_affinity_mem env)) (snd (k_affinity_mem env)) (k_affinity_file env) config = (ok, c1)"
    by fastforce
  from parse_affinity_file_arrays [OF a assms(3)] obtain has ras where
    c1: "c1 = config\<lparr>cf_handle_affinities := has, cf_receive_affinities := ras\<rparr>"
      "\<forall>as. has = Some as \<longrightarrow> length as = cf_handle_num config" "\<forall>as. ras = Some as \<longrightarrow> length as = cf_receive_num config"
    by blast
  obtain ok2 c2 where b: "parse_streams_file (fst (k_streams_mem env)) (snd (k_streams_mem env)) (k_streams_file env) c1 = Some (ok2, c2)"
    "(if ok2 then Some c2 else one_stream env c2) = Some c"
    using assms(1) a False by (auto simp: configure_def split: option.splits)
  show ?thesis
  proof (cases ok2)
    case True
    then show ?thesis using parse_streams_file_arrays [of _ _ _ c1 c2] b c1
      by (fastforce simp: config_ok_def split: option.split)
  next
    case False
    have "cf_handle_affinities c2 = has" "cf_receive_affinities c2 = ras" "cf_handle_num c2 = cf_handle_num config"
      "cf_receive_num c2 = cf_receive_num config"
      using b(1) c1(1) by (auto simp: parse_streams_file_def Let_def split: if_splits option.splits prod.splits)
    then show ?thesis using False b(2) c1(2,3) by (intro one_stream_ok [of env c2]) simp_all
  qed
qed

lemma thread_resources_defined:
  assumes "streams = Some ss" "i < length ss" "\<forall>s \<in> set ss. unat s < n"
    "length sockfds = n" "length rx_to_hd = n" "length hd_to_rx = n" "case affinities of None \<Rightarrow> True | Some as \<Rightarrow> length as = length ss"
  shows "thread_resources streams affinities sockfds rx_to_hd hd_to_rx i \<noteq> None"
  using assms by (auto simp: thread_resources_def rd_def split: option.splits)

section \<open>Properties\<close>

text \<open>
  The function \<^verbatim>\<open>str2size\<close> accepts exactly the decimal numbers up to \<^verbatim>\<open>INT_MAX\<close>, with an optional sign (a minus
  only before zero), ended by the end of the string or of the line, and returns the number.
\<close>

theorem str2size_accepts:
  "str2size s = Inr n \<longleftrightarrow> (\<exists>sign ds rest. s = sign @ ds @ rest \<and> ds \<noteq> [] \<and> list_all is_digit ds \<and>
     (rest = [] \<or> hd rest = CHR 0x0A) \<and> digits_value ds \<le> INT_MAX \<and> n = word_of_int (digits_value ds) \<and>
     (sign = [] \<or> sign = ''+'' \<or> sign = ''-'' \<and> digits_value ds = 0))"
proof
  assume "str2size s = Inr n"
  then show "\<exists>sign ds rest. s = sign @ ds @ rest \<and> ds \<noteq> [] \<and> list_all is_digit ds \<and>
     (rest = [] \<or> hd rest = CHR 0x0A) \<and> digits_value ds \<le> INT_MAX \<and> n = word_of_int (digits_value ds) \<and>
     (sign = [] \<or> sign = ''+'' \<or> sign = ''-'' \<and> digits_value ds = 0)"
    by (elim str2size_InrD) blast
qed (elim exE conjE, simp add: str2size_number)


text \<open>
  The affinity file is read back as it is written: for a file with one line of processors for the
  receivers and one for the handlers, in the numbers that are configured, the configuration gets
  exactly these processors.
\<close>

theorem affinity_file_roundtrip:
  assumes "length rs = cf_receive_num config" "length hs = cf_handle_num config" "rs \<noteq> []" "hs \<noteq> []"
    and "\<forall>cpu \<in> set (rs @ hs). int cpu \<le> INT_MAX"
  shows "parse_affinity_file True True (Some (cpu_line rs @ [CHR 0x0A] @ cpu_line hs @ [CHR 0x0A])) config =
    (True, config\<lparr>cf_handle_affinities := Some (map word_of_nat hs), cf_receive_affinities := Some (map word_of_nat rs)\<rparr>)"
proof -
  have "parse_cpus (cf_receive_num config) (strsep (CHR '','') (cpu_line rs @ [CHR 0x0A])) [] = Some (map word_of_nat rs)"
    "parse_cpus (cf_handle_num config) (strsep (CHR '','') (cpu_line hs @ [CHR 0x0A])) [] = Some (map word_of_nat hs)"
    using parse_cpu_line [of rs] parse_cpu_line [of hs] assms by simp_all
  moreover have "getline (cpu_line rs @ [CHR 0x0A] @ cpu_line hs @ [CHR 0x0A]) =
      Some (cpu_line rs @ [CHR 0x0A], cpu_line hs @ [CHR 0x0A])"
    using getline_line [OF cpu_line_chars, of rs "cpu_line hs @ [CHR 0x0A]"] by simp
  moreover have "getline (cpu_line hs @ [CHR 0x0A]) = Some (cpu_line hs @ [CHR 0x0A], [])"
    using getline_line [OF cpu_line_chars, of hs "[]"] by simp
  ultimately show ?thesis by (simp add: parse_affinity_file_def affinity_lines_def)
qed

text \<open>
  C27. The threads are set up within the arrays. Whatever the affinity file and the streams file contain,
  if \<^verbatim>\<open>main\<close> goes on, there is at least one stream, and for every receiver and every handler the
  socket, the two streams and the affinity that its configuration points to exist.
\<close>

theorem configure_in_range:
  assumes "configure env config = Some (Some c)" "cf_handle_affinities config = None" "cf_receive_affinities config = None"
    and "length sockfds = cf_stream_count c" "length rx_to_hd = cf_stream_count c" "length hd_to_rx = cf_stream_count c"
  shows "0 < cf_stream_count c \<and>
    (\<forall>i < cf_receive_num c. thread_resources (cf_receive_streams c) (cf_receive_affinities c) sockfds rx_to_hd hd_to_rx i \<noteq> None) \<and>
    (\<forall>i < cf_handle_num c. thread_resources (cf_handle_streams c) (cf_handle_affinities c) sockfds rx_to_hd hd_to_rx i \<noteq> None)"
proof -
  obtain rs hs where c: "0 < cf_stream_count c"
    "cf_receive_streams c = Some rs" "length rs = cf_receive_num c" "\<forall>s \<in> set rs. unat s < cf_stream_count c"
    "case cf_receive_affinities c of None \<Rightarrow> True | Some as \<Rightarrow> length as = cf_receive_num c"
    "cf_handle_streams c = Some hs" "length hs = cf_handle_num c" "\<forall>s \<in> set hs. unat s < cf_stream_count c"
    "case cf_handle_affinities c of None \<Rightarrow> True | Some as \<Rightarrow> length as = cf_handle_num c"
    using configure_ok [OF assms(1-3)] by (auto simp: config_ok_def)
  have "thread_resources (cf_receive_streams c) (cf_receive_affinities c) sockfds rx_to_hd hd_to_rx i \<noteq> None"
    if "i < cf_receive_num c" for i
    using that c(3) by (intro thread_resources_defined [OF c(2) _ c(4) assms(4-6) c(5) [folded c(3)]]) simp
  moreover have "thread_resources (cf_handle_streams c) (cf_handle_affinities c) sockfds rx_to_hd hd_to_rx i \<noteq> None"
    if "i < cf_handle_num c" for i
    using that c(7) by (intro thread_resources_defined [OF c(6) _ c(8) assms(4-6) c(9) [folded c(7)]]) simp
  ultimately show ?thesis using c(1) by blast
qed

text \<open>
  A line of the streams file that names more receivers than there are is not refused but overruns
  an array: with the default of one receiver, the line \<^verbatim>\<open>0,0:0\<close> makes the parser write past the end
  before it notices that the receiver is used twice.
\<close>

theorem parse_streams_overflow:
  assumes "cf_receive_num config = 1"
  shows "parse_streams_file True True (Some (''0,0:0'' @ [CHR 0x0A])) config = None"
proof -
  have n: "str2size ''0'' = Inr 0" by (simp add: str2size_def strtol_def sign_of_def is_space_def is_digit_def digits_value_def INT_MAX_def LONG_MAX_def LONG_MIN_def)
  have t: "tokens (CHR '','') ''0,0'' = [''0'', ''0'']"
    by (simp add: tokens.simps strtok_def)
  have "fgets (''0,0:0'' @ [CHR 0x0A]) = Some (''0,0:0'' @ [CHR 0x0A], [])" by (simp add: fgets_def)
  moreover have "stream_line 0 (''0,0:0'' @ [CHR 0x0A]) [-1] hs = None" for hs
    using n t by (simp add: stream_line_def strtok_def)
  ultimately have "stream_lines 0 (''0,0:0'' @ [CHR 0x0A]) [-1] hs = None" for hs
    by (simp add: stream_lines.simps)
  then show ?thesis using assms by (simp add: parse_streams_file_def)
qed

section \<open>Witnesses\<close>

definition sample_cli_env :: "nat cli_env" where
  "sample_cli_env = \<lparr>ce_mem = True, ce_regcomp = True, ce_getaddrinfo = (\<lambda>ip port. [1])\<rparr>"

definition sample_config :: "nat config_rcv_t" where
  "sample_config = empty_config\<lparr>cf_receive_num := 1, cf_handle_num := 2\<rparr>"

lemma sample_command_line:
  "parse_receiver sample_cli_env [''receiver'', ''-N'', ''2'', ''::1'', ''-o'', ''out/%04d'', ''5555''] empty_config =
     Some (Inr \<lparr>cf_sequential = False, cf_stream_count = 0, cf_handle_num = 2, cf_handle_affinities = None,
       cf_handle_streams = None, cf_receive_num = 2, cf_receive_affinities = None, cf_receive_streams = None,
       cf_max_window = 31, cf_receive_window_size = 31, cf_format_len = 8, cf_format = ''out/%04d'',
       cf_deallocate_format = False, cf_max_connections = 100, cf_addr_info = Some 1, cf_port = 5555\<rparr>)"
  by code_simp


theorem affinity_file_roundtrip_witness:
  "parse_affinity_file True True (Some (cpu_line [3] @ [CHR 0x0A] @ cpu_line [0, 1] @ [CHR 0x0A])) sample_config =
    (True, sample_config\<lparr>cf_handle_affinities := Some [0, 1], cf_receive_affinities := Some [3]\<rparr>)"
  using affinity_file_roundtrip [of "[3]" sample_config "[0, 1]"] by (simp add: sample_config_def INT_MAX_def)

definition sample_config_env :: config_env where
  "sample_config_env = \<lparr>k_affinity_mem = (True, True), k_affinity_file = None, k_streams_mem = (True, True),
     k_streams_file = Some (''0:1,0'' @ [CHR 0x0A]), k_fallback_mem = (True, True)\<rparr>"

lemma sample_configure:
  "configure sample_config_env sample_config =
     Some (Some (sample_config\<lparr>cf_receive_streams := Some [0], cf_handle_streams := Some [0, 0], cf_stream_count := 1\<rparr>))"
  by code_simp

theorem configure_in_range_witness:
  "\<exists>c. configure sample_config_env sample_config = Some (Some c) \<and> 0 < cf_stream_count c \<and>
    thread_resources (cf_handle_streams c) (cf_handle_affinities c) [7 :: nat] [''to''] [''from''] 1 \<noteq> None"
  using configure_in_range [OF sample_configure, of "[7 :: nat]" "[''to'']" "[''from'']"] sample_configure
  by (auto simp: sample_config_def empty_config_def)

theorem parse_streams_overflow_witness:
  "parse_streams_file True True (Some (''0,0:0'' @ [CHR 0x0A])) sample_config = None"
  using parse_streams_overflow [of sample_config] by (simp add: sample_config_def)

end
