(* ===== verification/Main_Setup.thy ===== *)
theory Main_Setup
  imports Shutdown Cli
begin

text \<open>
  The set-up of the program in \<^verbatim>\<open>main\<close> of \<^verbatim>\<open>src/main.c\<close>, from the first socket to the last thread: what is
  acquired, in which order, and which way is taken when a call fails. The answers of the system
  are parameters. The variables of \<^verbatim>\<open>main\<close> are a record of pointers; the memory, the sockets and the
  threads that exist are a part of the state of their own, so that freeing twice, freeing what a
  running thread uses and losing the last pointer to a block can be seen.
\<close>

section \<open>Blocks and threads\<close>

datatype block =
    Addr_Info | Format | Receive_Affinities | Handle_Affinities | Handle_Streams | Receive_Streams
  | Socket int
  | Rx_To_Hd | Rx_To_Hd_At nat | Hd_To_Rx | Hd_To_Rx_At nat
  | Clients | Table
  | Rx_Configs | Rx_Config nat | Rx_Thread nat
  | Hd_Configs | Hd_Config nat | Hd_Thread nat

datatype thread = Rx nat | Hd nat

text \<open>What the body of a thread reaches through its configuration.\<close>

fun shared_block :: "block \<Rightarrow> bool" where
  "shared_block (Socket fd) = True"
| "shared_block (Rx_To_Hd_At j) = True"
| "shared_block (Hd_To_Rx_At j) = True"
| "shared_block Clients = True"
| "shared_block Table = True"
| "shared_block _ = False"

fun uses :: "thread \<Rightarrow> block \<Rightarrow> bool" where
  "uses (Rx i) b \<longleftrightarrow> shared_block b \<or> b \<in> {Rx_Config i, Receive_Affinities, Addr_Info, Format}"
| "uses (Hd i) b \<longleftrightarrow> shared_block b \<or> b \<in> {Hd_Config i, Handle_Affinities}"

record world =
  w_live :: "block set"
  w_running :: "thread set"

text \<open>Freeing fails for a block that is not there or that a running thread uses, joining for a thread that is not there.\<close>

definition free_block :: "block \<Rightarrow> world \<Rightarrow> world option" where
  "free_block b w = (if b \<in> w_live w \<and> (\<forall>t \<in> w_running w. \<not> uses t b)
     then Some (w\<lparr>w_live := w_live w - {b}\<rparr>) else None)"

definition join_thread :: "thread \<Rightarrow> world \<Rightarrow> world option" where
  "join_thread t w = (if t \<in> w_running w then Some (w\<lparr>w_running := w_running w - {t}\<rparr>) else None)"

section \<open>The variables of main\<close>

text \<open>
  A stream pointer: null, a stream whose initialisation failed, or a stream. The \<^verbatim>\<open>thread\<close> of a
  configuration: null, memory for a handle without a thread, or the handle of a thread.
\<close>

datatype slot = No_Stream | Broken_Stream | Live_Stream "hd_req_t option stream_t"

datatype handle = No_Thread | Unstarted | Started

text \<open>
  \<^verbatim>\<open>clients\<close> is null, a table whose initialisation failed, or a table. The configurations of the threads
  are arrays of pointers; of a configuration only \<^verbatim>\<open>thread\<close> is needed here.
\<close>

record main_vars =
  v_sockfds :: "int list"
  v_rx_to_hd :: "slot list option"
  v_hd_to_rx :: "slot list option"
  v_clients :: "nat ht_t option option"
  v_rx_configs :: "handle option list option"
  v_hd_configs :: "handle option list option"
  v_world :: world

definition taking :: "block \<Rightarrow> main_vars \<Rightarrow> main_vars" where
  "taking b v = v\<lparr>v_world := (v_world v)\<lparr>w_live := insert b (w_live (v_world v))\<rparr>\<rparr>"

definition starting :: "thread \<Rightarrow> main_vars \<Rightarrow> main_vars" where
  "starting t v = v\<lparr>v_world := (v_world v)\<lparr>w_running := insert t (w_running (v_world v))\<rparr>\<rparr>"

text \<open>The blocks of the configuration, when the set-up starts.\<close>

definition config_blocks :: "'ai config_rcv_t \<Rightarrow> block set" where
  "config_blocks c = (if cf_addr_info c = None then {} else {Addr_Info}) \<union> (if cf_deallocate_format c then {Format} else {}) \<union>
     (if cf_receive_affinities c = None then {} else {Receive_Affinities}) \<union> (if cf_handle_affinities c = None then {} else {Handle_Affinities}) \<union>
     (if cf_handle_streams c = None then {} else {Handle_Streams}) \<union> (if cf_receive_streams c = None then {} else {Receive_Streams})"

definition first_vars :: "'ai config_rcv_t \<Rightarrow> int list \<Rightarrow> main_vars" where
  "first_vars c junk = \<lparr>v_sockfds = junk, v_rx_to_hd = None, v_hd_to_rx = None, v_clients = None, v_rx_configs = None,
     v_hd_configs = None, v_world = \<lparr>w_live = config_blocks c, w_running = {}\<rparr>\<rparr>"

section \<open>Set-up\<close>

text \<open>
  The system: sockets and their options, memory, the initialisation of the mutex and the condition
  of a stream and of the table, threads, and the mutex and the condition for the signal.
\<close>

record setup_env =
  e_socket :: "nat \<Rightarrow> int"
  e_setsockopt :: "nat \<Rightarrow> nat \<Rightarrow> bool"
  e_bind :: "nat \<Rightarrow> bool"
  e_memory :: "block \<Rightarrow> bool"
  e_stream_init :: "block \<Rightarrow> bool \<times> bool"
  e_table_init :: "bool \<times> bool \<times> bool"
  e_create :: "thread \<Rightarrow> bool"
  e_stop_mutex :: bool
  e_stop_cond :: bool

text \<open>
  How a part of the set-up ends: it goes on, \<^verbatim>\<open>main\<close> returns at once, it calls \<^verbatim>\<open>deallocate_everything\<close> and
  returns, it calls \<^verbatim>\<open>deallocate_everything\<close> and goes on, or it leaves an array.
\<close>

datatype status = Go | Quit | Undo | Undo_And_Go | Fault

definition sequel :: "status \<times> 'v \<Rightarrow> ('v \<Rightarrow> status \<times> 'v) \<Rightarrow> status \<times> 'v" where
  "sequel r f = (if fst r = Go then f (snd r) else r)"

fun for_each :: "(nat \<Rightarrow> 'v \<Rightarrow> status \<times> 'v) \<Rightarrow> nat list \<Rightarrow> 'v \<Rightarrow> status \<times> 'v" where
  "for_each f [] v = (Go, v)"
| "for_each f (i # is) v = sequel (f i v) (for_each f is)"

text \<open>The five options of a socket are set one after the other; each failure closes this socket and returns.\<close>

definition open_socket :: "setup_env \<Rightarrow> nat \<Rightarrow> main_vars \<Rightarrow> status \<times> main_vars" where
  "open_socket env i v =
     (let fd = e_socket env i; v' = v\<lparr>v_sockfds := (v_sockfds v)[i := fd]\<rparr>
      in if fd = -1 then (Quit, v')
         else if list_all (e_setsockopt env i) [0..<5] \<and> e_bind env i then (Go, taking (Socket fd) v')
         else (Quit, v'))"

definition new_stream :: "setup_env \<Rightarrow> block \<Rightarrow> slot" where
  "new_stream env b = (if \<not> e_memory env b then No_Stream
     else if fst (e_stream_init env b) \<and> snd (e_stream_init env b) then Live_Stream initialize_stream else Broken_Stream)"

text \<open>
  The loops for the two arrays of streams differ in the variable, and so do those for the receivers and
  the handlers: they are given the update of the variable and its blocks.
\<close>

definition stream_at :: "((slot list option \<Rightarrow> slot list option) \<Rightarrow> main_vars \<Rightarrow> main_vars) \<Rightarrow> (nat \<Rightarrow> block) \<Rightarrow>
    setup_env \<Rightarrow> nat \<Rightarrow> main_vars \<Rightarrow> status \<times> main_vars" where
  "stream_at upd blk env i v =
     (let new = new_stream env (blk i); v' = upd (map_option (\<lambda>xs. xs[i := new])) v
      in if new = No_Stream then (Undo, v')
         else (if new = Broken_Stream then Undo else Go, taking (blk i) v'))"

definition alloc_streams :: "((slot list option \<Rightarrow> slot list option) \<Rightarrow> main_vars \<Rightarrow> main_vars) \<Rightarrow> block \<Rightarrow> (nat \<Rightarrow> block) \<Rightarrow>
    setup_env \<Rightarrow> nat \<Rightarrow> main_vars \<Rightarrow> status \<times> main_vars" where
  "alloc_streams upd arr blk env n v = (if \<not> e_memory env arr then (Undo, v)
     else for_each (stream_at upd blk env) [0..<n] (taking arr (upd (\<lambda>_. Some (replicate n No_Stream)) v)))"

definition alloc_clients :: "setup_env \<Rightarrow> main_vars \<Rightarrow> status \<times> main_vars" where
  "alloc_clients env v = (if \<not> e_memory env Clients then (Undo, v)
     else (case e_table_init env of (items, lock, mutex) \<Rightarrow> (case allocate_ht items lock mutex of
         Inl _ \<Rightarrow> (Undo, taking Clients (v\<lparr>v_clients := Some None\<rparr>))
       | Inr t \<Rightarrow> (Go, taking Table (taking Clients (v\<lparr>v_clients := Some (Some t)\<rparr>))))))"

text \<open>The configurations of the threads, zeroed.\<close>

definition config_at :: "((handle option list option \<Rightarrow> handle option list option) \<Rightarrow> main_vars \<Rightarrow> main_vars) \<Rightarrow> (nat \<Rightarrow> block) \<Rightarrow>
    setup_env \<Rightarrow> nat \<Rightarrow> main_vars \<Rightarrow> status \<times> main_vars" where
  "config_at upd blk env i v = (if \<not> e_memory env (blk i) then (Undo, v)
     else (Go, taking (blk i) (upd (map_option (\<lambda>xs. xs[i := Some No_Thread])) v)))"

definition alloc_configs :: "((handle option list option \<Rightarrow> handle option list option) \<Rightarrow> main_vars \<Rightarrow> main_vars) \<Rightarrow> block \<Rightarrow> (nat \<Rightarrow> block) \<Rightarrow>
    setup_env \<Rightarrow> nat \<Rightarrow> main_vars \<Rightarrow> status \<times> main_vars" where
  "alloc_configs upd arr blk env n v = (if \<not> e_memory env arr then (Undo, v)
     else for_each (config_at upd blk env) [0..<n] (taking arr (upd (\<lambda>_. Some (replicate n None)) v)))"

text \<open>The configurations are filled in: every socket, stream and affinity is read from its array.\<close>

definition fill_configs :: "'ai config_rcv_t \<Rightarrow> main_vars \<Rightarrow> status \<times> main_vars" where
  "fill_configs c v = (case (v_rx_to_hd v, v_hd_to_rx v) of
     (Some forth, Some back) \<Rightarrow>
       (if list_all (\<lambda>i. thread_resources (cf_receive_streams c) (cf_receive_affinities c) (v_sockfds v) forth back i \<noteq> None) [0..<cf_receive_num c] \<and>
           list_all (\<lambda>i. thread_resources (cf_handle_streams c) (cf_handle_affinities c) (v_sockfds v) forth back i \<noteq> None) [0..<cf_handle_num c]
        then (Go, v) else (Fault, v))
   | _ \<Rightarrow> (Fault, v))"

text \<open>The memory for the handle is kept when the thread cannot be created.\<close>

definition start_thread :: "((handle option list option \<Rightarrow> handle option list option) \<Rightarrow> main_vars \<Rightarrow> main_vars) \<Rightarrow> (nat \<Rightarrow> block) \<Rightarrow>
    (nat \<Rightarrow> thread) \<Rightarrow> setup_env \<Rightarrow> nat \<Rightarrow> main_vars \<Rightarrow> status \<times> main_vars" where
  "start_thread upd blk thr env i v = (if \<not> e_memory env (blk i) then (Undo, v)
     else let set_handle = (\<lambda>h. taking (blk i) (upd (map_option (\<lambda>xs. xs[i := Some h])) v))
       in if e_create env (thr i) then (Go, starting (thr i) (set_handle Started)) else (Undo, set_handle Unstarted))"

definition start_threads :: "setup_env \<Rightarrow> 'ai config_rcv_t \<Rightarrow> main_vars \<Rightarrow> status \<times> main_vars" where
  "start_threads env c v = (if cf_sequential c then (Go, v)
     else sequel (for_each (start_thread v_rx_configs_update Rx_Thread Rx env) [0..<cf_receive_num c] v)
       (for_each (start_thread v_hd_configs_update Hd_Thread Hd env) [0..<cf_handle_num c]))"

definition init_stop :: "setup_env \<Rightarrow> main_vars \<Rightarrow> status \<times> main_vars" where
  "init_stop env v = (if e_stop_mutex env \<and> e_stop_cond env then Go else Undo_And_Go, v)"

definition setup_tables :: "setup_env \<Rightarrow> 'ai config_rcv_t \<Rightarrow> int list \<Rightarrow> status \<times> main_vars" where
  "setup_tables env c junk =
     (let n = cf_stream_count c;
          r = for_each (open_socket env) [0..<n] (first_vars c junk);
          r = sequel r (alloc_streams v_rx_to_hd_update Rx_To_Hd Rx_To_Hd_At env n);
          r = sequel r (alloc_streams v_hd_to_rx_update Hd_To_Rx Hd_To_Rx_At env n)
      in sequel r (alloc_clients env))"

definition main_setup :: "setup_env \<Rightarrow> 'ai config_rcv_t \<Rightarrow> int list \<Rightarrow> status \<times> main_vars" where
  "main_setup env c junk =
     (let r = setup_tables env c junk;
          r = sequel r (alloc_configs v_rx_configs_update Rx_Configs Rx_Config env (cf_receive_num c));
          r = sequel r (alloc_configs v_hd_configs_update Hd_Configs Hd_Config env (cf_handle_num c));
          r = sequel r (fill_configs c);
          r = sequel r (start_threads env c)
      in sequel r (init_stop env))"

section \<open>Every resource has an owner\<close>

text \<open>
  The blocks and threads that exist are exactly those that the variables lead to, so that nothing is
  lost and nothing that is gone is still referred to.
\<close>

text \<open>The blocks behind an array of streams and behind an array of configurations, and the threads that run.\<close>

definition slot_blocks :: "block \<Rightarrow> (nat \<Rightarrow> block) \<Rightarrow> slot list option \<Rightarrow> block set" where
  "slot_blocks arr blk slots = (case slots of None \<Rightarrow> {}
     | Some xs \<Rightarrow> insert arr (blk ` {i. i < length xs \<and> xs ! i \<noteq> No_Stream}))"

definition config_array_blocks :: "block \<Rightarrow> (nat \<Rightarrow> block) \<Rightarrow> (nat \<Rightarrow> block) \<Rightarrow> handle option list option \<Rightarrow> block set" where
  "config_array_blocks arr blk hblk cfgs = (case cfgs of None \<Rightarrow> {}
     | Some xs \<Rightarrow> insert arr (blk ` {i. i < length xs \<and> xs ! i \<noteq> None} \<union>
         hblk ` {i. i < length xs \<and> xs ! i \<in> {Some Unstarted, Some Started}}))"

definition threads_of :: "(nat \<Rightarrow> thread) \<Rightarrow> handle option list option \<Rightarrow> thread set" where
  "threads_of thr cfgs = (case cfgs of None \<Rightarrow> {} | Some xs \<Rightarrow> thr ` {i. i < length xs \<and> xs ! i = Some Started})"

definition table_blocks :: "nat ht_t option option \<Rightarrow> block set" where
  "table_blocks t = (case t of None \<Rightarrow> {} | Some None \<Rightarrow> {Clients} | Some (Some _) \<Rightarrow> {Clients, Table})"

definition owned :: "block set \<Rightarrow> main_vars \<Rightarrow> block set" where
  "owned cb v = cb \<union> Socket ` set (v_sockfds v) \<union> slot_blocks Rx_To_Hd Rx_To_Hd_At (v_rx_to_hd v) \<union>
     slot_blocks Hd_To_Rx Hd_To_Rx_At (v_hd_to_rx v) \<union> table_blocks (v_clients v) \<union>
     config_array_blocks Rx_Configs Rx_Config Rx_Thread (v_rx_configs v) \<union>
     config_array_blocks Hd_Configs Hd_Config Hd_Thread (v_hd_configs v)"

definition owned_threads :: "main_vars \<Rightarrow> thread set" where
  "owned_threads v = threads_of Rx (v_rx_configs v) \<union> threads_of Hd (v_hd_configs v)"

definition resources_ok :: "block set \<Rightarrow> main_vars \<Rightarrow> bool" where
  "resources_ok cb v \<longleftrightarrow> w_live (v_world v) = owned cb v \<and> w_running (v_world v) = owned_threads v"

lemma owned_simps [simp]:
  "slot_blocks arr blk None = {}" "config_array_blocks arr blk hblk None = {}" "threads_of thr None = {}"
  "table_blocks None = {}" "table_blocks (Some None) = {Clients}" "table_blocks (Some (Some t)) = {Clients, Table}"
  by (simp_all add: slot_blocks_def config_array_blocks_def threads_of_def table_blocks_def)

lemma no_threads: "set xs \<subseteq> {None, Some No_Thread} \<Longrightarrow> threads_of thr (Some xs) = {}"
  by (force simp: threads_of_def dest: nth_mem)

section \<open>Variables as fields\<close>

lemma sequel_simps [simp]: "sequel (Go, v) f = f v" "st \<noteq> Go \<Longrightarrow> sequel (st, v) f = (st, v)"
  by (simp_all add: sequel_def)

lemma for_each_snoc: "for_each f (is @ [i]) v = sequel (for_each f is v) (f i)"
  by (induction "is" arbitrary: v) (auto simp: sequel_def prod_eq_iff)

lemma for_each_cases:
  assumes "\<And>i. i < n \<Longrightarrow> good i \<Longrightarrow> f i (S i) = (Go, S (Suc i))" "\<And>i. i < n \<Longrightarrow> \<not> good i \<Longrightarrow> fst (f i (S i)) \<noteq> Go"
  shows "(\<forall>i < n. good i) \<and> for_each f [0..<n] (S 0) = (Go, S n) \<or>
    (\<exists>k < n. (\<forall>i < k. good i) \<and> \<not> good k \<and> for_each f [0..<n] (S 0) = f k (S k))"
  using assms
proof (induction n)
  case (Suc n)
  have IH: "(\<forall>i < n. good i) \<and> for_each f [0..<n] (S 0) = (Go, S n) \<or>
    (\<exists>k < n. (\<forall>i < k. good i) \<and> \<not> good k \<and> for_each f [0..<n] (S 0) = f k (S k))"
    using Suc.prems by (intro Suc.IH) auto
  then consider "\<forall>i < n. good i" "for_each f [0..<n] (S 0) = (Go, S n)"
    | k where "k < n" "\<forall>i < k. good i" "\<not> good k" "for_each f [0..<n] (S 0) = f k (S k)" by blast
  then show ?case
  proof cases
    case 1
    then have "for_each f [0..<Suc n] (S 0) = f n (S n)" by (simp add: for_each_snoc)
    then show ?thesis using 1(1) Suc.prems(1) [of n] less_Suc_eq by (cases "good n") auto
  next
    case (2 k)
    then have "for_each f [0..<Suc n] (S 0) = f k (S k)"
      using Suc.prems(2) [of k] by (simp add: for_each_snoc sequel_def)
    then show ?thesis using 2 by (auto intro!: exI [of _ k])
  qed
qed simp

lemma for_each_result:
  assumes "v = S 0" "\<And>i. i < n \<Longrightarrow> good i \<Longrightarrow> f i (S i) = (Go, S (Suc i))" "\<And>i. i < n \<Longrightarrow> \<not> good i \<Longrightarrow> fst (f i (S i)) \<noteq> Go"
  obtains (all) "\<forall>i < n. good i" "for_each f [0..<n] v = (Go, S n)"
    | (first) k where "k < n" "\<forall>i < k. good i" "\<not> good k" "for_each f [0..<n] v = f k (S k)"
  using for_each_cases [where f = f and S = S and good = good, OF assms(2,3)] unfolding assms(1) by blast

lemma replicate_next:
  assumes "k < n"
  shows "(replicate k x @ replicate (n - k) y)[k := z] = replicate k x @ z # replicate (n - Suc k) y"
  using assms by (simp add: list_update_append Cons_replicate_eq Suc_diff_Suc [symmetric])

text \<open>
  What the loops rely on in a variable of \<^verbatim>\<open>main\<close>: reading it after an update, updates that compose, and
  that the blocks and threads are kept elsewhere.
\<close>

locale main_field =
  fixes get :: "main_vars \<Rightarrow> 'a" and upd :: "('a \<Rightarrow> 'a) \<Rightarrow> main_vars \<Rightarrow> main_vars"
  assumes get_upd: "get (upd f v) = f (get v)"
    and upd_upd: "upd f (upd g v) = upd (\<lambda>x. f (g x)) v"
    and upd_get: "upd (\<lambda>_. get v) v = v"
    and upd_world: "upd f (v\<lparr>v_world := w\<rparr>) = (upd f v)\<lparr>v_world := w\<rparr>"
    and world_upd: "v_world (upd f v) = v_world v"
    and get_world: "get (v\<lparr>v_world := w\<rparr>) = get v"

text \<open>The variable has the value \<open>x\<close> and the blocks and threads of \<open>w\<close>; the rest is as in \<open>v\<close>.\<close>

context main_field
begin

definition having :: "'a \<Rightarrow> world \<Rightarrow> main_vars \<Rightarrow> main_vars" where
  "having x w v = (upd (\<lambda>_. x) v)\<lparr>v_world := w\<rparr>"

lemma having_simps [simp]:
  "get (having x w v) = x" "v_world (having x w v) = w" "upd f (having x w v) = having (f x) w v"
  "taking b (having x w v) = having x (w\<lparr>w_live := insert b (w_live w)\<rparr>) v"
  "starting t (having x w v) = having x (w\<lparr>w_running := insert t (w_running w)\<rparr>) v"
  by (simp_all add: having_def taking_def starting_def get_upd upd_upd upd_world get_world)

lemma having_self: "having (get v) (v_world v) v = v"
  by (simp add: having_def upd_get)

lemma upd_having: "upd (\<lambda>_. x) v = having x (v_world v) v"
  using having_simps(3) [of "\<lambda>_. x" "get v" "v_world v" v] by (simp add: having_self)

end

text \<open>
  A pointer that owns blocks and threads: what the variables own is what this one owns, and what they
  own when it is null. The blocks of the configuration are \<open>cb\<close>.
\<close>

lemma owned_world [simp]: "owned cb (v\<lparr>v_world := w\<rparr>) = owned cb v" "owned_threads (v\<lparr>v_world := w\<rparr>) = owned_threads v"
  by (simp_all add: owned_def owned_threads_def)

locale owned_field = main_field get upd
  for get :: "main_vars \<Rightarrow> 'a option" and upd :: "('a option \<Rightarrow> 'a option) \<Rightarrow> main_vars \<Rightarrow> main_vars" +
  fixes mine :: "'a option \<Rightarrow> block set" and mine_threads :: "'a option \<Rightarrow> thread set"
  assumes owned_eq: "owned cb v = owned cb (upd (\<lambda>_. None) v) \<union> mine (get v)"
    and owned_threads_eq: "owned_threads v = owned_threads (upd (\<lambda>_. None) v) \<union> mine_threads (get v)"
begin

lemma resources_having:
  assumes "resources_ok cb v" "mine (get v) \<subseteq> mine x" "mine_threads (get v) \<subseteq> mine_threads x"
    and "w_live w = w_live (v_world v) \<union> mine x" "w_running w = w_running (v_world v) \<union> mine_threads x"
  shows "resources_ok cb (having x w v)"
proof -
  have "owned cb (having x w v) = owned cb (upd (\<lambda>_. None) v) \<union> mine x"
    "owned_threads (having x w v) = owned_threads (upd (\<lambda>_. None) v) \<union> mine_threads x"
    using owned_eq [of cb "having x w v"] owned_threads_eq [of "having x w v"] by (simp_all add: having_def upd_upd upd_world get_upd get_world)
  then show ?thesis
    using assms owned_eq [of cb v] owned_threads_eq [of v] by (auto simp: resources_ok_def)
qed

lemma mine_live: "resources_ok cb v \<Longrightarrow> mine (get v) \<subseteq> w_live (v_world v)"
  using owned_eq [of cb v] by (simp add: resources_ok_def)

end

section \<open>The loops\<close>

text \<open>The first thread that cannot be created, although there is memory for its handle.\<close>

definition creation_fails :: "setup_env \<Rightarrow> (nat \<Rightarrow> block) \<Rightarrow> (nat \<Rightarrow> thread) \<Rightarrow> nat \<Rightarrow> bool" where
  "creation_fails env hblk thr n \<longleftrightarrow> (\<exists>k < n. (\<forall>i < k. e_memory env (hblk i) \<and> e_create env (thr i)) \<and> e_memory env (hblk k) \<and> \<not> e_create env (thr k))"

definition all_started :: "setup_env \<Rightarrow> (nat \<Rightarrow> block) \<Rightarrow> (nat \<Rightarrow> thread) \<Rightarrow> nat \<Rightarrow> bool" where
  "all_started env hblk thr n \<longleftrightarrow> (\<forall>i < n. e_memory env (hblk i) \<and> e_create env (thr i))"

lemma filled_upto:
  assumes "k < n" "x \<in> A" "y \<notin> A"
  shows "{i. i < length (replicate k x @ z # replicate (n - Suc k) y) \<and> (replicate k x @ z # replicate (n - Suc k) y) ! i \<in> A} =
    (if z \<in> A then {..<Suc k} else {..<k})"
proof -
  have "(replicate k x @ z # replicate (n - Suc k) y) ! i = (if i < k then x else if i = k then z else y)" if "i < n" for i
    using that assms(1) by (auto simp: nth_append nth_Cons')
  then show ?thesis using assms by (auto split: if_splits)
qed

lemma slot_blocks_filled:
  assumes "k < n"
  shows "slot_blocks arr blk (Some (replicate k (Live_Stream q) @ z # replicate (n - Suc k) No_Stream)) =
    insert arr (blk ` (if z = No_Stream then {..<k} else {..<Suc k}))"
  using filled_upto [OF assms, of "Live_Stream q" "- {No_Stream}" No_Stream z] by (simp add: slot_blocks_def)

lemma slot_blocks_full: "slot_blocks arr blk (Some (replicate n (Live_Stream q))) = insert arr (blk ` {..<n})"
  by (auto simp: slot_blocks_def)

locale stream_field = owned_field get upd "slot_blocks arr blk" "\<lambda>_. {}"
  for get :: "main_vars \<Rightarrow> slot list option" and upd and arr :: block and blk :: "nat \<Rightarrow> block"
begin

definition granted :: "setup_env \<Rightarrow> nat \<Rightarrow> bool" where
  "granted env n \<longleftrightarrow> e_memory env arr \<and> (\<forall>i < n. new_stream env (blk i) = Live_Stream initialize_stream)"

lemma alloc_world:
  assumes "get v = None"
  obtains X st where "alloc_streams upd arr blk env n v =
      (st, having X ((v_world v)\<lparr>w_live := w_live (v_world v) \<union> slot_blocks arr blk X\<rparr>) v)"
    "if granted env n then st = Go \<and> X = Some (replicate n (Live_Stream initialize_stream)) else st = Undo"
proof (cases "e_memory env arr")
  case False
  show thesis
    by (rule that [of Undo None]) (use False assms having_self [of v] in \<open>simp_all add: alloc_streams_def granted_def slot_blocks_def\<close>)
next
  case True
  let ?L = "Live_Stream initialize_stream" and ?w = "v_world v"
  define W where "W B = ?w\<lparr>w_live := w_live ?w \<union> insert arr (blk ` B)\<rparr>" for B
  define S where "S k = having (Some (replicate k ?L @ replicate (n - k) No_Stream)) (W {..<k}) v" for k
  have W_Suc: "(W {..<k})\<lparr>w_live := insert (blk k) (w_live (W {..<k}))\<rparr> = W {..<Suc k}" for k
    by (simp add: W_def lessThan_Suc insert_commute)
  have start: "taking arr (upd (\<lambda>_. Some (replicate n No_Stream)) v) = S 0"
    by (simp add: upd_having S_def W_def)
  have good: "stream_at upd blk env k (S k) = (Go, S (Suc k))" if "k < n" "new_stream env (blk k) = ?L" for k
    using that W_Suc [of k] by (simp add: stream_at_def S_def replicate_next replicate_append_same [symmetric] Let_def)
  have bad: "stream_at upd blk env k (S k) = (Undo, having (Some xs) (?w\<lparr>w_live := w_live ?w \<union> slot_blocks arr blk (Some xs)\<rparr>) v)"
    if "k < n" "new_stream env (blk k) \<noteq> ?L" "xs = replicate k ?L @ new_stream env (blk k) # replicate (n - Suc k) No_Stream" for k xs
    using that W_Suc [of k]
    by (cases "new_stream env (blk k)")
      (simp_all add: stream_at_def S_def replicate_next slot_blocks_filled W_def new_stream_def split: if_splits)
  have alloc: "alloc_streams upd arr blk env n v = for_each (stream_at upd blk env) [0..<n] (S 0)"
    using True by (simp add: alloc_streams_def start)
  show thesis
  proof (rule for_each_result [where f = "stream_at upd blk env" and S = S and good = "\<lambda>i. new_stream env (blk i) = ?L" and n = n, OF refl good])
    show "fst (stream_at upd blk env k (S k)) \<noteq> Go" if "k < n" "new_stream env (blk k) \<noteq> ?L" for k using bad [OF that refl] by simp
  next
    assume "\<forall>i < n. new_stream env (blk i) = ?L" "for_each (stream_at upd blk env) [0..<n] (S 0) = (Go, S n)"
    then show thesis using True alloc by (intro that [of Go "Some (replicate n ?L)"]) (simp_all add: S_def W_def slot_blocks_full granted_def)
  next
    fix k
    assume "k < n" "new_stream env (blk k) \<noteq> ?L" "for_each (stream_at upd blk env) [0..<n] (S 0) = stream_at upd blk env k (S k)"
    then show thesis using bad [OF _ _ refl] alloc by (intro that [of Undo]) (auto simp: granted_def)
  qed
qed

lemma alloc_result:
  assumes "resources_ok cb v" "get v = None"
  obtains X W st where "alloc_streams upd arr blk env n v = (st, having X W v)" "resources_ok cb (having X W v)"
    "if granted env n then st = Go \<and> X = Some (replicate n (Live_Stream initialize_stream)) else st = Undo"
proof (rule alloc_world [OF assms(2), of env n])
  fix X st
  let ?W = "(v_world v)\<lparr>w_live := w_live (v_world v) \<union> slot_blocks arr blk X\<rparr>"
  assume r: "alloc_streams upd arr blk env n v = (st, having X ?W v)"
    "if granted env n then st = Go \<and> X = Some (replicate n (Live_Stream initialize_stream)) else st = Undo"
  show thesis by (rule that [OF r(1) resources_having [OF assms(1)] r(2)]) (use assms(2) in simp_all)
qed

end

lemma config_blocks_filled:
  assumes "k \<le> n"
  shows "config_array_blocks arr blk hblk (Some (replicate k (Some No_Thread) @ replicate (n - k) None)) = insert arr (blk ` {..<k})"
proof -
  have "(replicate k (Some No_Thread) @ replicate (n - k) None) ! i = (if i < k then Some No_Thread else None)" if "i < n" for i
    using that assms by (auto simp: nth_append)
  then show ?thesis using assms by (auto simp: config_array_blocks_def split: if_splits)
qed

lemma replicate_first: "k < n \<Longrightarrow> replicate (n - k) x = x # replicate (n - Suc k) x"
  by (metis Suc_diff_Suc replicate_Suc)

lemma started_filled:
  assumes "k < n" "z \<in> {Some No_Thread, Some Unstarted}" "xs = replicate k (Some Started) @ z # replicate (n - Suc k) (Some No_Thread)"
  shows "config_array_blocks arr blk hblk (Some xs) =
      insert arr (blk ` {..<n} \<union> hblk ` (if z = Some Unstarted then {..<Suc k} else {..<k}))"
    and "threads_of thr (Some xs) = thr ` {..<k}" and "length xs = n" and "Some Unstarted \<in> set xs \<longleftrightarrow> z = Some Unstarted"
proof -
  have n: "Suc (k + (n - Suc k)) = n" using assms(1) by simp
  show "length xs = n" "Some Unstarted \<in> set xs \<longleftrightarrow> z = Some Unstarted" using assms by auto
  have "{i. i < length xs \<and> xs ! i \<in> {Some Unstarted, Some Started}} = (if z = Some Unstarted then {..<Suc k} else {..<k})"
    "{i. i < length xs \<and> xs ! i \<in> {Some Started}} = {..<k}" "{i. i < length xs \<and> xs ! i \<in> - {None}} = {..<n}"
    using filled_upto [OF assms(1), of "Some Started" "{Some Unstarted, Some Started}" "Some No_Thread" z]
      filled_upto [OF assms(1), of "Some Started" "{Some Started}" "Some No_Thread" z] assms(2)
    unfolding assms(3) by (auto simp: n nth_append nth_Cons')
  then show "config_array_blocks arr blk hblk (Some xs) =
      insert arr (blk ` {..<n} \<union> hblk ` (if z = Some Unstarted then {..<Suc k} else {..<k}))"
    "threads_of thr (Some xs) = thr ` {..<k}" by (simp_all add: config_array_blocks_def threads_of_def)
qed

lemma started_full:
  "config_array_blocks arr blk hblk (Some (replicate n (Some Started))) = insert arr (blk ` {..<n} \<union> hblk ` {..<n})"
  "threads_of thr (Some (replicate n (Some Started))) = thr ` {..<n}"
  by (auto simp: config_array_blocks_def threads_of_def)

locale config_field = owned_field get upd "config_array_blocks arr blk hblk" "threads_of thr"
  for get :: "main_vars \<Rightarrow> handle option list option" and upd and arr :: block and blk :: "nat \<Rightarrow> block" and hblk :: "nat \<Rightarrow> block"
    and thr :: "nat \<Rightarrow> thread"
begin

definition granted :: "setup_env \<Rightarrow> nat \<Rightarrow> bool" where
  "granted env n \<longleftrightarrow> e_memory env arr \<and> (\<forall>i < n. e_memory env (blk i))"

lemma alloc_world:
  assumes "get v = None"
  obtains X st where "alloc_configs upd arr blk env n v =
      (st, having X ((v_world v)\<lparr>w_live := w_live (v_world v) \<union> config_array_blocks arr blk hblk X\<rparr>) v)"
    "if granted env n then st = Go \<and> X = Some (replicate n (Some No_Thread)) else st = Undo"
    "X = None \<longleftrightarrow> \<not> e_memory env arr" "\<forall>xs. X = Some xs \<longrightarrow> length xs = n \<and> set xs \<subseteq> {None, Some No_Thread}"
proof (cases "e_memory env arr")
  case False
  show thesis
    by (rule that [of Undo None])
      (use False assms having_self [of v] in \<open>simp_all add: alloc_configs_def granted_def config_array_blocks_def\<close>)
next
  case True
  let ?w = "v_world v"
  define W where "W B = ?w\<lparr>w_live := w_live ?w \<union> insert arr (blk ` B)\<rparr>" for B
  define S where "S k = having (Some (replicate k (Some No_Thread) @ replicate (n - k) None)) (W {..<k}) v" for k
  have W_Suc: "(W {..<k})\<lparr>w_live := insert (blk k) (w_live (W {..<k}))\<rparr> = W {..<Suc k}" for k
    by (simp add: W_def lessThan_Suc insert_commute)
  have start: "taking arr (upd (\<lambda>_. Some (replicate n None)) v) = S 0"
    by (simp add: upd_having S_def W_def)
  have good: "config_at upd blk env k (S k) = (Go, S (Suc k))" if "k < n" "e_memory env (blk k)" for k
    using that W_Suc [of k] by (simp add: config_at_def S_def replicate_next replicate_append_same [symmetric])
  have bad: "config_at upd blk env k (S k) = (Undo, S k)" if "\<not> e_memory env (blk k)" for k
    using that by (simp add: config_at_def)
  have alloc: "alloc_configs upd arr blk env n v = for_each (config_at upd blk env) [0..<n] (S 0)"
    using True by (simp add: alloc_configs_def start)
  show thesis
  proof (rule for_each_result [where f = "config_at upd blk env" and S = S and good = "\<lambda>i. e_memory env (blk i)" and n = n, OF refl good])
    show "fst (config_at upd blk env k (S k)) \<noteq> Go" if "\<not> e_memory env (blk k)" for k using bad [OF that] by simp
  next
    assume "\<forall>i < n. e_memory env (blk i)" "for_each (config_at upd blk env) [0..<n] (S 0) = (Go, S n)"
    then show thesis using True alloc
      by (intro that [of Go "Some (replicate n (Some No_Thread))"]) (auto simp: S_def W_def config_blocks_filled [of n n, simplified] granted_def)
  next
    fix k
    assume 2: "k < n" "\<not> e_memory env (blk k)" "for_each (config_at upd blk env) [0..<n] (S 0) = config_at upd blk env k (S k)"
    define xs :: "handle option list" where "xs = replicate k (Some No_Thread) @ replicate (n - k) None"
    have "alloc_configs upd arr blk env n v =
      (Undo, having (Some xs) (?w\<lparr>w_live := w_live ?w \<union> config_array_blocks arr blk hblk (Some xs)\<rparr>) v)"
      using 2 bad alloc config_blocks_filled [of k n arr blk hblk] by (simp add: S_def W_def xs_def)
    moreover have "length xs = n" "set xs \<subseteq> {None, Some No_Thread}" using 2(1) by (auto simp: xs_def)
    ultimately show thesis using 2(1,2) True by (intro that [of Undo "Some xs"]) (auto simp: granted_def)
  qed
qed

lemma alloc_result:
  assumes "resources_ok cb v" "get v = None"
  obtains X W st where "alloc_configs upd arr blk env n v = (st, having X W v)" "resources_ok cb (having X W v)"
    "if granted env n then st = Go \<and> X = Some (replicate n (Some No_Thread)) else st = Undo"
    "X = None \<longleftrightarrow> \<not> e_memory env arr" "\<forall>xs. X = Some xs \<longrightarrow> length xs = n \<and> set xs \<subseteq> {None, Some No_Thread}"
proof (rule alloc_world [OF assms(2), of env n])
  fix X st
  let ?W = "(v_world v)\<lparr>w_live := w_live (v_world v) \<union> config_array_blocks arr blk hblk X\<rparr>"
  assume r: "alloc_configs upd arr blk env n v = (st, having X ?W v)"
    "if granted env n then st = Go \<and> X = Some (replicate n (Some No_Thread)) else st = Undo"
    "X = None \<longleftrightarrow> \<not> e_memory env arr" "\<forall>xs. X = Some xs \<longrightarrow> length xs = n \<and> set xs \<subseteq> {None, Some No_Thread}"
  have "threads_of thr X = {}" using r(4) by (cases X) (simp_all add: no_threads)
  then show thesis by (intro that [OF r(1) resources_having [OF assms(1)] r(2-4)]) (use assms(2) in simp_all)
qed

lemma start_world:
  assumes "get v = Some (replicate n (Some No_Thread))" "insert arr (blk ` {..<n}) \<subseteq> w_live (v_world v)"
  obtains xs st where "for_each (start_thread upd hblk thr env) [0..<n] v =
      (st, having (Some xs) \<lparr>w_live = w_live (v_world v) \<union> config_array_blocks arr blk hblk (Some xs),
        w_running = w_running (v_world v) \<union> threads_of thr (Some xs)\<rparr> v)" "length xs = n" "None \<notin> set xs"
    "if all_started env hblk thr n then st = Go \<and> xs = replicate n (Some Started) else st = Undo"
    "Some Unstarted \<in> set xs \<longleftrightarrow> creation_fails env hblk thr n"
proof -
  let ?w = "v_world v" and ?good = "\<lambda>i. e_memory env (hblk i) \<and> e_create env (thr i)"
  define W where "W B T = \<lparr>w_live = w_live ?w \<union> insert arr (blk ` {..<n} \<union> hblk ` B), w_running = w_running ?w \<union> thr ` T\<rparr>" for B T
  define S where "S k = having (Some (replicate k (Some Started) @ replicate (n - k) (Some No_Thread))) (W {..<k} {..<k}) v" for k
  have W_Suc: "(W {..<k} T)\<lparr>w_live := insert (hblk k) (w_live (W {..<k} T))\<rparr> = W {..<Suc k} T"
    "(W B {..<k})\<lparr>w_running := insert (thr k) (w_running (W B {..<k}))\<rparr> = W B {..<Suc k}" for k T B
    by (simp_all add: W_def lessThan_Suc insert_commute)
  have "W {} {} = ?w" using assms(2) by (simp add: W_def Un_absorb2 insert_absorb)
  then have start: "v = S 0" using assms(1) having_self [of v] by (simp add: S_def)
  have good: "start_thread upd hblk thr env k (S k) = (Go, S (Suc k))" if "k < n" "?good k" for k
    using that W_Suc [of k] by (simp add: start_thread_def S_def replicate_next replicate_append_same [symmetric] Let_def)
  have bad: "start_thread upd hblk thr env k (S k) =
      (Undo, having (Some xs) (W (if e_memory env (hblk k) then {..<Suc k} else {..<k}) {..<k}) v)"
    if "k < n" "\<not> ?good k" "xs = replicate k (Some Started) @ Some (if e_memory env (hblk k) then Unstarted else No_Thread) # replicate (n - Suc k) (Some No_Thread)" for k xs
    using that W_Suc(1) [of k] by (auto simp: start_thread_def S_def replicate_next replicate_first list_update_append Let_def)
  show thesis
  proof (rule for_each_result [where f = "start_thread upd hblk thr env" and S = S and good = ?good and n = n, OF start good])
    show "fst (start_thread upd hblk thr env k (S k)) \<noteq> Go" if "k < n" "\<not> ?good k" for k using bad [OF that refl] by simp
  next
    assume 1: "\<forall>i < n. ?good i" "for_each (start_thread upd hblk thr env) [0..<n] v = (Go, S n)"
    then show thesis
      by (intro that [of Go "replicate n (Some Started)"]) (auto simp: S_def W_def started_full all_started_def creation_fails_def)
  next
    fix k
    assume 2: "k < n" "\<forall>i < k. ?good i" "\<not> ?good k" "for_each (start_thread upd hblk thr env) [0..<n] v = start_thread upd hblk thr env k (S k)"
    define z where "z = Some (if e_memory env (hblk k) then Unstarted else No_Thread)"
    define xs where "xs = replicate k (Some Started) @ z # replicate (n - Suc k) (Some No_Thread)"
    have z: "z \<in> {Some No_Thread, Some Unstarted}" "z = Some Unstarted \<longleftrightarrow> e_memory env (hblk k)" by (auto simp: z_def)
    note filled = started_filled [OF 2(1) z(1) xs_def]
    show thesis
    proof (rule that [of Undo xs])
      show "for_each (start_thread upd hblk thr env) [0..<n] v = (Undo, having (Some xs)
        \<lparr>w_live = w_live (v_world v) \<union> config_array_blocks arr blk hblk (Some xs), w_running = w_running (v_world v) \<union> threads_of thr (Some xs)\<rparr> v)"
        using bad [OF 2(1,3) xs_def [unfolded z_def]] 2(4) z(2) by (simp add: filled W_def)
      show "Some Unstarted \<in> set xs \<longleftrightarrow> creation_fails env hblk thr n"
        unfolding filled(4) z(2) creation_fails_def using 2(1-3) by (metis linorder_neqE_nat)
    qed (use filled 2(1,3) z(1) in \<open>auto simp: xs_def all_started_def\<close>)
  qed
qed

lemma start_result:
  assumes "resources_ok cb v" "get v = Some (replicate n (Some No_Thread))"
  obtains xs W st where "for_each (start_thread upd hblk thr env) [0..<n] v = (st, having (Some xs) W v)"
    "resources_ok cb (having (Some xs) W v)" "length xs = n"
    "if all_started env hblk thr n then st = Go \<and> xs = replicate n (Some Started) else st = Undo"
    "Some Unstarted \<in> set xs \<longleftrightarrow> creation_fails env hblk thr n"
proof -
  have blocks: "config_array_blocks arr blk hblk (get v) = insert arr (blk ` {..<n})" "threads_of thr (get v) = {}"
    using assms(2) config_blocks_filled [of n n arr blk hblk] by (auto simp: threads_of_def)
  then have "insert arr (blk ` {..<n}) \<subseteq> w_live (v_world v)" using mine_live [OF assms(1)] by simp
  then show thesis
  proof (rule start_world [OF assms(2), of env])
    fix xs st
    let ?W = "\<lparr>w_live = w_live (v_world v) \<union> config_array_blocks arr blk hblk (Some xs),
        w_running = w_running (v_world v) \<union> threads_of thr (Some xs)\<rparr>"
    assume r: "for_each (start_thread upd hblk thr env) [0..<n] v = (st, having (Some xs) ?W v)" "length xs = n" "None \<notin> set xs"
      "if all_started env hblk thr n then st = Go \<and> xs = replicate n (Some Started) else st = Undo"
      "Some Unstarted \<in> set xs \<longleftrightarrow> creation_fails env hblk thr n"
    have "insert arr (blk ` {..<n}) \<subseteq> config_array_blocks arr blk hblk (Some xs)"
      using r(2,3) by (force simp: config_array_blocks_def dest: nth_mem)
    then have "resources_ok cb (having (Some xs) ?W v)" using blocks by (intro resources_having [OF assms(1)]) simp_all
    then show thesis using that [OF r(1) _ r(2,4,5)] by blast
  qed
qed

end

interpretation r2h: stream_field v_rx_to_hd v_rx_to_hd_update Rx_To_Hd Rx_To_Hd_At
  by unfold_locales (auto simp: owned_def owned_threads_def)

interpretation h2r: stream_field v_hd_to_rx v_hd_to_rx_update Hd_To_Rx Hd_To_Rx_At
  by unfold_locales (auto simp: owned_def owned_threads_def)

interpretation rxs: config_field v_rx_configs v_rx_configs_update Rx_Configs Rx_Config Rx_Thread Rx
  by unfold_locales (auto simp: owned_def owned_threads_def)

interpretation hds: config_field v_hd_configs v_hd_configs_update Hd_Configs Hd_Config Hd_Thread Hd
  by unfold_locales (auto simp: owned_def owned_threads_def)

definition socket_granted :: "setup_env \<Rightarrow> nat \<Rightarrow> bool" where
  "socket_granted env i \<longleftrightarrow> e_socket env i \<noteq> -1 \<and> list_all (e_setsockopt env i) [0..<5] \<and> e_bind env i"

lemma sockets_result:
  assumes "length junk = n"
  obtains (opened) v where "\<forall>i < n. socket_granted env i" "for_each (open_socket env) [0..<n] (first_vars c junk) = (Go, v)"
      "v = (first_vars c junk)\<lparr>v_sockfds := map (e_socket env) [0..<n], v_world := v_world v\<rparr>" "resources_ok (config_blocks c) v"
    | (failed) v where "\<not> (\<forall>i < n. socket_granted env i)" "for_each (open_socket env) [0..<n] (first_vars c junk) = (Quit, v)"
proof -
  define S where "S k = (first_vars c junk)\<lparr>v_sockfds := map (e_socket env) [0..<k] @ drop k junk,
    v_world := \<lparr>w_live = config_blocks c \<union> Socket ` e_socket env ` {..<k}, w_running = {}\<rparr>\<rparr>" for k
  have start: "first_vars c junk = S 0" by (simp add: S_def first_vars_def)
  have good: "open_socket env k (S k) = (Go, S (Suc k))" if "k < n" "socket_granted env k" for k
  proof -
    have "(map (e_socket env) [0..<k] @ drop k junk)[k := e_socket env k] = map (e_socket env) [0..<Suc k] @ drop (Suc k) junk"
      using that(1) assms by (simp add: list_update_append flip: Cons_nth_drop_Suc)
    then show ?thesis
      using that(2) by (simp add: open_socket_def S_def socket_granted_def taking_def lessThan_Suc insert_commute Let_def)
  qed
  have bad: "fst (open_socket env k (S k)) = Quit" if "\<not> socket_granted env k" for k
    using that by (auto simp: open_socket_def socket_granted_def Let_def)
  show thesis
  proof (rule for_each_result [where f = "open_socket env" and S = S and good = "socket_granted env" and n = n, OF start good])
    show "fst (open_socket env k (S k)) \<noteq> Go" if "\<not> socket_granted env k" for k using bad [OF that] by simp
  next
    assume 1: "\<forall>i < n. socket_granted env i" "for_each (open_socket env) [0..<n] (first_vars c junk) = (Go, S n)"
    have "{..<n} = {0..<n}" by auto
    then show thesis using 1 assms
      by (intro opened [of "S n"]) (simp_all add: S_def first_vars_def resources_ok_def owned_def owned_threads_def slot_blocks_def table_blocks_def
        config_array_blocks_def threads_of_def)
  next
    fix k
    assume 2: "k < n" "\<not> socket_granted env k" "for_each (open_socket env) [0..<n] (first_vars c junk) = open_socket env k (S k)"
    show thesis by (rule failed [of "snd (open_socket env k (S k))"]) (use 2 bad [OF 2(2)] in \<open>auto simp: prod_eq_iff\<close>)
  qed
qed

section \<open>The result of the set-up\<close>

text \<open>Streams, table and sockets are complete, and no configuration exists yet.\<close>

definition tables_done :: "setup_env \<Rightarrow> 'ai config_rcv_t \<Rightarrow> main_vars \<Rightarrow> bool" where
  "tables_done env c v \<longleftrightarrow> v_sockfds v = map (e_socket env) [0..<cf_stream_count c] \<and>
     v_rx_to_hd v = Some (replicate (cf_stream_count c) (Live_Stream initialize_stream)) \<and>
     v_hd_to_rx v = Some (replicate (cf_stream_count c) (Live_Stream initialize_stream)) \<and> v_clients v = Some (Some new_table)"

definition tables_granted :: "setup_env \<Rightarrow> nat \<Rightarrow> bool" where
  "tables_granted env n \<longleftrightarrow> e_memory env Rx_To_Hd \<and> e_memory env Hd_To_Rx \<and>
     (\<forall>i < n. new_stream env (Rx_To_Hd_At i) = Live_Stream initialize_stream \<and> new_stream env (Hd_To_Rx_At i) = Live_Stream initialize_stream) \<and>
     e_memory env Clients \<and> e_table_init env = (True, True, True)"

lemma alloc_clients_result:
  assumes "resources_ok cb v" "v_clients v = None"
  obtains X W st where "alloc_clients env v = (st, v\<lparr>v_clients := X, v_world := W\<rparr>)" "resources_ok cb (v\<lparr>v_clients := X, v_world := W\<rparr>)"
    "if e_memory env Clients \<and> e_table_init env = (True, True, True) then st = Go \<and> X = Some (Some new_table) else st = Undo"
proof -
  obtain items lock mutex where t: "e_table_init env = (items, lock, mutex)" by (cases "e_table_init env") auto
  let ?w = "v_world v"
  show thesis
  proof (cases "e_memory env Clients")
    case False
    then show thesis using assms by (intro that [of Undo ?w None]) (simp_all add: alloc_clients_def resources_ok_def owned_def owned_threads_def)
  next
    case mem: True
    show thesis
    proof (cases "items \<and> lock \<and> mutex")
      case True
      then show thesis using assms mem t
        by (intro that [of Go "?w\<lparr>w_live := w_live ?w \<union> {Clients, Table}\<rparr>" "Some (Some new_table)"])
          (auto simp: alloc_clients_def allocate_ht_def new_table_def taking_def resources_ok_def owned_def owned_threads_def insert_commute)
    next
      case False
      then show thesis using assms mem t
        by (intro that [of Undo "?w\<lparr>w_live := w_live ?w \<union> {Clients}\<rparr>" "Some None"])
          (auto simp: alloc_clients_def allocate_ht_def taking_def resources_ok_def owned_def owned_threads_def)
    qed
  qed
qed

lemma setup_tables_result:
  assumes "length junk = cf_stream_count c" "\<forall>i < cf_stream_count c. socket_granted env i"
  obtains v st where "setup_tables env c junk = (st, v)" "resources_ok (config_blocks c) v" "v_rx_configs v = None" "v_hd_configs v = None"
    "if tables_granted env (cf_stream_count c) then st = Go \<and> tables_done env c v else st = Undo"
proof -
  let ?n = "cf_stream_count c" and ?cb = "config_blocks c" and ?L = "Live_Stream initialize_stream"
  obtain v1 where v1: "for_each (open_socket env) [0..<?n] (first_vars c junk) = (Go, v1)" "resources_ok ?cb v1"
    "v1 = (first_vars c junk)\<lparr>v_sockfds := map (e_socket env) [0..<?n], v_world := v_world v1\<rparr>"
    using assms by (cases rule: sockets_result [OF assms(1), of env c]) auto
  have n1: "v_rx_to_hd v1 = None" "v_hd_to_rx v1 = None" "v_clients v1 = None" "v_rx_configs v1 = None" "v_hd_configs v1 = None"
    "v_sockfds v1 = map (e_socket env) [0..<?n]"
    by (subst v1(3), simp add: first_vars_def)+
  obtain X2 W2 st2 where r2: "alloc_streams v_rx_to_hd_update Rx_To_Hd Rx_To_Hd_At env ?n v1 = (st2, r2h.having X2 W2 v1)"
    "resources_ok ?cb (r2h.having X2 W2 v1)" "if r2h.granted env ?n then st2 = Go \<and> X2 = Some (replicate ?n ?L) else st2 = Undo"
    using r2h.alloc_result [OF v1(2) n1(1)] by blast
  define v2 where "v2 = r2h.having X2 W2 v1"
  have n2: "v_hd_to_rx v2 = None" using n1 by (simp add: v2_def r2h.having_def)
  obtain X3 W3 st3 where r3: "alloc_streams v_hd_to_rx_update Hd_To_Rx Hd_To_Rx_At env ?n v2 = (st3, h2r.having X3 W3 v2)"
    "resources_ok ?cb (h2r.having X3 W3 v2)" "if h2r.granted env ?n then st3 = Go \<and> X3 = Some (replicate ?n ?L) else st3 = Undo"
    using h2r.alloc_result [OF r2(2) [folded v2_def] n2] by blast
  define v3 where "v3 = h2r.having X3 W3 v2"
  have n3: "v_clients v3 = None" using n1 by (simp add: v3_def h2r.having_def v2_def r2h.having_def)
  obtain X4 W4 st4 where r4: "alloc_clients env v3 = (st4, v3\<lparr>v_clients := X4, v_world := W4\<rparr>)" "resources_ok ?cb (v3\<lparr>v_clients := X4, v_world := W4\<rparr>)"
    "if e_memory env Clients \<and> e_table_init env = (True, True, True) then st4 = Go \<and> X4 = Some (Some new_table) else st4 = Undo"
    using alloc_clients_result [OF r3(2) [folded v3_def] n3] by blast
  note steps = setup_tables_def v1(1) r2(1) [folded v2_def] r3(1) [folded v3_def] r4(1) Let_def
  note granted = tables_granted_def r2h.granted_def h2r.granted_def
  have n: "v_rx_configs v2 = None" "v_hd_configs v2 = None" "v_rx_configs v3 = None" "v_hd_configs v3 = None"
    "v_rx_to_hd v3 = X2" "v_hd_to_rx v3 = X3" "v_sockfds v3 = map (e_socket env) [0..<?n]"
    using n1 by (simp_all add: v3_def h2r.having_def v2_def r2h.having_def)
  consider "r2h.granted env ?n" "h2r.granted env ?n" | "r2h.granted env ?n" "\<not> h2r.granted env ?n" | "\<not> r2h.granted env ?n" by blast
  then show thesis
  proof cases
    case 1
    then show thesis using r2(3) r3(3) r4(2,3) n
      by (intro that [of st4 "v3\<lparr>v_clients := X4, v_world := W4\<rparr>"]) (auto simp: steps granted tables_done_def split: if_splits)
  next
    case 2
    then show thesis using r2(3) r3 n by (intro that [of Undo v3]) (auto simp: steps granted v3_def [symmetric] split: if_splits)
  next
    case 3
    then show thesis using r2 n by (intro that [of Undo v2]) (auto simp: steps granted v2_def [symmetric] split: if_splits)
  qed
qed

text \<open>What the rest of the set-up needs: the configurations and, in the threaded mode, the threads.\<close>

definition configs_granted :: "setup_env \<Rightarrow> 'ai config_rcv_t \<Rightarrow> bool" where
  "configs_granted env c \<longleftrightarrow> e_memory env Hd_Configs \<and> (\<forall>i < cf_receive_num c. e_memory env (Rx_Config i)) \<and>
     (\<forall>i < cf_handle_num c. e_memory env (Hd_Config i))"

definition threads_granted :: "setup_env \<Rightarrow> 'ai config_rcv_t \<Rightarrow> bool" where
  "threads_granted env c \<longleftrightarrow> cf_sequential c \<or>
     all_started env Rx_Thread Rx (cf_receive_num c) \<and> all_started env Hd_Thread Hd (cf_handle_num c)"

definition thread_missing :: "setup_env \<Rightarrow> 'ai config_rcv_t \<Rightarrow> bool" where
  "thread_missing env c \<longleftrightarrow> configs_granted env c \<and> \<not> cf_sequential c \<and> (creation_fails env Rx_Thread Rx (cf_receive_num c) \<or>
     all_started env Rx_Thread Rx (cf_receive_num c) \<and> creation_fails env Hd_Thread Hd (cf_handle_num c))"

definition unstarted :: "main_vars \<Rightarrow> bool" where
  "unstarted v \<longleftrightarrow> (\<exists>xs. (v_rx_configs v = Some xs \<or> v_hd_configs v = Some xs) \<and> Some Unstarted \<in> set xs)"

definition arrays_sized :: "'ai config_rcv_t \<Rightarrow> main_vars \<Rightarrow> bool" where
  "arrays_sized c v \<longleftrightarrow> (\<exists>rs. v_rx_configs v = Some rs \<and> length rs = cf_receive_num c) \<and>
     (\<forall>hs. v_hd_configs v = Some hs \<longrightarrow> length hs = cf_handle_num c)"

definition all_set :: "'ai config_rcv_t \<Rightarrow> main_vars \<Rightarrow> bool" where
  "all_set c v \<longleftrightarrow> (\<exists>h. h = (if cf_sequential c then No_Thread else Started) \<and>
     v_rx_configs v = Some (replicate (cf_receive_num c) (Some h)) \<and> v_hd_configs v = Some (replicate (cf_handle_num c) (Some h)))"

lemma tables_done_having [simp]:
  "tables_done env c (rxs.having x w v) = tables_done env c v" "tables_done env c (hds.having x w v) = tables_done env c v"
  by (simp_all add: tables_done_def rxs.having_def hds.having_def)

lemma configs_having [simp]:
  "v_rx_configs (hds.having x w v) = v_rx_configs v" "v_hd_configs (rxs.having x w v) = v_hd_configs v"
  by (simp_all add: rxs.having_def hds.having_def)

lemma fill_configs_ok:
  assumes "config_ok c" "tables_done env c v"
  shows "fill_configs c v = (Go, v)"
proof -
  let ?n = "cf_stream_count c" and ?xs = "replicate (cf_stream_count c) (Live_Stream initialize_stream)"
  have "thread_resources streams affinities (map (e_socket env) [0..<?n]) ?xs ?xs i \<noteq> None"
    if i: "i < m" and mem: "(m, streams, affinities) \<in> {(cf_receive_num c, cf_receive_streams c, cf_receive_affinities c),
        (cf_handle_num c, cf_handle_streams c, cf_handle_affinities c)}" for i m streams affinities
  proof -
    obtain ss where "streams = Some ss" "length ss = m" "\<forall>s \<in> set ss. unat s < ?n" "case affinities of None \<Rightarrow> True | Some as \<Rightarrow> length as = m"
      using assms(1) mem by (auto simp: config_ok_def)
    with i show ?thesis by (intro thread_resources_defined [of streams ss i ?n]) auto
  qed
  then show ?thesis using assms(2) by (auto simp: fill_configs_def tables_done_def list_all_iff)
qed

lemma start_threads_result:
  assumes "resources_ok cb v" "v_rx_configs v = Some (replicate (cf_receive_num c) (Some No_Thread))"
    "v_hd_configs v = Some (replicate (cf_handle_num c) (Some No_Thread))" "tables_done env c v"
  obtains v' st where "start_threads env c v = (st, v')" "resources_ok cb v'" "tables_done env c v'" "arrays_sized c v'"
    "if threads_granted env c then st = Go \<and> all_set c v' else st = Undo"
    "unstarted v' \<longleftrightarrow> \<not> cf_sequential c \<and> (creation_fails env Rx_Thread Rx (cf_receive_num c) \<or>
      all_started env Rx_Thread Rx (cf_receive_num c) \<and> creation_fails env Hd_Thread Hd (cf_handle_num c))"
proof (cases "cf_sequential c")
  case True
  show thesis
    by (rule that [of Go v]) (use True assms in \<open>auto simp: start_threads_def arrays_sized_def threads_granted_def all_set_def unstarted_def\<close>)
next
  case False
  note defs = start_threads_def arrays_sized_def threads_granted_def all_set_def unstarted_def
  show thesis
  proof (rule rxs.start_result [OF assms(1,2), of env])
    fix xs W st
    assume r: "for_each (start_thread v_rx_configs_update Rx_Thread Rx env) [0..<cf_receive_num c] v = (st, rxs.having (Some xs) W v)"
      "resources_ok cb (rxs.having (Some xs) W v)" "length xs = cf_receive_num c"
      "if all_started env Rx_Thread Rx (cf_receive_num c) then st = Go \<and> xs = replicate (cf_receive_num c) (Some Started) else st = Undo"
      "Some Unstarted \<in> set xs \<longleftrightarrow> creation_fails env Rx_Thread Rx (cf_receive_num c)"
    show thesis
    proof (cases "all_started env Rx_Thread Rx (cf_receive_num c)")
      case False
      then show thesis using r assms \<open>\<not> cf_sequential c\<close>
        by (intro that [of Undo "rxs.having (Some xs) W v"]) (auto simp: defs)
    next
      case True
      then have st: "st = Go" "xs = replicate (cf_receive_num c) (Some Started)" using r(4) by simp_all
      have h: "v_hd_configs (rxs.having (Some xs) W v) = Some (replicate (cf_handle_num c) (Some No_Thread))" using assms(3) by simp
      show thesis
      proof (rule hds.start_result [OF r(2) h, of env])
        fix ys W' st'
        assume q: "for_each (start_thread v_hd_configs_update Hd_Thread Hd env) [0..<cf_handle_num c] (rxs.having (Some xs) W v) =
            (st', hds.having (Some ys) W' (rxs.having (Some xs) W v))"
          "resources_ok cb (hds.having (Some ys) W' (rxs.having (Some xs) W v))" "length ys = cf_handle_num c"
          "if all_started env Hd_Thread Hd (cf_handle_num c) then st' = Go \<and> ys = replicate (cf_handle_num c) (Some Started) else st' = Undo"
          "Some Unstarted \<in> set ys \<longleftrightarrow> creation_fails env Hd_Thread Hd (cf_handle_num c)"
        show thesis
          by (rule that [of st' "hds.having (Some ys) W' (rxs.having (Some xs) W v)"])
            (use q r True False st assms(4) \<open>\<not> cf_sequential c\<close> in \<open>auto simp: defs split: if_splits\<close>)
      qed
    qed
  qed
qed

text \<open>The two arrays of configurations, with what is granted of them.\<close>

lemma setup_arrays:
  assumes "resources_ok (config_blocks c) v" "v_rx_configs v = None" "v_hd_configs v = None"
  obtains X1 X2 st1 st2 v1 v2 where
    "alloc_configs v_rx_configs_update Rx_Configs Rx_Config env (cf_receive_num c) v = (st1, v1)"
    "alloc_configs v_hd_configs_update Hd_Configs Hd_Config env (cf_handle_num c) v1 = (st2, v2)"
    "v_rx_configs v1 = X1" "v_hd_configs v1 = None" "tables_done env c v1 = tables_done env c v" "resources_ok (config_blocks c) v1"
    "v_rx_configs v2 = X1" "v_hd_configs v2 = X2" "tables_done env c v2 = tables_done env c v" "resources_ok (config_blocks c) v2"
    "if rxs.granted env (cf_receive_num c) then st1 = Go \<and> X1 = Some (replicate (cf_receive_num c) (Some No_Thread)) else st1 = Undo"
    "if hds.granted env (cf_handle_num c) then st2 = Go \<and> X2 = Some (replicate (cf_handle_num c) (Some No_Thread)) else st2 = Undo"
    "X1 = None \<longleftrightarrow> \<not> e_memory env Rx_Configs" "\<forall>xs. X1 = Some xs \<longrightarrow> length xs = cf_receive_num c \<and> Some Unstarted \<notin> set xs"
    "\<forall>xs. X2 = Some xs \<longrightarrow> length xs = cf_handle_num c \<and> Some Unstarted \<notin> set xs"
proof -
  let ?R = "cf_receive_num c" and ?H = "cf_handle_num c" and ?cb = "config_blocks c"
  obtain X1 W1 st1 where r1: "alloc_configs v_rx_configs_update Rx_Configs Rx_Config env ?R v = (st1, rxs.having X1 W1 v)"
    "resources_ok ?cb (rxs.having X1 W1 v)" "if rxs.granted env ?R then st1 = Go \<and> X1 = Some (replicate ?R (Some No_Thread)) else st1 = Undo"
    "X1 = None \<longleftrightarrow> \<not> e_memory env Rx_Configs" "\<forall>xs. X1 = Some xs \<longrightarrow> length xs = ?R \<and> set xs \<subseteq> {None, Some No_Thread}"
    by (rule rxs.alloc_result [OF assms(1,2), of env ?R]) (rule that; assumption)
  define v1 where "v1 = rxs.having X1 W1 v"
  have h1: "v_hd_configs v1 = None" using assms(3) by (simp add: v1_def)
  obtain X2 W2 st2 where r2: "alloc_configs v_hd_configs_update Hd_Configs Hd_Config env ?H v1 = (st2, hds.having X2 W2 v1)"
    "resources_ok ?cb (hds.having X2 W2 v1)" "if hds.granted env ?H then st2 = Go \<and> X2 = Some (replicate ?H (Some No_Thread)) else st2 = Undo"
    "\<forall>xs. X2 = Some xs \<longrightarrow> length xs = ?H \<and> set xs \<subseteq> {None, Some No_Thread}"
    by (rule hds.alloc_result [OF r1(2) [folded v1_def] h1, of env ?H]) (rule that; assumption)
  have no_handles: "set xs \<subseteq> {None, Some No_Thread} \<Longrightarrow> Some Unstarted \<notin> set xs" for xs by auto
  show thesis
    by (rule that [OF r1(1) [folded v1_def] r2(1), of X1 X2])
      (use r1(2-5) r2(2-4) h1 no_handles in \<open>simp_all add: v1_def\<close>)
qed

text \<open>The threads and the stop variables, after the configurations.\<close>

lemma setup_started:
  assumes "resources_ok (config_blocks c) v" "v_rx_configs v = Some (replicate (cf_receive_num c) (Some No_Thread))"
    "v_hd_configs v = Some (replicate (cf_handle_num c) (Some No_Thread))" "tables_done env c v" "configs_granted env c"
  obtains v' st where "sequel (start_threads env c v) (init_stop env) = (st, v')" "resources_ok (config_blocks c) v'" "tables_done env c v'"
    "arrays_sized c v'" "unstarted v' \<longleftrightarrow> thread_missing env c"
    "if threads_granted env c then all_set c v' \<and> st = (if e_stop_mutex env \<and> e_stop_cond env then Go else Undo_And_Go) else st = Undo"
proof (rule start_threads_result [OF assms(1-4)])
  fix v' st'
  assume q: "start_threads env c v = (st', v')" "resources_ok (config_blocks c) v'" "tables_done env c v'" "arrays_sized c v'"
    "if threads_granted env c then st' = Go \<and> all_set c v' else st' = Undo"
    "unstarted v' \<longleftrightarrow> \<not> cf_sequential c \<and> (creation_fails env Rx_Thread Rx (cf_receive_num c) \<or>
      all_started env Rx_Thread Rx (cf_receive_num c) \<and> creation_fails env Hd_Thread Hd (cf_handle_num c))"
  have u: "unstarted v' \<longleftrightarrow> thread_missing env c" using q(6) assms(5) by (simp add: thread_missing_def)
  have "sequel (start_threads env c v) (init_stop env) =
      (if \<not> threads_granted env c then Undo else if e_stop_mutex env \<and> e_stop_cond env then Go else Undo_And_Go, v')"
    using q(1,5) by (simp add: init_stop_def split: if_splits)
  from that [OF this q(2-4) u] show thesis using q(5) by (simp split: if_splits)
qed

text \<open>
  The two ways a set-up with its sockets goes: it fails before there is an array of receivers, or
  everything up to that array is complete and the rest depends on what is granted.
\<close>

lemma main_setup_cases:
  assumes "length junk = cf_stream_count c" "\<forall>i < cf_stream_count c. socket_granted env i" "config_ok c"
  obtains (early) v where "\<not> (tables_granted env (cf_stream_count c) \<and> e_memory env Rx_Configs)" "main_setup env c junk = (Undo, v)"
      "v_rx_configs v = None"
    | (late) v st where "tables_granted env (cf_stream_count c)" "e_memory env Rx_Configs" "main_setup env c junk = (st, v)"
      "resources_ok (config_blocks c) v" "tables_done env c v" "arrays_sized c v" "unstarted v \<longleftrightarrow> thread_missing env c"
      "if configs_granted env c \<and> threads_granted env c
       then all_set c v \<and> st = (if e_stop_mutex env \<and> e_stop_cond env then Go else Undo_And_Go) else st = Undo"
proof -
  let ?n = "cf_stream_count c" and ?R = "cf_receive_num c" and ?H = "cf_handle_num c" and ?cb = "config_blocks c"
  obtain v st where v: "setup_tables env c junk = (st, v)" "resources_ok ?cb v" "v_rx_configs v = None" "v_hd_configs v = None"
    "if tables_granted env ?n then st = Go \<and> tables_done env c v else st = Undo"
    using setup_tables_result [OF assms(1,2)] by blast
  obtain X1 X2 st1 st2 v1 v2 where r: "alloc_configs v_rx_configs_update Rx_Configs Rx_Config env ?R v = (st1, v1)"
    "alloc_configs v_hd_configs_update Hd_Configs Hd_Config env ?H v1 = (st2, v2)"
    and f1: "v_rx_configs v1 = X1" "v_hd_configs v1 = None" "tables_done env c v1 = tables_done env c v" "resources_ok ?cb v1"
    and f2: "v_rx_configs v2 = X1" "v_hd_configs v2 = X2" "tables_done env c v2 = tables_done env c v" "resources_ok ?cb v2"
    and g: "if rxs.granted env ?R then st1 = Go \<and> X1 = Some (replicate ?R (Some No_Thread)) else st1 = Undo"
      "if hds.granted env ?H then st2 = Go \<and> X2 = Some (replicate ?H (Some No_Thread)) else st2 = Undo"
    and x: "X1 = None \<longleftrightarrow> \<not> e_memory env Rx_Configs" "\<forall>xs. X1 = Some xs \<longrightarrow> length xs = ?R \<and> Some Unstarted \<notin> set xs"
      "\<forall>xs. X2 = Some xs \<longrightarrow> length xs = ?H \<and> Some Unstarted \<notin> set xs"
    by (rule setup_arrays [OF v(2-4), of env]) (rule that; assumption)
  note steps = main_setup_def v(1) r Let_def and granted = configs_granted_def rxs.granted_def hds.granted_def
  show thesis
  proof (cases "tables_granted env ?n \<and> e_memory env Rx_Configs")
    case False
    have "main_setup env c junk = (Undo, if tables_granted env ?n then v1 else v)"
      using False v(5) g(1) x(1) by (auto simp: steps granted)
    then show thesis using False early f1(1) x(1) v(3) by (cases "tables_granted env ?n") auto
  next
    case tables: True
    then have st: "st = Go" "tables_done env c v" "X1 \<noteq> None" using v(5) x(1) by simp_all
    have undo: thesis if "main_setup env c junk = (Undo, w)" "resources_ok ?cb w" "tables_done env c w" "arrays_sized c w" "\<not> unstarted w"
      "\<not> configs_granted env c" for w
      by (rule late [OF _ _ that(1-4)]) (use tables that(5,6) in \<open>simp_all add: thread_missing_def\<close>)
    consider "\<not> rxs.granted env ?R" | "rxs.granted env ?R" "\<not> hds.granted env ?H" | "rxs.granted env ?R" "hds.granted env ?H" by blast
    then show thesis
    proof cases
      case 1
      then have "main_setup env c junk = (Undo, v1)" "\<not> configs_granted env c" "arrays_sized c v1" "\<not> unstarted v1"
        using st g(1) tables f1(1,2) x(2) by (auto simp: steps granted arrays_sized_def unstarted_def)
      then show thesis using undo f1(3,4) st(2) by simp
    next
      case 2
      then have "main_setup env c junk = (Undo, v2)" "\<not> configs_granted env c" "arrays_sized c v2" "\<not> unstarted v2"
        using st g f2(1,2) x(2,3) by (auto simp: steps granted arrays_sized_def unstarted_def)
      then show thesis using undo f2(3,4) st(2) by simp
    next
      case 3
      then have y: "v_rx_configs v2 = Some (replicate ?R (Some No_Thread))" "v_hd_configs v2 = Some (replicate ?H (Some No_Thread))"
        "tables_done env c v2" "configs_granted env c" using f2 g st(2) by (auto simp: granted)
      have m: "main_setup env c junk = sequel (start_threads env c v2) (init_stop env)"
        using 3 st(1) g fill_configs_ok [OF assms(3) y(3)] by (simp add: steps)
      show thesis
        by (rule setup_started [OF f2(4) y]) (rule late, use tables m y(4) in auto)
    qed
  qed
qed

end
