(* ===== verification/Main_Teardown.thy ===== *)
theory Main_Teardown
  imports Main_Setup
begin

text \<open>
  \<^verbatim>\<open>deallocate_everything\<close> of \<^verbatim>\<open>src/main.c\<close>, the whole function: it stops the receivers, adds the requests to
  stop, waits for the handlers, and frees the configuration, the sockets, the streams and the table. It
  is called at the end of the program and in most of the failures of the set-up, with whatever is
  set up by then.

  The streams and the clients are those that the receivers have left when they ended. A handler that is waited
  for runs on its two streams until it takes a request to stop. The result \<open>None\<close> is an access
  through a null pointer, a second release, a release of what a running thread uses, the joining of a thread
  that was never created, or a handler that does not end.
\<close>

section \<open>Parts\<close>

text \<open>
  The memory for the requests to stop; for each handler the answers of the system, its
  configuration, the memory for its packet and its local arrays.
\<close>

record stop_env =
  t_node :: "nat \<Rightarrow> nat \<Rightarrow> bool \<times> bool"
  t_answers :: "nat \<Rightarrow> hd_answers"
  t_cfg :: "nat \<Rightarrow> hd_cfg_t"
  t_packet :: "nat \<Rightarrow> packet_t option"
  t_arrays :: "nat \<Rightarrow> mmsghdr list \<times> bytes"

type_synonym client_heap = "nat \<rightharpoonup> client_t"

definition free_in :: "block \<Rightarrow> main_vars \<Rightarrow> main_vars option" where
  "free_in b v = do {w \<leftarrow> free_block b (v_world v); Some (v\<lparr>v_world := w\<rparr>)}"

definition free_if :: "bool \<Rightarrow> block \<Rightarrow> main_vars \<Rightarrow> main_vars option" where
  "free_if p b v = (if p then free_in b v else Some v)"

definition join_in :: "thread \<Rightarrow> main_vars \<Rightarrow> main_vars option" where
  "join_in t v = do {w \<leftarrow> join_thread t (v_world v); Some (v\<lparr>v_world := w\<rparr>)}"

definition stop_receiver :: "nat \<Rightarrow> main_vars \<Rightarrow> main_vars option" where
  "stop_receiver i v = do {
     cfgs \<leftarrow> v_rx_configs v;
     cfg \<leftarrow> rd cfgs i;
     (case cfg of None \<Rightarrow> Some v
     | Some No_Thread \<Rightarrow> free_in (Rx_Config i) v
     | Some Unstarted \<Rightarrow> None
     | Some Started \<Rightarrow> do {
         v \<leftarrow> join_in (Rx i) v;
         v \<leftarrow> free_in (Rx_Thread i) v;
         free_in (Rx_Config i) v
       })
   }"

fun stop_receivers :: "nat list \<Rightarrow> main_vars \<Rightarrow> main_vars option" where
  "stop_receivers [] v = Some v"
| "stop_receivers (i # is) v = do {v \<leftarrow> stop_receiver i v; stop_receivers is v}"

text \<open>The requests to stop: a null stream is accessed only when there is a node for it.\<close>

fun stop_slot :: "bool \<times> bool \<Rightarrow> slot \<Rightarrow> slot option" where
  "stop_slot mem No_Stream = (if fst mem \<and> snd mem then None else Some No_Stream)"
| "stop_slot mem Broken_Stream = Some Broken_Stream"
| "stop_slot mem (Live_Stream q) = Some (Live_Stream (enqueue_stop mem q))"

fun stop_row :: "(nat \<Rightarrow> bool \<times> bool) \<Rightarrow> nat list \<Rightarrow> slot list \<Rightarrow> slot list option" where
  "stop_row mem [] slots = Some slots"
| "stop_row mem (j # js) slots = do {
     x \<leftarrow> rd slots j;
     x \<leftarrow> stop_slot (mem j) x;
     stop_row mem js (slots[j := x])
   }"

fun stop_rows :: "(nat \<Rightarrow> nat \<Rightarrow> bool \<times> bool) \<Rightarrow> nat list \<Rightarrow> nat \<Rightarrow> slot list \<Rightarrow> slot list option" where
  "stop_rows mem [] n slots = Some slots"
| "stop_rows mem (i # is) n slots = do {
     slots \<leftarrow> stop_row (mem i) [0..<n] slots;
     stop_rows mem is n slots
   }"

definition send_stops :: "stop_env \<Rightarrow> nat \<Rightarrow> nat \<Rightarrow> main_vars \<Rightarrow> main_vars option" where
  "send_stops env handle_num n v = (case v_rx_to_hd v of
     None \<Rightarrow> if list_ex (\<lambda>i. list_ex (\<lambda>j. fst (t_node env i j) \<and> snd (t_node env i j)) [0..<n]) [0..<handle_num]
       then None else Some v
   | Some slots \<Rightarrow> do {
       slots \<leftarrow> stop_rows (t_node env) [0..<handle_num] n slots;
       Some (v\<lparr>v_rx_to_hd := Some slots\<rparr>)
     })"

text \<open>The rest of the run of a handler, on its two streams and the clients.\<close>

definition run_handler :: "stop_env \<Rightarrow> 'ai config_rcv_t \<Rightarrow> nat \<Rightarrow> main_vars \<times> client_heap \<Rightarrow> (main_vars \<times> client_heap) option" where
  "run_handler env c i vs = (case vs of (v, heap) \<Rightarrow> do {
     streams \<leftarrow> cf_handle_streams c;
     s \<leftarrow> rd streams i;
     forths \<leftarrow> v_rx_to_hd v;
     backs \<leftarrow> v_hd_to_rx v;
     forth \<leftarrow> rd forths (unat s);
     back \<leftarrow> rd backs (unat s);
     (case (forth, back) of
       (Live_Stream q, Live_Stream q') \<Rightarrow> do {
         h \<leftarrow> handle_thread (t_answers env i) (t_cfg env i) (t_packet env i)
           \<lparr>s_rx = q, s_tx = q', s_clients = heap, s_decoded = None, s_msg = fst (t_arrays env i),
             s_file_buffer = snd (t_arrays env i), s_exit = False, s_sent = []\<rparr>;
         Some (v\<lparr>v_rx_to_hd := Some (forths[unat s := Live_Stream (s_rx h)]),
           v_hd_to_rx := Some (backs[unat s := Live_Stream (s_tx h)])\<rparr>, s_clients h)
       }
     | _ \<Rightarrow> None)
   })"

definition stop_handler :: "stop_env \<Rightarrow> 'ai config_rcv_t \<Rightarrow> nat \<Rightarrow> main_vars \<times> client_heap \<Rightarrow> (main_vars \<times> client_heap) option" where
  "stop_handler env c i vs = (case vs of (v, heap) \<Rightarrow> do {
     cfgs \<leftarrow> v_hd_configs v;
     cfg \<leftarrow> rd cfgs i;
     (case cfg of None \<Rightarrow> Some (v, heap)
     | Some No_Thread \<Rightarrow> do {v \<leftarrow> free_in (Hd_Config i) v; Some (v, heap)}
     | Some Unstarted \<Rightarrow> None
     | Some Started \<Rightarrow> do {
         (v, heap) \<leftarrow> run_handler env c i (v, heap);
         v \<leftarrow> join_in (Hd i) v;
         v \<leftarrow> free_in (Hd_Thread i) v;
         v \<leftarrow> free_in (Hd_Config i) v;
         Some (v, heap)
       })
   })"

fun stop_handlers :: "stop_env \<Rightarrow> 'ai config_rcv_t \<Rightarrow> nat list \<Rightarrow> main_vars \<times> client_heap \<Rightarrow> (main_vars \<times> client_heap) option" where
  "stop_handlers env c [] vs = Some vs"
| "stop_handlers env c (i # is) vs = do {vs \<leftarrow> stop_handler env c i vs; stop_handlers env c is vs}"

definition free_config :: "'ai config_rcv_t \<Rightarrow> main_vars \<Rightarrow> main_vars option" where
  "free_config c v = do {
     v \<leftarrow> free_if (cf_addr_info c \<noteq> None) Addr_Info v;
     v \<leftarrow> free_if (cf_receive_affinities c \<noteq> None) Receive_Affinities v;
     v \<leftarrow> free_if (cf_handle_affinities c \<noteq> None) Handle_Affinities v;
     v \<leftarrow> free_if (cf_handle_streams c \<noteq> None) Handle_Streams v;
     free_if (cf_receive_streams c \<noteq> None) Receive_Streams v
   }"

fun close_sockets :: "nat list \<Rightarrow> main_vars \<Rightarrow> main_vars option" where
  "close_sockets [] v = Some v"
| "close_sockets (i # is) v = do {
     fd \<leftarrow> rd (v_sockfds v) i;
     v \<leftarrow> free_if (fd \<noteq> -1) (Socket fd) v;
     close_sockets is v
   }"

text \<open>The streams of an array: the nodes that are freed, in order.\<close>

fun free_streams :: "(nat \<Rightarrow> block) \<Rightarrow> slot list \<Rightarrow> nat list \<Rightarrow> main_vars \<Rightarrow> (hd_req_t option list \<times> main_vars) option" where
  "free_streams blk slots [] v = Some ([], v)"
| "free_streams blk slots (j # js) v = do {
     x \<leftarrow> rd slots j;
     (nodes, v) \<leftarrow> (case x of No_Stream \<Rightarrow> Some ([], v)
       | Broken_Stream \<Rightarrow> None
       | Live_Stream q \<Rightarrow> do {v \<leftarrow> free_in (blk j) v; Some (fst (dealloc_stream q), v)});
     (more, v) \<leftarrow> free_streams blk slots js v;
     Some (nodes @ more, v)
   }"

definition free_array :: "block \<Rightarrow> (nat \<Rightarrow> block) \<Rightarrow> nat \<Rightarrow> slot list option \<Rightarrow> main_vars \<Rightarrow> (hd_req_t option list \<times> main_vars) option" where
  "free_array a blk n slots v = (case slots of None \<Rightarrow> Some ([], v)
     | Some xs \<Rightarrow> do {
         (nodes, v) \<leftarrow> free_streams blk xs [0..<n] v;
         v \<leftarrow> free_in a v;
         Some (nodes, v)
       })"

definition free_clients :: "main_vars \<Rightarrow> (nat list \<times> main_vars) option" where
  "free_clients v = (case v_clients v of None \<Rightarrow> Some ([], v)
     | Some None \<Rightarrow> None
     | Some (Some t) \<Rightarrow> (case dealloc_ht (Some t) of
         Some (Inr (freed, _)) \<Rightarrow> do {
           v \<leftarrow> free_in Table v;
           v \<leftarrow> free_in Clients v;
           Some (freed, v)
         }
       | _ \<Rightarrow> None))"

section \<open>The function\<close>

text \<open>The result: the nodes of the streams and the clients that are freed, and what is left.\<close>

definition deallocate_everything :: "stop_env \<Rightarrow> 'ai config_rcv_t \<Rightarrow> main_vars \<Rightarrow> client_heap \<Rightarrow>
    (hd_req_t option list \<times> nat list \<times> main_vars \<times> client_heap) option" where
  "deallocate_everything env c v heap = do {
     v \<leftarrow> stop_receivers [0..<cf_receive_num c] v;
     v \<leftarrow> free_if (v_rx_configs v \<noteq> None) Rx_Configs v;
     v \<leftarrow> send_stops env (cf_handle_num c) (cf_stream_count c) v;
     (v, heap) \<leftarrow> (if v_hd_configs v = None then Some (v, heap) else do {
       (v, heap) \<leftarrow> stop_handlers env c [0..<cf_handle_num c] (v, heap);
       v \<leftarrow> free_in Hd_Configs v;
       Some (v, heap)
     });
     v \<leftarrow> free_config c v;
     v \<leftarrow> close_sockets [0..<cf_stream_count c] v;
     (nodes, v) \<leftarrow> free_array Rx_To_Hd Rx_To_Hd_At (cf_stream_count c) (v_rx_to_hd v) v;
     (nodes', v) \<leftarrow> free_array Hd_To_Rx Hd_To_Rx_At (cf_stream_count c) (v_hd_to_rx v) v;
     (clients, v) \<leftarrow> free_clients v;
     Some (nodes @ nodes', clients, v, heap)
   }"

section \<open>Releasing\<close>

definition without_blocks :: "block set \<Rightarrow> thread set \<Rightarrow> main_vars \<Rightarrow> main_vars" where
  "without_blocks B T v = v\<lparr>v_world := \<lparr>w_live = w_live (v_world v) - B, w_running = w_running (v_world v) - T\<rparr>\<rparr>"

lemma without_simps [simp]:
  "w_live (v_world (without_blocks B T v)) = w_live (v_world v) - B" "w_running (v_world (without_blocks B T v)) = w_running (v_world v) - T"
  "v_sockfds (without_blocks B T v) = v_sockfds v" "v_rx_to_hd (without_blocks B T v) = v_rx_to_hd v"
  "v_hd_to_rx (without_blocks B T v) = v_hd_to_rx v" "v_clients (without_blocks B T v) = v_clients v"
  "v_rx_configs (without_blocks B T v) = v_rx_configs v" "v_hd_configs (without_blocks B T v) = v_hd_configs v"
  "without_blocks B T (without_blocks B' T' v) = without_blocks (B' \<union> B) (T' \<union> T) v" "without_blocks {} {} v = v"
  by (simp_all add: without_blocks_def Diff_eq Int_assoc)

lemma without_streams:
  "(without_blocks B T v)\<lparr>v_hd_to_rx := f\<rparr> = without_blocks B T (v\<lparr>v_hd_to_rx := f\<rparr>)"
  "(without_blocks B T v)\<lparr>v_rx_to_hd := f\<rparr> = without_blocks B T (v\<lparr>v_rx_to_hd := f\<rparr>)"
  by (simp_all add: without_blocks_def)

lemma free_in_eq:
  "b \<in> w_live (v_world v) \<Longrightarrow> \<forall>t \<in> w_running (v_world v). \<not> uses t b \<Longrightarrow> free_in b v = Some (without_blocks {b} {} v)"
  by (simp add: free_in_def free_block_def without_blocks_def)

lemma join_in_eq: "t \<in> w_running (v_world v) \<Longrightarrow> join_in t v = Some (without_blocks {} {t} v)"
  by (simp add: join_in_def join_thread_def without_blocks_def)

lemma free_idle: "b \<in> w_live (v_world v) \<Longrightarrow> w_running (v_world v) = {} \<Longrightarrow> free_in b v = Some (without_blocks {b} {} v)"
  by (simp add: free_in_eq)

text \<open>The blocks and the thread of a configuration.\<close>

definition entry_blocks :: "(nat \<Rightarrow> block) \<Rightarrow> (nat \<Rightarrow> block) \<Rightarrow> handle option list \<Rightarrow> nat \<Rightarrow> block set" where
  "entry_blocks blk hblk xs i = (if xs ! i = None then {} else {blk i}) \<union>
     (if xs ! i \<in> {Some Unstarted, Some Started} then {hblk i} else {})"

definition entry_threads :: "(nat \<Rightarrow> thread) \<Rightarrow> handle option list \<Rightarrow> nat \<Rightarrow> thread set" where
  "entry_threads thr xs i = (if xs ! i = Some Started then {thr i} else {})"

lemma entries_all:
  "config_array_blocks arr blk hblk (Some xs) = insert arr (\<Union>i < length xs. entry_blocks blk hblk xs i)"
  "threads_of thr (Some xs) = (\<Union>i < length xs. entry_threads thr xs i)"
  by (auto simp: config_array_blocks_def entry_blocks_def threads_of_def entry_threads_def split: if_splits)

lemma stop_receivers_eq:
  assumes "v_rx_configs v = Some rs" "distinct js" "\<forall>i \<in> set js. i < length rs" "Some Unstarted \<notin> set rs"
    and "\<forall>i \<in> set js. entry_blocks Rx_Config Rx_Thread rs i \<subseteq> w_live (v_world v)"
    and "\<forall>i \<in> set js. Rx i \<in> w_running (v_world v) \<longleftrightarrow> rs ! i = Some Started"
  shows "stop_receivers js v =
    Some (without_blocks (\<Union>i \<in> set js. entry_blocks Rx_Config Rx_Thread rs i) (\<Union>i \<in> set js. entry_threads Rx rs i) v)"
  using assms
proof (induction js arbitrary: v)
  case (Cons i js)
  let ?B = "entry_blocks Rx_Config Rx_Thread rs i" and ?T = "entry_threads Rx rs i"
  have i: "i < length rs" "?B \<subseteq> w_live (v_world v)" "Rx i \<in> w_running (v_world v) \<longleftrightarrow> rs ! i = Some Started" using Cons.prems by auto
  have "rs ! i \<noteq> Some Unstarted" using i(1) Cons.prems(4) nth_mem by metis
  then consider "rs ! i = None" | "rs ! i = Some No_Thread" | "rs ! i = Some Started" by (metis handle.exhaust not_Some_eq)
  then have "stop_receivers (i # js) v = stop_receivers js (without_blocks ?B ?T v)"
  proof cases
    case 1
    then show ?thesis using Cons.prems(1) i by (simp add: stop_receiver_def rd_def entry_blocks_def entry_threads_def)
  next
    case 2
    have "free_in (Rx_Config i) v = Some (without_blocks ?B ?T v)"
      using 2 i by (subst free_in_eq) (auto simp: entry_blocks_def entry_threads_def elim!: uses.elims)
    then show ?thesis using 2 Cons.prems(1) i(1) by (simp add: stop_receiver_def rd_def)
  next
    case 3
    then have "join_in (Rx i) v = Some (without_blocks {} {Rx i} v)" using i(3) by (simp add: join_in_eq)
    moreover have "free_in (Rx_Thread i) (without_blocks {} {Rx i} v) = Some (without_blocks {Rx_Thread i} {Rx i} v)"
      using 3 i(2) by (subst free_in_eq) (auto simp: entry_blocks_def elim!: uses.elims)
    moreover have "free_in (Rx_Config i) (without_blocks {Rx_Thread i} {Rx i} v) = Some (without_blocks ?B ?T v)"
      using 3 i(2) by (subst free_in_eq) (auto simp: entry_blocks_def entry_threads_def insert_commute elim!: uses.elims)
    ultimately show ?thesis using 3 Cons.prems(1) i(1) by (simp add: stop_receiver_def rd_def)
  qed
  moreover have "stop_receivers js (without_blocks ?B ?T v) = Some (without_blocks (\<Union>i \<in> set js. entry_blocks Rx_Config Rx_Thread rs i)
      (\<Union>i \<in> set js. entry_threads Rx rs i) (without_blocks ?B ?T v))"
    using Cons.prems by (intro Cons.IH) (auto simp: entry_blocks_def entry_threads_def split: if_splits)
  ultimately show ?case by simp
qed simp

section \<open>The requests to stop arrive\<close>

lemma stop_row_live:
  assumes "distinct js" "\<forall>j \<in> set js. j < length qs"
  shows "stop_row mem js (map Live_Stream qs) =
    Some (map Live_Stream (map (\<lambda>j. if j \<in> set js then enqueue_stop (mem j) (qs ! j) else qs ! j) [0..<length qs]))"
  using assms
proof (induction js arbitrary: qs)
  case Nil
  show ?case by (simp add: map_nth)
next
  case (Cons k js)
  let ?qs = "qs[k := enqueue_stop (mem k) (qs ! k)]"
  have "stop_row mem (k # js) (map Live_Stream qs) = stop_row mem js (map Live_Stream ?qs)"
    using Cons.prems(2) by (simp add: rd_def map_update)
  also have "\<dots> = Some (map Live_Stream (map (\<lambda>j. if j \<in> set js then enqueue_stop (mem j) (?qs ! j) else ?qs ! j) [0..<length ?qs]))"
    using Cons.prems by (intro Cons.IH) auto
  also have "map (\<lambda>j. if j \<in> set js then enqueue_stop (mem j) (?qs ! j) else ?qs ! j) [0..<length ?qs] =
    map (\<lambda>j. if j \<in> set (k # js) then enqueue_stop (mem j) (qs ! j) else qs ! j) [0..<length qs]"
    using Cons.prems by (auto simp: nth_list_update)
  finally show ?case .
qed

lemma stop_rows_live:
  assumes "length qs = n"
  shows "stop_rows mem is n (map Live_Stream qs) =
    Some (map Live_Stream (fold (\<lambda>i streams. map (\<lambda>j. enqueue_stop (mem i j) (streams ! j)) [0..<length streams]) is qs))"
  using assms
proof (induction "is" arbitrary: qs)
  case (Cons i "is")
  have "stop_row (mem i) [0..<n] (map Live_Stream qs) = Some (map Live_Stream (map (\<lambda>j. enqueue_stop (mem i j) (qs ! j)) [0..<n]))"
    using stop_row_live [of "[0..<n]" qs "mem i"] Cons.prems by (auto cong: map_cong)
  then show ?case using Cons.prems Cons.IH [of "map (\<lambda>j. enqueue_stop (mem i j) (qs ! j)) [0..<n]"] by simp
qed simp

lemma send_stops_eq:
  assumes "v_rx_to_hd v = Some (map Live_Stream forth)" "length forth = n"
  shows "send_stops env handle_num n v = Some (v\<lparr>v_rx_to_hd := Some (map Live_Stream (stop_streams (t_node env) handle_num forth))\<rparr>)"
  using assms stop_rows_live [OF assms(2), of "t_node env" "[0..<handle_num]"] by (simp add: send_stops_def stop_streams_def)

section \<open>The handlers end\<close>

text \<open>A stream with well-formed requests, none of them to stop, and then at least \<open>m\<close> requests to stop.\<close>

definition stream_ready :: "client_heap \<Rightarrow> hd_req_t option stream_t \<Rightarrow> nat \<Rightarrow> bool" where
  "stream_ready heap q m \<longleftrightarrow> counted q \<and> (\<exists>before k. queue_of q = before @ replicate k stop_request \<and> m \<le> k \<and>
     (\<forall>x \<in> set before. \<not> stop_node x \<and> request_ok heap x))"

definition heap_ok :: "client_heap \<Rightarrow> bool" where
  "heap_ok heap \<longleftrightarrow> unlocked heap \<and> (\<forall>a c. heap a = Some c \<longrightarrow> client_ok c)"

definition stop_env_ok :: "stop_env \<Rightarrow> bool" where
  "stop_env_ok env \<longleftrightarrow> (\<forall>i j. t_node env i j = (True, True)) \<and> (\<forall>i k. calls_succeed (fst (t_answers env i k))) \<and>
     (\<forall>i. t_packet env i \<noteq> None) \<and> (\<forall>i. msgs_ok (fst (t_arrays env i))) \<and>
     (\<forall>i. MAX_WINDOW_SIZE * MAX_PAYLOAD_SIZE \<le> length (snd (t_arrays env i)))"

lemma stream_ready_dom: "stream_ready heap q m \<Longrightarrow> dom heap' = dom heap \<Longrightarrow> stream_ready heap' q m"
proof -
  assume "stream_ready heap q m" and d: "dom heap' = dom heap"
  moreover have "request_ok heap x \<Longrightarrow> request_ok heap' x" for x
    using d by (fastforce simp: request_ok_def dom_def set_eq_iff split: option.splits)
  ultimately show "stream_ready heap' q m" unfolding stream_ready_def by blast
qed

lemma startable_heap:
  assumes "startable h"
  shows "heap_ok (s_clients h)"
proof -
  have "packet_mem (Some (p\<lparr>pk_payload := replicate MAX_PAYLOAD_SIZE 0\<rparr>))" for p by (simp add: packet_mem_def)
  then show ?thesis using assms by (auto simp: startable_def heap_ok_def state_ok_def)
qed

lemma run_handler_ends:
  assumes "stop_env_ok env" "cf_handle_streams c = Some ss" "i < length ss" "unat (ss ! i) = j" "j < n"
    and "v_rx_to_hd v = Some (map Live_Stream forth)" "v_hd_to_rx v = Some (map Live_Stream backs)" "length forth = n" "length backs = n"
    and "heap_ok heap" "stream_ready heap (forth ! j) (Suc m)"
  shows "\<exists>q q' heap'. run_handler env c i (v, heap) = Some (v\<lparr>v_rx_to_hd := Some (map Live_Stream (forth[j := q])),
      v_hd_to_rx := Some (map Live_Stream (backs[j := q']))\<rparr>, heap') \<and>
    stream_ready heap' q m \<and> heap_ok heap' \<and> dom heap' = dom heap"
proof -
  let ?s = "\<lparr>s_rx = forth ! j, s_tx = backs ! j, s_clients = heap, s_decoded = None, s_msg = fst (t_arrays env i),
    s_file_buffer = snd (t_arrays env i), s_exit = False, s_sent = []\<rparr>"
  obtain before k where q: "queue_of (forth ! j) = before @ replicate (Suc k) stop_request" "m \<le> k" "counted (forth ! j)"
    "\<forall>x \<in> set before. \<not> stop_node x \<and> request_ok heap x"
    using assms(11) unfolding stream_ready_def by (metis Suc_le_D Suc_le_mono)
  have env: "msgs_ok (fst (t_arrays env i))" "MAX_WINDOW_SIZE * MAX_PAYLOAD_SIZE \<le> length (snd (t_arrays env i))"
    "\<forall>k. calls_succeed (fst (t_answers env i k))" and "t_packet env i \<noteq> None"
    using assms(1) unfolding stop_env_ok_def by blast+
  then obtain p where p: "t_packet env i = Some p" by blast
  have "startable ?s" using q assms(10) env stop_request_facts(2)
    by (auto simp: startable_def heap_ok_def state_ok_def buffers_ok_def)
  from handle_thread_stops [OF this env(3), of before stop_request "replicate k stop_request" "t_cfg env i" p] q stop_request_facts(1)
  obtain h where h: "handle_thread (t_answers env i) (t_cfg env i) (Some p) ?s = Some h" "queue_of (s_rx h) = replicate k stop_request"
    "startable h" "dom (s_clients h) = dom heap" by auto
  have "run_handler env c i (v, heap) = Some (v\<lparr>v_rx_to_hd := Some (map Live_Stream (forth[j := s_rx h])),
      v_hd_to_rx := Some (map Live_Stream (backs[j := s_tx h]))\<rparr>, s_clients h)"
    using assms(2-9) p h(1) by (simp add: run_handler_def rd_def map_update)
  moreover have "heap_ok (s_clients h)" by (rule startable_heap [OF h(3)])
  moreover have "stream_ready (s_clients h) (s_rx h) m"
    using h(2,3) q(2) unfolding stream_ready_def startable_def by (metis append_Nil empty_iff list.set(1))
  ultimately show ?thesis using h(4) by blast
qed

text \<open>How many of the handlers \<open>js\<close> run on stream \<open>j\<close>.\<close>

definition waiting_for :: "u64 list \<Rightarrow> handle option list \<Rightarrow> nat list \<Rightarrow> nat \<Rightarrow> nat" where
  "waiting_for ss hs js j = length (filter (\<lambda>i. hs ! i = Some Started \<and> unat (ss ! i) = j) js)"

lemma stop_handler_step:
  assumes "stop_env_ok env" "cf_handle_streams c = Some ss" "\<forall>s \<in> set ss. unat s < n" "length ss = length hs"
    and "v_hd_configs v = Some hs" "i < length hs" "hs ! i \<noteq> Some Unstarted"
    and "v_rx_to_hd v = Some (map Live_Stream forth)" "v_hd_to_rx v = Some (map Live_Stream backs)" "length forth = n" "length backs = n"
    and "entry_blocks Hd_Config Hd_Thread hs i \<subseteq> w_live (v_world v)"
    and "Hd i \<in> w_running (v_world v) \<longleftrightarrow> hs ! i = Some Started" "\<forall>i. Rx i \<notin> w_running (v_world v)"
    and "Some Started \<in> set hs \<longrightarrow> heap_ok heap" "\<forall>j < n. stream_ready heap (forth ! j) (waiting_for ss hs (i # js) j)"
  obtains forth1 backs1 heap1 where "stop_handlers env c (i # js) (v, heap) = stop_handlers env c js
      (without_blocks (entry_blocks Hd_Config Hd_Thread hs i) (entry_threads Hd hs i)
        (v\<lparr>v_rx_to_hd := Some (map Live_Stream forth1), v_hd_to_rx := Some (map Live_Stream backs1)\<rparr>), heap1)"
    "length forth1 = n" "length backs1 = n" "Some Started \<in> set hs \<longrightarrow> heap_ok heap1" "dom heap1 = dom heap"
    "\<forall>j < n. stream_ready heap1 (forth1 ! j) (waiting_for ss hs js j)"
proof -
  let ?B = "entry_blocks Hd_Config Hd_Thread hs i" and ?T = "entry_threads Hd hs i"
  have same: "v\<lparr>v_rx_to_hd := Some (map Live_Stream forth), v_hd_to_rx := Some (map Live_Stream backs)\<rparr> = v" using assms(8,9) by simp
  have rd: "rd hs i = Some (hs ! i)" using assms(6) by (simp add: rd_def)
  consider "hs ! i = None" | "hs ! i = Some No_Thread" | "hs ! i = Some Started" using assms(7) by (metis handle.exhaust not_Some_eq)
  then show thesis
  proof cases
    case 1
    then show thesis using assms
      by (intro that [of backs forth heap]) (auto simp: stop_handler_def rd same entry_blocks_def entry_threads_def waiting_for_def)
  next
    case 2
    have "free_in (Hd_Config i) v = Some (without_blocks ?B ?T v)"
      using 2 assms(12-14) by (subst free_in_eq) (auto simp: entry_blocks_def entry_threads_def elim!: uses.elims)
    then show thesis using 2 assms
      by (intro that [of backs forth heap]) (auto simp: stop_handler_def rd same waiting_for_def)
  next
    case 3
    define j where "j = unat (ss ! i)"
    have j: "j < n" "unat (ss ! i) = j" using assms(3,4,6) by (auto simp: j_def)
    have "stream_ready heap (forth ! j) (Suc (waiting_for ss hs js j))" using assms(16) j 3 by (auto simp: waiting_for_def)
    moreover have "heap_ok heap" using assms(6,15) 3 nth_mem by metis
    ultimately obtain q q' heap1 where h: "run_handler env c i (v, heap) = Some (v\<lparr>v_rx_to_hd := Some (map Live_Stream (forth[j := q])),
        v_hd_to_rx := Some (map Live_Stream (backs[j := q']))\<rparr>, heap1)" "stream_ready heap1 q (waiting_for ss hs js j)" "heap_ok heap1" "dom heap1 = dom heap"
      using run_handler_ends [OF assms(1,2) _ j(2,1) assms(8-11)] assms(4,6) by metis
    let ?v = "v\<lparr>v_rx_to_hd := Some (map Live_Stream (forth[j := q])), v_hd_to_rx := Some (map Live_Stream (backs[j := q']))\<rparr>"
    have "join_in (Hd i) ?v = Some (without_blocks {} {Hd i} ?v)" using 3 assms(13) by (simp add: join_in_eq)
    moreover have "free_in (Hd_Thread i) (without_blocks {} {Hd i} ?v) = Some (without_blocks {Hd_Thread i} {Hd i} ?v)"
      using 3 assms(12) by (subst free_in_eq) (auto simp: entry_blocks_def elim!: uses.elims)
    moreover have "free_in (Hd_Config i) (without_blocks {Hd_Thread i} {Hd i} ?v) = Some (without_blocks ?B ?T ?v)"
      using 3 assms(12,14) by (subst free_in_eq) (auto simp: entry_blocks_def entry_threads_def insert_commute elim!: uses.elims)
    ultimately have "stop_handlers env c (i # js) (v, heap) = stop_handlers env c js (without_blocks ?B ?T ?v, heap1)"
      using 3 assms(5) h(1) by (simp add: stop_handler_def rd)
    moreover have "stream_ready heap1 (forth[j := q] ! k) (waiting_for ss hs js k)" if "k < n" for k
      using that assms(10,16) h(2) stream_ready_dom [OF _ h(4)] j 3 by (cases "k = j") (auto simp: waiting_for_def)
    ultimately show thesis using assms(10,11) h(3,4) by (intro that [of "backs[j := q']" "forth[j := q]" heap1]) simp_all
  qed
qed

lemma stop_handlers_end:
  assumes "stop_env_ok env" "cf_handle_streams c = Some ss" "\<forall>s \<in> set ss. unat s < n" "length ss = length hs"
    and "v_hd_configs v = Some hs" "distinct js" "\<forall>i \<in> set js. i < length hs" "Some Unstarted \<notin> set hs"
    and "v_rx_to_hd v = Some (map Live_Stream forth)" "v_hd_to_rx v = Some (map Live_Stream backs)" "length forth = n" "length backs = n"
    and "\<forall>i \<in> set js. entry_blocks Hd_Config Hd_Thread hs i \<subseteq> w_live (v_world v)"
    and "\<forall>i \<in> set js. Hd i \<in> w_running (v_world v) \<longleftrightarrow> hs ! i = Some Started" "\<forall>i. Rx i \<notin> w_running (v_world v)"
    and "Some Started \<in> set hs \<longrightarrow> heap_ok heap" "\<forall>j < n. stream_ready heap (forth ! j) (waiting_for ss hs js j)"
  shows "\<exists>forth' backs' heap'. stop_handlers env c js (v, heap) =
      Some (without_blocks (\<Union>i \<in> set js. entry_blocks Hd_Config Hd_Thread hs i) (\<Union>i \<in> set js. entry_threads Hd hs i)
        (v\<lparr>v_rx_to_hd := Some (map Live_Stream forth'), v_hd_to_rx := Some (map Live_Stream backs')\<rparr>), heap') \<and>
    length forth' = n \<and> length backs' = n \<and> dom heap' = dom heap"
  using assms(5-)
proof (induction js arbitrary: v heap forth backs)
  case Nil
  have "v\<lparr>v_rx_to_hd := Some (map Live_Stream forth), v_hd_to_rx := Some (map Live_Stream backs)\<rparr> = v" using Nil.prems(5,6) by simp
  then show ?case using Nil.prems(7,8) by (intro exI [of _ forth] exI [of _ backs] exI [of _ heap]) simp
next
  case (Cons i js)
  note prems = Cons.prems
  let ?B = "entry_blocks Hd_Config Hd_Thread hs i" and ?T = "entry_threads Hd hs i"
  have i: "i < length hs" "?B \<subseteq> w_live (v_world v)" "Hd i \<in> w_running (v_world v) \<longleftrightarrow> hs ! i = Some Started" using prems by auto
  have u: "hs ! i \<noteq> Some Unstarted" using i(1) prems(4) nth_mem by metis
  obtain forth1 backs1 heap1 where r: "stop_handlers env c (i # js) (v, heap) = stop_handlers env c js
      (without_blocks ?B ?T (v\<lparr>v_rx_to_hd := Some (map Live_Stream forth1), v_hd_to_rx := Some (map Live_Stream backs1)\<rparr>), heap1)"
    "length forth1 = n" "length backs1 = n" "Some Started \<in> set hs \<longrightarrow> heap_ok heap1" "dom heap1 = dom heap"
    "\<forall>j < n. stream_ready heap1 (forth1 ! j) (waiting_for ss hs js j)"
    by (rule stop_handler_step [OF assms(1-4) prems(1) i(1) u prems(5-8) i(2,3) prems(11-13)]) (rule that; assumption)
  have "\<exists>forth' backs' heap'. stop_handlers env c js
      (without_blocks ?B ?T (v\<lparr>v_rx_to_hd := Some (map Live_Stream forth1), v_hd_to_rx := Some (map Live_Stream backs1)\<rparr>), heap1) =
      Some (without_blocks (\<Union>i \<in> set js. entry_blocks Hd_Config Hd_Thread hs i) (\<Union>i \<in> set js. entry_threads Hd hs i)
        ((without_blocks ?B ?T (v\<lparr>v_rx_to_hd := Some (map Live_Stream forth1), v_hd_to_rx := Some (map Live_Stream backs1)\<rparr>))
          \<lparr>v_rx_to_hd := Some (map Live_Stream forth'), v_hd_to_rx := Some (map Live_Stream backs')\<rparr>), heap') \<and>
    length forth' = n \<and> length backs' = n \<and> dom heap' = dom heap1"
    using prems r(2-6) by (intro Cons.IH [where forth = forth1 and backs = backs1]) (auto simp: entry_blocks_def entry_threads_def split: if_splits)
  then show ?case using r(1,5) by (simp add: without_streams)
qed

section \<open>What is left is freed\<close>

lemma free_if_idle:
  "(p \<longrightarrow> b \<in> w_live (v_world v)) \<Longrightarrow> w_running (v_world v) = {} \<Longrightarrow> free_if p b v = Some (without_blocks (if p then {b} else {}) {} v)"
  by (simp add: free_if_def free_idle)

lemma free_config_eq:
  assumes "config_blocks c - {Format} \<subseteq> w_live (v_world v)" "w_running (v_world v) = {}"
  shows "free_config c v = Some (without_blocks (config_blocks c - {Format}) {} v)"
proof -
  have live: "cf_addr_info c \<noteq> None \<longrightarrow> Addr_Info \<in> w_live (v_world v)" "cf_receive_affinities c \<noteq> None \<longrightarrow> Receive_Affinities \<in> w_live (v_world v)"
    "cf_handle_affinities c \<noteq> None \<longrightarrow> Handle_Affinities \<in> w_live (v_world v)" "cf_handle_streams c \<noteq> None \<longrightarrow> Handle_Streams \<in> w_live (v_world v)"
    "cf_receive_streams c \<noteq> None \<longrightarrow> Receive_Streams \<in> w_live (v_world v)"
    using assms(1) by (auto simp: config_blocks_def)
  let ?B = "\<lambda>p b. if p then {b} else {}"
  have "config_blocks c - {Format} = ?B (cf_addr_info c \<noteq> None) Addr_Info \<union> (?B (cf_receive_affinities c \<noteq> None) Receive_Affinities \<union>
    (?B (cf_handle_affinities c \<noteq> None) Handle_Affinities \<union> (?B (cf_handle_streams c \<noteq> None) Handle_Streams \<union>
    ?B (cf_receive_streams c \<noteq> None) Receive_Streams)))"
    by (auto simp: config_blocks_def)
  then show ?thesis unfolding free_config_def using live assms(2) by (simp add: free_if_idle Un_assoc del: if_cancel)
qed

lemma close_sockets_eq:
  assumes "Socket ` set (map ((!) (v_sockfds v)) js) \<subseteq> w_live (v_world v)" "w_running (v_world v) = {}"
    and "\<forall>i \<in> set js. i < length (v_sockfds v)" "distinct (map ((!) (v_sockfds v)) js)" "-1 \<notin> set (v_sockfds v)"
  shows "close_sockets js v = Some (without_blocks (Socket ` set (map ((!) (v_sockfds v)) js)) {} v)"
  using assms
proof (induction js arbitrary: v)
  case (Cons i js)
  let ?fd = "v_sockfds v ! i"
  have "?fd \<noteq> -1" using Cons.prems(3,5) nth_mem by (metis list.set_intros(1))
  then have "close_sockets (i # js) v = close_sockets js (without_blocks {Socket ?fd} {} v)"
    using Cons.prems by (simp add: rd_def free_if_def free_idle)
  also have "\<dots> = Some (without_blocks (Socket ` set (map ((!) (v_sockfds v)) js)) {} (without_blocks {Socket ?fd} {} v))"
    using Cons.IH [of "without_blocks {Socket ?fd} {} v"] Cons.prems by (auto simp: image_iff)
  finally show ?case by simp
qed simp

lemma free_streams_live:
  assumes "blk ` set js \<subseteq> w_live (v_world v)" "w_running (v_world v) = {}" "\<forall>j \<in> set js. j < length qs" "distinct js" "inj blk"
  shows "free_streams blk (map Live_Stream qs) js v =
    Some (concat (map (\<lambda>j. fst (dealloc_stream (qs ! j))) js), without_blocks (blk ` set js) {} v)"
  using assms(1-4)
proof (induction js arbitrary: v)
  case (Cons j js)
  have "free_streams blk (map Live_Stream qs) js (without_blocks {blk j} {} v) =
    Some (concat (map (\<lambda>j. fst (dealloc_stream (qs ! j))) js), without_blocks (blk ` set js) {} (without_blocks {blk j} {} v))"
    using Cons.prems assms(5) by (intro Cons.IH) (auto dest: injD)
  then show ?case using Cons.prems by (simp add: rd_def free_idle)
qed simp

lemma free_array_live:
  assumes "insert arr (blk ` {..<length qs}) \<subseteq> w_live (v_world v)" "w_running (v_world v) = {}" "inj blk" "\<forall>j. blk j \<noteq> arr"
  shows "free_array arr blk (length qs) (Some (map Live_Stream qs)) v =
    Some (concat (map (\<lambda>q. fst (dealloc_stream q)) qs), without_blocks (insert arr (blk ` {..<length qs})) {} v)"
proof -
  let ?v = "without_blocks (blk ` {..<length qs}) {} v"
  have q: "map (\<lambda>j. fst (dealloc_stream (qs ! j))) [0..<length qs] = map (\<lambda>q. fst (dealloc_stream q)) qs"
    by (rule nth_equalityI) simp_all
  have "free_streams blk (map Live_Stream qs) [0..<length qs] v = Some (concat (map (\<lambda>q. fst (dealloc_stream q)) qs), ?v)"
    using free_streams_live [of blk "[0..<length qs]" v qs] assms by (simp add: q atLeast0LessThan)
  moreover have "free_in arr ?v = Some (without_blocks {arr} {} ?v)"
    using assms by (intro free_idle) auto
  ultimately show ?thesis by (simp add: free_array_def)
qed

lemma free_clients_eq:
  assumes "v_clients v = Some (Some t)" "ht_inv t" "{Table, Clients} \<subseteq> w_live (v_world v)" "w_running (v_world v) = {}"
  shows "\<exists>freed. free_clients v = Some (freed, without_blocks {Table, Clients} {} v) \<and> length freed = ht_length t \<and>
    (\<forall>a. a \<in> set freed \<longleftrightarrow> (\<exists>port ip. length ip = 16 \<and> ht_get t port ip = Some (Some a)))"
proof -
  obtain freed t' where t: "dealloc_ht (Some t) = Some (Inr (freed, t'))" "length freed = ht_length t"
    "\<forall>a. a \<in> set freed \<longleftrightarrow> (\<exists>port ip. length ip = 16 \<and> ht_get t port ip = Some (Some a))"
    using dealloc_ht_frees_all [OF assms(2)] by blast
  moreover have "free_in Table v = Some (without_blocks {Table} {} v)"
    "free_in Clients (without_blocks {Table} {} v) = Some (without_blocks {Table, Clients} {} v)"
    using assms(3,4) by (simp_all add: free_idle insert_commute)
  ultimately show ?thesis using assms(1) by (simp add: free_clients_def)
qed

section \<open>The whole function\<close>

text \<open>
  A state in which \<^verbatim>\<open>deallocate_everything\<close> may be called: the resources are accounted for, the streams and the
  table are there, every handle belongs to a thread, and the queued requests are well formed.
\<close>

definition queue_fine :: "client_heap \<Rightarrow> hd_req_t option stream_t \<Rightarrow> bool" where
  "queue_fine heap q \<longleftrightarrow> counted q \<and> (\<forall>x \<in> set (queue_of q). \<not> stop_node x \<and> request_ok heap x)"

definition ready :: "'ai config_rcv_t \<Rightarrow> main_vars \<Rightarrow> client_heap \<Rightarrow> nat ht_t \<Rightarrow> bool" where
  "ready c v heap t \<longleftrightarrow> resources_ok (config_blocks c) v \<and> arrays_sized c v \<and> \<not> unstarted v \<and> config_ok c \<and>
     length (v_sockfds v) = cf_stream_count c \<and> distinct (v_sockfds v) \<and> -1 \<notin> set (v_sockfds v) \<and>
     (\<exists>forth. v_rx_to_hd v = Some (map Live_Stream forth) \<and> length forth = cf_stream_count c \<and> list_all (queue_fine heap) forth) \<and>
     (\<exists>backs. v_hd_to_rx v = Some (map Live_Stream backs) \<and> length backs = cf_stream_count c) \<and>
     v_clients v = Some (Some t) \<and> ht_inv t \<and> (\<forall>hs. v_hd_configs v = Some hs \<longrightarrow> Some Started \<in> set hs \<longrightarrow> heap_ok heap)"

lemma stops_ready:
  assumes "stop_env_ok env" "list_all (queue_fine heap) forth" "j < length forth"
  shows "length (stop_streams (t_node env) m forth) = length forth \<and> stream_ready heap (stop_streams (t_node env) m forth ! j) m"
proof -
  have n: "t_node env = (\<lambda>_ _. (True, True))" using assms(1) by (auto simp: stop_env_ok_def fun_eq_iff)
  have q: "counted (forth ! j)" "\<forall>x \<in> set (queue_of (forth ! j)). \<not> stop_node x \<and> request_ok heap x"
    using assms(2,3) by (simp_all add: list_all_length queue_fine_def)
  show ?thesis
    using stop_streams_granted [OF assms(3) q(1), of m] q(2) unfolding stream_ready_def n
    by (intro conjI exI [of _ "queue_of (forth ! j)"] exI [of _ m]) simp_all
qed

lemma waiting_bound: "waiting_for ss hs [0..<length hs] j \<le> length hs"
  using length_filter_le [of "\<lambda>i. hs ! i = Some Started \<and> unat (ss ! i) = j" "[0..<length hs]"] by (simp add: waiting_for_def)

lemma stream_ready_less:
  assumes "stream_ready heap q m" "m' \<le> m"
  shows "stream_ready heap q m'"
proof -
  obtain before k where "counted q" "queue_of q = before @ replicate k stop_request" "m \<le> k"
    "\<forall>x \<in> set before. \<not> stop_node x \<and> request_ok heap x" using assms(1) unfolding stream_ready_def by blast
  then show ?thesis using assms(2) unfolding stream_ready_def by (intro conjI exI [of _ before] exI [of _ k]) simp_all
qed

lemma receivers_phase:
  assumes "ready c v heap t"
  obtains v1 where "stop_receivers [0..<cf_receive_num c] v = Some v1" "v_rx_configs v1 = v_rx_configs v"
    "free_if (v_rx_configs v1 \<noteq> None) Rx_Configs v1 =
      Some (without_blocks (config_array_blocks Rx_Configs Rx_Config Rx_Thread (v_rx_configs v)) (threads_of Rx (v_rx_configs v)) v)"
proof -
  obtain rs where rs: "v_rx_configs v = Some rs" "length rs = cf_receive_num c" "Some Unstarted \<notin> set rs"
    using assms by (auto simp: ready_def arrays_sized_def unstarted_def)
  have live: "config_array_blocks Rx_Configs Rx_Config Rx_Thread (Some rs) \<subseteq> w_live (v_world v)"
    and run: "Rx i \<in> w_running (v_world v) \<longleftrightarrow> i < length rs \<and> rs ! i = Some Started" for i
    using assms rs(1) by (auto simp: ready_def resources_ok_def owned_def owned_threads_def threads_of_def split: option.splits)
  define v1 where "v1 = without_blocks (\<Union>i < length rs. entry_blocks Rx_Config Rx_Thread rs i) (\<Union>i < length rs. entry_threads Rx rs i) v"
  have "stop_receivers [0..<cf_receive_num c] v = Some v1"
    unfolding v1_def using stop_receivers_eq [OF rs(1), of "[0..<cf_receive_num c]"] rs live run
    by (auto simp: entries_all(1) atLeast0LessThan)
  moreover have "Rx_Configs \<notin> (\<Union>i < length rs. entry_blocks Rx_Config Rx_Thread rs i)" by (auto simp: entry_blocks_def split: if_splits)
  then have "free_in Rx_Configs v1 = Some (without_blocks {Rx_Configs} {} v1)"
    using live by (subst free_in_eq) (auto simp: v1_def entries_all(1) elim!: uses.elims)
  then have "free_if (v_rx_configs v1 \<noteq> None) Rx_Configs v1 =
      Some (without_blocks (config_array_blocks Rx_Configs Rx_Config Rx_Thread (Some rs)) (threads_of Rx (Some rs)) v)"
    using rs(1) by (simp add: free_if_def v1_def entries_all)
  ultimately show thesis using that [of v1] rs(1) by (simp add: v1_def)
qed

text \<open>The handlers stop, on streams that have a request to stop for each of them.\<close>

lemma handlers_stopped:
  assumes "ready c v heap t" "stop_env_ok env" "v_hd_configs v = Some hs"
    and q: "v_rx_to_hd v = Some (map Live_Stream forth)" "length forth = cf_stream_count c" "list_all (queue_fine heap) forth"
      "v_hd_to_rx v = Some (map Live_Stream backs)" "length backs = cf_stream_count c"
    and v2: "v2 = without_blocks (config_array_blocks Rx_Configs Rx_Config Rx_Thread (v_rx_configs v)) (threads_of Rx (v_rx_configs v))
      (v\<lparr>v_rx_to_hd := Some (map Live_Stream (stop_streams (t_node env) (cf_handle_num c) forth))\<rparr>)"
  shows "\<exists>forth' backs' heap'. stop_handlers env c [0..<cf_handle_num c] (v2, heap) =
      Some (without_blocks (\<Union>i < length hs. entry_blocks Hd_Config Hd_Thread hs i) (\<Union>i < length hs. entry_threads Hd hs i)
        (v2\<lparr>v_rx_to_hd := Some (map Live_Stream forth'), v_hd_to_rx := Some (map Live_Stream backs')\<rparr>), heap') \<and>
      length forth' = cf_stream_count c \<and> length backs' = cf_stream_count c \<and> dom heap' = dom heap"
proof -
  let ?n = "cf_stream_count c" and ?H = "cf_handle_num c"
  let ?RB = "config_array_blocks Rx_Configs Rx_Config Rx_Thread (v_rx_configs v)" and ?RT = "threads_of Rx (v_rx_configs v)"
  let ?forth = "stop_streams (t_node env) ?H forth"
  have r: "resources_ok (config_blocks c) v" "config_ok c" "\<forall>hs. v_hd_configs v = Some hs \<longrightarrow> Some Started \<in> set hs \<longrightarrow> heap_ok heap"
    using assms(1) unfolding ready_def by blast+
  have len: "length ?forth = ?n" using q(2) by (simp add: stop_streams_def fold_invariant [where P = "\<lambda>qs. length qs = ?n"])
  obtain ss where ss: "cf_handle_streams c = Some ss" "length ss = ?H" "\<forall>s \<in> set ss. unat s < ?n" using r(2) by (auto simp: config_ok_def)
  have hs: "length hs = ?H" "Some Unstarted \<notin> set hs"
    using assms(1,3) by (auto simp: ready_def arrays_sized_def unstarted_def)
  have ready: "\<forall>j < ?n. stream_ready heap (?forth ! j) (waiting_for ss hs [0..<?H] j)"
  proof (intro allI impI)
    fix j
    assume "j < ?n"
    then have "stream_ready heap (?forth ! j) (length hs)" using stops_ready [OF assms(2) q(3), of j ?H] q(2) hs(1) by simp
    from stream_ready_less [OF this waiting_bound [of ss hs j]] show "stream_ready heap (?forth ! j) (waiting_for ss hs [0..<?H] j)"
      using hs(1) by simp
  qed
  have live: "config_array_blocks Hd_Configs Hd_Config Hd_Thread (Some hs) \<subseteq> w_live (v_world v)"
    and run: "Hd i \<in> w_running (v_world v) \<longleftrightarrow> i < length hs \<and> hs ! i = Some Started"
      "Rx i \<in> w_running (v_world v) \<longleftrightarrow> Rx i \<in> ?RT" for i
    using r(1) assms(3) by (auto simp: resources_ok_def owned_def owned_threads_def threads_of_def split: option.splits)
  have apart: "config_array_blocks Hd_Configs Hd_Config Hd_Thread (Some hs) \<inter> ?RB = {}" "Hd i \<notin> ?RT" for i
    by (auto simp: config_array_blocks_def threads_of_def split: option.splits)
  have entries: "entry_blocks Hd_Config Hd_Thread hs i \<subseteq> w_live (v_world v2)" if "i < ?H" for i
  proof -
    have "entry_blocks Hd_Config Hd_Thread hs i \<subseteq> config_array_blocks Hd_Configs Hd_Config Hd_Thread (Some hs)"
      using that hs(1) by (auto simp: entries_all)
    then show ?thesis using live apart(1) by (auto simp: v2)
  qed
  have "\<exists>forth' backs' heap'. stop_handlers env c [0..<?H] (v2, heap) =
    Some (without_blocks (\<Union>i \<in> set [0..<?H]. entry_blocks Hd_Config Hd_Thread hs i) (\<Union>i \<in> set [0..<?H]. entry_threads Hd hs i)
      (v2\<lparr>v_rx_to_hd := Some (map Live_Stream forth'), v_hd_to_rx := Some (map Live_Stream backs')\<rparr>), heap') \<and>
    length forth' = ?n \<and> length backs' = ?n \<and> dom heap' = dom heap"
  proof (rule stop_handlers_end [where forth = ?forth and backs = backs, OF assms(2) ss(1,3) _ _ _ _ hs(2) _ _ _ _ _ _ _ _ ready])
    show "\<forall>i \<in> set [0..<?H]. Hd i \<in> w_running (v_world v2) \<longleftrightarrow> hs ! i = Some Started"
      "\<forall>i. Rx i \<notin> w_running (v_world v2)" using run apart(2) hs(1) by (auto simp: v2)
  qed (use q len ss hs assms(3) r(3) entries in \<open>simp_all add: v2\<close>)
  then show ?thesis using hs(1) by (simp add: atLeast0LessThan)
qed

lemma handlers_phase:
  assumes "ready c v heap t" "stop_env_ok env"
    and v1: "v1 = without_blocks (config_array_blocks Rx_Configs Rx_Config Rx_Thread (v_rx_configs v)) (threads_of Rx (v_rx_configs v)) v"
  obtains v2 forth backs heap' where "send_stops env (cf_handle_num c) (cf_stream_count c) v1 = Some v2"
    "(if v_hd_configs v2 = None then Some (v2, heap) else do {
       (v, heap) \<leftarrow> stop_handlers env c [0..<cf_handle_num c] (v2, heap);
       v \<leftarrow> free_in Hd_Configs v;
       Some (v, heap)
     }) = Some (without_blocks (config_array_blocks Rx_Configs Rx_Config Rx_Thread (v_rx_configs v) \<union>
         config_array_blocks Hd_Configs Hd_Config Hd_Thread (v_hd_configs v)) (owned_threads v)
         (v\<lparr>v_rx_to_hd := Some (map Live_Stream forth), v_hd_to_rx := Some (map Live_Stream backs)\<rparr>), heap')"
    "length forth = cf_stream_count c" "length backs = cf_stream_count c" "dom heap' = dom heap"
proof -
  let ?n = "cf_stream_count c" and ?H = "cf_handle_num c"
  let ?RB = "config_array_blocks Rx_Configs Rx_Config Rx_Thread (v_rx_configs v)" and ?RT = "threads_of Rx (v_rx_configs v)"
  obtain forth backs where q: "v_rx_to_hd v = Some (map Live_Stream forth)" "length forth = ?n" "list_all (queue_fine heap) forth"
    "v_hd_to_rx v = Some (map Live_Stream backs)" "length backs = ?n" and r: "resources_ok (config_blocks c) v"
    using assms(1) unfolding ready_def by blast
  let ?forth = "stop_streams (t_node env) ?H forth" and ?v = "v\<lparr>v_rx_to_hd := Some (map Live_Stream (stop_streams (t_node env) ?H forth))\<rparr>"
  define v2 where "v2 = without_blocks ?RB ?RT ?v"
  have send: "send_stops env ?H ?n v1 = Some v2"
    using send_stops_eq [of v1 forth ?n env ?H] q(1,2) by (simp add: v1 v2_def without_streams)
  have len: "length ?forth = ?n" using q(2) by (simp add: stop_streams_def fold_invariant [where P = "\<lambda>qs. length qs = ?n"])
  show thesis
  proof (cases "v_hd_configs v")
    case None
    then show thesis using q len
      by (intro that [OF send, of backs ?forth heap]) (simp_all add: v2_def owned_threads_def)
  next
    case (Some hs)
    let ?HB = "\<Union>i < length hs. entry_blocks Hd_Config Hd_Thread hs i" and ?HT = "\<Union>i < length hs. entry_threads Hd hs i"
    from handlers_stopped [OF assms(1,2) Some q v2_def]
    obtain forth' backs' heap' where h: "stop_handlers env c [0..<?H] (v2, heap) = Some (without_blocks ?HB ?HT
        (v2\<lparr>v_rx_to_hd := Some (map Live_Stream forth'), v_hd_to_rx := Some (map Live_Stream backs')\<rparr>), heap')"
      "length forth' = ?n" "length backs' = ?n" "dom heap' = dom heap" by (elim exE conjE)
    let ?v' = "v\<lparr>v_rx_to_hd := Some (map Live_Stream forth'), v_hd_to_rx := Some (map Live_Stream backs')\<rparr>"
    have e: "without_blocks ?HB ?HT (v2\<lparr>v_rx_to_hd := Some (map Live_Stream forth'), v_hd_to_rx := Some (map Live_Stream backs')\<rparr>) =
      without_blocks (?RB \<union> ?HB) (?RT \<union> ?HT) ?v'" by (simp add: v2_def without_streams)
    have live: "config_array_blocks Hd_Configs Hd_Config Hd_Thread (Some hs) \<subseteq> w_live (v_world v)"
      "config_array_blocks Hd_Configs Hd_Config Hd_Thread (Some hs) \<inter> ?RB = {}"
      using r Some by (auto simp: resources_ok_def owned_def config_array_blocks_def split: option.splits)
    have "Hd_Configs \<notin> ?HB" by (auto simp: entry_blocks_def split: if_splits)
    then have "free_in Hd_Configs (without_blocks (?RB \<union> ?HB) (?RT \<union> ?HT) ?v') =
      Some (without_blocks (?RB \<union> config_array_blocks Hd_Configs Hd_Config Hd_Thread (Some hs)) (owned_threads v) ?v')"
      using live Some by (subst free_in_eq) (auto simp: entries_all owned_threads_def elim!: uses.elims)
    then show thesis using h e Some by (intro that [OF send, of backs' forth' heap']) (simp_all add: v2_def)
  qed
qed

lemma slot_blocks_live: "slot_blocks arr blk (Some (map Live_Stream qs)) = insert arr (blk ` {..<length qs})"
  by (auto simp: slot_blocks_def)

lemma final_phase:
  assumes "w_live (v_world v) = config_blocks c \<union> Socket ` set (v_sockfds v) \<union> slot_blocks Rx_To_Hd Rx_To_Hd_At (v_rx_to_hd v) \<union>
      slot_blocks Hd_To_Rx Hd_To_Rx_At (v_hd_to_rx v) \<union> {Clients, Table}" "w_running (v_world v) = {}"
    and "length (v_sockfds v) = cf_stream_count c" "distinct (v_sockfds v)" "-1 \<notin> set (v_sockfds v)"
    and "v_rx_to_hd v = Some (map Live_Stream forth)" "v_hd_to_rx v = Some (map Live_Stream backs)"
    and "length forth = cf_stream_count c" "length backs = cf_stream_count c" "v_clients v = Some (Some t)" "ht_inv t"
  obtains v1 v2 v3 v4 v5 freed where "free_config c v = Some v1" "close_sockets [0..<cf_stream_count c] v1 = Some v2"
    "free_array Rx_To_Hd Rx_To_Hd_At (cf_stream_count c) (v_rx_to_hd v2) v2 = Some (concat (map (\<lambda>q. fst (dealloc_stream q)) forth), v3)"
    "free_array Hd_To_Rx Hd_To_Rx_At (cf_stream_count c) (v_hd_to_rx v3) v3 = Some (concat (map (\<lambda>q. fst (dealloc_stream q)) backs), v4)"
    "free_clients v4 = Some (freed, v5)" "w_live (v_world v5) = config_blocks c \<inter> {Format}" "w_running (v_world v5) = {}"
    "length freed = ht_length t" "\<forall>a. a \<in> set freed \<longleftrightarrow> (\<exists>port ip. length ip = 16 \<and> ht_get t port ip = Some (Some a))"
proof -
  let ?n = "cf_stream_count c" and ?cb = "config_blocks c - {Format}" and ?S = "Socket ` set (v_sockfds v)"
  let ?F = "insert Rx_To_Hd (Rx_To_Hd_At ` {..<cf_stream_count c})" and ?B = "insert Hd_To_Rx (Hd_To_Rx_At ` {..<cf_stream_count c})"
  have cb: "config_blocks c \<subseteq> {Addr_Info, Format, Receive_Affinities, Handle_Affinities, Handle_Streams, Receive_Streams}"
    by (auto simp: config_blocks_def)
  have live: "w_live (v_world v) = config_blocks c \<union> ?S \<union> ?F \<union> ?B \<union> {Clients, Table}"
    using assms(1,6-9) by (simp add: slot_blocks_live)
  have fds: "map ((!) (v_sockfds v)) [0..<?n] = v_sockfds v" using assms(3) by (metis map_nth)
  let ?v1 = "without_blocks ?cb {} v" and ?v2 = "without_blocks (?cb \<union> ?S) {} v" and ?v3 = "without_blocks (?cb \<union> ?S \<union> ?F) {} v"
    and ?v4 = "without_blocks (?cb \<union> ?S \<union> ?F \<union> ?B) {} v"
  have s1: "free_config c v = Some ?v1" using live assms(2) by (intro free_config_eq) auto
  have "close_sockets [0..<?n] ?v1 = Some (without_blocks (Socket ` set (map ((!) (v_sockfds ?v1)) [0..<?n])) {} ?v1)"
    using live cb assms(2-5) fds by (intro close_sockets_eq) auto
  then have s2: "close_sockets [0..<?n] ?v1 = Some ?v2" by (simp add: fds)
  have "free_array Rx_To_Hd Rx_To_Hd_At (length forth) (Some (map Live_Stream forth)) ?v2 =
      Some (concat (map (\<lambda>q. fst (dealloc_stream q)) forth), without_blocks (insert Rx_To_Hd (Rx_To_Hd_At ` {..<length forth})) {} ?v2)"
    using live cb assms(2,8) by (intro free_array_live) (auto simp: inj_def)
  then have s3: "free_array Rx_To_Hd Rx_To_Hd_At ?n (v_rx_to_hd ?v2) ?v2 = Some (concat (map (\<lambda>q. fst (dealloc_stream q)) forth), ?v3)"
    using assms(6,8) by (simp add: Un_assoc)
  have "free_array Hd_To_Rx Hd_To_Rx_At (length backs) (Some (map Live_Stream backs)) ?v3 =
      Some (concat (map (\<lambda>q. fst (dealloc_stream q)) backs), without_blocks (insert Hd_To_Rx (Hd_To_Rx_At ` {..<length backs})) {} ?v3)"
    using live cb assms(2,9) by (intro free_array_live) (auto simp: inj_def)
  then have s4: "free_array Hd_To_Rx Hd_To_Rx_At ?n (v_hd_to_rx ?v3) ?v3 = Some (concat (map (\<lambda>q. fst (dealloc_stream q)) backs), ?v4)"
    using assms(7,9) by (simp add: Un_assoc)
  have tc: "{Table, Clients} \<subseteq> w_live (v_world ?v4)" using live cb by auto
  obtain freed where f: "free_clients ?v4 = Some (freed, without_blocks {Table, Clients} {} ?v4)" "length freed = ht_length t"
    "\<forall>a. a \<in> set freed \<longleftrightarrow> (\<exists>port ip. length ip = 16 \<and> ht_get t port ip = Some (Some a))"
    using free_clients_eq [of ?v4 t, OF _ assms(11) tc] assms(2,10) by auto
  have "w_live (v_world (without_blocks {Table, Clients} {} ?v4)) = config_blocks c \<inter> {Format}"
    using live cb by auto
  then show thesis using that [OF s1 s2 s3 s4 f(1)] f(2,3) assms(2) by simp
qed

lemma deallocate_everything_eq:
  assumes "ready c v heap t" "stop_env_ok env"
  shows "\<exists>forth backs clients v' heap'. deallocate_everything env c v heap =
      Some (concat (map (\<lambda>q. fst (dealloc_stream q)) forth) @ concat (map (\<lambda>q. fst (dealloc_stream q)) backs), clients, v', heap') \<and>
    w_live (v_world v') = config_blocks c \<inter> {Format} \<and> w_running (v_world v') = {} \<and> dom heap' = dom heap \<and>
    length clients = ht_length t \<and> (\<forall>a. a \<in> set clients \<longleftrightarrow> (\<exists>port ip. length ip = 16 \<and> ht_get t port ip = Some (Some a)))"
proof -
  let ?RB = "config_array_blocks Rx_Configs Rx_Config Rx_Thread (v_rx_configs v)" and ?RT = "threads_of Rx (v_rx_configs v)"
  let ?HB = "config_array_blocks Hd_Configs Hd_Config Hd_Thread (v_hd_configs v)"
  obtain v1 where v1: "stop_receivers [0..<cf_receive_num c] v = Some v1" "v_rx_configs v1 = v_rx_configs v"
    "free_if (v_rx_configs v1 \<noteq> None) Rx_Configs v1 = Some (without_blocks ?RB ?RT v)"
    by (rule receivers_phase [OF assms(1)]) (rule that; assumption)
  obtain v2 forth backs heap' where v2: "send_stops env (cf_handle_num c) (cf_stream_count c) (without_blocks ?RB ?RT v) = Some v2"
    "(if v_hd_configs v2 = None then Some (v2, heap) else do {
       (v, heap) \<leftarrow> stop_handlers env c [0..<cf_handle_num c] (v2, heap);
       v \<leftarrow> free_in Hd_Configs v;
       Some (v, heap)
     }) = Some (without_blocks (?RB \<union> ?HB) (owned_threads v)
         (v\<lparr>v_rx_to_hd := Some (map Live_Stream forth), v_hd_to_rx := Some (map Live_Stream backs)\<rparr>), heap')"
    "length forth = cf_stream_count c" "length backs = cf_stream_count c" "dom heap' = dom heap"
    by (rule handlers_phase [OF assms refl]) (rule that; assumption)
  define v3 where "v3 = without_blocks (?RB \<union> ?HB) (owned_threads v)
    (v\<lparr>v_rx_to_hd := Some (map Live_Stream forth), v_hd_to_rx := Some (map Live_Stream backs)\<rparr>)"
  obtain f0 b0 where r: "resources_ok (config_blocks c) v" "length (v_sockfds v) = cf_stream_count c" "distinct (v_sockfds v)"
    "-1 \<notin> set (v_sockfds v)" "v_clients v = Some (Some t)" "ht_inv t" "v_rx_to_hd v = Some (map Live_Stream f0)"
    "length f0 = cf_stream_count c" "v_hd_to_rx v = Some (map Live_Stream b0)" "length b0 = cf_stream_count c"
    using assms(1) by (auto simp: ready_def)
  have "config_blocks c \<inter> (?RB \<union> ?HB) = {}"
    by (auto simp: config_blocks_def config_array_blocks_def split: option.splits if_splits)
  then have live: "w_live (v_world v3) = config_blocks c \<union> Socket ` set (v_sockfds v3) \<union> slot_blocks Rx_To_Hd Rx_To_Hd_At (v_rx_to_hd v3) \<union>
      slot_blocks Hd_To_Rx Hd_To_Rx_At (v_hd_to_rx v3) \<union> {Clients, Table}"
    using r v2(3,4)
    by (auto simp: v3_def resources_ok_def owned_def slot_blocks_live config_array_blocks_def split: option.splits)
  have f: "w_running (v_world v3) = {}" "length (v_sockfds v3) = cf_stream_count c" "distinct (v_sockfds v3)" "-1 \<notin> set (v_sockfds v3)"
    "v_rx_to_hd v3 = Some (map Live_Stream forth)" "v_hd_to_rx v3 = Some (map Live_Stream backs)" "v_clients v3 = Some (Some t)"
    using r by (simp_all add: v3_def resources_ok_def)
  obtain w1 w2 w3 w4 w5 freed where w: "free_config c v3 = Some w1" "close_sockets [0..<cf_stream_count c] w1 = Some w2"
    "free_array Rx_To_Hd Rx_To_Hd_At (cf_stream_count c) (v_rx_to_hd w2) w2 = Some (concat (map (\<lambda>q. fst (dealloc_stream q)) forth), w3)"
    "free_array Hd_To_Rx Hd_To_Rx_At (cf_stream_count c) (v_hd_to_rx w3) w3 = Some (concat (map (\<lambda>q. fst (dealloc_stream q)) backs), w4)"
    "free_clients w4 = Some (freed, w5)" "w_live (v_world w5) = config_blocks c \<inter> {Format}" "w_running (v_world w5) = {}"
    "length freed = ht_length t" "\<forall>a. a \<in> set freed \<longleftrightarrow> (\<exists>port ip. length ip = 16 \<and> ht_get t port ip = Some (Some a))"
    by (rule final_phase [OF live f(1-6) v2(3,4) f(7) r(6)]) (rule that; assumption)
  have "deallocate_everything env c v heap = Some (concat (map (\<lambda>q. fst (dealloc_stream q)) forth) @
      concat (map (\<lambda>q. fst (dealloc_stream q)) backs), freed, w5, heap')"
    using w(1-5) unfolding deallocate_everything_def v1(1) bind.bind_lunit v1(3) v2(1) v2(2) [folded v3_def] by simp
  then show ?thesis using w(6-9) v2(5) by blast
qed

section \<open>Handles without a thread\<close>

lemma world_only:
  "free_in b v = Some v' \<Longrightarrow> v_rx_configs v' = v_rx_configs v \<and> v_hd_configs v' = v_hd_configs v"
  "join_in t v = Some v' \<Longrightarrow> v_rx_configs v' = v_rx_configs v \<and> v_hd_configs v' = v_hd_configs v"
  by (auto simp: free_in_def join_in_def bind_eq_Some_conv)

lemma stop_receiver_keep:
  assumes "stop_receiver i v = Some v'"
  shows "v_rx_configs v' = v_rx_configs v \<and> v_hd_configs v' = v_hd_configs v \<and> rd (the (v_rx_configs v)) i \<noteq> Some (Some Unstarted)"
  using assms
  by (clarsimp simp: stop_receiver_def bind_eq_Some_conv)
    (auto simp: bind_eq_Some_conv split: option.split_asm handle.split_asm dest!: world_only)

lemma stop_receivers_keep: "stop_receivers js v = Some v' \<Longrightarrow> v_rx_configs v' = v_rx_configs v \<and> v_hd_configs v' = v_hd_configs v"
  by (induction js arbitrary: v) (auto simp: bind_eq_Some_conv dest!: stop_receiver_keep)

lemma stop_receivers_unstarted:
  assumes "v_rx_configs v = Some rs" "i \<in> set js" "i < length rs" "rs ! i = Some Unstarted"
  shows "stop_receivers js v = None"
proof (rule ccontr)
  assume "stop_receivers js v \<noteq> None"
  then show False using assms
    by (induction js arbitrary: v) (fastforce simp: bind_eq_Some_conv rd_def dest!: stop_receiver_keep)+
qed

lemma run_handler_keep:
  assumes "run_handler env c i (v, heap) = Some (v', heap')"
  shows "v_hd_configs v' = v_hd_configs v"
  using assms
  by (clarsimp simp: run_handler_def bind_eq_Some_conv) (auto simp: bind_eq_Some_conv split: slot.split_asm)

lemma stop_handler_keep:
  assumes "stop_handler env c i (v, heap) = Some (v', heap')"
  shows "v_hd_configs v' = v_hd_configs v \<and> rd (the (v_hd_configs v)) i \<noteq> Some (Some Unstarted)"
  using assms
  by (clarsimp simp: stop_handler_def bind_eq_Some_conv)
    (auto simp: bind_eq_Some_conv split: option.split_asm handle.split_asm dest!: world_only run_handler_keep)

lemma stop_handlers_unstarted:
  assumes "v_hd_configs v = Some hs" "i \<in> set js" "i < length hs" "hs ! i = Some Unstarted"
  shows "stop_handlers env c js (v, heap) = None"
proof (rule ccontr)
  assume "stop_handlers env c js (v, heap) \<noteq> None"
  then show False using assms
    by (induction js arbitrary: v heap) (fastforce simp: bind_eq_Some_conv rd_def dest!: stop_handler_keep)+
qed

lemma send_stops_keep: "send_stops env m n v = Some v' \<Longrightarrow> v_hd_configs v' = v_hd_configs v"
  by (auto simp: send_stops_def bind_eq_Some_conv split: option.splits if_splits)

lemma deallocate_unstarted:
  assumes "arrays_sized c v" "unstarted v"
  shows "deallocate_everything env c v heap = None"
proof -
  obtain xs i where x: "v_rx_configs v = Some xs \<or> v_hd_configs v = Some xs" "i < length xs" "xs ! i = Some Unstarted"
    using assms(2) by (auto simp: unstarted_def in_set_conv_nth)
  show ?thesis
  proof (cases "stop_receivers [0..<cf_receive_num c] v")
    case None
    then show ?thesis by (simp add: deallocate_everything_def)
  next
    case (Some v1)
    then have hd: "v_hd_configs v = Some xs" "i \<in> set [0..<cf_handle_num c]" "v_hd_configs v1 = v_hd_configs v"
      using x stop_receivers_unstarted [of v xs i "[0..<cf_receive_num c]"] stop_receivers_keep [OF Some] assms(1)
      by (auto simp: arrays_sized_def)
    show ?thesis
    proof (cases "do {v2 \<leftarrow> free_if (v_rx_configs v1 \<noteq> None) Rx_Configs v1; send_stops env (cf_handle_num c) (cf_stream_count c) v2}")
      case None
      with Some show ?thesis by (auto simp: deallocate_everything_def bind_eq_None_conv)
    next
      case (Some v3)
      then obtain v2 where v2: "free_if (v_rx_configs v1 \<noteq> None) Rx_Configs v1 = Some v2" "send_stops env (cf_handle_num c) (cf_stream_count c) v2 = Some v3"
        by (auto simp: bind_eq_Some_conv)
      have "v_hd_configs v3 = Some xs"
        using send_stops_keep [OF v2(2)] world_only(1) [of Rx_Configs v1 v2] v2(1) hd by (auto simp: free_if_def split: if_splits)
      then have "stop_handlers env c [0..<cf_handle_num c] (v3, heap) = None" "v_hd_configs v3 \<noteq> None"
        using stop_handlers_unstarted [of v3 xs i _ env c heap, OF _ hd(2) x(2,3)] by simp_all
      then show ?thesis using \<open>stop_receivers _ v = Some v1\<close> v2 by (auto simp: deallocate_everything_def)
    qed
  qed
qed

lemma deallocate_null: "v_rx_configs v = None \<Longrightarrow> 0 < cf_receive_num c \<Longrightarrow> deallocate_everything env c v heap = None"
  by (simp add: deallocate_everything_def stop_receiver_def upt_conv_Cons)

section \<open>After the set-up\<close>

lemma late_ready:
  assumes "resources_ok (config_blocks c) v" "tables_done env c v" "arrays_sized c v" "\<not> unstarted v" "config_ok c"
    and "inj_on (e_socket env) {..<cf_stream_count c}" "\<forall>i < cf_stream_count c. socket_granted env i"
  shows "ready c v Map.empty new_table"
proof -
  let ?n = "cf_stream_count c"
  have q: "queue_fine Map.empty initialize_stream"
    using counted_initial by (simp add: queue_fine_def initialize_stream_def queue_of_def)
  have "distinct (v_sockfds v)" "-1 \<notin> set (v_sockfds v)" "length (v_sockfds v) = ?n"
    using assms(2,6,7) by (auto simp: tables_done_def distinct_map socket_granted_def atLeast0LessThan)
  moreover have "replicate ?n (Live_Stream initialize_stream) = map Live_Stream (replicate ?n initialize_stream)" by simp
  moreover have "heap_ok Map.empty" by (simp add: heap_ok_def unlocked_def)
  ultimately show ?thesis
    using assms q new_table_facts(1) unfolding ready_def tables_done_def
    by (auto simp: list_all_iff intro!: exI [of _ "replicate ?n initialize_stream"])
qed

section \<open>Properties\<close>


text \<open>
  C35. What happens when a call of the set-up fails after the sockets are open. When a stream, the
  table or the array of the receivers cannot be allocated, \<^verbatim>\<open>deallocate_everything\<close> follows a null pointer;
  when a thread cannot be created, it joins a thread that does not exist; and in every other case it
  releases all that was acquired, and nothing else.
\<close>

theorem setup_failure:
  assumes "main_setup env c junk = (Undo, v)" "config_ok c" "0 < cf_receive_num c" "length junk = cf_stream_count c"
    and "\<forall>i < cf_stream_count c. socket_granted env i" "inj_on (e_socket env) {..<cf_stream_count c}" "stop_env_ok tenv"
  shows "if \<not> (tables_granted env (cf_stream_count c) \<and> e_memory env Rx_Configs) \<or> thread_missing env c
    then deallocate_everything tenv c v Map.empty = None
    else \<exists>nodes v' heap'. deallocate_everything tenv c v Map.empty = Some (nodes, [], v', heap') \<and>
      w_live (v_world v') = config_blocks c \<inter> {Format} \<and> w_running (v_world v') = {}"
proof (cases rule: main_setup_cases [OF assms(4,5,2), case_names early late])
  case (early v')
  then show ?thesis using assms(1) deallocate_null [OF _ assms(3), of v tenv Map.empty] by simp
next
  case (late v' st)
  then have v: "v' = v" using assms(1) by simp
  show ?thesis
  proof (cases "unstarted v")
    case True
    then show ?thesis using late v deallocate_unstarted [of c v tenv Map.empty] by simp
  next
    case False
    have "ready c v Map.empty new_table" using late v False assms(2,5,6) by (intro late_ready) simp_all
    from deallocate_everything_eq [OF this assms(7)] show ?thesis
      using late(1,2,7) v False by (auto simp: ht_length_def new_table_facts(2))
  qed
qed

section \<open>Witnesses\<close>

definition sample_running :: "nat config_rcv_t" where
  "sample_running = sample_config\<lparr>cf_receive_streams := Some [0], cf_handle_streams := Some [0, 0], cf_stream_count := 1,
     cf_addr_info := Some 1, cf_deallocate_format := True, cf_max_connections := 100\<rparr>"

definition sample_setup_env :: setup_env where
  "sample_setup_env = \<lparr>e_socket = (\<lambda>i. 3 + int i), e_setsockopt = (\<lambda>i k. True), e_bind = (\<lambda>i. True), e_memory = (\<lambda>b. True),
     e_stream_init = (\<lambda>b. (True, True)), e_table_init = (True, True, True), e_create = (\<lambda>t. True), e_stop_mutex = True, e_stop_cond = True\<rparr>"

definition sample_stop_env :: stop_env where
  "sample_stop_env = \<lparr>t_node = (\<lambda>i j. (True, True)), t_answers = (\<lambda>i. sample_answers), t_cfg = (\<lambda>i. sample_cfg),
     t_packet = (\<lambda>i. Some fresh_packet), t_arrays = (\<lambda>i. (replicate 32 \<lparr>msg_name = None, msg_row = replicate 12 0\<rparr>, replicate (528 * 31) 0))\<rparr>"

lemma sample_running_ok: "config_ok sample_running"
  by (simp add: sample_running_def sample_config_def empty_config_def config_ok_def)

lemma sample_stop_env_ok: "stop_env_ok sample_stop_env"
  using sample_answers_ok by (simp add: stop_env_ok_def sample_stop_env_def msgs_ok_def)

lemma sample_sockets: "\<forall>i. socket_granted (sample_setup_env\<lparr>e_create := p\<rparr>) i" "inj_on (e_socket (sample_setup_env\<lparr>e_create := p\<rparr>)) A"
  by (simp_all add: socket_granted_def sample_setup_env_def list_all_iff inj_on_def)

lemma sample_tables: "tables_granted (sample_setup_env\<lparr>e_create := p\<rparr>) n" "e_memory (sample_setup_env\<lparr>e_create := p\<rparr>) b"
  by (simp_all add: tables_granted_def new_stream_def sample_setup_env_def)

lemma sample_setup:
  assumes "p = (\<lambda>t. True)"
  shows "ready sample_running (snd (main_setup (sample_setup_env\<lparr>e_create := p\<rparr>) sample_running [0])) Map.empty new_table"
proof (cases rule: main_setup_cases [of "[0]" sample_running "sample_setup_env\<lparr>e_create := p\<rparr>", case_names len sock conf early late])
  case (late v st)
  have "\<not> thread_missing (sample_setup_env\<lparr>e_create := p\<rparr>) sample_running"
    using assms by (auto simp: thread_missing_def creation_fails_def sample_setup_env_def)
  then show ?thesis using late sample_sockets sample_running_ok late_ready [of sample_running v "sample_setup_env\<lparr>e_create := p\<rparr>"] by simp
qed (use sample_sockets sample_tables sample_running_ok in \<open>simp_all add: sample_running_def\<close>)


theorem setup_failure_witness:
  "\<exists>v. main_setup (sample_setup_env\<lparr>e_create := (\<lambda>t. t \<noteq> Hd 1)\<rparr>) sample_running [0] = (Undo, v) \<and>
    deallocate_everything sample_stop_env sample_running v Map.empty = None"
proof (cases rule: main_setup_cases [of "[0]" sample_running "sample_setup_env\<lparr>e_create := (\<lambda>t. t \<noteq> Hd 1)\<rparr>", case_names len sock conf early late])
  case (late v st)
  let ?env = "sample_setup_env\<lparr>e_create := (\<lambda>t. t \<noteq> Hd 1)\<rparr>"
  have c: "cf_handle_num sample_running = 2" "cf_receive_num sample_running = 1" "\<not> cf_sequential sample_running"
    "cf_stream_count sample_running = 1" by (simp_all add: sample_running_def sample_config_def empty_config_def)
  have "\<not> all_started ?env Hd_Thread Hd 2" "creation_fails ?env Hd_Thread Hd 2" "all_started ?env Rx_Thread Rx 1"
    by (auto simp: all_started_def creation_fails_def sample_setup_env_def intro!: exI [of _ 1])
  then have m: "thread_missing ?env sample_running" "\<not> threads_granted ?env sample_running"
    by (simp_all add: thread_missing_def threads_granted_def configs_granted_def sample_setup_env_def c)
  have u: "main_setup ?env sample_running [0] = (Undo, v)" using late(3,8) m(2) by simp
  from setup_failure [OF u sample_running_ok _ _ _ _ sample_stop_env_ok] sample_sockets [of "\<lambda>t. t \<noteq> Hd 1"] m(1) u
  show ?thesis by (simp add: c)
qed (use sample_sockets sample_tables sample_running_ok in \<open>simp_all add: sample_running_def\<close>)

end
