(* ===== verification/Threaded_Mode.thy ===== *)
theory Threaded_Mode
  imports Main_Teardown
begin

text \<open>
  The threaded mode of \<^verbatim>\<open>src/main.c\<close> as a state machine. The threads share the variables of \<^verbatim>\<open>main\<close> and the
  clients; a step is a pass of a receiver, a pass of a handler or a pass of the clean-up loop of the main
  thread, in any order and any number. Each thread works on the streams that its configuration names. The passes
  are atomic: what the stream operations do inside a pass when threads interleave is the subject
  of \<^verbatim>\<open>Stream_Threads\<close>.
\<close>

section \<open>Configurations of the threads\<close>

definition rx_config :: "'ai config_rcv_t \<Rightarrow> rx_cfg_t" where
  "rx_config c = \<lparr>rc_max_clients = cf_max_connections c, rc_window_size = cf_receive_window_size c\<rparr>"

definition hd_config :: "'ai config_rcv_t \<Rightarrow> nat \<Rightarrow> int \<Rightarrow> hd_cfg_t" where
  "hd_config c i fd = \<lparr>hc_id = word_of_nat i, hc_max_window_size = int (cf_max_window c), hc_sockfd = fd\<rparr>"

section \<open>Passes\<close>

text \<open>The variables of \<^verbatim>\<open>main\<close>, the clients, and the counter \<^verbatim>\<open>idx\<close> of clients.\<close>

record threaded =
  th_vars :: main_vars
  th_heap :: client_heap
  th_idx :: u32

text \<open>The number of the stream of a thread, its socket and its two streams.\<close>

definition resources_at :: "u64 list option \<Rightarrow> u64 list option \<Rightarrow> nat \<Rightarrow> main_vars \<Rightarrow>
    (nat \<times> int \<times> hd_req_t option stream_t \<times> hd_req_t option stream_t) option" where
  "resources_at streams affinities i v = do {
     forths \<leftarrow> v_rx_to_hd v;
     backs \<leftarrow> v_hd_to_rx v;
     ss \<leftarrow> streams;
     s \<leftarrow> rd ss i;
     (fd, forth, back, _) \<leftarrow> thread_resources streams affinities (v_sockfds v) forths backs i;
     (case (forth, back) of (Live_Stream q, Live_Stream q') \<Rightarrow> Some (unat s, fd, q, q') | _ \<Rightarrow> None)
   }"

definition with_streams :: "nat \<Rightarrow> hd_req_t option stream_t \<Rightarrow> hd_req_t option stream_t \<Rightarrow> main_vars \<Rightarrow> main_vars" where
  "with_streams s q q' v = v\<lparr>v_rx_to_hd := map_option (\<lambda>qs. qs[s := Live_Stream q]) (v_rx_to_hd v),
     v_hd_to_rx := map_option (\<lambda>qs. qs[s := Live_Stream q']) (v_hd_to_rx v)\<rparr>"

definition rx_state_of :: "'ai config_rcv_t \<Rightarrow> nat \<Rightarrow> threaded \<Rightarrow> (nat \<times> rx_state) option" where
  "rx_state_of c i th = do {
     (s, fd, forth, back) \<leftarrow> resources_at (cf_receive_streams c) (cf_receive_affinities c) i (th_vars th);
     t \<leftarrow> v_clients (th_vars th);
     t \<leftarrow> t;
     Some (s, \<lparr>r_tx = forth, r_rx = back, r_table = t, r_clients = th_heap th, r_idx = th_idx th\<rparr>)
   }"

definition receiver_pass :: "rx_env \<Rightarrow> 'ai config_rcv_t \<Rightarrow> nat \<Rightarrow> threaded \<Rightarrow> threaded option" where
  "receiver_pass env c i th = do {
     (s, r) \<leftarrow> rx_state_of c i th;
     r \<leftarrow> rx_run_once env (rx_config c) r;
     Some \<lparr>th_vars = with_streams s (r_tx r) (r_rx r) ((th_vars th)\<lparr>v_clients := Some (Some (r_table r))\<rparr>),
       th_heap = r_clients r, th_idx = r_idx r\<rparr>
   }"

text \<open>
  A handler brings its packet, its messages and its file buffer, and the uninitialised variables of a pass.
  \<open>Some None\<close> is a pass that waits, for a request or for the lock of a client.
\<close>

record hd_local_vars =
  lv_decoded :: "packet_t option"
  lv_msg :: "mmsghdr list"
  lv_file_buffer :: bytes
  lv_remove :: bool
  lv_to_send :: packet_t

definition hd_state_of :: "hd_local_vars \<Rightarrow> hd_req_t option stream_t \<Rightarrow> hd_req_t option stream_t \<Rightarrow> client_heap \<Rightarrow> hd_state" where
  "hd_state_of lv forth back heap = \<lparr>s_rx = forth, s_tx = back, s_clients = heap, s_decoded = lv_decoded lv, s_msg = lv_msg lv,
     s_file_buffer = lv_file_buffer lv, s_exit = False, s_sent = []\<rparr>"

definition handler_pass :: "hd_env \<Rightarrow> hd_local_vars \<Rightarrow> 'ai config_rcv_t \<Rightarrow> nat \<Rightarrow> threaded \<Rightarrow> threaded option option" where
  "handler_pass env lv c i th = do {
     (s, fd, forth, back) \<leftarrow> resources_at (cf_handle_streams c) (cf_handle_affinities c) i (th_vars th);
     r \<leftarrow> hd_run_once env (lv_remove lv) (lv_to_send lv) True (hd_config c i fd) (hd_state_of lv forth back (th_heap th));
     Some (map_option (\<lambda>h. th\<lparr>th_vars := with_streams s (s_rx h) (s_tx h) (th_vars th), th_heap := s_clients h\<rparr>) r)
   }"

definition clean_pass :: "inactivity \<Rightarrow> timespec \<Rightarrow> (nat \<Rightarrow> bool \<times> bool) \<Rightarrow> threaded \<Rightarrow> threaded option" where
  "clean_pass inactive now mem th = do {
     t \<leftarrow> v_clients (th_vars th);
     t \<leftarrow> t;
     (_, t, heap) \<leftarrow> clean_up inactive False now mem t (th_heap th);
     Some (th\<lparr>th_vars := (th_vars th)\<lparr>v_clients := Some (Some t)\<rparr>, th_heap := heap\<rparr>)
   }"

section \<open>The state machine\<close>

text \<open>No client that a queued request names has been inactive for long enough to be removed.\<close>

definition queued_alive :: "inactivity \<Rightarrow> timespec \<Rightarrow> threaded \<Rightarrow> bool" where
  "queued_alive inactive now th = (case v_rx_to_hd (th_vars th) of None \<Rightarrow> True
     | Some slots \<Rightarrow> list_all (\<lambda>slot. case slot of
         Live_Stream q \<Rightarrow> list_all (\<lambda>node. case node of None \<Rightarrow> True
           | Some req \<Rightarrow> (case rq_client req of None \<Rightarrow> True
             | Some a \<Rightarrow> (case th_heap th a of None \<Rightarrow> True | Some client \<Rightarrow> \<not> expired inactive False now client))) (queue_of q)
       | _ \<Rightarrow> True) slots)"

definition locals_ok :: "hd_local_vars \<Rightarrow> bool" where
  "locals_ok lv \<longleftrightarrow> packet_mem (lv_decoded lv) \<and> msgs_ok (lv_msg lv) \<and> MAX_WINDOW_SIZE * MAX_PAYLOAD_SIZE \<le> length (lv_file_buffer lv)"

text \<open>The system grants a receiver what it asks for.\<close>

definition receiver_granted :: "rx_env \<Rightarrow> 'ai config_rcv_t \<Rightarrow> nat \<Rightarrow> threaded \<Rightarrow> bool" where
  "receiver_granted env c i th = (case rx_state_of c i th of None \<Rightarrow> False | Some (_, r) \<Rightarrow> rx_env_ok env r)"

inductive worker_step :: "'ai config_rcv_t \<Rightarrow> threaded \<Rightarrow> threaded \<Rightarrow> bool" for c where
  receive: "worker_step c th th'"
    if "i < cf_receive_num c" "receiver_granted env c i th" "receiver_pass env c i th = Some th'"
| handle: "worker_step c th th'"
    if "i < cf_handle_num c" "calls_succeed env" "locals_ok lv" "handler_pass env lv c i th = Some (Some th')"

text \<open>A state in which \<^verbatim>\<open>main\<close> has started the threads.\<close>

definition started :: "'ai config_rcv_t \<Rightarrow> threaded \<Rightarrow> bool" where
  "started c th \<longleftrightarrow> \<not> cf_sequential c \<and> th_heap th = Map.empty \<and> th_idx th = 0 \<and>
     (\<exists>env junk. main_setup env c junk = (Go, th_vars th) \<and> length junk = cf_stream_count c \<and>
        inj_on (e_socket env) {..<cf_stream_count c} \<and> (\<forall>i < cf_stream_count c. socket_granted env i))"

inductive threaded_reachable :: "'ai config_rcv_t \<Rightarrow> inactivity \<Rightarrow> threaded \<Rightarrow> bool" for c inactive where
  start: "threaded_reachable c inactive th" if "started c th"
| work: "threaded_reachable c inactive th'"
    if "threaded_reachable c inactive th" "worker_step c th th'"
| clean: "threaded_reachable c inactive th'"
    if "threaded_reachable c inactive th" "queued_alive inactive now th"
      "clean_pass inactive now (\<lambda>_. (True, True)) th = Some th'"

section \<open>Streams of a thread\<close>

lemma resources_found:
  assumes "streams = Some ss" "length ss = m" "\<forall>s \<in> set ss. unat s < n" "case affinities of None \<Rightarrow> True | Some as \<Rightarrow> length as = m"
    and "i < m" "v_rx_to_hd v = Some (map Live_Stream forth)" "v_hd_to_rx v = Some (map Live_Stream backs)"
    and "length forth = n" "length backs = n" "length (v_sockfds v) = n"
  shows "resources_at streams affinities i v = Some (unat (ss ! i), v_sockfds v ! unat (ss ! i), forth ! unat (ss ! i), backs ! unat (ss ! i)) \<and>
    unat (ss ! i) < n"
proof -
  have "unat (ss ! i) < n" using assms(2,3,5) by simp
  then show ?thesis using assms by (auto simp: resources_at_def thread_resources_def rd_def split: option.splits)
qed

lemma queue_fine_mono:
  assumes "queue_fine heap q" "dom heap \<subseteq> dom heap'"
  shows "queue_fine heap' q"
proof -
  have "request_ok heap x \<Longrightarrow> request_ok heap' x" for x
    using assms(2) by (fastforce simp: request_ok_def dom_def split: option.splits)
  then show ?thesis using assms(1) by (auto simp: queue_fine_def)
qed

lemma with_streams_live:
  assumes "v_rx_to_hd v = Some (map Live_Stream forth)" "v_hd_to_rx v = Some (map Live_Stream backs)"
  shows "with_streams s q q' v = v\<lparr>v_rx_to_hd := Some (map Live_Stream (forth[s := q])), v_hd_to_rx := Some (map Live_Stream (backs[s := q']))\<rparr>"
  using assms by (simp add: with_streams_def map_update)

text \<open>The streams and the table may change; what the variables own stays the same.\<close>

lemma ready_update:
  assumes "ready c v heap t" "ht_inv t'" "\<forall>hs. v_hd_configs v = Some hs \<longrightarrow> Some Started \<in> set hs \<longrightarrow> heap_ok heap'" "length forth = cf_stream_count c" "length backs = cf_stream_count c"
    "\<forall>q \<in> set forth. queue_fine heap' q"
  shows "ready c (v\<lparr>v_rx_to_hd := Some (map Live_Stream forth), v_hd_to_rx := Some (map Live_Stream backs), v_clients := Some (Some t')\<rparr>) heap' t'"
proof -
  let ?v = "v\<lparr>v_rx_to_hd := Some (map Live_Stream forth), v_hd_to_rx := Some (map Live_Stream backs), v_clients := Some (Some t')\<rparr>"
  have "owned (config_blocks c) ?v = owned (config_blocks c) v" "owned_threads ?v = owned_threads v"
    using assms(1,4,5) by (auto simp: ready_def owned_def owned_threads_def slot_blocks_live)
  moreover have "arrays_sized c ?v = arrays_sized c v" "unstarted ?v = unstarted v" by (simp_all add: arrays_sized_def unstarted_def)
  ultimately show ?thesis using assms unfolding ready_def by (auto simp: resources_ok_def list_all_iff)
qed

section \<open>The invariant\<close>

text \<open>
  The program could be ended at this moment; no client is locked, the table is within the limit and has its
  clients under their addresses, and the nodes on their way back have well-formed requests.
\<close>

definition backs_ok :: "slot list option \<Rightarrow> bool" where
  "backs_ok slots \<longleftrightarrow> (\<forall>backs q req. slots = Some (map Live_Stream backs) \<longrightarrow> q \<in> set backs \<longrightarrow> Some req \<in> set (queue_of q) \<longrightarrow> sendable req)"

definition threaded_ok :: "'ai config_rcv_t \<Rightarrow> threaded \<Rightarrow> bool" where
  "threaded_ok c th \<longleftrightarrow> (\<exists>t. ready c (th_vars th) (th_heap th) t \<and> heap_ok (th_heap th) \<and> ht_len t \<le> cf_max_connections c \<and>
     keyed t (th_heap th) \<and> backs_ok (v_hd_to_rx (th_vars th)))"

lemma backs_ok_live: "backs_ok (Some (map Live_Stream backs)) \<longleftrightarrow> (\<forall>q \<in> set backs. \<forall>req. Some req \<in> set (queue_of q) \<longrightarrow> sendable req)"
proof -
  have "map Live_Stream backs = map Live_Stream xs \<longleftrightarrow> xs = backs" for xs
    by (metis inj_map_eq_map injI slot.inject)
  then show ?thesis by (auto simp: backs_ok_def)
qed

definition clients_ok :: "client_heap \<Rightarrow> bool" where
  "clients_ok heap \<longleftrightarrow> (\<forall>a c. heap a = Some c \<longrightarrow> client_ok c)"

lemma heap_ok_iff: "heap_ok heap \<longleftrightarrow> unlocked heap \<and> clients_ok heap"
  by (simp add: heap_ok_def clients_ok_def)

text \<open>The invariant with its streams and its table named, without what it says about locks.\<close>

definition shares :: "'ai config_rcv_t \<Rightarrow> threaded \<Rightarrow> hd_req_t option stream_t list \<Rightarrow> hd_req_t option stream_t list \<Rightarrow> nat ht_t \<Rightarrow> bool" where
  "shares c th forth backs t \<longleftrightarrow> v_rx_to_hd (th_vars th) = Some (map Live_Stream forth) \<and> v_hd_to_rx (th_vars th) = Some (map Live_Stream backs) \<and>
     v_clients (th_vars th) = Some (Some t) \<and> length forth = cf_stream_count c \<and> length backs = cf_stream_count c \<and>
     (\<forall>q \<in> set forth. queue_fine (th_heap th) q) \<and> (\<forall>q \<in> set backs. \<forall>req. Some req \<in> set (queue_of q) \<longrightarrow> sendable req) \<and>
     ht_inv t \<and> ht_len t \<le> cf_max_connections c \<and> keyed t (th_heap th) \<and> clients_ok (th_heap th) \<and>
     config_ok c \<and> length (v_sockfds (th_vars th)) = cf_stream_count c"

lemma sharesD:
  assumes "shares c th forth backs t"
  shows "v_rx_to_hd (th_vars th) = Some (map Live_Stream forth)" "v_hd_to_rx (th_vars th) = Some (map Live_Stream backs)"
    "v_clients (th_vars th) = Some (Some t)" "length forth = cf_stream_count c" "length backs = cf_stream_count c"
    "\<forall>q \<in> set forth. queue_fine (th_heap th) q" "\<forall>q \<in> set backs. \<forall>req. Some req \<in> set (queue_of q) \<longrightarrow> sendable req"
    "ht_inv t" "ht_len t \<le> cf_max_connections c" "keyed t (th_heap th)" "clients_ok (th_heap th)"
    "config_ok c" "length (v_sockfds (th_vars th)) = cf_stream_count c"
  using assms by (simp_all add: shares_def)

lemma threaded_ok_shares:
  assumes "threaded_ok c th"
  obtains forth backs t where "shares c th forth backs t"
proof -
  obtain t where t: "ready c (th_vars th) (th_heap th) t" "heap_ok (th_heap th)" "ht_len t \<le> cf_max_connections c"
    "keyed t (th_heap th)" "backs_ok (v_hd_to_rx (th_vars th))" using assms unfolding threaded_ok_def by blast
  then obtain forth backs where s: "v_rx_to_hd (th_vars th) = Some (map Live_Stream forth)" "length forth = cf_stream_count c"
    "list_all (queue_fine (th_heap th)) forth" "v_hd_to_rx (th_vars th) = Some (map Live_Stream backs)" "length backs = cf_stream_count c"
    unfolding ready_def by blast
  have "shares c th forth backs t" using t s by (simp add: shares_def ready_def list_all_iff backs_ok_live heap_ok_iff)
  then show thesis by (rule that)
qed

lemma threaded_ok_unlocked: "threaded_ok c th \<Longrightarrow> unlocked (th_heap th)"
  by (auto simp: threaded_ok_def heap_ok_iff)

text \<open>A step gives the streams, the table and the clients new values.\<close>

lemma threaded_okI:
  assumes "threaded_ok c th" "shares c th' forth backs t" "unlocked (th_heap th')"
    "th_vars th' = (th_vars th)\<lparr>v_rx_to_hd := Some (map Live_Stream forth), v_hd_to_rx := Some (map Live_Stream backs), v_clients := Some (Some t)\<rparr>"
  shows "threaded_ok c th'"
proof -
  note th' = sharesD [OF assms(2)]
  have heap: "heap_ok (th_heap th')" using assms(3) th'(11) by (simp add: heap_ok_iff)
  obtain t0 where "ready c (th_vars th) (th_heap th) t0" using assms(1) unfolding threaded_ok_def by blast
  from ready_update [OF this th'(8) _ th'(4-6)] have "ready c (th_vars th') (th_heap th') t" using heap assms(4) by simp
  then show ?thesis using heap th' by (auto simp: threaded_ok_def backs_ok_live)
qed

lemma set_updateI: "(\<forall>x \<in> set xs. P x) \<Longrightarrow> P y \<Longrightarrow> \<forall>x \<in> set (xs[i := y]). P x"
  using set_update_subset_insert [of xs i y] by blast

section \<open>Receivers\<close>

text \<open>A receiver takes no lock of a client: the clients that are locked were so before.\<close>

definition locked_before :: "client_heap \<Rightarrow> client_heap \<Rightarrow> bool" where
  "locked_before h0 heap \<longleftrightarrow> (\<forall>a c. heap a = Some c \<longrightarrow> c_locked c \<longrightarrow> h0 a = Some c)"

lemma locked_before_unlocked: "locked_before h0 heap \<Longrightarrow> unlocked h0 \<Longrightarrow> unlocked heap"
  unfolding locked_before_def unlocked_def by blast

lemma initialize_client_unlocked: "fst (initialize_client env client ident address len) = Inr c \<Longrightarrow> \<not> c_locked c"
  by (auto simp: initialize_client_def Let_def split: if_splits option.splits sum.splits)

lemma rx_contained_locked:
  "rx_contained env cfg i addr s = Some (flow, client, s') \<Longrightarrow> locked_before h0 (r_clients s) \<Longrightarrow> locked_before h0 (r_clients s')"
  by (auto simp: rx_contained_def locked_before_def Let_def dest: initialize_client_unlocked
      split: Option.bind_split_asm option.split_asm if_split_asm sum.split_asm prod.split_asm)

lemma rx_enqueue_clients: "r_clients (rx_enqueue node s) = r_clients s"
  by (simp add: rx_enqueue_def split: option.split)

lemma rx_new_node_clients: "rx_new_node env i s = Some (flow, node, s') \<Longrightarrow> r_clients s' = r_clients s"
  by (auto simp: rx_new_node_def Let_def split: option.splits sum.splits prod.splits if_splits)

lemma rx_message_locked:
  assumes "rx_message env cfg i client node s = Some (flow, client', node', s')" "locked_before h0 (r_clients s)"
  shows "locked_before h0 (r_clients s')"
  using assms
  by (clarsimp simp: rx_message_def bind_eq_Some_conv split: if_splits)
    (auto simp: bind_eq_Some_conv rx_enqueue_clients split: if_splits dest!: rx_contained_locked rx_new_node_clients)

lemma rx_loop_locked:
  "rx_loop env cfg js client node s = Some (node', s') \<Longrightarrow> locked_before h0 (r_clients s) \<Longrightarrow> locked_before h0 (r_clients s')"
  by (induction js arbitrary: client node s) (auto split: option.splits if_splits dest: rx_message_locked)

lemma rx_run_once_locked:
  assumes "rx_run_once env cfg s = Some s'"
  shows "locked_before (r_clients s) (r_clients s')"
proof -
  have "locked_before (r_clients s) (r_clients s)" by (simp add: locked_before_def)
  with assms show ?thesis
    by (auto simp: rx_run_once_def bind_eq_Some_conv rx_enqueue_clients split: if_splits dest: rx_loop_locked)
qed

text \<open>The stream to the handlers after a pass.\<close>

lemma handed_over_fine:
  assumes "rx_inv env cfg s k None None s'" "queue_fine (r_clients s) (r_tx s)"
  shows "queue_fine (r_clients s') (r_tx s')"
proof -
  have inv: "rx_ok cfg s'" "r_clients s \<subseteq>\<^sub>m r_clients s'" "handed_over env s k None s'" using assms(1) by (simp_all add: rx_inv_def)
  then obtain reqs where reqs: "queue_of (r_tx s') = queue_of (r_tx s) @ map Some reqs" "st_length (r_tx s') = st_length (r_tx s) + int (length reqs)"
    "\<forall>req \<in> set reqs. request_for (r_table s') req" unfolding handed_over_def by blast
  have "queue_fine (r_clients s') (r_tx s)" using assms(2) map_le_implies_dom_le [OF inv(2)] by (rule queue_fine_mono)
  moreover have "\<not> stop_node (Some req) \<and> request_ok (r_clients s') (Some req)" if "request_for (r_table s') req" for req
    using that inv(1) by (fastforce simp: request_for_def sendable_def stop_node_def request_ok_def rx_ok_def)
  ultimately show ?thesis using reqs by (auto simp: queue_fine_def counted_def)
qed

lemma receiver_state:
  assumes "shares c th forth backs t" "i < cf_receive_num c"
  obtains s where "s < cf_stream_count c"
    "rx_state_of c i th = Some (s, \<lparr>r_tx = forth ! s, r_rx = backs ! s, r_table = t, r_clients = th_heap th, r_idx = th_idx th\<rparr>)"
    "rx_ok (rx_config c) \<lparr>r_tx = forth ! s, r_rx = backs ! s, r_table = t, r_clients = th_heap th, r_idx = th_idx th\<rparr>"
proof -
  note th = sharesD [OF assms(1)]
  obtain ss where ss: "cf_receive_streams c = Some ss" "length ss = cf_receive_num c" "\<forall>s \<in> set ss. unat s < cf_stream_count c"
    "case cf_receive_affinities c of None \<Rightarrow> True | Some as \<Rightarrow> length as = cf_receive_num c" using th(12) by (auto simp: config_ok_def)
  let ?s = "unat (ss ! i)"
  have s: "?s < cf_stream_count c" "rx_state_of c i th =
      Some (?s, \<lparr>r_tx = forth ! ?s, r_rx = backs ! ?s, r_table = t, r_clients = th_heap th, r_idx = th_idx th\<rparr>)"
    using resources_found [OF ss assms(2) th(1,2,4,5,13)] th(3) by (simp_all add: rx_state_of_def)
  have "rx_ok (rx_config c) \<lparr>r_tx = forth ! ?s, r_rx = backs ! ?s, r_table = t, r_clients = th_heap th, r_idx = th_idx th\<rparr>"
    using th(5,7-11) s(1) by (auto simp: rx_ok_def rx_config_def keyed_def clients_ok_def)
  with s show thesis by (rule that)
qed

lemma receiver_runs:
  assumes "shares c th forth backs t" "i < cf_receive_num c" "cf_max_connections c \<le> 32768" "receiver_granted env c i th"
  obtains s r r' where "s < cf_stream_count c" "r = \<lparr>r_tx = forth ! s, r_rx = backs ! s, r_table = t, r_clients = th_heap th, r_idx = th_idx th\<rparr>"
    "rx_inv env (rx_config c) r (nat (x_retval env)) None None r'" "locked_before (th_heap th) (r_clients r')"
    "receiver_pass env c i th = Some \<lparr>th_vars = with_streams s (r_tx r') (r_rx r') ((th_vars th)\<lparr>v_clients := Some (Some (r_table r'))\<rparr>),
       th_heap = r_clients r', th_idx = r_idx r'\<rparr>"
proof -
  note th = sharesD [OF assms(1)]
  obtain s where s: "s < cf_stream_count c"
    "rx_state_of c i th = Some (s, \<lparr>r_tx = forth ! s, r_rx = backs ! s, r_table = t, r_clients = th_heap th, r_idx = th_idx th\<rparr>)"
    "rx_ok (rx_config c) \<lparr>r_tx = forth ! s, r_rx = backs ! s, r_table = t, r_clients = th_heap th, r_idx = th_idx th\<rparr>"
    by (rule receiver_state [OF assms(1,2)])
  let ?r = "\<lparr>r_tx = forth ! s, r_rx = backs ! s, r_table = t, r_clients = th_heap th, r_idx = th_idx th\<rparr>"
  note s(3)
  moreover have "rx_env_ok env ?r" using assms(4) s(2) by (simp add: receiver_granted_def)
  moreover have "rc_max_clients (rx_config c) \<le> 32769" using assms(3) by (simp add: rx_config_def)
  ultimately obtain r' where r': "rx_run_once env (rx_config c) ?r = Some r'" "rx_inv env (rx_config c) ?r (nat (x_retval env)) None None r'"
    using rx_run_once_inv by blast
  have "locked_before (th_heap th) (r_clients r')" using rx_run_once_locked [OF r'(1)] by simp
  then show thesis using that [OF s(1) refl r'(2)] s(2) r'(1) by (simp add: receiver_pass_def)
qed

lemma receiver_shares:
  assumes sh: "shares c th forth backs t" and "i < cf_receive_num c" "cf_max_connections c \<le> 32768" "receiver_granted env c i th"
  obtains s q q' t' th' where "s < cf_stream_count c" "receiver_pass env c i th = Some th'" "shares c th' (forth[s := q]) (backs[s := q']) t'"
    "th_heap th \<subseteq>\<^sub>m th_heap th'" "locked_before (th_heap th) (th_heap th')"
    "th_vars th' = (th_vars th)\<lparr>v_rx_to_hd := Some (map Live_Stream (forth[s := q])), v_hd_to_rx := Some (map Live_Stream (backs[s := q'])), v_clients := Some (Some t')\<rparr>"
proof -
  note th = sharesD [OF sh]
  obtain s r r' where r': "s < cf_stream_count c" "r = \<lparr>r_tx = forth ! s, r_rx = backs ! s, r_table = t, r_clients = th_heap th, r_idx = th_idx th\<rparr>"
    "rx_inv env (rx_config c) r (nat (x_retval env)) None None r'" "locked_before (th_heap th) (r_clients r')"
    "receiver_pass env c i th = Some \<lparr>th_vars = with_streams s (r_tx r') (r_rx r') ((th_vars th)\<lparr>v_clients := Some (Some (r_table r'))\<rparr>),
       th_heap = r_clients r', th_idx = r_idx r'\<rparr>"
    by (rule receiver_runs [OF sh assms(2-4)]) (rule that; assumption)
  have ok: "rx_ok (rx_config c) r'" "th_heap th \<subseteq>\<^sub>m r_clients r'" using r'(2,3) by (simp_all add: rx_inv_def)
  have fine: "queue_fine (r_clients r') (r_tx r')" using handed_over_fine [OF r'(3)] r'(1,2) th(4,6) by simp
  let ?th = "\<lparr>th_vars = with_streams s (r_tx r') (r_rx r') ((th_vars th)\<lparr>v_clients := Some (Some (r_table r'))\<rparr>),
      th_heap = r_clients r', th_idx = r_idx r'\<rparr>"
  have "\<forall>q \<in> set (forth[s := r_tx r']). queue_fine (r_clients r') q"
    using th(6) queue_fine_mono map_le_implies_dom_le [OF ok(2)] fine by (intro set_updateI) blast+
  moreover have "\<forall>q \<in> set (backs[s := r_rx r']). \<forall>req. Some req \<in> set (queue_of q) \<longrightarrow> sendable req"
    using th(7) ok(1) unfolding rx_ok_def by (intro set_updateI) blast+
  ultimately have "shares c ?th (forth[s := r_tx r']) (backs[s := r_rx r']) (r_table r')"
    using th ok(1) by (simp add: shares_def rx_ok_def keyed_def rx_config_def with_streams_live clients_ok_def)
  moreover have "th_vars ?th = (th_vars th)\<lparr>v_rx_to_hd := Some (map Live_Stream (forth[s := r_tx r'])),
      v_hd_to_rx := Some (map Live_Stream (backs[s := r_rx r'])), v_clients := Some (Some (r_table r'))\<rparr>"
    using th(1,2) by (simp add: with_streams_live)
  ultimately show thesis using that [OF r'(1,5)] ok(2) r'(4) by simp
qed

lemma receiver_keeps:
  assumes "threaded_ok c th" "i < cf_receive_num c" "cf_max_connections c \<le> 32768" "receiver_granted env c i th"
  shows "\<exists>th'. receiver_pass env c i th = Some th' \<and> threaded_ok c th'"
proof -
  obtain forth backs t where sh: "shares c th forth backs t" by (rule threaded_ok_shares [OF assms(1)])
  obtain s q q' t' th' where r: "receiver_pass env c i th = Some th'" "shares c th' (forth[s := q]) (backs[s := q']) t'"
    "locked_before (th_heap th) (th_heap th')"
    "th_vars th' = (th_vars th)\<lparr>v_rx_to_hd := Some (map Live_Stream (forth[s := q])), v_hd_to_rx := Some (map Live_Stream (backs[s := q'])), v_clients := Some (Some t')\<rparr>"
    by (rule receiver_shares [OF sh assms(2-4)]) (rule that; assumption)
  have "unlocked (th_heap th')" using locked_before_unlocked [OF r(3)] threaded_ok_unlocked [OF assms(1)] by blast
  then show ?thesis using r(1) threaded_okI [OF assms(1) r(2) _ r(4)] by blast
qed

section \<open>Handlers\<close>

definition handler_idle :: "'ai config_rcv_t \<Rightarrow> nat \<Rightarrow> threaded \<Rightarrow> bool" where
  "handler_idle c i th = (case resources_at (cf_handle_streams c) (cf_handle_affinities c) i (th_vars th) of
     None \<Rightarrow> False | Some (_, _, q, _) \<Rightarrow> queue_of q = [])"

lemma keyed_same_clients:
  assumes "keyed t heap" "same_clients heap heap'"
  shows "keyed t heap'"
  unfolding keyed_def
proof (intro allI impI)
  fix k a
  assume "ht_entries t k = Some a"
  then obtain x where x: "heap a = Some x" "addr_key (c_address x) = k" using assms(1) unfolding keyed_def by blast
  then have "map_option c_address (heap' a) = Some (c_address x)" using assms(2) by (simp add: same_clients_def)
  with x(2) show "\<exists>x. heap' a = Some x \<and> addr_key (c_address x) = k" by auto
qed

lemma handler_resources:
  assumes "shares c th forth backs t" "i < cf_handle_num c"
  obtains s fd where "s < cf_stream_count c"
    "resources_at (cf_handle_streams c) (cf_handle_affinities c) i (th_vars th) = Some (s, fd, forth ! s, backs ! s)"
proof -
  note th = sharesD [OF assms(1)]
  obtain ss where ss: "cf_handle_streams c = Some ss" "length ss = cf_handle_num c" "\<forall>s \<in> set ss. unat s < cf_stream_count c"
    "case cf_handle_affinities c of None \<Rightarrow> True | Some as \<Rightarrow> length as = cf_handle_num c" using th(12) by (auto simp: config_ok_def)
  show thesis using that resources_found [OF ss assms(2) th(1,2,4,5,13)] by blast
qed

text \<open>What a handler finds: its streams, the pass in terms of \<^verbatim>\<open>hd_run_once\<close>, and the next node of its stream.\<close>

lemma handler_runs:
  assumes "shares c th forth backs t" "i < cf_handle_num c" "locals_ok lv" "unlocked (th_heap th)"
  obtains s fd h where "s < cf_stream_count c" "h = hd_state_of lv (forth ! s) (backs ! s) (th_heap th)"
    "resources_at (cf_handle_streams c) (cf_handle_affinities c) i (th_vars th) = Some (s, fd, forth ! s, backs ! s)"
    "state_ok h" "unlocked (s_clients h)" "counted (forth ! s)" "\<forall>x \<in> set (queue_of (forth ! s)). \<not> stop_node x"
    "\<And>env. handler_pass env lv c i th = map_option (map_option (\<lambda>h. th\<lparr>th_vars := with_streams s (s_rx h) (s_tx h) (th_vars th), th_heap := s_clients h\<rparr>))
      (hd_run_once env (lv_remove lv) (lv_to_send lv) True (hd_config c i fd) h)"
proof -
  note th = sharesD [OF assms(1)]
  obtain s fd where s: "s < cf_stream_count c" and r: "resources_at (cf_handle_streams c) (cf_handle_affinities c) i (th_vars th) =
      Some (s, fd, forth ! s, backs ! s)" by (rule handler_resources [OF assms(1,2)])
  let ?h = "hd_state_of lv (forth ! s) (backs ! s) (th_heap th)"
  have pass: "handler_pass env lv c i th = map_option (map_option (\<lambda>h. th\<lparr>th_vars := with_streams s (s_rx h) (s_tx h) (th_vars th), th_heap := s_clients h\<rparr>))
      (hd_run_once env (lv_remove lv) (lv_to_send lv) True (hd_config c i fd) ?h)" for env
    using r by (cases "hd_run_once env (lv_remove lv) (lv_to_send lv) True (hd_config c i fd) ?h") (simp_all add: handler_pass_def)
  have "forth ! s \<in> set forth" using th(4) s by simp
  then have fine: "counted (forth ! s)" "\<forall>x \<in> set (queue_of (forth ! s)). \<not> stop_node x \<and> request_ok (th_heap th) x"
    using th(6) unfolding queue_fine_def by blast+
  then have "state_ok ?h" "unlocked (s_clients ?h)"
    using th(11) assms(3,4) by (simp_all add: state_ok_def buffers_ok_def locals_ok_def clients_ok_def hd_state_of_def)
  then show thesis using that [OF s refl r _ _ fine(1) _ pass] fine(2) by blast
qed

lemma handler_keeps:
  assumes "threaded_ok c th" "i < cf_handle_num c" "calls_succeed env" "locals_ok lv"
  shows "if handler_idle c i th then handler_pass env lv c i th = Some None
    else \<exists>th'. handler_pass env lv c i th = Some (Some th') \<and> threaded_ok c th'"
proof -
  obtain forth backs t where sh: "shares c th forth backs t" by (rule threaded_ok_shares [OF assms(1)])
  note th = sharesD [OF sh]
  obtain s fd h where h: "s < cf_stream_count c" "h = hd_state_of lv (forth ! s) (backs ! s) (th_heap th)"
    "resources_at (cf_handle_streams c) (cf_handle_affinities c) i (th_vars th) = Some (s, fd, forth ! s, backs ! s)"
    "state_ok h" "unlocked (s_clients h)" "counted (forth ! s)" "\<forall>x \<in> set (queue_of (forth ! s)). \<not> stop_node x"
    "\<And>env. handler_pass env lv c i th = map_option (map_option (\<lambda>h. th\<lparr>th_vars := with_streams s (s_rx h) (s_tx h) (th_vars th), th_heap := s_clients h\<rparr>))
      (hd_run_once env (lv_remove lv) (lv_to_send lv) True (hd_config c i fd) h)"
    by (rule handler_runs [OF sh assms(2,4) threaded_ok_unlocked [OF assms(1)]]) (rule that; assumption)
  have idle: "handler_idle c i th \<longleftrightarrow> queue_of (forth ! s) = []" using h(3) by (simp add: handler_idle_def)
  have simps: "s_rx h = forth ! s" "s_tx h = backs ! s" "s_clients h = th_heap th" using h(2) by (simp_all add: hd_state_of_def)
  show ?thesis
  proof (cases "queue_of (forth ! s)")
    case Nil
    then have "stream_pop (s_rx h) True = None" using h(6) simps(1) by (simp add: stream_pop_def counted_def)
    then show ?thesis using h(8) Nil idle by (simp add: hd_run_once_def)
  next
    case (Cons node rest)
    obtain q where q: "stream_pop (s_rx h) True = Some (Some node, q)" "queue_of q = rest" "counted q"
      using counted_pop [OF h(6) Cons, of True] simps(1) by auto
    have node: "queue_of (s_rx h) = node # queue_of q" "\<not> stop_node node" using h(7) Cons q(2) simps(1) by simp_all
    obtain h' where h': "hd_run_once env (lv_remove lv) (lv_to_send lv) True (hd_config c i fd) h = Some (Some h')" "s_rx h' = q"
      "same_clients (th_heap th) (s_clients h')" "state_ok h'" "unlocked (s_clients h')"
      "\<forall>req. Some req \<in> set (queue_of (s_tx h')) \<longrightarrow> Some req \<in> set (queue_of (backs ! s)) \<or> sendable req"
      using hd_pass [OF h(4,5) assms(3) q(1) node(1), of "lv_remove lv" "lv_to_send lv" "hd_config c i fd"] node(2) simps by auto
    have heap: "clients_ok (s_clients h')" using h'(4) by (simp add: clients_ok_def state_ok_def)
    have mono: "queue_fine (th_heap th) x \<Longrightarrow> queue_fine (s_clients h') x" for x
      using queue_fine_mono same_clients_dom [OF h'(3)] by blast
    have "queue_fine (th_heap th) (forth ! s)" using th(4,6) h(1) by simp
    then have "queue_fine (th_heap th) q" using q(2,3) Cons by (simp add: queue_fine_def)
    then have "\<forall>x \<in> set (forth[s := q]). queue_fine (s_clients h') x" using th(6) mono by (intro set_updateI) blast+
    moreover have "Some req \<in> set (queue_of (s_tx h')) \<longrightarrow> sendable req" for req using th(5,7) h'(6) h(1) by (metis nth_mem)
    then have "\<forall>x \<in> set (backs[s := s_tx h']). \<forall>req. Some req \<in> set (queue_of x) \<longrightarrow> sendable req"
      using th(7) by (intro set_updateI) blast+
    ultimately have "shares c (th\<lparr>th_vars := with_streams s q (s_tx h') (th_vars th), th_heap := s_clients h'\<rparr>) (forth[s := q]) (backs[s := s_tx h']) t"
      using th heap keyed_same_clients [OF th(10) h'(3)] by (simp add: shares_def with_streams_live)
    from threaded_okI [OF assms(1) this] have "threaded_ok c (th\<lparr>th_vars := with_streams s q (s_tx h') (th_vars th), th_heap := s_clients h'\<rparr>)"
      using th(1-3) h'(5) by (simp add: with_streams_live)
    then show ?thesis using h(8) h'(1,2) Cons idle by simp
  qed
qed

section \<open>The clean-up\<close>

lemma queue_fine_without:
  assumes "queue_fine heap q" "\<forall>a req. Some req \<in> set (queue_of q) \<longrightarrow> rq_client req = Some a \<longrightarrow> a \<notin> A"
  shows "queue_fine (heap |` (- A)) q"
proof -
  have "request_ok (heap |` (- A)) x" if "x \<in> set (queue_of q)" "request_ok heap x" for x
    using that assms(2) by (fastforce simp: request_ok_def split: option.splits)
  then show ?thesis using assms(1) by (auto simp: queue_fine_def)
qed

lemma clean_shares:
  assumes sh: "shares c th forth backs t" and "cf_max_connections c \<le> 32768" "queued_alive inactive now th"
  obtains as t' th' where "clean_pass inactive now (\<lambda>_. (True, True)) th = Some th'" "shares c th' forth backs t'"
    "th_heap th' = th_heap th |` (- set as)" "\<And>a x. a \<in> set as \<Longrightarrow> th_heap th a = Some x \<Longrightarrow> expired inactive False now x"
    "th_vars th' = (th_vars th)\<lparr>v_clients := Some (Some t')\<rparr>" "ht_entries t' = without (set as) (ht_entries t)"
proof -
  note th = sharesD [OF sh]
  have "ht_fits t" using th(9) assms(2) by (simp add: ht_fits_def)
  from clean_up_eq [OF th(8) this th(10), of inactive False now] obtain as t' where
    u: "clean_up inactive False now (\<lambda>_. (True, True)) t (th_heap th) =
      Some (map (\<lambda>a. deallocate_client (th_heap th a) True True) as, t', th_heap th |` (- set as))"
    "ht_inv t'" "ht_len t' \<le> ht_len t" "ht_entries t' = without (set as) (ht_entries t)"
    "\<forall>a. a \<in> set as \<longleftrightarrow> (\<exists>k. ht_entries t k = Some a) \<and> expired inactive False now (the (th_heap th a))" by blast
  have expired: "expired inactive False now x" if "a \<in> set as" "th_heap th a = Some x" for a x using u(5) that by simp
  have "a \<notin> set as" if "q \<in> set forth" "Some req \<in> set (queue_of q)" "rq_client req = Some a" for q req a
  proof
    assume a: "a \<in> set as"
    then obtain k where "ht_entries t k = Some a" using u(5) by blast
    then obtain x where "th_heap th a = Some x" using th(10) unfolding keyed_def by blast
    with expired [OF a this] show False using assms(3) th(1) that by (fastforce simp: queued_alive_def list_all_iff)
  qed
  then have "\<forall>q \<in> set forth. queue_fine (th_heap th |` (- set as)) q" using th(6) queue_fine_without by blast
  moreover have "keyed t' (th_heap th |` (- set as))"
    using th(10) u(4) by (fastforce simp: keyed_def without_def split: option.splits if_splits)
  moreover have "clients_ok (th_heap th |` (- set as))"
    using th(11) by (auto simp: clients_ok_def restrict_map_def)
  ultimately have "shares c (th\<lparr>th_vars := (th_vars th)\<lparr>v_clients := Some (Some t')\<rparr>, th_heap := th_heap th |` (- set as)\<rparr>) forth backs t'"
    using th u(2,3) by (simp add: shares_def)
  then show thesis using that th(3) u(1,4) expired by (simp add: clean_pass_def)
qed

lemma clean_keeps:
  assumes "threaded_ok c th" "cf_max_connections c \<le> 32768" "queued_alive inactive now th"
  shows "\<exists>th'. clean_pass inactive now (\<lambda>_. (True, True)) th = Some th' \<and> threaded_ok c th'"
proof -
  obtain forth backs t where sh: "shares c th forth backs t" by (rule threaded_ok_shares [OF assms(1)])
  obtain as t' th' where u: "clean_pass inactive now (\<lambda>_. (True, True)) th = Some th'" "shares c th' forth backs t'"
    "th_heap th' = th_heap th |` (- set as)" "th_vars th' = (th_vars th)\<lparr>v_clients := Some (Some t')\<rparr>"
    by (rule clean_shares [OF sh assms(2,3)]) (rule that; assumption)
  have "unlocked (th_heap th')"
    using threaded_ok_unlocked [OF assms(1)] u(3) by (auto simp: unlocked_def restrict_map_def split: if_splits)
  then show ?thesis using u(1,4) threaded_okI [OF assms(1) u(2)] sharesD(1,2) [OF sh] by simp
qed

section \<open>Every reachable state\<close>

lemma start_ok:
  assumes "main_setup env c junk = (Go, v)" "length junk = cf_stream_count c" "inj_on (e_socket env) {..<cf_stream_count c}"
    and "\<forall>i < cf_stream_count c. socket_granted env i" "config_ok c"
  shows "threaded_ok c \<lparr>th_vars = v, th_heap = Map.empty, th_idx = 0\<rparr>"
proof (cases rule: main_setup_cases [OF assms(2,4,5), case_names early late])
  case (early v')
  then show ?thesis using assms(1) by simp
next
  case (late v' st)
  then have v: "v' = v" "st = Go" using assms(1) by simp_all
  then have "all_set c v" using late(8) by (simp split: if_splits)
  then have "\<not> unstarted v" by (auto simp: all_set_def unstarted_def)
  then have "ready c v Map.empty new_table" using late v assms(3-5) by (intro late_ready) simp_all
  moreover have backs: "v_hd_to_rx v = Some (map Live_Stream (replicate (cf_stream_count c) initialize_stream))"
    using late(5) v by (simp add: tables_done_def)
  have "backs_ok (v_hd_to_rx v)" unfolding backs backs_ok_live by (simp add: initialize_stream_def queue_of_def)
  moreover have "heap_ok Map.empty" by (simp add: heap_ok_def unlocked_def)
  ultimately show ?thesis
    unfolding threaded_ok_def
    by (intro exI [of _ new_table]) (simp add: new_table_facts keyed_def)
qed

lemma started_ok:
  assumes "started c th" "config_ok c"
  shows "threaded_ok c th"
proof -
  obtain env junk where s: "main_setup env c junk = (Go, th_vars th)" "length junk = cf_stream_count c"
    "inj_on (e_socket env) {..<cf_stream_count c}" "\<forall>i < cf_stream_count c. socket_granted env i"
    "th = \<lparr>th_vars = th_vars th, th_heap = Map.empty, th_idx = 0\<rparr>" using assms(1) by (auto simp: started_def)
  from start_ok [OF s(1-4) assms(2)] show ?thesis using s(5) by simp
qed

lemma worker_keeps:
  assumes "worker_step c th th'" "threaded_ok c th" "cf_max_connections c \<le> 32768"
  shows "threaded_ok c th'"
  using assms(1)
proof cases
  case (receive i env)
  then show ?thesis using receiver_keeps [OF assms(2) _ assms(3), of i env] by simp
next
  case (handle i env lv)
  then show ?thesis using handler_keeps [OF assms(2), of i env lv] by (simp split: if_splits)
qed

lemma workers_keep: "(worker_step c)\<^sup>*\<^sup>* th th' \<Longrightarrow> threaded_ok c th \<Longrightarrow> cf_max_connections c \<le> 32768 \<Longrightarrow> threaded_ok c th'"
  by (induction rule: rtranclp_induct) (auto dest: worker_keeps)

lemma threaded_reachable_ok:
  assumes "threaded_reachable c inactive th" "config_ok c" "cf_max_connections c \<le> 32768"
  shows "threaded_ok c th"
  using assms
proof (induction rule: threaded_reachable.induct)
  case (start th)
  then show ?case by (intro started_ok)
next
  case (work th th')
  then show ?case using worker_keeps by blast
next
  case (clean th now th')
  then show ?case using clean_keeps [of c th inactive now] by simp
qed

section \<open>Properties\<close>


section \<open>Witnesses\<close>

definition sample_threaded :: threaded where
  "sample_threaded = \<lparr>th_vars = snd (main_setup (sample_setup_env\<lparr>e_create := (\<lambda>t. True)\<rparr>) sample_running [0]), th_heap = Map.empty, th_idx = 0\<rparr>"

lemma sample_go: "fst (main_setup (sample_setup_env\<lparr>e_create := (\<lambda>t. True)\<rparr>) sample_running [0]) = Go"
proof (cases rule: main_setup_cases [of "[0]" sample_running "sample_setup_env\<lparr>e_create := (\<lambda>t. True)\<rparr>", case_names len sock conf early late])
  case (late v st)
  have "configs_granted (sample_setup_env\<lparr>e_create := (\<lambda>t. True)\<rparr>) sample_running" "threads_granted (sample_setup_env\<lparr>e_create := (\<lambda>t. True)\<rparr>) sample_running"
    by (simp_all add: configs_granted_def threads_granted_def all_started_def sample_setup_env_def)
  then show ?thesis using late(3,8) by (simp add: sample_setup_env_def)
qed (use sample_sockets sample_tables sample_running_ok in \<open>simp_all add: sample_running_def\<close>)

lemma sample_started: "started sample_running sample_threaded"
proof -
  have c: "\<not> cf_sequential sample_running" "cf_stream_count sample_running = 1"
    by (simp_all add: sample_running_def sample_config_def empty_config_def)
  show ?thesis
    using sample_go sample_sockets [of "\<lambda>t. True"] c unfolding started_def sample_threaded_def
    by (auto simp: prod_eq_iff intro!: exI [of _ "sample_setup_env\<lparr>e_create := (\<lambda>t. True)\<rparr>"] exI [of _ "[0]"])
qed

lemma sample_threaded_reachable: "threaded_reachable sample_running sample_inactive sample_threaded"
  using sample_started by (rule threaded_reachable.start)

lemma sample_running_max: "cf_max_connections sample_running \<le> 32768"
  by (simp add: sample_running_def sample_config_def empty_config_def)


end
