(* ===== verification/Program.thy ===== *)
theory Program
  imports Threaded_Mode
begin

text \<open>
  The program from its command line to its end: \<^verbatim>\<open>main\<close> of \<^verbatim>\<open>src/main.c\<close> in both modes, and
  \<^verbatim>\<open>receive_thread\<close> of \<^verbatim>\<open>src/receiver.c\<close>. The three loops of these functions run until a flag is set by another
  thread or by a signal; they share one definition and one interface.
\<close>

section \<open>Loops that end at a flag\<close>

text \<open>\<open>stop i\<close> is the flag as it is read before pass \<open>i\<close>; \<open>None\<close> is a pass that does not return, or a flag that is never set.\<close>

partial_function (option) until_stop :: "(nat \<Rightarrow> bool) \<Rightarrow> (nat \<Rightarrow> 's \<Rightarrow> 's option) \<Rightarrow> nat \<Rightarrow> 's \<Rightarrow> 's option" where
  "until_stop stop body i s = (if stop i then Some s else do {s \<leftarrow> body i s; until_stop stop body (Suc i) s})"

primrec passes :: "(nat \<Rightarrow> 's \<Rightarrow> 's option) \<Rightarrow> nat \<Rightarrow> 's \<Rightarrow> 's option" where
  "passes body 0 s = Some s"
| "passes body (Suc n) s = do {s \<leftarrow> passes body n s; body n s}"

lemma passes_None: "passes body n s = None \<Longrightarrow> n \<le> m \<Longrightarrow> passes body m s = None"
  by (induction m) (auto simp: le_Suc_eq)

lemma until_stop_from:
  assumes "stop k" "\<forall>n < k. \<not> stop n" "i \<le> k" "passes body i s = Some s'"
  shows "until_stop stop body i s' = passes body k s"
  using assms(3,4)
proof (induction arbitrary: s' rule: inc_induct)
  case base
  then show ?case using assms(1) by (subst until_stop.simps) simp
next
  case (step n)
  then have n: "\<not> stop n" "passes body (Suc n) s = body n s'" using assms(2) by simp_all
  show ?case
  proof (cases "body n s'")
    case None
    then show ?thesis using n step.hyps passes_None [of body "Suc n" s k] by (subst until_stop.simps) simp
  next
    case (Some s1)
    then show ?thesis using n step.IH by (subst until_stop.simps) simp
  qed
qed

text \<open>
  A body that keeps an invariant whenever the system grants what the pass asks for: the loop ends
  when the flag is set, after as many passes, and the invariant holds all along.
\<close>

locale kept_loop =
  fixes body :: "nat \<Rightarrow> 's \<Rightarrow> 's option" and ok :: "'s \<Rightarrow> bool" and granted :: "nat \<Rightarrow> 's \<Rightarrow> bool"
  assumes kept: "ok s \<Longrightarrow> granted n s \<Longrightarrow> \<exists>s'. body n s = Some s' \<and> ok s'"
begin

lemma passes_ok:
  assumes "ok s" "\<forall>n < k. \<forall>s'. passes body n s = Some s' \<longrightarrow> granted n s'"
  shows "\<exists>s'. passes body k s = Some s' \<and> ok s'"
  using assms(2)
proof (induction k)
  case (Suc k)
  then obtain s' where "passes body k s = Some s'" "ok s'" by auto
  then show ?case using Suc.prems kept [of s' k] by auto
qed (simp add: assms(1))

lemma loop_ends:
  assumes "ok s" "stop k" "\<forall>n < k. \<not> stop n" "\<forall>n < k. \<forall>s'. passes body n s = Some s' \<longrightarrow> granted n s'"
  shows "\<exists>s'. until_stop stop body 0 s = Some s' \<and> passes body k s = Some s' \<and> ok s'"
  using passes_ok [OF assms(1,4)] until_stop_from [OF assms(2,3), of 0 body s s] by auto

end

section \<open>The receiver thread\<close>

text \<open>Before a pass the flag is read, and the other threads have worked on what they share with the receiver.\<close>

record rx_pass_env =
  rp_stop :: bool
  rp_others :: "rx_state \<Rightarrow> rx_state"
  rp_env :: rx_env

definition receive_pass :: "(nat \<Rightarrow> rx_pass_env) \<Rightarrow> rx_cfg_t \<Rightarrow> nat \<Rightarrow> rx_state \<Rightarrow> rx_state option" where
  "receive_pass envs cfg i s = rx_run_once (rp_env (envs i)) cfg (rp_others (envs i) s)"

text \<open>A null configuration ends the thread.\<close>

definition receive_thread :: "(nat \<Rightarrow> rx_pass_env) \<Rightarrow> rx_cfg_t option \<Rightarrow> rx_state \<Rightarrow> rx_state option" where
  "receive_thread envs cfg s = (case cfg of None \<Rightarrow> Some s
     | Some cfg \<Rightarrow> until_stop (\<lambda>i. rp_stop (envs i)) (receive_pass envs cfg) 0 s)"

definition rx_pass_granted :: "(nat \<Rightarrow> rx_pass_env) \<Rightarrow> rx_cfg_t \<Rightarrow> nat \<Rightarrow> rx_state \<Rightarrow> bool" where
  "rx_pass_granted envs cfg n s \<longleftrightarrow> rx_ok cfg (rp_others (envs n) s) \<and> rx_env_ok (rp_env (envs n)) (rp_others (envs n) s)"

interpretation receiver_loop: kept_loop "receive_pass envs cfg" "\<lambda>s. rx_ok cfg s \<and> rc_max_clients cfg \<le> 32769" "rx_pass_granted envs cfg"
  for envs cfg
proof
  fix s n
  assume "rx_ok cfg s \<and> rc_max_clients cfg \<le> 32769" "rx_pass_granted envs cfg n s"
  then have "\<exists>s'. rx_run_once (rp_env (envs n)) cfg (rp_others (envs n) s) = Some s' \<and>
      rx_inv (rp_env (envs n)) cfg (rp_others (envs n) s) (nat (x_retval (rp_env (envs n)))) None None s'"
    by (intro rx_run_once_inv) (simp_all add: rx_pass_granted_def)
  then show "\<exists>s'. receive_pass envs cfg n s = Some s' \<and> rx_ok cfg s' \<and> rc_max_clients cfg \<le> 32769"
    using \<open>rx_ok cfg s \<and> rc_max_clients cfg \<le> 32769\<close> by (auto simp: receive_pass_def rx_inv_def)
qed

section \<open>The signal\<close>

text \<open>
  \<^verbatim>\<open>handle_stop\<close> runs on the main thread, between any two of its steps: it ends the program when the flag is set
  already, and otherwise takes the mutex, which it waits for when the main thread itself holds it.
\<close>

record stop_vars =
  sv_stop :: bool
  sv_locked :: bool

datatype 'a interrupt = Exits | Hangs | Resumes 'a

definition handle_stop :: "stop_vars \<Rightarrow> stop_vars interrupt" where
  "handle_stop s = (if sv_stop s then Exits else if sv_locked s then Hangs else Resumes (s\<lparr>sv_stop := True\<rparr>))"

text \<open>The test at the head of both loops of \<^verbatim>\<open>main\<close>, interrupted before it takes the mutex or while it holds it; the result is the flag as it was read.\<close>

definition check_stop :: "bool \<Rightarrow> bool \<Rightarrow> stop_vars \<Rightarrow> (bool \<times> stop_vars) interrupt" where
  "check_stop before during s = (case if before then handle_stop s else Resumes s of
     Exits \<Rightarrow> Exits
   | Hangs \<Rightarrow> Hangs
   | Resumes s \<Rightarrow> (let s = s\<lparr>sv_locked := True\<rparr> in case if during then handle_stop s else Resumes s of
       Exits \<Rightarrow> Exits
     | Hangs \<Rightarrow> Hangs
     | Resumes s \<Rightarrow> Resumes (sv_stop s, s\<lparr>sv_locked := False\<rparr>)))"

lemma check_stop_interrupted:
  assumes "\<not> sv_stop s" "\<not> sv_locked s"
  shows "check_stop before during s = (if during then if before then Exits else Hangs else Resumes (before, s\<lparr>sv_stop := before\<rparr>))"
  using assms by (cases s) (auto simp: check_stop_def handle_stop_def Let_def)

section \<open>The program\<close>

text \<open>
  The system, as the program meets it: the command line environment, the two files, the set-up, the
  uninitialised array of sockets, the end, and for each mode what happens in an iteration. In the sequential
  mode that is the flag, the datagrams, the answers to the handler, the clock and the memory for the
  table; in the threaded mode the flag, the work of the other threads, the clock and the memory. \<open>g_last\<close>
  is the work of the other threads between the last clean-up and the end.
\<close>

record seq_env =
  q_stop :: bool
  q_rx :: rx_env
  q_answers :: hd_answers
  q_now :: timespec
  q_mem :: "nat \<Rightarrow> bool \<times> bool"

record thr_env =
  g_stop :: bool
  g_workers :: "threaded \<Rightarrow> threaded"
  g_now :: timespec
  g_mem :: "nat \<Rightarrow> bool \<times> bool"

record 'ai program_env =
  p_cli :: "'ai cli_env"
  p_files :: config_env
  p_setup :: setup_env
  p_sockfds :: "nat \<Rightarrow> int"
  p_end :: stop_env
  p_inactive :: inactivity
  p_packet :: "packet_t option"
  p_rows :: "bytes list"
  p_file_buffer :: bytes
  p_seq :: "nat \<Rightarrow> seq_env"
  p_thr :: "nat \<Rightarrow> thr_env"
  p_last :: "threaded \<Rightarrow> threaded"

text \<open>
  How \<^verbatim>\<open>main\<close> returns: the command line was refused, there was no memory for the stream numbers, the set-up
  failed, or the program was ended; with the clients that were deallocated at the end and what is left.
\<close>

datatype outcome = Rejected errors_t | Out_Of_Memory | Gave_Up main_vars | Ended "nat list" main_vars

definition end_program :: "'ai program_env \<Rightarrow> 'ai config_rcv_t \<Rightarrow> main_vars \<Rightarrow> client_heap \<Rightarrow> outcome option" where
  "end_program env c v heap = do {
     (_, clients, v, _) \<leftarrow> deallocate_everything (p_end env) c v heap;
     Some (Ended clients v)
   }"

text \<open>The sequential mode: the loop starts with \<^verbatim>\<open>cnt\<close> 0 and increments it first.\<close>

definition seq_pass :: "'ai program_env \<Rightarrow> 'ai config_rcv_t \<Rightarrow> int \<Rightarrow> nat \<Rightarrow> main_state \<Rightarrow> main_state option" where
  "seq_pass env c fd i ms = (let e = p_seq env i in
     seq_iteration (q_rx e) (rx_config c) (q_answers e) (hd_config c 0 fd) (p_inactive env) (q_now e) (q_mem e) (Suc i) ms)"

definition seq_start :: "'ai program_env \<Rightarrow> packet_t \<Rightarrow> hd_req_t option stream_t \<Rightarrow> hd_req_t option stream_t \<Rightarrow> nat ht_t \<Rightarrow> main_state" where
  "seq_start env decoded forth back t = \<lparr>m_hd = \<lparr>s_rx = forth, s_tx = back, s_clients = Map.empty, s_decoded = Some decoded,
       s_msg = map (\<lambda>row. \<lparr>msg_name = None, msg_row = row\<rparr>) (p_rows env), s_file_buffer = p_file_buffer env, s_exit = False, s_sent = []\<rparr>,
     m_table = t, m_idx = 0\<rparr>"

definition sequential_mode :: "'ai program_env \<Rightarrow> 'ai config_rcv_t \<Rightarrow> main_vars \<Rightarrow> outcome option" where
  "sequential_mode env c v = do {
     (s, fd, forth, back) \<leftarrow> resources_at (cf_handle_streams c) (cf_handle_affinities c) 0 v;
     t \<leftarrow> v_clients v;
     t \<leftarrow> t;
     (case allocate_packet (p_packet env) of
       None \<Rightarrow> Some (Gave_Up v)
     | Some decoded \<Rightarrow> do {
         ms \<leftarrow> until_stop (\<lambda>i. q_stop (p_seq env i)) (seq_pass env c fd) 0 (seq_start env decoded forth back t);
         end_program env c (with_streams s (s_rx (m_hd ms)) (s_tx (m_hd ms)) (v\<lparr>v_clients := Some (Some (m_table ms))\<rparr>)) (s_clients (m_hd ms))
       })
   }"

text \<open>The threaded mode: the main thread only cleans up.\<close>

definition main_pass :: "'ai program_env \<Rightarrow> nat \<Rightarrow> threaded \<Rightarrow> threaded option" where
  "main_pass env i th = (let e = p_thr env i in clean_pass (p_inactive env) (g_now e) (g_mem e) (g_workers e th))"

definition threaded_mode :: "'ai program_env \<Rightarrow> 'ai config_rcv_t \<Rightarrow> main_vars \<Rightarrow> outcome option" where
  "threaded_mode env c v = do {
     th \<leftarrow> until_stop (\<lambda>i. g_stop (p_thr env i)) (main_pass env) 0 \<lparr>th_vars = v, th_heap = Map.empty, th_idx = 0\<rparr>;
     let th = p_last env th;
     end_program env c (th_vars th) (th_heap th)
   }"

text \<open>
  When the mutex or the condition for the signal cannot be initialised, \<^verbatim>\<open>main\<close> calls \<^verbatim>\<open>deallocate_everything\<close>
  and goes on: it uses what was freed, and the result is \<open>None\<close>, as for an access outside an array.
\<close>

definition run_main :: "'ai program_env \<Rightarrow> string list \<Rightarrow> outcome option" where
  "run_main env argv = do {
     parse \<leftarrow> parse_receiver (p_cli env) argv empty_config;
     (case parse of
       Inl e \<Rightarrow> Some (Rejected e)
     | Inr config \<Rightarrow> do {
         config \<leftarrow> configure (p_files env) config;
         (case config of
           None \<Rightarrow> Some Out_Of_Memory
         | Some c \<Rightarrow> (case main_setup (p_setup env) c (map (p_sockfds env) [0..<cf_stream_count c]) of
             (Go, v) \<Rightarrow> if cf_sequential c then sequential_mode env c v else threaded_mode env c v
           | (Quit, v) \<Rightarrow> Some (Gave_Up v)
           | (Undo, v) \<Rightarrow> do {
               (_, _, v, _) \<leftarrow> deallocate_everything (p_end env) c v Map.empty;
               Some (Gave_Up v)
             }
           | _ \<Rightarrow> None))
       })
   }"

section \<open>The sequential mode ends\<close>

definition seq_granted :: "'ai program_env \<Rightarrow> nat \<Rightarrow> main_state \<Rightarrow> bool" where
  "seq_granted env n ms \<longleftrightarrow> rx_env_ok (q_rx (p_seq env n)) (rx_view ms) \<and> (\<forall>i. calls_succeed (fst (q_answers (p_seq env n) i))) \<and>
     q_mem (p_seq env n) = (\<lambda>_. (True, True))"

interpretation seq_loop: kept_loop "seq_pass env c fd" "\<lambda>ms. main_ok (rx_config c) ms \<and> cf_max_connections c \<le> 32768" "seq_granted env"
  for env c fd
proof
  fix ms n
  assume "main_ok (rx_config c) ms \<and> cf_max_connections c \<le> 32768" "seq_granted env n ms"
  then show "\<exists>ms'. seq_pass env c fd n ms = Some ms' \<and> main_ok (rx_config c) ms' \<and> cf_max_connections c \<le> 32768"
    using seq_iteration_ok [of "rx_config c" ms "q_rx (p_seq env n)" "q_answers (p_seq env n)" "hd_config c 0 fd" "p_inactive env" "q_now (p_seq env n)" "Suc n"]
    by (auto simp: seq_pass_def seq_granted_def rx_config_def)
qed

interpretation main_loop: kept_loop "main_pass env" "\<lambda>th. threaded_ok c th \<and> cf_max_connections c \<le> 32768"
    "\<lambda>n th. (worker_step c)\<^sup>*\<^sup>* th (g_workers (p_thr env n) th) \<and> queued_alive (p_inactive env) (g_now (p_thr env n)) (g_workers (p_thr env n) th) \<and>
      g_mem (p_thr env n) = (\<lambda>_. (True, True))"
  for env c
proof
  fix th n
  assume a: "threaded_ok c th \<and> cf_max_connections c \<le> 32768" "(worker_step c)\<^sup>*\<^sup>* th (g_workers (p_thr env n) th) \<and>
      queued_alive (p_inactive env) (g_now (p_thr env n)) (g_workers (p_thr env n) th) \<and> g_mem (p_thr env n) = (\<lambda>_. (True, True))"
  then have "threaded_ok c (g_workers (p_thr env n) th)" using workers_keep by blast
  then show "\<exists>th'. main_pass env n th = Some th' \<and> threaded_ok c th' \<and> cf_max_connections c \<le> 32768"
    using a clean_keeps [of c "g_workers (p_thr env n) th" "p_inactive env" "g_now (p_thr env n)"] by (simp add: main_pass_def Let_def)
qed

text \<open>What the system grants to the set-up, in either mode.\<close>

definition setup_granted :: "setup_env \<Rightarrow> 'ai config_rcv_t \<Rightarrow> bool" where
  "setup_granted env c \<longleftrightarrow> inj_on (e_socket env) {..<cf_stream_count c} \<and> (\<forall>i < cf_stream_count c. socket_granted env i) \<and>
     tables_granted env (cf_stream_count c) \<and> e_memory env Rx_Configs \<and> configs_granted env c \<and> threads_granted env c \<and>
     e_stop_mutex env \<and> e_stop_cond env"

lemma accepted_affinities:
  "parse_receiver env argv config = Some (Inr c) \<Longrightarrow> cf_handle_affinities c = None \<and> cf_receive_affinities c = None"
  by (auto simp: parse_receiver_def Let_def split: prod.splits sum.splits option.splits list.splits if_splits)

lemma setup_goes:
  assumes "setup_granted env c" "config_ok c" "length junk = cf_stream_count c"
  obtains v where "main_setup env c junk = (Go, v)" "ready c v Map.empty new_table" "all_set c v" "tables_done env c v"
proof -
  have g: "\<forall>i < cf_stream_count c. socket_granted env i" "inj_on (e_socket env) {..<cf_stream_count c}"
    using assms(1) by (simp_all add: setup_granted_def)
  show thesis
  proof (cases rule: main_setup_cases [OF assms(3) g(1) assms(2), case_names early late])
    case (early v')
    then show ?thesis using assms(1) by (simp add: setup_granted_def)
  next
    case (late v st)
    then have st: "st = Go" "all_set c v" using assms(1) by (simp_all add: setup_granted_def)
    then have "\<not> unstarted v" by (auto simp: all_set_def unstarted_def)
    then have "ready c v Map.empty new_table" using late g assms(2) by (intro late_ready) simp_all
    then show ?thesis using that late(3,5) st by blast
  qed
qed

text \<open>A program whose command line is accepted and whose set-up succeeds runs in one of its modes.\<close>

lemma run_main_modes:
  assumes "parse_receiver (p_cli env) argv empty_config = Some (Inr config)" "configure (p_files env) config = Some (Some c)"
    and "setup_granted (p_setup env) c"
  obtains v where "main_setup (p_setup env) c (map (p_sockfds env) [0..<cf_stream_count c]) = (Go, v)" "config_ok c"
    "ready c v Map.empty new_table" "all_set c v" "tables_done (p_setup env) c v"
    "run_main env argv = (if cf_sequential c then sequential_mode env c v else threaded_mode env c v)"
proof -
  have "config_ok c" using accepted_affinities [OF assms(1)] configure_ok [OF assms(2)] by simp
  moreover obtain v where "main_setup (p_setup env) c (map (p_sockfds env) [0..<cf_stream_count c]) = (Go, v)"
    "ready c v Map.empty new_table" "all_set c v" "tables_done (p_setup env) c v"
    using setup_goes [OF assms(3) calculation, of "map (p_sockfds env) [0..<cf_stream_count c]"] by auto
  ultimately show thesis using that assms(1,2) by (simp add: run_main_def)
qed

lemma configure_sequential:
  assumes "configure env config = Some (Some c)" "cf_sequential config"
  shows "cf_sequential c \<and> cf_stream_count c = 1 \<and> cf_handle_num c = 1"
  using assms by (auto simp: configure_def one_stream_def split: if_splits)

text \<open>The local arrays of the sequential mode, and its packet.\<close>

definition arrays_granted :: "'ai program_env \<Rightarrow> bool" where
  "arrays_granted env \<longleftrightarrow> p_packet env \<noteq> None \<and> length (p_rows env) = MAX_WINDOW_SIZE + 1 \<and> list_all (\<lambda>row. length row = 12) (p_rows env) \<and>
     length (p_file_buffer env) = MAX_PACKET_SIZE * MAX_WINDOW_SIZE"

definition first_state :: "'ai program_env \<Rightarrow> main_state" where
  "first_state env = seq_start env (the (allocate_packet (p_packet env))) initialize_stream initialize_stream new_table"

lemma first_state_ok:
  assumes "arrays_granted env"
  shows "main_ok cfg (first_state env)"
proof -
  obtain mem where "p_packet env = Some mem" using assms by (auto simp: arrays_granted_def)
  then have "main_start (Some mem) (p_rows env) (p_file_buffer env) = Some (first_state env)"
    by (simp add: main_start_def allocate_new_table first_state_def seq_start_def allocate_packet_def init_packet_def)
  from main_start_ok [OF this] show ?thesis using assms by (simp add: arrays_granted_def)
qed

lemma sequential_end_ready:
  assumes "ready c v Map.empty new_table" "all_set c v" "cf_sequential c" "tables_done env c v" "main_ok cfg ms"
  shows "ready c (with_streams s (s_rx (m_hd ms)) (s_tx (m_hd ms)) (v\<lparr>v_clients := Some (Some (m_table ms))\<rparr>)) (s_clients (m_hd ms)) (m_table ms)"
proof -
  let ?n = "cf_stream_count c" and ?heap = "s_clients (m_hd ms)"
  let ?forth = "(replicate ?n initialize_stream)[s := s_rx (m_hd ms)]" and ?backs = "(replicate ?n initialize_stream)[s := s_tx (m_hd ms)]"
  have "queue_fine ?heap initialize_stream" using counted_initial by (simp add: queue_fine_def initialize_stream_def queue_of_def)
  moreover have "queue_fine ?heap (s_rx (m_hd ms))" using assms(5) by (simp add: queue_fine_def main_ok_def)
  ultimately have "\<forall>q \<in> set ?forth. queue_fine ?heap q" by (intro set_updateI) simp_all
  moreover have "\<forall>hs. v_hd_configs v = Some hs \<longrightarrow> Some Started \<in> set hs \<longrightarrow> heap_ok ?heap" using assms(2,3) by (auto simp: all_set_def)
  moreover have "ht_inv (m_table ms)" using assms(5) by (simp add: main_ok_def rx_ok_def)
  ultimately have "ready c (v\<lparr>v_rx_to_hd := Some (map Live_Stream ?forth), v_hd_to_rx := Some (map Live_Stream ?backs),
      v_clients := Some (Some (m_table ms))\<rparr>) ?heap (m_table ms)"
    using assms(1) by (intro ready_update) simp_all
  moreover have "with_streams s (s_rx (m_hd ms)) (s_tx (m_hd ms)) (v\<lparr>v_clients := Some (Some (m_table ms))\<rparr>) =
      v\<lparr>v_rx_to_hd := Some (map Live_Stream ?forth), v_hd_to_rx := Some (map Live_Stream ?backs), v_clients := Some (Some (m_table ms))\<rparr>"
    using assms(4) by (simp add: with_streams_def tables_done_def map_update)
  ultimately show ?thesis by simp
qed

section \<open>Properties\<close>



text \<open>
  A receiver thread hands over what arrives until it is told to stop. While the other threads keep
  the shared state well formed, the thread returns once its flag is set; each pass appends to the stream
  requests that carry exactly the datagrams of known senders that arrived in it, in order.
\<close>

theorem receive_thread_delivers:
  assumes "rx_ok cfg s" "rc_max_clients cfg \<le> 32769" "rp_stop (envs k)" "\<forall>n < k. \<not> rp_stop (envs n)"
    and "\<forall>n < k. \<forall>s'. passes (receive_pass envs cfg) n s = Some s' \<longrightarrow> rx_pass_granted envs cfg n s'"
  shows "\<exists>s'. receive_thread envs (Some cfg) s = Some s' \<and> rx_ok cfg s' \<and>
    (\<forall>n < k. \<exists>s1 s2 reqs. passes (receive_pass envs cfg) n s = Some s1 \<and> passes (receive_pass envs cfg) (Suc n) s = Some s2 \<and>
       queue_of (r_tx s2) = queue_of (r_tx (rp_others (envs n) s1)) @ map Some reqs \<and>
       concat (map req_items reqs) =
         List.map_filter (arrival (r_table s2)) (take (nat (x_retval (rp_env (envs n)))) (x_msgs (rp_env (envs n)))))"
proof -
  have each: "\<exists>s1 s2 reqs. passes (receive_pass envs cfg) n s = Some s1 \<and> passes (receive_pass envs cfg) (Suc n) s = Some s2 \<and>
       queue_of (r_tx s2) = queue_of (r_tx (rp_others (envs n) s1)) @ map Some reqs \<and>
       concat (map req_items reqs) =
         List.map_filter (arrival (r_table s2)) (take (nat (x_retval (rp_env (envs n)))) (x_msgs (rp_env (envs n))))"
    if "n < k" for n
  proof -
    have "\<forall>m < n. \<forall>s'. passes (receive_pass envs cfg) m s = Some s' \<longrightarrow> rx_pass_granted envs cfg m s'"
      using assms(5) less_trans [OF _ that] by blast
    then obtain s1 where s1: "passes (receive_pass envs cfg) n s = Some s1"
      using receiver_loop.passes_ok [of cfg s n envs] assms(1,2) by blast
    then have "rx_pass_granted envs cfg n s1" using assms(5) that by blast
    then obtain s2 where "rx_run_once (rp_env (envs n)) cfg (rp_others (envs n) s1) = Some s2"
      "rx_inv (rp_env (envs n)) cfg (rp_others (envs n) s1) (nat (x_retval (rp_env (envs n)))) None None s2"
      using rx_run_once_inv assms(2) unfolding rx_pass_granted_def by blast
    with s1 show ?thesis by (auto simp: receive_pass_def rx_inv_def handed_over_def open_items_def)
  qed
  then show ?thesis
    using receiver_loop.loop_ends [of cfg s "\<lambda>i. rp_stop (envs i)", OF _ assms(3-5)] assms(1,2) by (auto simp: receive_thread_def)
qed

section \<open>Witnesses\<close>

definition sample_rx_passes :: "nat \<Rightarrow> rx_pass_env" where
  "sample_rx_passes n = \<lparr>rp_stop = (n = 1), rp_others = (\<lambda>s. s), rp_env = sample_rx_env sample_msgs True\<rparr>"

theorem receive_thread_delivers_witness:
  "\<exists>s'. receive_thread sample_rx_passes (Some sample_rx_cfg) sample_rx_state = Some s' \<and> rx_ok sample_rx_cfg s'"
  using receive_thread_delivers [OF sample_rx_ok, of sample_rx_passes 1] sample_rx_ok sample_rx_env_ok
  by (auto simp: sample_rx_passes_def rx_pass_granted_def sample_rx_cfg_def)

text \<open>The program with \<^verbatim>\<open>-s\<close>, interrupted during its first iteration, in which the first packet of a sender arrives.\<close>

definition sample_program :: "nat program_env" where
  "sample_program = \<lparr>p_cli = sample_cli_env, p_files = sample_config_env, p_setup = sample_setup_env\<lparr>e_create := (\<lambda>t. True)\<rparr>,
     p_sockfds = (\<lambda>i. 0), p_end = sample_stop_env, p_inactive = sample_inactive, p_packet = Some fresh_packet,
     p_rows = replicate 32 (replicate 12 0), p_file_buffer = replicate (528 * 31) 0,
     p_seq = (\<lambda>i. \<lparr>q_stop = (i = 1), q_rx = sample_rx_env [first_msg] True, q_answers = sample_answers,
       q_now = \<lparr>tv_sec = 50, tv_nsec = 0\<rparr>, q_mem = (\<lambda>_. (True, True))\<rparr>),
     p_thr = (\<lambda>i. \<lparr>g_stop = (i = 1), g_workers = (\<lambda>th. th), g_now = \<lparr>tv_sec = 50, tv_nsec = 0\<rparr>, g_mem = (\<lambda>_. (True, True))\<rparr>),
     p_last = (\<lambda>th. th)\<rparr>"

definition sample_parsed :: "bool \<Rightarrow> nat config_rcv_t" where
  "sample_parsed sequential = \<lparr>cf_sequential = sequential, cf_stream_count = 0, cf_handle_num = 2, cf_handle_affinities = None,
     cf_handle_streams = None, cf_receive_num = 1, cf_receive_affinities = None, cf_receive_streams = None,
     cf_max_window = 31, cf_receive_window_size = 31, cf_format_len = 2, cf_format = ''%d'',
     cf_deallocate_format = False, cf_max_connections = 100, cf_addr_info = Some 1, cf_port = 5555\<rparr>"

lemma sample_program_simps [simp]:
  "p_cli sample_program = sample_cli_env" "p_files sample_program = sample_config_env"
  "p_setup sample_program = sample_setup_env\<lparr>e_create := (\<lambda>t. True)\<rparr>" "p_end sample_program = sample_stop_env"
  "q_stop (p_seq sample_program n) = (n = 1)" "g_stop (p_thr sample_program n) = (n = 1)" "p_last sample_program th = th"
  "g_workers (p_thr sample_program n) th = th" "g_mem (p_thr sample_program n) = (\<lambda>_. (True, True))"
  by (simp_all add: sample_program_def)

lemma sample_parses:
  "parse_receiver sample_cli_env [''receiver'', ''-s'', ''::1'', ''5555''] empty_config = Some (Inr (sample_parsed True))"
  "parse_receiver sample_cli_env [''receiver'', ''::1'', ''5555''] empty_config = Some (Inr (sample_parsed False))"
  by code_simp+

lemma sample_configures:
  "configure sample_config_env (sample_parsed True) = Some (Some ((sample_parsed True)\<lparr>cf_receive_num := 1, cf_handle_num := 1,
     cf_receive_streams := Some [0], cf_handle_streams := Some [0], cf_stream_count := 1\<rparr>))"
  "configure sample_config_env (sample_parsed False) =
     Some (Some ((sample_parsed False)\<lparr>cf_receive_streams := Some [0], cf_handle_streams := Some [0, 0], cf_stream_count := 1\<rparr>))"
  by code_simp+

lemma sample_setup_granted: "setup_granted (sample_setup_env\<lparr>e_create := (\<lambda>t. True)\<rparr>) c"
  using sample_sockets sample_tables
  by (simp add: setup_granted_def configs_granted_def threads_granted_def all_started_def) (simp add: sample_setup_env_def)

lemma sample_arrays: "arrays_granted sample_program"
  by (simp add: arrays_granted_def sample_program_def list_all_iff)

lemma sample_first_granted: "seq_granted sample_program 0 (first_state sample_program)"
proof -
  have "r_clients (rx_view (first_state sample_program)) = r_clients (rx_view sample_main)"
    by (simp add: first_state_def seq_start_def sample_main_def)
  then show ?thesis
    using first_rx_env_ok sample_answers_ok by (simp add: seq_granted_def rx_env_ok_def) (simp add: sample_program_def)
qed



end
