(* ===== verification/Threaded_Delivery.thy ===== *)
theory Threaded_Delivery
  imports Threaded_Mode
begin

text \<open>
  Delivery in the threaded mode: several receivers and handlers, on one or several streams, and the clean-up
  together write the file of every client in order, as long as the packets that a handler takes belong to
  the window that their client has at that moment.
\<close>

section \<open>Positions\<close>

text \<open>
  The position of a sender is the number of its packets that are written. It is zero for a sender without a
  client, and otherwise advances with the window of its client.
\<close>

definition client_of :: "threaded \<Rightarrow> sender \<Rightarrow> client_t option" where
  "client_of th k = do {
     t \<leftarrow> v_clients (th_vars th);
     t \<leftarrow> t;
     a \<leftarrow> ht_entries t k;
     th_heap th a
   }"

definition advance :: "threaded \<Rightarrow> threaded \<Rightarrow> (sender \<Rightarrow> nat) \<Rightarrow> sender \<Rightarrow> nat" where
  "advance th th' n k = (case (client_of th k, client_of th' k) of
     (Some x, Some x') \<Rightarrow> n k + unat (window_low (c_window x') - window_low (c_window x))
   | _ \<Rightarrow> 0)"

definition in_order :: "(sender \<Rightarrow> nat \<Rightarrow> bytes) \<Rightarrow> (sender \<Rightarrow> nat) \<Rightarrow> threaded \<Rightarrow> bool" where
  "in_order src n th \<longleftrightarrow> (\<forall>k x. client_of th k = Some x \<longrightarrow> delivering (src k) (n k) x)"

text \<open>The request that handler \<open>i\<close> takes next has only packets of the window of its client, with the chunks of the sender.\<close>

definition next_honest :: "(sender \<Rightarrow> nat \<Rightarrow> bytes) \<Rightarrow> (sender \<Rightarrow> nat) \<Rightarrow> 'ai config_rcv_t \<Rightarrow> nat \<Rightarrow> threaded \<Rightarrow> bool" where
  "next_honest src n c i th \<longleftrightarrow> (\<forall>s fd q q' req rest k t a. resources_at (cf_handle_streams c) (cf_handle_affinities c) i (th_vars th) = Some (s, fd, q, q') \<longrightarrow>
     queue_of q = Some req # rest \<longrightarrow> v_clients (th_vars th) = Some (Some t) \<longrightarrow>
     rq_client req = Some a \<longrightarrow> ht_entries t k = Some a \<longrightarrow> honest (src k) (n k) req)"

inductive delivery_run :: "'ai config_rcv_t \<Rightarrow> inactivity \<Rightarrow> (sender \<Rightarrow> nat \<Rightarrow> bytes) \<Rightarrow> (sender \<Rightarrow> nat) \<Rightarrow> threaded \<Rightarrow> bool"
  for c inactive src where
  start: "delivery_run c inactive src (\<lambda>k. 0) th" if "started c th"
| receive: "delivery_run c inactive src (advance th th' n) th'"
    if "delivery_run c inactive src n th" "i < cf_receive_num c" "receiver_granted env c i th" "receiver_pass env c i th = Some th'"
| handle: "delivery_run c inactive src (advance th th' n) th'"
    if "delivery_run c inactive src n th" "i < cf_handle_num c" "calls_succeed env" "locals_ok lv"
      "handler_pass env lv c i th = Some (Some th')" "next_honest src n c i th"
| clean: "delivery_run c inactive src (advance th th' n) th'"
    if "delivery_run c inactive src n th" "queued_alive inactive now th" "clean_pass inactive now (\<lambda>_. (True, True)) th = Some th'"

section \<open>A pass of a handler\<close>

lemma request_pass:
  assumes "state_ok s" "unlocked (s_clients s)" "calls_succeed env" "stream_pop (s_rx s) wait = Some (Some (Some req), rx)"
    "queue_of (s_rx s) = Some req # queue_of rx" "\<not> rq_stop req"
  obtains s' a x x' m where "hd_run_once env remove to_send wait cfg s = Some (Some s')" "rq_client req = Some a" "s_clients s a = Some x"
    "s_clients s' = (s_clients s)(a \<mapsto> x')" "window_low (c_window x') = window_low (c_window x) + word_of_nat m" "m \<le> MAX_WINDOW_SIZE"
    "\<And>src n. delivering src n x \<Longrightarrow> honest src n req \<Longrightarrow> delivering src (n + m) x'"
proof -
  have "request_ok (s_clients s) (Some req)" using assms(1,5) by (simp add: state_ok_def)
  then obtain a x where a: "req_ok req" "rq_client req = Some a" "s_clients s a = Some x" using assms(6) by (auto simp: request_ok_def)
  have x: "client_ok x" "\<not> c_locked x" and b: "buffers_ok s" using assms(1,2) a(3) by (auto simp: state_ok_def unlocked_def)
  let ?Q = "\<lambda>j y. window_low (c_window y) = window_low (c_window x) \<and> (\<forall>src n. delivering src n x \<longrightarrow> honest src n req \<longrightarrow> delivering src n y)"
  have start: "?Q 0 (x\<lparr>c_locked := True\<rparr>)" by simp
  have keep: "\<forall>j y y'. j < rq_num req \<longrightarrow> ?Q j y \<longrightarrow> datagram_effect req j y y' \<longrightarrow> ?Q (Suc j) y'"
  proof (intro allI impI conjI)
    fix j y y' src n assume j: "j < rq_num req" "?Q j y" "datagram_effect req j y y'"
    show "window_low (c_window y') = window_low (c_window x)" using j(2,3) by (auto simp: datagram_effect_def)
    assume "delivering src n x" "honest src n req"
    then show "delivering src n y'" using j delivering_effect by blast
  qed
  from hd_run_once_request [where Q = ?Q and remove = remove and to_send = to_send and cfg = cfg,
      OF assms(4,6) a(2,3) x(2) b x(1) a(1) assms(3) start keep]
  obtain s' c1 x' m where s': "hd_run_once env remove to_send wait cfg s = Some (Some s')" "s_clients s' = (s_clients s)(a \<mapsto> x')"
    "?Q (rq_num req) c1" "x' = (finished env m c1)\<lparr>c_locked := False\<rparr>" "run_end (c_window c1) m"
    "\<forall>k < m. held (c_window c1) (window_low (c_window c1) + word_of_nat k) \<noteq> None" by blast
  have "c_window x' = drain (c_window c1) m"
    using s'(4) by (cases "m = 0") (simp_all add: finished_def Let_def drain_def slide_def)
  then have low: "window_low (c_window x') = window_low (c_window x) + word_of_nat m" using s'(3) by simp
  have "delivering src (n + m) x'" if "delivering src n x" "honest src n req" for src n
    using s'(3,4,6) that delivering_finished [of src n c1 m env] by simp
  then show thesis using that [OF s'(1) a(2,3) s'(2) low] s'(5) by (simp add: run_end_def)
qed

section \<open>Every step keeps the order\<close>

lemma client_of_eq: "v_clients (th_vars th) = Some (Some t) \<Longrightarrow> client_of th k = do {a \<leftarrow> ht_entries t k; th_heap th a}"
  by (simp add: client_of_def)

lemma in_orderD: "in_order src n th \<Longrightarrow> client_of th k = Some x \<Longrightarrow> delivering (src k) (n k) x"
  unfolding in_order_def by blast

text \<open>Clients that are unchanged or new are in order.\<close>

lemma in_order_unchanged:
  assumes "in_order src n th"
    and "\<And>k x. client_of th' k = Some x \<Longrightarrow> client_of th k = Some x \<or> client_of th k = None \<and> new_client (c_address x) x"
  shows "in_order src (advance th th' n) th'"
  unfolding in_order_def
proof (intro allI impI)
  fix k x
  assume x: "client_of th' k = Some x"
  from assms(2) [OF x] show "delivering (src k) (advance th th' n k) x"
  proof
    assume "client_of th k = Some x"
    then show ?thesis using in_orderD [OF assms(1)] x by (simp add: advance_def)
  next
    assume "client_of th k = None \<and> new_client (c_address x) x"
    then show ?thesis using x delivering_new [of "c_address x" x] by (simp add: advance_def)
  qed
qed

lemma receive_in_order:
  assumes sh: "shares c th forth backs t" and "i < cf_receive_num c" "cf_max_connections c \<le> 32768" "receiver_granted env c i th"
    and "receiver_pass env c i th = Some th'" "in_order src n th"
  shows "in_order src (advance th th' n) th'"
proof (rule in_order_unchanged [OF assms(6)])
  fix k x
  assume x: "client_of th' k = Some x"
  note th = sharesD [OF sh]
  obtain s r r' where r': "s < cf_stream_count c" "r = \<lparr>r_tx = forth ! s, r_rx = backs ! s, r_table = t, r_clients = th_heap th, r_idx = th_idx th\<rparr>"
    "rx_inv env (rx_config c) r (nat (x_retval env)) None None r'" "locked_before (th_heap th) (r_clients r')"
    "receiver_pass env c i th = Some \<lparr>th_vars = with_streams s (r_tx r') (r_rx r') ((th_vars th)\<lparr>v_clients := Some (Some (r_table r'))\<rparr>),
       th_heap = r_clients r', th_idx = r_idx r'\<rparr>"
    by (rule receiver_runs [OF sh assms(2-4)]) (rule that; assumption)
  have th': "v_clients (th_vars th') = Some (Some (r_table r'))" "th_heap th' = r_clients r'"
    using assms(5) r'(5) by (auto simp: with_streams_def)
  then obtain a where a: "ht_entries (r_table r') k = Some a" "r_clients r' a = Some x"
    using x by (auto simp: client_of_eq bind_eq_Some_conv)
  have inv: "newcomers r r'" "th_heap th \<subseteq>\<^sub>m r_clients r'" using r'(2,3) by (simp_all add: rx_inv_def)
  have "ht_entries (r_table r) k = Some a \<or> ht_entries (r_table r) k = None \<and> (\<exists>x. r_clients r' a = Some x \<and> new_client (c_address x) x)"
    using inv(1) a(1) unfolding newcomers_def by blast
  then consider "ht_entries t k = Some a" | "ht_entries t k = None" "new_client (c_address x) x" using a(2) r'(2) by auto
  then show "client_of th k = Some x \<or> client_of th k = None \<and> new_client (c_address x) x"
  proof cases
    case 1
    then obtain y where "th_heap th a = Some y" using th(10) unfolding keyed_def by blast
    then have "th_heap th a = Some x" using map_leD [OF inv(2)] a(2) by fastforce
    then show ?thesis using 1 th(3) by (simp add: client_of_eq)
  next
    case 2
    then show ?thesis using th(3) by (simp add: client_of_eq)
  qed
qed

lemma clean_in_order:
  assumes sh: "shares c th forth backs t" and "cf_max_connections c \<le> 32768" "queued_alive inactive now th"
    and "clean_pass inactive now (\<lambda>_. (True, True)) th = Some th'" "in_order src n th"
  shows "in_order src (advance th th' n) th'"
proof (rule in_order_unchanged [OF assms(5)])
  fix k x
  assume x: "client_of th' k = Some x"
  obtain as t' where "th_heap th' = th_heap th |` (- set as)" "th_vars th' = (th_vars th)\<lparr>v_clients := Some (Some t')\<rparr>"
    "ht_entries t' = without (set as) (ht_entries t)"
    using clean_shares [OF sh assms(2,3)] assms(4) by (metis option.inject)
  then show "client_of th k = Some x \<or> client_of th k = None \<and> new_client (c_address x) x"
    using x sharesD(3) [OF sh] by (auto simp: client_of_eq bind_eq_Some_conv without_def split: option.splits if_splits)
qed

lemma keyed_unique: "keyed t heap \<Longrightarrow> ht_entries t k = Some a \<Longrightarrow> ht_entries t k' = Some a \<Longrightarrow> k' = k"
  unfolding keyed_def by (metis option.inject)

text \<open>One client gets a new value, and moves forward.\<close>

lemma in_order_client:
  assumes "shares c th forth backs t" "in_order src n th" "th_heap th a = Some x"
    "th_heap th' = (th_heap th)(a \<mapsto> y)" "v_clients (th_vars th') = v_clients (th_vars th)"
    "window_low (c_window y) = window_low (c_window x) + word_of_nat m" "m \<le> MAX_WINDOW_SIZE"
    and deliver: "\<And>k. ht_entries t k = Some a \<Longrightarrow> delivering (src k) (n k) x \<Longrightarrow> delivering (src k) (n k + m) y"
  shows "in_order src (advance th th' n) th'"
  unfolding in_order_def
proof (intro allI impI)
  fix k z
  assume z: "client_of th' k = Some z"
  have t: "v_clients (th_vars th) = Some (Some t)" "v_clients (th_vars th') = Some (Some t)" using sharesD(3) [OF assms(1)] assms(5) by simp_all
  obtain b where b: "ht_entries t k = Some b" "th_heap th' b = Some z" using z t(2) by (auto simp: client_of_eq bind_eq_Some_conv)
  show "delivering (src k) (advance th th' n k) z"
  proof (cases "b = a")
    case True
    then have k: "client_of th k = Some x" "z = y" using b assms(3,4) t(1) by (auto simp: client_of_eq)
    then have "delivering (src k) (n k + m) y" using deliver in_orderD [OF assms(2) k(1)] b(1) True by blast
    moreover have "advance th th' n k = n k + m"
      using k z assms(6,7) unat_u8_small [of m] by (simp add: advance_def)
    ultimately show ?thesis using k(2) by simp
  next
    case False
    then have "client_of th k = Some z" using b assms(4) t(1) by (simp add: client_of_eq)
    then show ?thesis using in_orderD [OF assms(2)] z by (simp add: advance_def)
  qed
qed

lemma handle_in_order:
  assumes "threaded_ok c th" "i < cf_handle_num c" "calls_succeed env" "locals_ok lv"
    and "handler_pass env lv c i th = Some (Some th')" "next_honest src n c i th" "in_order src n th"
  shows "in_order src (advance th th' n) th'"
proof -
  obtain forth backs t where sh: "shares c th forth backs t" by (rule threaded_ok_shares [OF assms(1)])
  note th = sharesD [OF sh]
  obtain s fd h where h: "s < cf_stream_count c" "h = hd_state_of lv (forth ! s) (backs ! s) (th_heap th)"
    "resources_at (cf_handle_streams c) (cf_handle_affinities c) i (th_vars th) = Some (s, fd, forth ! s, backs ! s)"
    "state_ok h" "unlocked (s_clients h)" "counted (forth ! s)" "\<forall>x \<in> set (queue_of (forth ! s)). \<not> stop_node x"
    "\<And>env. handler_pass env lv c i th = map_option (map_option (\<lambda>h. th\<lparr>th_vars := with_streams s (s_rx h) (s_tx h) (th_vars th), th_heap := s_clients h\<rparr>))
      (hd_run_once env (lv_remove lv) (lv_to_send lv) True (hd_config c i fd) h)"
    by (rule handler_runs [OF sh assms(2,4) threaded_ok_unlocked [OF assms(1)]]) (rule that; assumption)
  have simps: "s_rx h = forth ! s" "s_clients h = th_heap th" using h(2) by (simp_all add: hd_state_of_def)
  obtain h' where h': "hd_run_once env (lv_remove lv) (lv_to_send lv) True (hd_config c i fd) h = Some (Some h')"
    "th' = th\<lparr>th_vars := with_streams s (s_rx h') (s_tx h') (th_vars th), th_heap := s_clients h'\<rparr>"
    using assms(5) h(8) by auto
  have th': "v_clients (th_vars th') = v_clients (th_vars th)" "th_heap th' = s_clients h'" using h'(2) by (simp_all add: with_streams_def)
  have none: "in_order src (advance th th' n) th'" if "s_clients h' = th_heap th"
  proof -
    have "client_of th' = client_of th" using th' that by (simp add: client_of_def fun_eq_iff)
    then show ?thesis using in_order_unchanged [OF assms(7), of th'] by simp
  qed
  show ?thesis
  proof (cases "queue_of (forth ! s)")
    case Nil
    then have "stream_pop (s_rx h) True = None" using h(6) simps(1) by (simp add: stream_pop_def counted_def)
    then show ?thesis using h'(1) by (simp add: hd_run_once_def)
  next
    case (Cons node rest)
    obtain q where q: "stream_pop (s_rx h) True = Some (Some node, q)" "queue_of q = rest"
      using counted_pop [OF h(6) Cons, of True] simps(1) by auto
    show ?thesis
    proof (cases node)
      case None
      then show ?thesis using none q(1) h'(1) simps(2) by (auto simp: hd_run_once_def)
    next
      case (Some req)
      have r: "queue_of (s_rx h) = Some req # queue_of q" "\<not> rq_stop req" using Cons Some q(2) simps(1) h(7) by (simp_all add: stop_node_def)
      obtain h'' a x x' m where e: "hd_run_once env (lv_remove lv) (lv_to_send lv) True (hd_config c i fd) h = Some (Some h'')"
        "rq_client req = Some a" "s_clients h a = Some x" "s_clients h'' = (s_clients h)(a \<mapsto> x')"
        "window_low (c_window x') = window_low (c_window x) + word_of_nat m" "m \<le> MAX_WINDOW_SIZE"
        "\<And>src n. delivering src n x \<Longrightarrow> honest src n req \<Longrightarrow> delivering src (n + m) x'"
        by (rule request_pass [OF h(4,5) assms(3) q(1) [unfolded Some] r]) (rule that; assumption)
      have "honest (src k) (n k) req" if "ht_entries t k = Some a" for k
        using assms(6) h(3) Cons Some th(3) e(2) that unfolding next_honest_def by blast
      then show ?thesis
        using e h'(1) th' simps(2) by (intro in_order_client [OF sh assms(7), of a x th' x' m]) simp_all
    qed
  qed
qed

lemma delivery_run_ok:
  assumes "delivery_run c inactive src n th" "config_ok c" "cf_max_connections c \<le> 32768"
  shows "threaded_ok c th \<and> in_order src n th"
  using assms
proof (induction rule: delivery_run.induct)
  case (start th)
  have "in_order src (\<lambda>k. 0) th" using start.hyps by (simp add: started_def in_order_def client_of_def bind_eq_Some_conv)
  then show ?case using started_ok [OF start.hyps start.prems(1)] by simp
next
  case (receive n th i env th')
  then have ok: "threaded_ok c th" "in_order src n th" by simp_all
  have "threaded_ok c th'" using receiver_keeps [OF ok(1) receive.hyps(2) receive.prems(2) receive.hyps(3)] receive.hyps(4) by simp
  moreover obtain forth backs t where "shares c th forth backs t" by (rule threaded_ok_shares [OF ok(1)])
  ultimately show ?case using receive_in_order [OF _ receive.hyps(2) receive.prems(2) receive.hyps(3,4) ok(2)] by blast
next
  case (handle n th i env lv th')
  then have ok: "threaded_ok c th" "in_order src n th" by simp_all
  have "threaded_ok c th'" using handler_keeps [OF ok(1) handle.hyps(2-4)] handle.hyps(5) by (simp split: if_splits)
  then show ?case using handle_in_order [OF ok(1) handle.hyps(2-6) ok(2)] by simp
next
  case (clean n th now th')
  then have ok: "threaded_ok c th" "in_order src n th" by simp_all
  have "threaded_ok c th'" using clean_keeps [OF ok(1) clean.prems(2) clean.hyps(2)] clean.hyps(3) by simp
  moreover obtain forth backs t where "shares c th forth backs t" by (rule threaded_ok_shares [OF ok(1)])
  ultimately show ?case using clean_in_order [OF _ clean.prems(2) clean.hyps(2,3) ok(2)] by blast
qed

section \<open>Properties\<close>

text \<open>
  The threaded mode delivers in order, pass by pass. However the passes of the receivers, of the handlers and of the
  clean-up follow each other, and however many of them there are: when every request a handler takes has, of
  its sender's packets within the current window, only true ones, then at every moment the file of each client
  holds exactly the first chunks of its sender, in order and without gap, up to its position, and what the window holds are
  chunks that follow.
\<close>

theorem threaded_files_in_order:
  assumes "delivery_run c inactive src n th" "config_ok c" "cf_max_connections c \<le> 32768" "client_of th k = Some x"
  shows "f_data (c_out_file x) = concat (map (src k) [0..<n k]) \<and> window_low (c_window x) = word_of_nat (n k) \<and>
    (\<forall>s p. held (c_window x) s = Some p \<longrightarrow> chunk p = src k (n k + unat (s - window_low (c_window x))))"
  using in_orderD [OF conjunct2 [OF delivery_run_ok [OF assms(1-3)]] assms(4)] unfolding delivering_def by blast

section \<open>The first datagram\<close>

lemma sample_receiver_granted: "receiver_granted (sample_rx_env [first_msg] True) sample_running 0 sample_threaded"
proof -
  have c: "0 < cf_receive_num sample_running" by (simp add: sample_running_def sample_config_def)
  obtain forth backs t where sh: "shares sample_running sample_threaded forth backs t"
    by (rule threaded_ok_shares [OF started_ok [OF sample_started sample_running_ok]])
  obtain s where "rx_state_of sample_running 0 sample_threaded = Some (s, \<lparr>r_tx = forth ! s, r_rx = backs ! s, r_table = t,
      r_clients = th_heap sample_threaded, r_idx = th_idx sample_threaded\<rparr>)" by (rule receiver_state [OF sh c]) (rule that; assumption)
  moreover have "th_heap sample_threaded = r_clients (rx_view sample_main)" by (simp add: sample_threaded_def sample_main_def)
  ultimately show ?thesis using first_rx_env_ok by (simp add: receiver_granted_def rx_env_ok_def)
qed

text \<open>The first datagram of a sender gives it a client.\<close>

lemma single_admitted:
  assumes "rx_ok cfg s" "rx_env_ok env s" "rc_max_clients cfg \<le> 32769" "x_retval env = 1" "x_msgs env = [m]"
    and "ht_len (r_table s) < rc_max_clients cfg"
  shows "\<exists>s' a. rx_run_once env cfg s = Some s' \<and> ht_entries (r_table s') (msg_key m) = Some a"
proof -
  have "handed_over env s 0 None s" by (auto simp: handed_over_def open_items_def map_filter_def)
  then have inv: "rx_inv env cfg s 0 None None s" and fresh: "fresh_from env 0 s"
    using assms(1,2) by (auto simp: rx_inv_def refused_full_def open_for_def fresh_from_def rx_env_ok_def newcomers_def)
  have m: "0 < length (x_msgs env)" "m = x_msgs env ! 0" using assms(5) by simp_all
  obtain a s2 where a: "rx_admitted env cfg 0 m s a s2"
    using rx_contained_ok [OF assms(1,2) fresh m(1) assms(3) m(2)] assms(6) linorder_not_le by blast
  then have c: "rx_contained env cfg 0 (m_addr m) s = Some (Proceed, Some a, s2)" "ht_entries (r_table s2) (msg_key m) = Some a"
    unfolding rx_admitted_def by blast+
  obtain content req req' q where o: "rx_new_node env 0 s2 = Some (Proceed, Some content, s2\<lparr>r_rx := q\<rparr>)"
    "rx_open_request env 0 (Some a) content = Some req" "rx_append m req = Some req'"
    using rx_opened [OF inv assms(2) m(1) a [unfolded m(2)]] unfolding m(2) by blast
  have "rx_message env cfg 0 None None s = Some (Proceed, Some a, Some (Some req'), s2\<lparr>r_rx := q\<rparr>)"
    using assms(5) c(1) o by (simp add: rx_message_def rx_same_def rx_enqueue_def rd_def)
  then show ?thesis using assms(4) c(2) by (simp add: rx_run_once_def rx_enqueue_def)
qed

lemma sample_first_client:
  obtains th x where "receiver_pass (sample_rx_env [first_msg] True) sample_running 0 sample_threaded = Some th"
    "client_of th (msg_key first_msg) = Some x" "advance sample_threaded th (\<lambda>k. 0) (msg_key first_msg) = 0"
proof -
  let ?env = "sample_rx_env [first_msg] True" and ?k = "msg_key first_msg"
  have c: "0 < cf_receive_num sample_running" "cf_max_connections sample_running = 100"
    by (simp_all add: sample_running_def sample_config_def)
  have ok: "threaded_ok sample_running sample_threaded" using started_ok [OF sample_started sample_running_ok] .
  obtain forth backs t where sh: "shares sample_running sample_threaded forth backs t" by (rule threaded_ok_shares [OF ok])
  obtain th where th: "receiver_pass ?env sample_running 0 sample_threaded = Some th" "threaded_ok sample_running th"
    using receiver_keeps [OF ok c(1) sample_running_max sample_receiver_granted] by blast
  have start: "client_of sample_threaded ?k = None" by (simp add: client_of_def sample_threaded_def bind_eq_None_conv)
  obtain s where s: "rx_state_of sample_running 0 sample_threaded = Some (s, \<lparr>r_tx = forth ! s, r_rx = backs ! s, r_table = t,
      r_clients = th_heap sample_threaded, r_idx = th_idx sample_threaded\<rparr>)"
    "rx_ok (rx_config sample_running) \<lparr>r_tx = forth ! s, r_rx = backs ! s, r_table = t,
      r_clients = th_heap sample_threaded, r_idx = th_idx sample_threaded\<rparr>" (is "rx_ok _ ?r")
    by (rule receiver_state [OF sh c(1)]) (rule that; assumption)
  have "ready sample_running (th_vars sample_threaded) Map.empty new_table" using sample_setup [OF refl] by (simp add: sample_threaded_def)
  then have "ht_len t = 0" using sharesD(3) [OF sh] by (simp add: ready_def new_table_facts)
  then have "\<exists>r' a. rx_run_once ?env (rx_config sample_running) ?r = Some r' \<and> ht_entries (r_table r') ?k = Some a"
    using s sample_receiver_granted c(2) by (intro single_admitted) (simp_all add: receiver_granted_def rx_config_def sample_rx_env_def)
  then obtain t1 a where r': "v_clients (th_vars th) = Some (Some t1)" "ht_entries t1 ?k = Some a"
    using th(1) s(1) by (auto simp: receiver_pass_def with_streams_def)
  obtain forth' backs' t' where "shares sample_running th forth' backs' t'" by (rule threaded_ok_shares [OF th(2)])
  with r' obtain x where "th_heap th a = Some x" unfolding shares_def keyed_def by (metis option.inject)
  then have x: "client_of th ?k = Some x" using r' by (simp add: client_of_eq)
  have "advance sample_threaded th (\<lambda>k. 0) ?k = 0" using start by (simp add: advance_def)
  then show thesis using that [OF th(1) x] by simp
qed

end
