(* ===== verification/Handler_Threads.thy ===== *)
theory Handler_Threads
  imports Threaded_Delivery
begin

text \<open>
  The handlers under interleaving. In \<^verbatim>\<open>Threaded_Mode\<close> a pass of a handler is one step; here \<^verbatim>\<open>hd_run_once\<close> is cut
  at its accesses to what the threads share: the request is taken from the stream, the mutex of the client
  is locked, the datagrams are decoded into the window, the packets in order are written and the mutex is
  unlocked, the node is given back. Between any two of these sections any other handler, a receiver and the clean-up
  may run. Inside a section the handler works on its own variables and on the client whose mutex it
  holds.

  The mutex of a client is its flag \<open>c_locked\<close>; a handler that finds it set waits. Two handlers may hold requests of
  the same client, and lock it in another order than they took them.
\<close>

section \<open>Sections of a pass\<close>

text \<open>Where a handler is, with the local variables of the pass that it still needs.\<close>

datatype hd_pc =
    Ready
  | Taken hd_req_t
  | Holding hd_req_t
  | Decoded hd_local
  | Answering hd_req_t
  | Ended

record fine =
  fn_shared :: threaded
  fn_pc :: "nat \<Rightarrow> hd_pc"
  fn_lv :: "nat \<Rightarrow> hd_local_vars"

definition moves :: "nat \<Rightarrow> hd_pc \<Rightarrow> threaded \<Rightarrow> fine \<Rightarrow> fine" where
  "moves i pc th f = f\<lparr>fn_shared := th, fn_pc := (fn_pc f)(i := pc)\<rparr>"

text \<open>\<open>Some None\<close> is waiting, for a node or for a mutex.\<close>

definition take_request :: "'ai config_rcv_t \<Rightarrow> nat \<Rightarrow> fine \<Rightarrow> fine option option" where
  "take_request c i f = do {
     (s, fd, forth, back) \<leftarrow> resources_at (cf_handle_streams c) (cf_handle_affinities c) i (th_vars (fn_shared f));
     Some (case stream_pop forth True of
       None \<Rightarrow> None
     | Some (node, q) \<Rightarrow>
         (let th = (fn_shared f)\<lparr>th_vars := with_streams s q back (th_vars (fn_shared f))\<rparr> in
          case node of
            Some (Some req) \<Rightarrow>
              if rq_stop req
              then Some ((moves i Ended th f)\<lparr>fn_lv := (fn_lv f)(i := (fn_lv f i)\<lparr>lv_decoded := None\<rparr>)\<rparr>)
              else Some (moves i (Taken req) th f)
          | _ \<Rightarrow> Some (moves i Ready th f)))
   }"

definition lock_client :: "nat \<Rightarrow> hd_req_t \<Rightarrow> fine \<Rightarrow> fine option option" where
  "lock_client i req f = do {
     a \<leftarrow> rq_client req;
     client \<leftarrow> th_heap (fn_shared f) a;
     Some (if c_locked client then None
       else Some (moves i (Holding req) ((fn_shared f)\<lparr>th_heap := (th_heap (fn_shared f))(a \<mapsto> client\<lparr>c_locked := True\<rparr>)\<rparr>) f))
   }"

definition decode_request :: "packet_t \<Rightarrow> 'ai config_rcv_t \<Rightarrow> nat \<Rightarrow> hd_req_t \<Rightarrow> fine \<Rightarrow> fine option" where
  "decode_request to_send c i req f = do {
     (s, fd, forth, back) \<leftarrow> resources_at (cf_handle_streams c) (cf_handle_affinities c) i (th_vars (fn_shared f));
     a \<leftarrow> rq_client req;
     client \<leftarrow> th_heap (fn_shared f) a;
     st \<leftarrow> hd_receive (hd_config c i fd) [0..<rq_num req]
             (hd_begin to_send req client (hd_state_of (fn_lv f i) forth back (th_heap (fn_shared f))));
     Some (moves i (Decoded st) ((fn_shared f)\<lparr>th_heap := (th_heap (fn_shared f))(a \<mapsto> l_client st)\<rparr>) f)
   }"

text \<open>
  The loop over the window, the file, the acknowledgement, and the mutex. After a short write the node is given back at
  once.
\<close>

definition write_packets :: "hd_env \<Rightarrow> bool \<Rightarrow> 'ai config_rcv_t \<Rightarrow> nat \<Rightarrow> hd_local \<Rightarrow> fine \<Rightarrow> fine option" where
  "write_packets env remove c i st f = do {
     (s, fd, forth, back) \<leftarrow> resources_at (cf_handle_streams c) (cf_handle_affinities c) i (th_vars (fn_shared f));
     a \<leftarrow> rq_client (l_req st);
     ds \<leftarrow> hd_drain (hd_begin_drain remove (lv_file_buffer (fn_lv f i)) st);
     r \<leftarrow> hd_finish env (hd_config c i fd) ds st;
     (let th = fn_shared f; lv = fn_lv f i in case r of
        Inl client \<Rightarrow> Some ((moves i Ready (th\<lparr>th_vars := with_streams s forth (enqueue_or_free back (Some (Some (l_req st)))) (th_vars th),
             th_heap := (th_heap th)(a \<mapsto> client)\<rparr>) f)
          \<lparr>fn_lv := (fn_lv f)(i := lv\<lparr>lv_decoded := l_decoded st, lv_msg := l_msg st, lv_file_buffer := d_file_buffer ds\<rparr>)\<rparr>)
      | Inr st \<Rightarrow> Some ((moves i (Answering (l_req st)) (th\<lparr>th_heap := (th_heap th)(a \<mapsto> l_client st)\<rparr>) f)
          \<lparr>fn_lv := (fn_lv f)(i := lv\<lparr>lv_decoded := l_decoded st, lv_msg := l_msg st, lv_file_buffer := d_file_buffer ds\<rparr>)\<rparr>))
   }"

text \<open>The messages are sent, and the node goes back to the receivers.\<close>

definition give_back :: "'ai config_rcv_t \<Rightarrow> nat \<Rightarrow> hd_req_t \<Rightarrow> fine \<Rightarrow> fine option" where
  "give_back c i req f = do {
     (s, fd, forth, back) \<leftarrow> resources_at (cf_handle_streams c) (cf_handle_affinities c) i (th_vars (fn_shared f));
     Some (moves i Ready ((fn_shared f)\<lparr>th_vars := with_streams s forth (enqueue_or_free back (Some (Some req))) (th_vars (fn_shared f))\<rparr>) f)
   }"

definition section_step :: "hd_env \<Rightarrow> bool \<Rightarrow> packet_t \<Rightarrow> 'ai config_rcv_t \<Rightarrow> nat \<Rightarrow> fine \<Rightarrow> fine option option" where
  "section_step env remove to_send c i f = (case fn_pc f i of
     Ready \<Rightarrow> take_request c i f
   | Taken req \<Rightarrow> lock_client i req f
   | Holding req \<Rightarrow> map_option Some (decode_request to_send c i req f)
   | Decoded st \<Rightarrow> map_option Some (write_packets env remove c i st f)
   | Answering req \<Rightarrow> map_option Some (give_back c i req f)
   | Ended \<Rightarrow> Some None)"

section \<open>The state machine\<close>

text \<open>The client whose mutex a handler holds, and the client that it is going to use.\<close>

fun holds :: "hd_pc \<Rightarrow> nat \<Rightarrow> bool" where
  "holds (Holding req) a \<longleftrightarrow> rq_client req = Some a"
| "holds (Decoded st) a \<longleftrightarrow> rq_client (l_req st) = Some a"
| "holds _ a \<longleftrightarrow> False"

fun names :: "hd_pc \<Rightarrow> nat \<Rightarrow> bool" where
  "names (Taken req) a \<longleftrightarrow> rq_client req = Some a"
| "names pc a \<longleftrightarrow> holds pc a"

lemma holds_names: "holds pc a \<Longrightarrow> names pc a"
  by (cases pc) simp_all

text \<open>No client that a queued request or a handler names is about to be removed.\<close>

definition named_alive :: "inactivity \<Rightarrow> timespec \<Rightarrow> fine \<Rightarrow> bool" where
  "named_alive inactive now f \<longleftrightarrow> queued_alive inactive now (fn_shared f) \<and>
     (\<forall>i a x. names (fn_pc f i) a \<longrightarrow> th_heap (fn_shared f) a = Some x \<longrightarrow> \<not> expired inactive False now x)"

inductive fine_step :: "'ai config_rcv_t \<Rightarrow> inactivity \<Rightarrow> fine \<Rightarrow> fine \<Rightarrow> bool" for c inactive where
  receive: "fine_step c inactive f (f\<lparr>fn_shared := th\<rparr>)"
    if "i < cf_receive_num c" "receiver_granted env c i (fn_shared f)" "receiver_pass env c i (fn_shared f) = Some th"
| handle: "fine_step c inactive f f'"
    if "i < cf_handle_num c" "calls_succeed env" "section_step env remove to_send c i f = Some (Some f')"
| clean: "fine_step c inactive f (f\<lparr>fn_shared := th\<rparr>)"
    if "named_alive inactive now f" "clean_pass inactive now (\<lambda>_. (True, True)) (fn_shared f) = Some th"

definition fine_start :: "'ai config_rcv_t \<Rightarrow> fine \<Rightarrow> bool" where
  "fine_start c f \<longleftrightarrow> started c (fn_shared f) \<and> (\<forall>i. fn_pc f i = Ready \<and> locals_ok (fn_lv f i))"

inductive fine_reachable :: "'ai config_rcv_t \<Rightarrow> inactivity \<Rightarrow> fine \<Rightarrow> bool" for c inactive where
  start: "fine_reachable c inactive f" if "fine_start c f"
| step: "fine_reachable c inactive f'" if "fine_reachable c inactive f" "fine_step c inactive f f'"

section \<open>The invariant\<close>

definition in_hand :: "client_heap \<Rightarrow> hd_req_t \<Rightarrow> bool" where
  "in_hand heap req \<longleftrightarrow> sendable req \<and> (\<exists>a x. rq_client req = Some a \<and> heap a = Some x)"

fun thread_ok :: "client_heap \<Rightarrow> hd_local_vars \<Rightarrow> hd_pc \<Rightarrow> bool" where
  "thread_ok heap lv Ready \<longleftrightarrow> locals_ok lv"
| "thread_ok heap lv (Taken req) \<longleftrightarrow> locals_ok lv \<and> in_hand heap req"
| "thread_ok heap lv (Holding req) \<longleftrightarrow> locals_ok lv \<and> in_hand heap req"
| "thread_ok heap lv (Decoded st) \<longleftrightarrow> locals_ok lv \<and> local_ok MAX_WINDOW_SIZE st \<and> sendable (l_req st) \<and>
     (\<exists>a. rq_client (l_req st) = Some a \<and> heap a = Some (l_client st))"
| "thread_ok heap lv (Answering req) \<longleftrightarrow> locals_ok lv \<and> sendable req"
| "thread_ok heap lv Ended \<longleftrightarrow> True"

definition locks_ok :: "client_heap \<Rightarrow> (nat \<Rightarrow> hd_pc) \<Rightarrow> bool" where
  "locks_ok heap pcs \<longleftrightarrow> (\<forall>a x. heap a = Some x \<longrightarrow> c_locked x = (\<exists>i. holds (pcs i) a)) \<and>
     (\<forall>i j a. holds (pcs i) a \<longrightarrow> holds (pcs j) a \<longrightarrow> i = j)"

definition fine_ok :: "'ai config_rcv_t \<Rightarrow> fine \<Rightarrow> bool" where
  "fine_ok c f \<longleftrightarrow> (\<exists>forth backs t. shares c (fn_shared f) forth backs t) \<and>
     (\<forall>i. thread_ok (th_heap (fn_shared f)) (fn_lv f i) (fn_pc f i)) \<and>
     (\<forall>i. fn_pc f i \<noteq> Ready \<longrightarrow> i < cf_handle_num c) \<and>
     locks_ok (th_heap (fn_shared f)) (fn_pc f)"

lemma fine_okD:
  assumes "fine_ok c f"
  shows "thread_ok (th_heap (fn_shared f)) (fn_lv f i) (fn_pc f i)" "fn_pc f i \<noteq> Ready \<Longrightarrow> i < cf_handle_num c"
    "th_heap (fn_shared f) a = Some x \<Longrightarrow> c_locked x = (\<exists>i. holds (fn_pc f i) a)"
    "holds (fn_pc f i) a \<Longrightarrow> holds (fn_pc f j) a \<Longrightarrow> i = j"
  using assms by (auto simp: fine_ok_def locks_ok_def)

lemma fine_ok_shares:
  assumes "fine_ok c f"
  obtains forth backs t where "shares c (fn_shared f) forth backs t"
  using assms unfolding fine_ok_def by blast

text \<open>What the other threads need of the clients.\<close>

lemma thread_ok_extend: "thread_ok heap lv pc \<Longrightarrow> heap \<subseteq>\<^sub>m heap' \<Longrightarrow> thread_ok heap' lv pc"
  by (cases pc) (auto simp: in_hand_def dest: map_leD)

lemma thread_ok_update: "thread_ok heap lv pc \<Longrightarrow> \<not> holds pc a \<Longrightarrow> thread_ok (heap(a \<mapsto> y)) lv pc"
  by (cases pc) (auto simp: in_hand_def)

lemma thread_ok_restrict: "thread_ok heap lv pc \<Longrightarrow> (\<And>a. names pc a \<Longrightarrow> a \<notin> A) \<Longrightarrow> thread_ok (heap |` (- A)) lv pc"
  by (cases pc) (auto simp: in_hand_def)

lemma thread_ok_names: "thread_ok heap lv pc \<Longrightarrow> names pc a \<Longrightarrow> \<exists>x. heap a = Some x"
  by (cases pc) (auto simp: in_hand_def)

text \<open>What a section changes of the shared state.\<close>

lemma shares_client:
  assumes "shares c th forth backs t" "th_heap th a = Some x" "client_ok y" "c_address y = c_address x"
  shows "shares c (th\<lparr>th_heap := (th_heap th)(a \<mapsto> y)\<rparr>) forth backs t"
proof -
  note th = sharesD [OF assms(1)]
  have "same_clients (th_heap th) ((th_heap th)(a \<mapsto> y))" using assms(2,4) by (auto simp: same_clients_def)
  then have "keyed t ((th_heap th)(a \<mapsto> y))" by (rule keyed_same_clients [OF th(10)])
  moreover have "dom (th_heap th) \<subseteq> dom ((th_heap th)(a \<mapsto> y))" by auto
  then have "\<forall>q \<in> set forth. queue_fine ((th_heap th)(a \<mapsto> y)) q"
    using th(6) queue_fine_mono [of "th_heap th" _ "(th_heap th)(a \<mapsto> y)"] by blast
  moreover have "clients_ok ((th_heap th)(a \<mapsto> y))" using th(11) assms(3) by (simp add: clients_ok_def)
  ultimately show ?thesis using th by (simp add: shares_def)
qed

lemma back_sendable: "shares c th forth backs t \<Longrightarrow> s < cf_stream_count c \<Longrightarrow> Some req \<in> set (queue_of (backs ! s)) \<Longrightarrow> sendable req"
  using nth_mem [of s backs] by (auto simp: shares_def)

lemma shares_streams:
  assumes "shares c th forth backs t" "queue_fine (th_heap th) q" "\<And>req. Some req \<in> set (queue_of q') \<Longrightarrow> sendable req"
  shows "shares c (th\<lparr>th_vars := with_streams s q q' (th_vars th)\<rparr>) (forth[s := q]) (backs[s := q']) t"
proof -
  note th = sharesD [OF assms(1)]
  have "\<forall>x \<in> set (forth[s := q]). queue_fine (th_heap th) x" using th(6) assms(2) by (intro set_updateI) blast+
  moreover have "\<forall>x \<in> set (backs[s := q']). \<forall>req. Some req \<in> set (queue_of x) \<longrightarrow> sendable req"
    using th(7) assms(3) by (intro set_updateI) blast+
  ultimately show ?thesis using th by (simp add: shares_def with_streams_live)
qed

lemma locks_okI:
  assumes "\<And>a x. heap a = Some x \<Longrightarrow> c_locked x = (\<exists>i. holds (pcs i) a)"
    "\<And>i j a. holds (pcs i) a \<Longrightarrow> holds (pcs j) a \<Longrightarrow> i = j"
  shows "locks_ok heap pcs"
  using assms by (auto simp: locks_ok_def)

text \<open>A section that leaves the clients as they are, of a handler that holds no mutex.\<close>

lemma fine_ok_streams:
  assumes "fine_ok c f" "i < cf_handle_num c" "shares c th' forth' backs' t'" "th_heap th' = th_heap (fn_shared f)"
    "\<And>a. \<not> holds (fn_pc f i) a" "\<And>a. \<not> holds pc a" "thread_ok (th_heap (fn_shared f)) lv pc"
  shows "fine_ok c ((moves i pc th' f)\<lparr>fn_lv := (fn_lv f)(i := lv)\<rparr>)"
proof -
  note f = fine_okD [OF assms(1)]
  have "(\<exists>j. holds (((fn_pc f)(i := pc)) j) a) = (\<exists>j. holds (fn_pc f j) a)" for a
    using assms(5,6) by (metis fun_upd_apply)
  then have "locks_ok (th_heap th') ((fn_pc f)(i := pc))"
    using f(3,4) assms(4,6) by (intro locks_okI) (auto split: if_splits)
  then show ?thesis using assms f by (auto simp: fine_ok_def moves_def)
qed

text \<open>A section that gives a client a new value: one that the handler holds afterwards, or held before.\<close>

lemma fine_ok_client:
  assumes "fine_ok c f" "i < cf_handle_num c" "th_heap (fn_shared f) a = Some x" "client_ok y" "c_address y = c_address x"
    and "\<And>b. holds (fn_pc f i) b \<Longrightarrow> b = a" "\<And>b. holds pc b = (a = b \<and> c_locked y)" "\<And>j. j \<noteq> i \<Longrightarrow> \<not> holds (fn_pc f j) a"
    and "thread_ok ((th_heap (fn_shared f))(a \<mapsto> y)) lv pc"
  shows "fine_ok c ((moves i pc ((fn_shared f)\<lparr>th_heap := (th_heap (fn_shared f))(a \<mapsto> y)\<rparr>) f)\<lparr>fn_lv := (fn_lv f)(i := lv)\<rparr>)"
proof -
  note f = fine_okD [OF assms(1)]
  let ?heap = "(th_heap (fn_shared f))(a \<mapsto> y)" and ?pcs = "(fn_pc f)(i := pc)"
  obtain forth backs t where sh: "shares c (fn_shared f) forth backs t" by (rule fine_ok_shares [OF assms(1)])
  have "locks_ok ?heap ?pcs"
  proof (rule locks_okI)
    fix b z assume z: "?heap b = Some z"
    show "c_locked z = (\<exists>j. holds (?pcs j) b)"
    proof (cases "b = a")
      case True
      then show ?thesis using z assms(7,8) by auto
    next
      case False
      then have "\<not> holds pc b" "\<not> holds (fn_pc f i) b" using assms(6,7) by auto
      then have "(\<exists>j. holds (?pcs j) b) = (\<exists>j. holds (fn_pc f j) b)" by (metis fun_upd_apply)
      then show ?thesis using z False f(3) by simp
    qed
  next
    fix j k b assume "holds (?pcs j) b" "holds (?pcs k) b"
    then show "j = k" using f(4) assms(7,8) by (auto split: if_splits)
  qed
  moreover have "thread_ok ?heap (fn_lv f j) (fn_pc f j)" if "j \<noteq> i" for j
    using thread_ok_update [OF f(1) assms(8) [OF that]] .
  ultimately show ?thesis using assms(2,9) f(2) shares_client [OF sh assms(3-5)] by (auto simp: fine_ok_def moves_def)
qed

section \<open>Sections keep the invariant\<close>

definition waits_for_node :: "'ai config_rcv_t \<Rightarrow> nat \<Rightarrow> fine \<Rightarrow> bool" where
  "waits_for_node c i f \<longleftrightarrow> fn_pc f i = Ready \<and> handler_idle c i (fn_shared f)"

lemma take_keeps:
  assumes "fine_ok c f" "i < cf_handle_num c" "fn_pc f i = Ready"
  shows "if waits_for_node c i f then take_request c i f = Some None
    else \<exists>f'. take_request c i f = Some (Some f') \<and> fine_ok c f' \<and> th_heap (fn_shared f') = th_heap (fn_shared f) \<and>
      v_clients (th_vars (fn_shared f')) = v_clients (th_vars (fn_shared f))"
proof -
  obtain forth backs t where sh: "shares c (fn_shared f) forth backs t" by (rule fine_ok_shares [OF assms(1)])
  note th = sharesD [OF sh]
  obtain s fd where s: "s < cf_stream_count c" "resources_at (cf_handle_streams c) (cf_handle_affinities c) i (th_vars (fn_shared f)) =
      Some (s, fd, forth ! s, backs ! s)" by (rule handler_resources [OF sh assms(2)])
  have fine: "queue_fine (th_heap (fn_shared f)) (forth ! s)" using th(4,6) s(1) by simp
  then have counted: "counted (forth ! s)" by (simp add: queue_fine_def)
  have idle: "waits_for_node c i f \<longleftrightarrow> queue_of (forth ! s) = []" using s(2) assms(3) by (simp add: waits_for_node_def handler_idle_def)
  have lv: "locals_ok (fn_lv f i)" using fine_okD(1) [OF assms(1), of i] assms(3) by simp
  show ?thesis
  proof (cases "queue_of (forth ! s)")
    case Nil
    then have "stream_pop (forth ! s) True = None" using counted by (simp add: stream_pop_def counted_def)
    then show ?thesis using idle Nil s(2) by (simp add: take_request_def)
  next
    case (Cons node rest)
    obtain q where q: "stream_pop (forth ! s) True = Some (Some node, q)" "queue_of q = rest" "counted q"
      using counted_pop [OF counted Cons, of True] by auto
    let ?th = "(fn_shared f)\<lparr>th_vars := with_streams s q (backs ! s) (th_vars (fn_shared f))\<rparr>"
    have "queue_fine (th_heap (fn_shared f)) q" using fine Cons q(2,3) by (simp add: queue_fine_def)
    then have sh': "shares c ?th (forth[s := q]) (backs[s := backs ! s]) t"
      using back_sendable [OF sh s(1)] by (rule shares_streams [OF sh])
    have node: "\<not> stop_node node" "request_ok (th_heap (fn_shared f)) node" using fine Cons by (simp_all add: queue_fine_def)
    define pc where "pc = (case node of Some req \<Rightarrow> Taken req | None \<Rightarrow> Ready)"
    have "thread_ok (th_heap (fn_shared f)) (fn_lv f i) pc" "\<And>a. \<not> holds pc a"
      using node lv by (auto simp: pc_def stop_node_def request_ok_def in_hand_def sendable_def split: option.splits)
    from fine_ok_streams [OF assms(1,2) sh' _ _ this(2,1)] assms(3) have "fine_ok c (moves i pc ?th f)" by (simp add: moves_def)
    moreover have "take_request c i f = Some (Some (moves i pc ?th f))"
      using s(2) q(1) node(1) by (auto simp: take_request_def pc_def stop_node_def split: option.splits)
    ultimately show ?thesis using idle Cons by (simp add: moves_def with_streams_def)
  qed
qed

lemma lock_keeps:
  assumes "fine_ok c f" "i < cf_handle_num c" "fn_pc f i = Taken req"
  obtains a x where "rq_client req = Some a" "th_heap (fn_shared f) a = Some x"
    "if \<exists>j. holds (fn_pc f j) a then lock_client i req f = Some None
     else \<exists>f'. lock_client i req f = Some (Some f') \<and> fine_ok c f' \<and>
       fn_shared f' = (fn_shared f)\<lparr>th_heap := (th_heap (fn_shared f))(a \<mapsto> x\<lparr>c_locked := True\<rparr>)\<rparr>"
proof -
  note f = fine_okD [OF assms(1)]
  obtain forth backs t where sh: "shares c (fn_shared f) forth backs t" by (rule fine_ok_shares [OF assms(1)])
  have ok: "locals_ok (fn_lv f i)" "in_hand (th_heap (fn_shared f)) req" using f(1) [of i] assms(3) by simp_all
  then obtain a x where a: "rq_client req = Some a" "th_heap (fn_shared f) a = Some x" "sendable req" by (auto simp: in_hand_def)
  have x: "client_ok x" using sharesD(11) [OF sh] a(2) by (simp add: clients_ok_def)
  let ?f = "moves i (Holding req) ((fn_shared f)\<lparr>th_heap := (th_heap (fn_shared f))(a \<mapsto> x\<lparr>c_locked := True\<rparr>)\<rparr>) f"
  have "fine_ok c ?f" if "\<not> (\<exists>j. holds (fn_pc f j) a)"
    using fine_ok_client [where lv = "fn_lv f i" and pc = "Holding req" and y = "x\<lparr>c_locked := True\<rparr>", OF assms(1,2) a(2)]
      x that a ok assms(3) by (simp add: client_ok_def in_hand_def moves_def)
  then show thesis using that [OF a(1,2)] a(1,2) f(3) [OF a(2)] by (simp add: lock_client_def moves_def)
qed

text \<open>
  Decoding, with a property of the client that the effect of each datagram keeps.
\<close>

lemma decode_runs:
  assumes "fine_ok c f" "i < cf_handle_num c" "fn_pc f i = Holding req" "rq_client req = Some a" "th_heap (fn_shared f) a = Some x"
    and "Q 0 (x\<lparr>c_locked := True\<rparr>)" "\<forall>j y y'. j < rq_num req \<longrightarrow> Q j y \<longrightarrow> datagram_effect req j y y' \<longrightarrow> Q (Suc j) y'"
  obtains st where "decode_request to_send c i req f =
      Some (moves i (Decoded st) ((fn_shared f)\<lparr>th_heap := (th_heap (fn_shared f))(a \<mapsto> l_client st)\<rparr>) f)"
    "local_ok MAX_WINDOW_SIZE st" "rq_client (l_req st) = Some a" "sendable (l_req st)" "Q (rq_num req) (l_client st)"
proof -
  obtain forth backs t where sh: "shares c (fn_shared f) forth backs t" by (rule fine_ok_shares [OF assms(1)])
  obtain s fd where s: "resources_at (cf_handle_streams c) (cf_handle_affinities c) i (th_vars (fn_shared f)) =
      Some (s, fd, forth ! s, backs ! s)" by (rule handler_resources [OF sh assms(2)])
  have ok: "locals_ok (fn_lv f i)" "sendable req" using fine_okD(1) [OF assms(1), of i] assms(3) by (simp_all add: in_hand_def)
  have x: "client_ok x" using sharesD(11) [OF sh] assms(5) by (simp add: clients_ok_def)
  let ?b = "hd_begin to_send req x (hd_state_of (fn_lv f i) (forth ! s) (backs ! s) (th_heap (fn_shared f)))"
  have b: "l_req ?b = req" "local_ok 0 ?b" "0 \<le> rq_num (l_req ?b)" "Q 0 (l_client ?b)"
    using ok x assms(6) by (simp_all add: hd_begin_def local_ok_def locals_ok_def hd_state_of_def client_ok_def sendable_def)
  from hd_receive_steps [of 0 ?b Q "hd_config c i fd", OF b(2-4)] b(1) assms(7)
  obtain st where st: "hd_receive (hd_config c i fd) [0..<rq_num req] ?b = Some st" "local_ok (rq_num req) st"
    "rq_client (l_req st) = rq_client req" "rq_stop (l_req st) = rq_stop req" "Q (rq_num req) (l_client st)" by auto
  have "rq_num req \<le> MAX_WINDOW_SIZE" using ok(2) by (simp add: sendable_def req_ok_def)
  then have "local_ok MAX_WINDOW_SIZE st" using st(2) by (simp add: local_ok_def)
  moreover have "sendable (l_req st)" using st(2,4) ok(2) by (simp add: sendable_def local_ok_def)
  moreover have "decode_request to_send c i req f =
      Some (moves i (Decoded st) ((fn_shared f)\<lparr>th_heap := (th_heap (fn_shared f))(a \<mapsto> l_client st)\<rparr>) f)"
    using s st(1) assms(4,5) by (simp add: decode_request_def)
  ultimately show thesis using that st(3,5) assms(4) by simp
qed

lemma others_hold_not: "fine_ok c f \<Longrightarrow> holds (fn_pc f i) a \<Longrightarrow> j \<noteq> i \<Longrightarrow> \<not> holds (fn_pc f j) a"
  using fine_okD(4) by blast

lemma decode_keeps:
  assumes "fine_ok c f" "i < cf_handle_num c" "fn_pc f i = Holding req"
  obtains a x y f' where "rq_client req = Some a" "th_heap (fn_shared f) a = Some x" "decode_request to_send c i req f = Some f'" "fine_ok c f'"
    "fn_shared f' = (fn_shared f)\<lparr>th_heap := (th_heap (fn_shared f))(a \<mapsto> y)\<rparr>" "window_low (c_window y) = window_low (c_window x)"
    "\<And>src n. honest src n req \<Longrightarrow> delivering src n x \<Longrightarrow> delivering src n y"
proof -
  note f = fine_okD [OF assms(1)]
  obtain a x where a: "rq_client req = Some a" "th_heap (fn_shared f) a = Some x"
    using f(1) [of i] assms(3) by (auto simp: in_hand_def)
  have x: "c_locked x" using f(3) [OF a(2)] assms(3) a(1) by (auto intro: exI [of _ i])
  let ?Q = "\<lambda>j y. c_locked y \<and> c_address y = c_address x \<and> window_low (c_window y) = window_low (c_window x) \<and>
    (\<forall>src n. honest src n req \<longrightarrow> delivering src n x \<longrightarrow> delivering src n y)"
  have start: "?Q 0 (x\<lparr>c_locked := True\<rparr>)" by simp
  have "?Q (Suc j) y'" if "j < rq_num req" "?Q j y" "datagram_effect req j y y'" for j y y'
  proof -
    have "c_locked y' = c_locked y" "c_address y' = c_address y" "window_low (c_window y') = window_low (c_window y)"
      using that(3) by (auto simp: datagram_effect_def)
    moreover have "delivering src n y \<Longrightarrow> honest src n req \<Longrightarrow> delivering src n y'" for src n
      using delivering_effect [OF _ _ that(1,3)] .
    ultimately show ?thesis using that(2) by simp
  qed
  then have effect: "\<forall>j y y'. j < rq_num req \<longrightarrow> ?Q j y \<longrightarrow> datagram_effect req j y y' \<longrightarrow> ?Q (Suc j) y'" by blast
  obtain st where st: "decode_request to_send c i req f =
      Some (moves i (Decoded st) ((fn_shared f)\<lparr>th_heap := (th_heap (fn_shared f))(a \<mapsto> l_client st)\<rparr>) f)"
    "local_ok MAX_WINDOW_SIZE st" "rq_client (l_req st) = Some a" "sendable (l_req st)" "?Q (rq_num req) (l_client st)"
    by (rule decode_runs [where Q = ?Q and to_send = to_send, OF assms a start effect]) (rule that; assumption)
  have "fine_ok c (moves i (Decoded st) ((fn_shared f)\<lparr>th_heap := (th_heap (fn_shared f))(a \<mapsto> l_client st)\<rparr>) f)"
    using fine_ok_client [where lv = "fn_lv f i" and pc = "Decoded st" and y = "l_client st", OF assms(1,2) a(2)]
      st(2-5) a f(1) [of i] assms(3) others_hold_not [OF assms(1), of i a] by (simp add: local_ok_def moves_def)
  then show thesis using st(5) by (intro that [OF a st(1), of "l_client st"]) (simp_all add: moves_def)
qed

lemma write_keeps:
  assumes "fine_ok c f" "i < cf_handle_num c" "calls_succeed env" "fn_pc f i = Decoded st"
  obtains a m y f' where "rq_client (l_req st) = Some a" "th_heap (fn_shared f) a = Some (l_client st)"
    "write_packets env remove c i st f = Some f'" "fine_ok c f'"
    "fn_shared f' = (fn_shared f)\<lparr>th_heap := (th_heap (fn_shared f))(a \<mapsto> y)\<rparr>"
    "window_low (c_window y) = window_low (c_window (l_client st)) + word_of_nat m" "m \<le> MAX_WINDOW_SIZE"
    "\<And>src n. delivering src n (l_client st) \<Longrightarrow> delivering src (n + m) y"
proof -
  note f = fine_okD [OF assms(1)]
  obtain forth backs t where sh: "shares c (fn_shared f) forth backs t" by (rule fine_ok_shares [OF assms(1)])
  obtain s fd where s: "resources_at (cf_handle_streams c) (cf_handle_affinities c) i (th_vars (fn_shared f)) =
      Some (s, fd, forth ! s, backs ! s)" by (rule handler_resources [OF sh assms(2)])
  obtain a where ok: "locals_ok (fn_lv f i)" "local_ok MAX_WINDOW_SIZE st" "sendable (l_req st)"
    "rq_client (l_req st) = Some a" "th_heap (fn_shared f) a = Some (l_client st)" using f(1) [of i] assms(4) by auto
  have x: "client_ok (l_client st)" "31 * MAX_PAYLOAD_SIZE \<le> length (lv_file_buffer (fn_lv f i))"
    using ok(1,2) by (simp_all add: local_ok_def locals_ok_def)
  let ?w = "c_window (l_client st)"
  obtain m ds where ds: "hd_drain (hd_begin_drain remove (lv_file_buffer (fn_lv f i)) st) = Some ds"
    "drain_inv ?w (length (lv_file_buffer (fn_lv f i))) m ds" "run_end ?w m"
    "0 < m \<Longrightarrow> d_remove ds = (pk_length (run_packet ?w (m - 1)) = 0)"
    "0 < m \<Longrightarrow> d_last_timestamp ds = pk_timestamp (run_packet ?w (m - 1))"
    using hd_drain_whole [OF x] by blast
  have run: "\<forall>k < m. held ?w (window_low ?w + word_of_nat k) \<noteq> None" "length (d_file_buffer ds) = length (lv_file_buffer (fn_lv f i))"
    using ds(2) unfolding drain_inv_def by blast+
  from hd_finish_eq [OF ds(2) refl assms(3) ok(2) order_refl ds(4,5), of "hd_config c i fd"] obtain st' where
    st': "hd_finish env (hd_config c i fd) ds st = Some (Inr st')" "l_client st' = (finished env m (l_client st))\<lparr>c_locked := False\<rparr>"
    "l_req st' = l_req st" "packet_mem (l_decoded st')" "msgs_ok (l_msg st')" by blast
  have y: "client_ok (l_client st')" "c_address (l_client st') = c_address (l_client st)" "\<not> c_locked (l_client st')"
    using client_ok_finished [OF x(1) run(1), of env] st'(2) by (simp_all add: client_ok_def)
  have low: "window_low (c_window (l_client st')) = window_low ?w + word_of_nat m"
    using st'(2) by (cases "m = 0") (simp_all add: finished_def Let_def drain_def slide_def)
  have deliver: "delivering src (n + m) (l_client st')" if "delivering src n (l_client st)" for src n
    using delivering_finished [OF that run(1), of env] st'(2) by simp
  let ?lv = "(fn_lv f i)\<lparr>lv_decoded := l_decoded st', lv_msg := l_msg st', lv_file_buffer := d_file_buffer ds\<rparr>"
  let ?f = "(moves i (Answering (l_req st)) ((fn_shared f)\<lparr>th_heap := (th_heap (fn_shared f))(a \<mapsto> l_client st')\<rparr>) f)\<lparr>fn_lv := (fn_lv f)(i := ?lv)\<rparr>"
  have "locals_ok ?lv" using st'(4,5) run(2) ok(1) by (simp add: locals_ok_def)
  then have "fine_ok c ?f"
    using fine_ok_client [where lv = ?lv and pc = "Answering (l_req st)" and y = "l_client st'", OF assms(1,2) ok(5)]
      y ok(3,4) assms(4) others_hold_not [OF assms(1), of i a] by simp
  moreover have "write_packets env remove c i st f = Some ?f"
    using s ok(4) ds(1) st'(1,3) by (simp add: write_packets_def Let_def)
  moreover have "m \<le> MAX_WINDOW_SIZE" using ds(3) by (simp add: run_end_def)
  ultimately show thesis using that [OF ok(4,5), where f' = ?f and y = "l_client st'" and m = m] low deliver by (simp add: moves_def)
qed

lemma give_keeps:
  assumes "fine_ok c f" "i < cf_handle_num c" "fn_pc f i = Answering req"
  shows "\<exists>f'. give_back c i req f = Some f' \<and> fine_ok c f' \<and> th_heap (fn_shared f') = th_heap (fn_shared f) \<and>
    v_clients (th_vars (fn_shared f')) = v_clients (th_vars (fn_shared f))"
proof -
  obtain forth backs t where sh: "shares c (fn_shared f) forth backs t" by (rule fine_ok_shares [OF assms(1)])
  obtain s fd where s: "s < cf_stream_count c" "resources_at (cf_handle_streams c) (cf_handle_affinities c) i (th_vars (fn_shared f)) =
      Some (s, fd, forth ! s, backs ! s)" by (rule handler_resources [OF sh assms(2)])
  have ok: "locals_ok (fn_lv f i)" "sendable req" using fine_okD(1) [OF assms(1), of i] assms(3) by simp_all
  let ?q = "enqueue_or_free (backs ! s) (Some (Some req))"
  let ?th = "(fn_shared f)\<lparr>th_vars := with_streams s (forth ! s) ?q (th_vars (fn_shared f))\<rparr>"
  have "queue_fine (th_heap (fn_shared f)) (forth ! s)" using sharesD(4,6) [OF sh] s(1) by simp
  moreover have "Some r \<in> set (queue_of ?q) \<Longrightarrow> sendable r" for r
    using back_sendable [OF sh s(1), of r] ok(2) by (auto simp: enqueue_or_free_def)
  ultimately have "shares c ?th (forth[s := forth ! s]) (backs[s := ?q]) t" by (rule shares_streams [OF sh])
  from fine_ok_streams [OF assms(1,2) this, of Ready "fn_lv f i"] have "fine_ok c (moves i Ready ?th f)"
    using assms(3) ok(1) by (simp add: moves_def)
  then show ?thesis using s(2) by (auto simp: give_back_def moves_def with_streams_def)
qed

text \<open>
  What a section does to the clients: nothing, or it gives one client a new value; the position of the client moves by the
  packets it writes.
\<close>

definition client_change :: "threaded \<Rightarrow> threaded \<Rightarrow> nat \<Rightarrow> client_t \<Rightarrow> client_t \<Rightarrow> nat \<Rightarrow> bool" where
  "client_change th th' a x y m \<longleftrightarrow> th_heap th a = Some x \<and> th' = th\<lparr>th_heap := (th_heap th)(a \<mapsto> y)\<rparr> \<and>
     window_low (c_window y) = window_low (c_window x) + word_of_nat m \<and> m \<le> MAX_WINDOW_SIZE"

text \<open>The handler that decodes a request finds only true packets of the window in it.\<close>

definition section_honest :: "(sender \<Rightarrow> nat \<Rightarrow> bytes) \<Rightarrow> (sender \<Rightarrow> nat) \<Rightarrow> nat \<Rightarrow> fine \<Rightarrow> bool" where
  "section_honest src n i f \<longleftrightarrow> (\<forall>req k a t. fn_pc f i = Holding req \<longrightarrow> rq_client req = Some a \<longrightarrow>
     v_clients (th_vars (fn_shared f)) = Some (Some t) \<longrightarrow> ht_entries t k = Some a \<longrightarrow> honest (src k) (n k) req)"

definition waits_for_mutex :: "nat \<Rightarrow> fine \<Rightarrow> bool" where
  "waits_for_mutex i f \<longleftrightarrow> (\<exists>req a j. fn_pc f i = Taken req \<and> rq_client req = Some a \<and> j \<noteq> i \<and> holds (fn_pc f j) a)"

definition section_effect :: "nat \<Rightarrow> fine \<Rightarrow> fine \<Rightarrow> bool" where
  "section_effect i f f' \<longleftrightarrow>
     th_heap (fn_shared f') = th_heap (fn_shared f) \<and> v_clients (th_vars (fn_shared f')) = v_clients (th_vars (fn_shared f)) \<or>
     (\<exists>a x y m. client_change (fn_shared f) (fn_shared f') a x y m \<and> names (fn_pc f i) a \<and>
        (\<forall>src n. (\<forall>req. fn_pc f i = Holding req \<longrightarrow> honest src n req) \<longrightarrow> delivering src n x \<longrightarrow> delivering src (n + m) y))"

lemma section_effectI:
  assumes "client_change (fn_shared f) (fn_shared f') a x y m" "names (fn_pc f i) a"
    "\<And>src n. (\<And>req. fn_pc f i = Holding req \<Longrightarrow> honest src n req) \<Longrightarrow> delivering src n x \<Longrightarrow> delivering src (n + m) y"
  shows "section_effect i f f'"
  unfolding section_effect_def using assms by blast

definition blocked :: "'ai config_rcv_t \<Rightarrow> nat \<Rightarrow> fine \<Rightarrow> bool" where
  "blocked c i f \<longleftrightarrow> fn_pc f i = Ended \<or> waits_for_node c i f \<or> waits_for_mutex i f"

lemma blocked_iff:
  "fn_pc f i = Ready \<Longrightarrow> blocked c i f = waits_for_node c i f"
  "fn_pc f i = Taken req \<Longrightarrow> rq_client req = Some a \<Longrightarrow> blocked c i f = (\<exists>j. holds (fn_pc f j) a)"
  "fn_pc f i = Holding req \<Longrightarrow> \<not> blocked c i f" "fn_pc f i = Decoded st \<Longrightarrow> \<not> blocked c i f"
  "fn_pc f i = Answering req \<Longrightarrow> \<not> blocked c i f" "fn_pc f i = Ended \<Longrightarrow> blocked c i f"
proof -
  assume t: "fn_pc f i = Taken req" "rq_client req = Some a"
  then have "holds (fn_pc f j) a \<Longrightarrow> j \<noteq> i" for j by auto
  then show "blocked c i f = (\<exists>j. holds (fn_pc f j) a)"
    using t by (auto simp: blocked_def waits_for_node_def waits_for_mutex_def)
qed (auto simp: blocked_def waits_for_node_def waits_for_mutex_def)

lemma holder_runs: "fine_ok c f \<Longrightarrow> holds (fn_pc f j) a \<Longrightarrow> j < cf_handle_num c \<and> \<not> blocked c j f"
  using fine_okD(2) [of c f j] by (cases "fn_pc f j") (auto simp: blocked_iff)

lemma section_runs:
  assumes "fine_ok c f" "i < cf_handle_num c" "calls_succeed env"
  shows "if blocked c i f then section_step env remove to_send c i f = Some None
    else \<exists>f'. section_step env remove to_send c i f = Some (Some f') \<and> fine_ok c f' \<and> section_effect i f f'"
proof (cases "fn_pc f i")
  case Ready
  then show ?thesis using take_keeps [OF assms(1,2) Ready] by (auto simp: section_step_def blocked_iff section_effect_def split: if_splits)
next
  case (Taken req)
  obtain a x where a: "rq_client req = Some a" "th_heap (fn_shared f) a = Some x"
    "if \<exists>j. holds (fn_pc f j) a then lock_client i req f = Some None
     else \<exists>f'. lock_client i req f = Some (Some f') \<and> fine_ok c f' \<and>
       fn_shared f' = (fn_shared f)\<lparr>th_heap := (th_heap (fn_shared f))(a \<mapsto> x\<lparr>c_locked := True\<rparr>)\<rparr>"
    by (rule lock_keeps [OF assms(1,2) Taken]) (rule that; assumption)
  have "section_effect i f f'" if "fn_shared f' = (fn_shared f)\<lparr>th_heap := (th_heap (fn_shared f))(a \<mapsto> x\<lparr>c_locked := True\<rparr>)\<rparr>" for f'
    using that a(1,2) Taken by (intro section_effectI [where a = a and x = x and y = "x\<lparr>c_locked := True\<rparr>" and m = 0]) (simp_all add: client_change_def)
  then show ?thesis using a(3) Taken by (auto simp: section_step_def blocked_iff(2) [OF Taken a(1)])
next
  case (Holding req)
  obtain a x y f' where d: "rq_client req = Some a" "th_heap (fn_shared f) a = Some x" "decode_request to_send c i req f = Some f'" "fine_ok c f'"
    "fn_shared f' = (fn_shared f)\<lparr>th_heap := (th_heap (fn_shared f))(a \<mapsto> y)\<rparr>" "window_low (c_window y) = window_low (c_window x)"
    "\<And>src n. honest src n req \<Longrightarrow> delivering src n x \<Longrightarrow> delivering src n y"
    by (rule decode_keeps [where to_send = to_send, OF assms(1,2) Holding]) (rule that; assumption)
  then have "section_effect i f f'"
    using Holding by (intro section_effectI [where a = a and x = x and y = y and m = 0]) (simp_all add: client_change_def)
  then show ?thesis using d(3,4) Holding by (simp add: section_step_def blocked_iff)
next
  case (Decoded st)
  obtain a m y f' where w: "rq_client (l_req st) = Some a" "th_heap (fn_shared f) a = Some (l_client st)"
    "write_packets env remove c i st f = Some f'" "fine_ok c f'"
    "fn_shared f' = (fn_shared f)\<lparr>th_heap := (th_heap (fn_shared f))(a \<mapsto> y)\<rparr>"
    "window_low (c_window y) = window_low (c_window (l_client st)) + word_of_nat m" "m \<le> MAX_WINDOW_SIZE"
    "\<And>src n. delivering src n (l_client st) \<Longrightarrow> delivering src (n + m) y"
    by (rule write_keeps [where remove = remove, OF assms Decoded]) (rule that; assumption)
  then have "section_effect i f f'"
    using Decoded by (intro section_effectI [where a = a and x = "l_client st" and y = y and m = m]) (simp_all add: client_change_def)
  then show ?thesis using w(3,4) Decoded by (simp add: section_step_def blocked_iff)
next
  case (Answering req)
  then show ?thesis using give_keeps [OF assms(1,2) Answering]
    by (auto simp: section_step_def blocked_iff section_effect_def)
qed (simp add: section_step_def blocked_iff)

section \<open>Every reachable state\<close>

lemma receive_fine:
  assumes "fine_ok c f" "i < cf_receive_num c" "cf_max_connections c \<le> 32768" "receiver_granted env c i (fn_shared f)"
  shows "\<exists>th. receiver_pass env c i (fn_shared f) = Some th \<and> fine_ok c (f\<lparr>fn_shared := th\<rparr>) \<and> th_heap (fn_shared f) \<subseteq>\<^sub>m th_heap th"
proof -
  note f = fine_okD [OF assms(1)]
  obtain forth backs t where sh: "shares c (fn_shared f) forth backs t" by (rule fine_ok_shares [OF assms(1)])
  obtain s q q' t' th where r: "receiver_pass env c i (fn_shared f) = Some th" "shares c th (forth[s := q]) (backs[s := q']) t'"
    "th_heap (fn_shared f) \<subseteq>\<^sub>m th_heap th" "locked_before (th_heap (fn_shared f)) (th_heap th)"
    by (rule receiver_shares [OF sh assms(2-4)]) (rule that; assumption)
  have "locks_ok (th_heap th) (fn_pc f)"
  proof (rule locks_okI)
    fix a x assume x: "th_heap th a = Some x"
    show "c_locked x = (\<exists>i. holds (fn_pc f i) a)"
    proof
      assume "c_locked x"
      then have "th_heap (fn_shared f) a = Some x" using r(4) x unfolding locked_before_def by blast
      then show "\<exists>i. holds (fn_pc f i) a" using f(3) \<open>c_locked x\<close> by blast
    next
      assume h: "\<exists>i. holds (fn_pc f i) a"
      then obtain y where y: "th_heap (fn_shared f) a = Some y" using thread_ok_names [OF f(1)] holds_names by blast
      then have "y = x" using map_leD [OF r(3) y] x by simp
      then show "c_locked x" using f(3) [OF y] h by simp
    qed
  qed (use f(4) in blast)
  then have "fine_ok c (f\<lparr>fn_shared := th\<rparr>)"
    using r(2) f(2) thread_ok_extend [OF f(1) r(3)] by (auto simp: fine_ok_def)
  then show ?thesis using r(1,3) by blast
qed

lemma clean_fine:
  assumes "fine_ok c f" "cf_max_connections c \<le> 32768" "named_alive inactive now f"
  shows "\<exists>th. clean_pass inactive now (\<lambda>_. (True, True)) (fn_shared f) = Some th \<and> fine_ok c (f\<lparr>fn_shared := th\<rparr>) \<and>
    (\<forall>i a. names (fn_pc f i) a \<longrightarrow> th_heap th a = th_heap (fn_shared f) a)"
proof -
  note f = fine_okD [OF assms(1)]
  obtain forth backs t where sh: "shares c (fn_shared f) forth backs t" by (rule fine_ok_shares [OF assms(1)])
  have alive: "queued_alive inactive now (fn_shared f)" using assms(3) by (simp add: named_alive_def)
  obtain as t' th where u: "clean_pass inactive now (\<lambda>_. (True, True)) (fn_shared f) = Some th" "shares c th forth backs t'"
    "th_heap th = th_heap (fn_shared f) |` (- set as)"
    "\<And>a x. a \<in> set as \<Longrightarrow> th_heap (fn_shared f) a = Some x \<Longrightarrow> expired inactive False now x"
    by (rule clean_shares [OF sh assms(2) alive]) (rule that; assumption)
  have away: "a \<notin> set as" if "names (fn_pc f i) a" for i a
    using thread_ok_names [OF f(1) that] u(4) assms(3) that unfolding named_alive_def by blast
  have "locks_ok (th_heap th) (fn_pc f)"
    using f(3,4) u(3) by (intro locks_okI) (auto simp: restrict_map_def split: if_splits)
  moreover have "thread_ok (th_heap th) (fn_lv f i) (fn_pc f i)" for i
    using thread_ok_restrict [OF f(1)] away u(3) by metis
  ultimately have "fine_ok c (f\<lparr>fn_shared := th\<rparr>)" using u(2) f(2) by (auto simp: fine_ok_def)
  then show ?thesis using u(1,3) away by auto
qed

lemma fine_start_ok:
  assumes "fine_start c f" "config_ok c"
  shows "fine_ok c f"
proof -
  have s: "started c (fn_shared f)" "\<And>i. fn_pc f i = Ready" "\<And>i. locals_ok (fn_lv f i)" using assms(1) by (simp_all add: fine_start_def)
  obtain forth backs t where "shares c (fn_shared f) forth backs t" by (rule threaded_ok_shares [OF started_ok [OF s(1) assms(2)]])
  moreover have "th_heap (fn_shared f) = Map.empty" using s(1) by (simp add: started_def)
  ultimately show ?thesis using s(2,3) by (auto simp: fine_ok_def locks_ok_def)
qed

lemma fine_step_ok:
  assumes "fine_step c inactive f f'" "fine_ok c f" "cf_max_connections c \<le> 32768"
  shows "fine_ok c f'"
  using assms(1)
proof cases
  case (receive i env th)
  then show ?thesis using receive_fine [OF assms(2) _ assms(3), of i env] by auto
next
  case (handle i env remove to_send)
  then show ?thesis using section_runs [OF assms(2), of i env remove to_send] by (auto split: if_splits)
next
  case (clean now th)
  then show ?thesis using clean_fine [OF assms(2,3), of inactive now] by auto
qed

lemma fine_reachable_ok:
  assumes "fine_reachable c inactive f" "config_ok c" "cf_max_connections c \<le> 32768"
  shows "fine_ok c f"
  using assms by (induction rule: fine_reachable.induct) (blast intro: fine_start_ok fine_step_ok)+

section \<open>Delivery\<close>

text \<open>The steps with the positions of the senders.\<close>

inductive fine_delivery :: "'ai config_rcv_t \<Rightarrow> inactivity \<Rightarrow> (sender \<Rightarrow> nat \<Rightarrow> bytes) \<Rightarrow> (sender \<Rightarrow> nat) \<Rightarrow> fine \<Rightarrow> bool"
  for c inactive src where
  start: "fine_delivery c inactive src (\<lambda>k. 0) f" if "fine_start c f"
| receive: "fine_delivery c inactive src (advance (fn_shared f) th n) (f\<lparr>fn_shared := th\<rparr>)"
    if "fine_delivery c inactive src n f" "i < cf_receive_num c" "receiver_granted env c i (fn_shared f)"
      "receiver_pass env c i (fn_shared f) = Some th"
| handle: "fine_delivery c inactive src (advance (fn_shared f) (fn_shared f') n) f'"
    if "fine_delivery c inactive src n f" "i < cf_handle_num c" "calls_succeed env"
      "section_step env remove to_send c i f = Some (Some f')" "section_honest src n i f"
| clean: "fine_delivery c inactive src (advance (fn_shared f) th n) (f\<lparr>fn_shared := th\<rparr>)"
    if "fine_delivery c inactive src n f" "named_alive inactive now f"
      "clean_pass inactive now (\<lambda>_. (True, True)) (fn_shared f) = Some th"

lemma fine_delivery_reachable: "fine_delivery c inactive src n f \<Longrightarrow> fine_reachable c inactive f"
  by (induction rule: fine_delivery.induct) (blast intro: fine_reachable.intros fine_step.intros)+

lemma section_in_order:
  assumes "fine_ok c f" "i < cf_handle_num c" "calls_succeed env" "section_step env remove to_send c i f = Some (Some f')"
    and "section_honest src n i f" "in_order src n (fn_shared f)"
  shows "in_order src (advance (fn_shared f) (fn_shared f') n) (fn_shared f')"
proof -
  obtain forth backs t where sh: "shares c (fn_shared f) forth backs t" by (rule fine_ok_shares [OF assms(1)])
  have "section_effect i f f'" using section_runs [OF assms(1-3), of remove to_send] assms(4) by (simp split: if_splits)
  then consider (streams) "th_heap (fn_shared f') = th_heap (fn_shared f)"
      "v_clients (th_vars (fn_shared f')) = v_clients (th_vars (fn_shared f))"
    | (client) a x y m where "client_change (fn_shared f) (fn_shared f') a x y m" "names (fn_pc f i) a"
      "\<And>src n. \<forall>req. fn_pc f i = Holding req \<longrightarrow> honest src n req \<Longrightarrow> delivering src n x \<Longrightarrow> delivering src (n + m) y"
    unfolding section_effect_def by blast
  then show ?thesis
  proof cases
    case streams
    then have "client_of (fn_shared f') = client_of (fn_shared f)" by (simp add: client_of_def fun_eq_iff)
    then show ?thesis using in_order_unchanged [OF assms(6), of "fn_shared f'"] by simp
  next
    case client
    have "delivering (src k) (n k + m) y" if k: "ht_entries t k = Some a" "delivering (src k) (n k) x" for k
    proof -
      have "honest (src k) (n k) req" if "fn_pc f i = Holding req" for req
        using assms(5) that client(2) k(1) sharesD(3) [OF sh] by (cases k) (simp add: section_honest_def)
      then show ?thesis using client(3) k(2) by blast
    qed
    then show ?thesis
      using client(1) by (intro in_order_client [OF sh assms(6), of a x _ y m]) (simp_all add: client_change_def)
  qed
qed

lemma fine_delivery_in_order:
  assumes "fine_delivery c inactive src n f" "config_ok c" "cf_max_connections c \<le> 32768"
  shows "in_order src n (fn_shared f)"
  using assms
proof (induction rule: fine_delivery.induct)
  case (start f)
  then show ?case by (simp add: fine_start_def started_def in_order_def client_of_def bind_eq_Some_conv)
next
  case (receive n f i env th)
  obtain forth backs t where "shares c (fn_shared f) forth backs t"
    by (rule fine_ok_shares [OF fine_reachable_ok [OF fine_delivery_reachable [OF receive.hyps(1)] receive.prems]])
  from receive_in_order [OF this receive.hyps(2) receive.prems(2) receive.hyps(3,4)] show ?case using receive by simp
next
  case (handle n f i env remove to_send f')
  have "fine_ok c f" using fine_reachable_ok [OF fine_delivery_reachable [OF handle.hyps(1)] handle.prems] .
  from section_in_order [OF this handle.hyps(2-5)] show ?case using handle by simp
next
  case (clean n f now th)
  obtain forth backs t where "shares c (fn_shared f) forth backs t"
    by (rule fine_ok_shares [OF fine_reachable_ok [OF fine_delivery_reachable [OF clean.hyps(1)] clean.prems]])
  moreover have "queued_alive inactive now (fn_shared f)" using clean.hyps(2) by (simp add: named_alive_def)
  ultimately show ?case using clean_in_order [OF _ clean.prems(2) _ clean.hyps(3)] clean by simp
qed

section \<open>Sections and passes\<close>

text \<open>The sections of one handler, with no other thread between them.\<close>

inductive alone :: "hd_env \<Rightarrow> bool \<Rightarrow> packet_t \<Rightarrow> 'ai config_rcv_t \<Rightarrow> nat \<Rightarrow> fine \<Rightarrow> fine \<Rightarrow> bool" for env remove to_send c i where
  done_so_far: "alone env remove to_send c i f f"
| go_on: "alone env remove to_send c i f f''" if "section_step env remove to_send c i f = Some (Some f')" "alone env remove to_send c i f' f''"

lemma resources_after:
  assumes "resources_at streams affinities i v = Some (s, fd, forth, back)"
  shows "resources_at streams affinities i (with_streams s q q' v) = Some (s, fd, q, q')"
proof -
  obtain forths backs ss where v: "v_rx_to_hd v = Some forths" "v_hd_to_rx v = Some backs" "streams = Some ss"
    using assms by (auto simp: resources_at_def bind_eq_Some_conv)
  then obtain w fd' a b affinity where r: "rd ss i = Some w"
      "thread_resources streams affinities (v_sockfds v) forths backs i = Some (fd', a, b, affinity)"
      "(case (a, b) of (Live_Stream q, Live_Stream q') \<Rightarrow> Some (unat w, fd', q, q') | _ \<Rightarrow> None) = Some (s, fd, forth, back)"
    using assms by (auto simp: resources_at_def bind_eq_Some_conv)
  then have w: "rd ss i = Some w" "s = unat w"
      "thread_resources streams affinities (v_sockfds v) forths backs i = Some (fd, Live_Stream forth, Live_Stream back, affinity)"
    by (cases a; cases b; simp)+
  then have "thread_resources streams affinities (v_sockfds v) (forths[s := Live_Stream q]) (backs[s := Live_Stream q']) i =
      Some (fd, Live_Stream q, Live_Stream q', affinity)"
    using v(3) by (auto simp: thread_resources_def rd_def bind_eq_Some_conv split: if_split_asm)
  then show ?thesis using v w(1,2) by (simp add: resources_at_def with_streams_def)
qed

lemma with_streams_twice: "with_streams s q q' (with_streams s p p' v) = with_streams s q q' v"
  by (cases "v_rx_to_hd v"; cases "v_hd_to_rx v") (simp_all add: with_streams_def)

lemma alone_trans: "alone env remove to_send c i f f' \<Longrightarrow> section_step env remove to_send c i f' = Some (Some f'') \<Longrightarrow> alone env remove to_send c i f f''"
  by (induction rule: alone.induct) (auto intro: alone.intros)

text \<open>What a handler has done of a pass: the others' variables are as they were.\<close>

definition so_far :: "nat \<Rightarrow> fine \<Rightarrow> hd_pc \<Rightarrow> threaded \<Rightarrow> hd_local_vars \<Rightarrow> fine" where
  "so_far i f pc th lv = f\<lparr>fn_shared := th, fn_pc := (fn_pc f)(i := pc), fn_lv := (fn_lv f)(i := lv)\<rparr>"

lemma so_far_start: "so_far i f (fn_pc f i) (fn_shared f) (fn_lv f i) = f"
  by (simp add: so_far_def)

lemma so_far_simps [simp]:
  "fn_shared (so_far i f pc th lv) = th" "fn_pc (so_far i f pc th lv) i = pc" "fn_lv (so_far i f pc th lv) i = lv"
  "j \<noteq> i \<Longrightarrow> fn_pc (so_far i f pc th lv) j = fn_pc f j" "j \<noteq> i \<Longrightarrow> fn_lv (so_far i f pc th lv) j = fn_lv f j"
  "moves i pc' th' (so_far i f pc th lv) = so_far i f pc' th' lv"
  "(so_far i f pc th lv)\<lparr>fn_lv := (fn_lv (so_far i f pc' th' lv))(i := lv')\<rparr> = so_far i f pc th lv'"
  by (simp_all add: so_far_def moves_def)

text \<open>Decoding changes no more of the request than its buffers.\<close>

lemma put_message_req: "put_message st p = Some st' \<Longrightarrow> l_req st' = l_req st"
  by (auto simp: put_message_def Let_def split: bind_splits sum.split_asm)

lemma store_decoded_req: "store_decoded st d = Some st' \<Longrightarrow> l_req st' = l_req st"
  by (auto simp: store_decoded_def Let_def split: sum.split_asm prod.split_asm)

lemma hd_answer_req: "hd_answer cfg e d st = Some st' \<Longrightarrow> l_req st' = l_req st"
  by (auto simp: hd_answer_def Let_def dest!: put_message_req store_decoded_req split: if_splits)

lemma hd_packet_client: "hd_packet cfg i st = Some st' \<Longrightarrow> rq_client (l_req st') = rq_client (l_req st)"
  by (auto simp: hd_packet_def bind_eq_Some_conv dest!: hd_answer_req)

lemma hd_receive_client: "hd_receive cfg is st = Some st' \<Longrightarrow> rq_client (l_req st') = rq_client (l_req st)"
  by (induction "is" arbitrary: st) (auto simp: bind_eq_Some_conv dest!: hd_packet_client)

lemma threaded_updates: "th\<lparr>th_heap := h, th_vars := v\<rparr> = th\<lparr>th_vars := v, th_heap := h\<rparr>" "th\<lparr>th_vars := v, th_heap := th_heap th\<rparr> = th\<lparr>th_vars := v\<rparr>"
  by (cases th; simp)+

text \<open>The sections of a pass that handles a request.\<close>

lemma request_sections:
  assumes "resources_at (cf_handle_streams c) (cf_handle_affinities c) i (th_vars th) = Some (s, fd, forth, back)"
    "stream_pop forth True = Some (Some (Some req), q)" "\<not> rq_stop req" "rq_client req = Some a" "th_heap th a = Some x" "\<not> c_locked x"
    "hd_handle env (hd_config c i fd) remove to_send req x (hd_state_of lv forth back (th_heap th)) = Some (st, ds, r)"
  shows "\<exists>lv'. alone env remove to_send c i (so_far i f Ready th lv)
    (so_far i f Ready (th\<lparr>th_vars := with_streams s q (enqueue_or_free back (Some (Some (case r of Inl _ \<Rightarrow> l_req st | Inr st \<Rightarrow> l_req st)))) (th_vars th),
       th_heap := (th_heap th)(a \<mapsto> (case r of Inl y \<Rightarrow> y | Inr st \<Rightarrow> l_client st))\<rparr>) lv')"
    (is "\<exists>lv'. alone env remove to_send c i ?f0 _")
proof -
  note res = resources_after [OF assms(1)]
  let ?step = "section_step env remove to_send c i"
  define v where "v = with_streams s q back (th_vars th)"
  have handle: "hd_receive (hd_config c i fd) [0..<rq_num req] (hd_begin to_send req x (hd_state_of lv forth back (th_heap th))) = Some st"
    "hd_drain (hd_begin_drain remove (lv_file_buffer lv) st) = Some ds" "hd_finish env (hd_config c i fd) ds st = Some r"
    using assms(7) by (auto simp: hd_handle_def bind_eq_Some_conv hd_state_of_def)
  have client: "rq_client (l_req st) = Some a" using hd_receive_client [OF handle(1)] assms(4) by (simp add: hd_begin_def)
  let ?f1 = "so_far i f (Taken req) (th\<lparr>th_vars := v\<rparr>) lv"
  let ?f2 = "so_far i f (Holding req) (th\<lparr>th_vars := v, th_heap := (th_heap th)(a \<mapsto> x\<lparr>c_locked := True\<rparr>)\<rparr>) lv"
  let ?f3 = "so_far i f (Decoded st) (th\<lparr>th_vars := v, th_heap := (th_heap th)(a \<mapsto> l_client st)\<rparr>) lv"
  have s1: "?step ?f0 = Some (Some ?f1)" using assms(1-3) by (simp add: section_step_def take_request_def v_def)
  have s2: "?step ?f1 = Some (Some ?f2)" using assms(4-6) by (simp add: section_step_def lock_client_def)
  have "hd_begin to_send req (x\<lparr>c_locked := True\<rparr>) (hd_state_of lv q back h) = hd_begin to_send req x (hd_state_of lv forth back (th_heap th))" for h
    by (simp add: hd_begin_def hd_state_of_def)
  then have s3: "?step ?f2 = Some (Some ?f3)"
    using assms(4) res handle(1) by (simp add: section_step_def decode_request_def v_def)
  have f3: "alone env remove to_send c i ?f0 ?f3" using alone.go_on [OF s1 alone.go_on [OF s2 alone.go_on [OF s3 alone.done_so_far]]] .
  show ?thesis
  proof (cases r)
    case (Inl y)
    have "?step ?f3 = Some (Some (so_far i f Ready (th\<lparr>th_vars := with_streams s q (enqueue_or_free back (Some (Some (l_req st)))) (th_vars th),
        th_heap := (th_heap th)(a \<mapsto> y)\<rparr>) (lv\<lparr>lv_decoded := l_decoded st, lv_msg := l_msg st, lv_file_buffer := d_file_buffer ds\<rparr>)))"
      using client res handle(2,3) Inl by (simp add: section_step_def write_packets_def Let_def v_def with_streams_twice)
    from alone_trans [OF f3 this] show ?thesis using Inl by auto
  next
    case (Inr st')
    let ?lv = "lv\<lparr>lv_decoded := l_decoded st', lv_msg := l_msg st', lv_file_buffer := d_file_buffer ds\<rparr>"
    let ?f4 = "so_far i f (Answering (l_req st')) (th\<lparr>th_vars := v, th_heap := (th_heap th)(a \<mapsto> l_client st')\<rparr>) ?lv"
    have "?step ?f3 = Some (Some ?f4)"
      using client res handle(2,3) Inr by (simp add: section_step_def write_packets_def Let_def v_def)
    then have "alone env remove to_send c i ?f0 ?f4" by (rule alone_trans [OF f3])
    moreover have "?step ?f4 = Some (Some (so_far i f Ready (th\<lparr>th_vars := with_streams s q (enqueue_or_free back (Some (Some (l_req st')))) (th_vars th),
        th_heap := (th_heap th)(a \<mapsto> l_client st')\<rparr>) ?lv))"
      using res by (simp add: section_step_def give_back_def v_def with_streams_twice threaded_updates)
    ultimately show ?thesis using Inr by (auto dest: alone_trans)
  qed
qed

lemma pass_sections:
  assumes "fn_pc f i = Ready" "handler_pass env (fn_lv f i) c i (fn_shared f) = Some (Some th')"
  shows "\<exists>pc lv. alone env (lv_remove (fn_lv f i)) (lv_to_send (fn_lv f i)) c i f (so_far i f pc th' lv) \<and> pc \<in> {Ready, Ended}"
proof -
  define th lv where "th = fn_shared f" and "lv = fn_lv f i"
  have f: "f = so_far i f Ready th lv" using so_far_start [of i f] assms(1) by (simp add: th_def lv_def)
  obtain s fd forth hd_tx h where h: "resources_at (cf_handle_streams c) (cf_handle_affinities c) i (th_vars th) = Some (s, fd, forth, hd_tx)"
    "hd_run_once env (lv_remove lv) (lv_to_send lv) True (hd_config c i fd) (hd_state_of lv forth hd_tx (th_heap th)) = Some (Some h)"
    "th' = th\<lparr>th_vars := with_streams s (s_rx h) (s_tx h) (th_vars th), th_heap := s_clients h\<rparr>"
    using assms(2) by (auto simp: handler_pass_def bind_eq_Some_conv th_def lv_def)
  have simps [simp]: "s_rx (hd_state_of lv forth hd_tx (th_heap th)) = forth" "s_tx (hd_state_of lv forth hd_tx (th_heap th)) = hd_tx"
    "s_clients (hd_state_of lv forth hd_tx (th_heap th)) = th_heap th" by (simp_all add: hd_state_of_def)
  have one: "\<exists>pc lv'. alone env (lv_remove lv) (lv_to_send lv) c i f (so_far i f pc th' lv') \<and> pc \<in> {Ready, Ended}"
    if "section_step env (lv_remove lv) (lv_to_send lv) c i (so_far i f Ready th lv) = Some (Some (so_far i f pc th' lv'))" "pc \<in> {Ready, Ended}" for pc lv'
    using alone.go_on [OF that(1) alone.done_so_far] that(2) f by auto
  consider (empty) q where "stream_pop forth True = Some (None, q)" | (no_request) q where "stream_pop forth True = Some (Some None, q)"
    | (stop) req q where "stream_pop forth True = Some (Some (Some req), q)" "rq_stop req"
    | (request) req q where "stream_pop forth True = Some (Some (Some req), q)" "\<not> rq_stop req"
    using h(2) by (auto simp: hd_run_once_def split: option.splits prod.splits)
  then have "\<exists>pc lv'. alone env (lv_remove lv) (lv_to_send lv) c i f (so_far i f pc th' lv') \<and> pc \<in> {Ready, Ended}" (is ?goal)
  proof cases
    case empty
    then show ?goal using h one [of Ready lv] by (auto simp: hd_run_once_def section_step_def take_request_def threaded_updates)
  next
    case no_request
    then show ?goal using h one [of Ready lv] by (auto simp: hd_run_once_def section_step_def take_request_def threaded_updates)
  next
    case stop
    then show ?goal using h one [of Ended "lv\<lparr>lv_decoded := None\<rparr>"] by (auto simp: hd_run_once_def section_step_def take_request_def threaded_updates)
  next
    case request
    obtain a x st ds r where r: "rq_client req = Some a" "th_heap th a = Some x" "\<not> c_locked x"
      "hd_handle env (hd_config c i fd) (lv_remove lv) (lv_to_send lv) req x (hd_state_of lv forth hd_tx (th_heap th)) = Some (st, ds, r)"
      using h(2) request by (auto simp: hd_run_once_def bind_eq_Some_conv split: if_splits)
    have "th' = th\<lparr>th_vars := with_streams s q (enqueue_or_free hd_tx (Some (Some (case r of Inl _ \<Rightarrow> l_req st | Inr st \<Rightarrow> l_req st)))) (th_vars th),
       th_heap := (th_heap th)(a \<mapsto> (case r of Inl y \<Rightarrow> y | Inr st \<Rightarrow> l_client st))\<rparr>"
      using h(2,3) request r by (auto simp: hd_run_once_def split: sum.splits)
    then show ?goal using request_sections [OF h(1) request r, of f] f by (metis insertI1)
  qed
  then show ?thesis by (simp add: lv_def)
qed

section \<open>Properties\<close>



text \<open>
  C8. The sections make up the pass. Whatever a pass of \<^verbatim>\<open>hd_run_once\<close> does to the streams and the clients, error paths included, the
  sections of the handler do one after the other when no thread comes between them, and touch no variable of another handler.
\<close>

theorem sections_make_pass:
  assumes "fn_pc f i = Ready" "handler_pass env (fn_lv f i) c i (fn_shared f) = Some (Some th)"
  shows "\<exists>f'. alone env (lv_remove (fn_lv f i)) (lv_to_send (fn_lv f i)) c i f f' \<and> fn_shared f' = th \<and> fn_pc f' i \<in> {Ready, Ended} \<and>
    (\<forall>j. j = i \<or> fn_pc f' j = fn_pc f j \<and> fn_lv f' j = fn_lv f j)"
proof -
  obtain pc lv where r: "alone env (lv_remove (fn_lv f i)) (lv_to_send (fn_lv f i)) c i f (so_far i f pc th lv)" "pc \<in> {Ready, Ended}"
    using pass_sections [OF assms] by blast
  have "\<forall>j. j = i \<or> fn_pc (so_far i f pc th lv) j = fn_pc f j \<and> fn_lv (so_far i f pc th lv) j = fn_lv f j" by auto
  then show ?thesis using r by (intro exI [of _ "so_far i f pc th lv"]) simp
qed

section \<open>Witnesses\<close>

definition sample_locals :: hd_local_vars where
  "sample_locals = \<lparr>lv_decoded = Some sample_packet_memory, lv_msg = replicate (MAX_WINDOW_SIZE + 1) \<lparr>msg_name = None, msg_row = replicate 12 0\<rparr>,
     lv_file_buffer = replicate (MAX_PACKET_SIZE * MAX_WINDOW_SIZE) 0, lv_remove = False, lv_to_send = sample_packet_memory\<rparr>"

definition sample_fine :: "threaded \<Rightarrow> fine" where
  "sample_fine th = \<lparr>fn_shared = th, fn_pc = (\<lambda>i. Ready), fn_lv = (\<lambda>i. sample_locals)\<rparr>"

lemma sample_fine_start: "fine_start sample_running (sample_fine sample_threaded)"
  using sample_started by (simp add: fine_start_def sample_fine_def locals_ok_def sample_locals_def packet_mem_def msgs_ok_def sample_packet_memory_def)



text \<open>A handler that finds a stop request on its stream.\<close>

theorem sections_make_pass_witness:
  "\<exists>f f'. handler_pass sample_hd_env sample_locals sample_running 0 (fn_shared f) = Some (Some (fn_shared f')) \<and>
    alone sample_hd_env False sample_packet_memory sample_running 0 f f' \<and> fn_pc f' 0 \<in> {Ready, Ended}"
proof -
  have c: "0 < cf_handle_num sample_running" by (simp add: sample_running_def sample_config_def)
  obtain forth backs t where sh: "shares sample_running sample_threaded forth backs t"
    by (rule threaded_ok_shares [OF started_ok [OF sample_started sample_running_ok]])
  obtain s fd where "resources_at (cf_handle_streams sample_running) (cf_handle_affinities sample_running) 0 (th_vars sample_threaded) =
      Some (s, fd, forth ! s, backs ! s)" by (rule handler_resources [OF sh c])
  note res = resources_after [OF this]
  let ?stop = "allocate_handle_request\<lparr>rq_stop := True\<rparr>"
  define q where "q = snd (stream_enqueue initialize_stream (Some (Some ?stop)))"
  have "queue_of initialize_stream = []" by (simp add: initialize_stream_def queue_of_def)
  then have "counted q" "queue_of q = [Some ?stop]" using counted_enqueue [OF counted_initial] by (simp_all add: q_def)
  then obtain rest where pop: "stream_pop q True = Some (Some (Some ?stop), rest)" by (rule counted_pop)
  let ?f = "sample_fine (sample_threaded\<lparr>th_vars := with_streams s q initialize_stream (th_vars sample_threaded)\<rparr>)"
  obtain th where th: "handler_pass sample_hd_env sample_locals sample_running 0 (fn_shared ?f) = Some (Some th)"
    using res pop by (simp add: handler_pass_def sample_fine_def hd_run_once_def hd_state_of_def)
  have "fn_pc ?f 0 = Ready" "fn_lv ?f 0 = sample_locals" by (simp_all add: sample_fine_def)
  from sections_make_pass [of ?f 0, unfolded this, OF refl th] show ?thesis
    using th by (auto simp: sample_locals_def)
qed

end
