(* ===== verification/Receiver_Threads.thy ===== *)
theory Receiver_Threads
  imports Main_Loop
begin

text \<open>
  The receivers under interleaving, where they find or create the client of a datagram. \<^verbatim>\<open>rx_run_once\<close> uses the
  mutex of the table three times for a new sender: in \<^verbatim>\<open>ht_get\<close>, around the check of the room and the creation of the
  client, and in \<^verbatim>\<open>ht_put\<close>. Between them any other receiver may run. \<^verbatim>\<open>ht_get\<close> itself reads the value of
  the item it found after it has released the mutex.

  \<^verbatim>\<open>rx_contained\<close> of \<^verbatim>\<open>Receiver\<close> is the same code with nothing in between.
\<close>

section \<open>Sections\<close>

text \<open>
  Where a receiver is: between two datagrams, with the index that \<^verbatim>\<open>ht_get\<close> found, with no client found, with a client
  created and not yet in the table, or with the client of the datagram.
\<close>

datatype rx_pc =
    Next_Datagram
  | Located sockaddr_in6 u16
  | Missing sockaddr_in6
  | Created sockaddr_in6 nat
  | Settled rx_flow "nat option"

record admission =
  am_table :: "nat ht_t"
  am_clients :: "nat \<rightharpoonup> client_t"
  am_idx :: u32
  am_pc :: "nat \<Rightarrow> rx_pc"

definition at_pc :: "nat \<Rightarrow> rx_pc \<Rightarrow> admission \<Rightarrow> admission" where
  "at_pc i pc s = s\<lparr>am_pc := (am_pc s)(i := pc)\<rparr>"

text \<open>\<^verbatim>\<open>ht_get\<close> up to the release of the mutex. \<open>Some None\<close> is waiting for it.\<close>

definition search_client :: "nat \<Rightarrow> sockaddr_in6 \<Rightarrow> admission \<Rightarrow> admission option option" where
  "search_client i addr s = (let t = am_table s in if ht_locked t then Some None else do {
     index \<leftarrow> ht_probe (ht_items t) (ht_size t) (sin6_port addr) (sin6_addr addr) (ht_hash t (sin6_port addr));
     it \<leftarrow> rd (ht_items t) (unat index);
     Some (Some (at_pc i (if it_used it then Located addr index else Missing addr) s))
   })"

text \<open>The value that \<^verbatim>\<open>ht_get\<close> returns, read without the mutex.\<close>

definition read_client :: "nat \<Rightarrow> sockaddr_in6 \<Rightarrow> u16 \<Rightarrow> admission \<Rightarrow> admission option" where
  "read_client i addr index s = do {
     it \<leftarrow> rd (ht_items (am_table s)) (unat index);
     Some (at_pc i (case it_value it of None \<Rightarrow> Missing addr | Some a \<Rightarrow> Settled Proceed (Some a)) s)
   }"

text \<open>
  The check of the room and the creation; \<open>None\<close> is waiting for the mutex. It is left locked where the code does not
  release it.
\<close>

definition create_client :: "(nat \<times> client_t) option \<Rightarrow> client_env \<Rightarrow> rx_cfg_t \<Rightarrow> nat \<Rightarrow> sockaddr_in6 \<Rightarrow> admission \<Rightarrow> admission option" where
  "create_client memory env cfg i addr s = (let t = am_table s; held = s\<lparr>am_table := t\<lparr>ht_locked := True\<rparr>\<rparr> in
     if ht_locked t then None
     else if ht_len t \<ge> rc_max_clients cfg then Some (at_pc i (Settled Continue None) s)
     else (case memory of
       None \<Rightarrow> Some (at_pc i (Settled Break None) held)
     | Some (a, mem) \<Rightarrow>
         (case fst (initialize_client env mem (am_idx s) addr addr_len) of
           Inl _ \<Rightarrow> Some (at_pc i (Settled Continue (Some a)) (held\<lparr>am_idx := am_idx s + 1\<rparr>))
         | Inr c \<Rightarrow> Some (at_pc i (Created addr a) (s\<lparr>am_idx := am_idx s + 1, am_clients := (am_clients s)(a \<mapsto> c)\<rparr>)))))"

text \<open>\<^verbatim>\<open>ht_put\<close>\<close>

definition insert_client :: "bool \<Rightarrow> nat \<Rightarrow> sockaddr_in6 \<Rightarrow> nat \<Rightarrow> admission \<Rightarrow> admission option option" where
  "insert_client calloc i addr a s = (if ht_locked (am_table s) then Some None else do {
     r \<leftarrow> ht_put calloc (am_table s) (sin6_port addr) (sin6_addr addr) (Some a);
     let table = (case r of Inl (_, t) \<Rightarrow> t | Inr (_, t) \<Rightarrow> t);
     Some (Some (at_pc i (Settled Proceed (Some a)) (s\<lparr>am_table := table\<rparr>)))
   })"

text \<open>What the system answers to one section.\<close>

record admit_env =
  ad_memory :: "(nat \<times> client_t) option"
  ad_client :: client_env
  ad_calloc :: bool

text \<open>The next section of a receiver, with the address of its next datagram.\<close>

definition admit :: "admit_env \<Rightarrow> rx_cfg_t \<Rightarrow> nat \<Rightarrow> sockaddr_in6 \<Rightarrow> admission \<Rightarrow> admission option option" where
  "admit env cfg i next s = (case am_pc s i of
     Next_Datagram \<Rightarrow> search_client i next s
   | Settled _ _ \<Rightarrow> search_client i next s
   | Located addr index \<Rightarrow> map_option Some (read_client i addr index s)
   | Missing addr \<Rightarrow> Some (create_client (ad_memory env) (ad_client env) cfg i addr s)
   | Created addr a \<Rightarrow> insert_client (ad_calloc env) i addr a s)"

section \<open>One receiver alone\<close>

text \<open>The sections of one receiver up to the client of its datagram, for the answers of one index of the loop.\<close>

definition answers_of :: "rx_env \<Rightarrow> nat \<Rightarrow> admit_env" where
  "answers_of env k = \<lparr>ad_memory = x_client_mem env k, ad_client = x_client env k, ad_calloc = x_table_mem env k\<rparr>"

inductive admits :: "admit_env \<Rightarrow> rx_cfg_t \<Rightarrow> nat \<Rightarrow> sockaddr_in6 \<Rightarrow> admission \<Rightarrow> admission \<Rightarrow> bool" for env cfg i addr where
  settled: "admits env cfg i addr s s'" if "admit env cfg i addr s = Some (Some s')" "am_pc s' i = Settled flow client"
| between: "admits env cfg i addr s s''"
    if "admit env cfg i addr s = Some (Some s')" "\<And>flow client. am_pc s' i \<noteq> Settled flow client" "admits env cfg i addr s' s''"

definition admission_of :: "nat \<Rightarrow> rx_pc \<Rightarrow> (nat \<Rightarrow> rx_pc) \<Rightarrow> rx_state \<Rightarrow> admission" where
  "admission_of i pc pcs r = \<lparr>am_table = r_table r, am_clients = r_clients r, am_idx = r_idx r, am_pc = pcs(i := pc)\<rparr>"

lemma admits_between:
  "admit env cfg i addr s = Some (Some s') \<Longrightarrow> am_pc s' i \<in> {Located addr' index, Missing addr', Created addr' a} \<Longrightarrow>
    admits env cfg i addr s' s'' \<Longrightarrow> admits env cfg i addr s s''"
  by (rule admits.between) auto

lemma admission_of_simps [simp]:
  "am_table (admission_of i pc pcs r) = r_table r" "am_clients (admission_of i pc pcs r) = r_clients r"
  "am_idx (admission_of i pc pcs r) = r_idx r" "am_pc (admission_of i pc pcs r) i = pc"
  "at_pc i pc' (admission_of i pc pcs r) = admission_of i pc' pcs r"
  by (simp_all add: admission_of_def at_pc_def)

lemma missing_admits:
  assumes "ht_get (r_table r) (sin6_port addr) (sin6_addr addr) = Some None" "rx_contained env cfg k addr r = Some (flow, client, r')"
  shows "admits (answers_of env k) cfg i addr (admission_of i (Missing addr) pcs r) (admission_of i (Settled flow client) pcs r')"
proof -
  let ?s = "admission_of i (Missing addr) pcs r" and ?e = "answers_of env k"
  have free: "\<not> ht_locked (r_table r)" using assms(1) by (simp add: ht_get_def split: if_splits)
  have step: "admit ?e cfg i addr ?s = Some (create_client (x_client_mem env k) (x_client env k) cfg i addr ?s)"
    by (simp add: admit_def answers_of_def)
  show ?thesis
  proof (cases "\<exists>a mem c. ht_len (r_table r) < rc_max_clients cfg \<and> x_client_mem env k = Some (a, mem) \<and>
      fst (initialize_client (x_client env k) mem (r_idx r) addr addr_len) = Inr c")
    case False
    then have "create_client (x_client_mem env k) (x_client env k) cfg i addr ?s = Some (admission_of i (Settled flow client) pcs r')"
      using assms free by (auto simp: rx_contained_def create_client_def Let_def at_pc_def admission_of_def split: option.splits sum.splits)
    then show ?thesis using step by (intro admits.settled) simp_all
  next
    case True
    then obtain a mem c where c: "ht_len (r_table r) < rc_max_clients cfg" "x_client_mem env k = Some (a, mem)"
      "fst (initialize_client (x_client env k) mem (r_idx r) addr addr_len) = Inr c" by blast
    let ?r = "r\<lparr>r_idx := r_idx r + 1, r_clients := (r_clients r)(a \<mapsto> c)\<rparr>"
    have "create_client (x_client_mem env k) (x_client env k) cfg i addr ?s = Some (admission_of i (Created addr a) pcs ?r)"
      using c free by (simp add: create_client_def at_pc_def admission_of_def)
    moreover have "admit ?e cfg i addr (admission_of i (Created addr a) pcs ?r) = Some (Some (admission_of i (Settled flow client) pcs r'))"
      using assms c free by (auto simp: rx_contained_def admit_def insert_client_def answers_of_def Let_def at_pc_def admission_of_def bind_eq_Some_conv)
    ultimately show ?thesis using step by (intro admits_between [OF _ _ admits.settled]) simp_all
  qed
qed

lemma contained_admits:
  assumes "rx_contained env cfg k addr r = Some (flow, client, r')"
  shows "admits (answers_of env k) cfg i addr (admission_of i Next_Datagram pcs r) (admission_of i (Settled flow client) pcs r')"
proof -
  let ?s = "admission_of i Next_Datagram pcs r" and ?e = "answers_of env k" and ?t = "r_table r"
  obtain found where get: "ht_get ?t (sin6_port addr) (sin6_addr addr) = Some found"
    using assms by (auto simp: rx_contained_def bind_eq_Some_conv)
  then obtain index it where it: "\<not> ht_locked ?t" "ht_probe (ht_items ?t) (ht_size ?t) (sin6_port addr) (sin6_addr addr) (ht_hash ?t (sin6_port addr)) = Some index"
    "rd (ht_items ?t) (unat index) = Some it" "found = (if it_used it then it_value it else None)"
    by (auto simp: ht_get_def bind_eq_Some_conv split: if_splits)
  have search: "admit ?e cfg i addr ?s = Some (Some (admission_of i (if it_used it then Located addr index else Missing addr) pcs r))"
    using it(1-3) by (simp add: admit_def search_client_def Let_def)
  have read: "admit ?e cfg i addr (admission_of i (Located addr index) pcs r) =
      Some (Some (admission_of i (case it_value it of None \<Rightarrow> Missing addr | Some a \<Rightarrow> Settled Proceed (Some a)) pcs r))"
    using it(3) by (simp add: admit_def read_client_def)
  have missing: "found = None \<Longrightarrow> admits ?e cfg i addr (admission_of i (Missing addr) pcs r) (admission_of i (Settled flow client) pcs r')"
    using missing_admits [OF _ assms] get by simp
  show ?thesis
  proof (cases "it_used it")
    case False
    then show ?thesis using search missing it(4) by (intro admits_between [OF search]) simp_all
  next
    case True
    have "admits ?e cfg i addr (admission_of i (Located addr index) pcs r) (admission_of i (Settled flow client) pcs r')"
    proof (cases found)
      case None
      then show ?thesis using read missing True it(4) by (intro admits_between [OF read]) simp_all
    next
      case (Some a)
      then have "flow = Proceed" "client = Some a" "r' = r" using assms get by (simp_all add: rx_contained_def)
      then show ?thesis using read Some True it(4) by (intro admits.settled) simp_all
    qed
    then show ?thesis using True by (intro admits_between [OF search]) simp_all
  qed
qed

section \<open>Several receivers\<close>

text \<open>The system grants what a section asks for: memory at an address that is not in use, every step of the creation, and a larger table.\<close>

definition admit_granted :: "admit_env \<Rightarrow> nat \<Rightarrow> admission \<Rightarrow> bool" where
  "admit_granted env i s = (case am_pc s i of
     Missing _ \<Rightarrow> (case ad_memory env of None \<Rightarrow> False | Some (a, _) \<Rightarrow> am_clients s a = None) \<and> env_ok (ad_client env) \<and>
       (case e_window_mem (ad_client env) of None \<Rightarrow> False | Some mem \<Rightarrow> length (nodes mem) = MAX_BUFFER_SIZE)
   | Created _ _ \<Rightarrow> ad_calloc env
   | _ \<Rightarrow> True)"

inductive admission_step :: "rx_cfg_t \<Rightarrow> nat \<Rightarrow> admission \<Rightarrow> admission \<Rightarrow> bool" for cfg n where
  admit: "admission_step cfg n s s'"
    if "i < n" "key_ok (addr_key next)" "admit_granted env i s" "admit env cfg i next s = Some (Some s')"

inductive admission_reachable :: "rx_cfg_t \<Rightarrow> nat \<Rightarrow> admission \<Rightarrow> bool" for cfg n where
  start: "admission_reachable cfg n \<lparr>am_table = new_table, am_clients = Map.empty, am_idx = idx, am_pc = (\<lambda>i. Next_Datagram)\<rparr>"
| step: "admission_reachable cfg n s'" if "admission_reachable cfg n s" "admission_step cfg n s s'"

section \<open>The invariant\<close>

text \<open>The receivers that have created a client and not yet put it into the table.\<close>

definition creators :: "admission \<Rightarrow> nat set" where
  "creators s = {i. \<exists>addr a. am_pc s i = Created addr a}"

fun pc_ok :: "nat ht_t \<Rightarrow> (nat \<rightharpoonup> client_t) \<Rightarrow> rx_pc \<Rightarrow> bool" where
  "pc_ok t clients (Located addr index) \<longleftrightarrow> key_ok (addr_key addr) \<and> unat index < ht_size t"
| "pc_ok t clients (Missing addr) \<longleftrightarrow> key_ok (addr_key addr)"
| "pc_ok t clients (Created addr a) \<longleftrightarrow> key_ok (addr_key addr) \<and> (\<exists>c. clients a = Some c \<and> addr_key (c_address c) = addr_key addr)"
| "pc_ok t clients (Settled flow client) \<longleftrightarrow> (flow = Proceed \<longrightarrow> (\<exists>a c. client = Some a \<and> clients a = Some c))"
| "pc_ok t clients Next_Datagram \<longleftrightarrow> True"

definition admission_ok :: "rx_cfg_t \<Rightarrow> nat \<Rightarrow> admission \<Rightarrow> bool" where
  "admission_ok cfg n s \<longleftrightarrow> ht_inv (am_table s) \<and> keyed (am_table s) (am_clients s) \<and> creators s \<subseteq> {..<n} \<and>
     ht_len (am_table s) + card (creators s) \<le> rc_max_clients cfg + (n - 1) \<and>
     (\<forall>i. pc_ok (am_table s) (am_clients s) (am_pc s i))"

lemma admission_okD:
  assumes "admission_ok cfg n s"
  shows "ht_inv (am_table s)" "keyed (am_table s) (am_clients s)" "creators s \<subseteq> {..<n}"
    "ht_len (am_table s) + card (creators s) \<le> rc_max_clients cfg + (n - 1)" "pc_ok (am_table s) (am_clients s) (am_pc s i)"
  using assms by (auto simp: admission_ok_def)

lemma pc_ok_mono: "pc_ok t clients pc \<Longrightarrow> ht_size t \<le> ht_size t' \<Longrightarrow> clients \<subseteq>\<^sub>m clients' \<Longrightarrow> pc_ok t' clients' pc"
  by (cases pc) (auto dest: map_leD)

lemma creators_at_pc: "creators (at_pc i pc s) = (case pc of Created _ _ \<Rightarrow> insert i (creators s) | _ \<Rightarrow> creators s - {i})"
  by (cases pc) (auto simp: creators_def at_pc_def split: if_splits)

lemma card_creators: "admission_ok cfg n s \<Longrightarrow> card (creators s) \<le> n"
  using card_mono [of "{..<n}" "creators s"] by (simp add: admission_ok_def)

text \<open>A section that only moves the receiver on.\<close>

lemma at_pc_ok:
  assumes "admission_ok cfg n s" "pc_ok (am_table s) (am_clients s) pc" "\<And>addr a. pc \<noteq> Created addr a"
  shows "admission_ok cfg n (at_pc i pc s)"
proof -
  note s = admission_okD [OF assms(1)]
  have c: "creators (at_pc i pc s) = creators s - {i}" using assms(3) by (auto simp: creators_at_pc split: rx_pc.splits)
  have "card (creators s - {i}) \<le> card (creators s)" using finite_subset [OF s(3)] by (intro card_mono) auto
  then show ?thesis using s c assms(2) by (auto simp: admission_ok_def at_pc_def)
qed

text \<open>Sizes of the table.\<close>

lemma ht_put_plain_size: "ht_put_plain t port ip item = Some (old, t') \<Longrightarrow> ht_size t' = ht_size t"
  by (auto simp: ht_put_plain_def Let_def bind_eq_Some_conv)

lemma reinsert_size: "reinsert its t = Some t' \<Longrightarrow> ht_size t' = ht_size t"
  by (induction its t rule: reinsert.induct) (auto dest: ht_put_plain_size split: if_splits option.splits)

lemma ht_put_size: "ht_put calloc t port ip item = Some (Inr (old, t')) \<Longrightarrow> ht_size t \<le> ht_size t'"
  by (auto simp: ht_put_def ht_resize_def Let_def bind_eq_Some_conv dest!: ht_put_plain_size reinsert_size split: if_splits)

section \<open>Sections keep the invariant\<close>

lemma search_ok:
  assumes "admission_ok cfg n s" "key_ok (addr_key addr)"
  shows "\<exists>s'. search_client i addr s = Some (Some s') \<and> admission_ok cfg n s'"
proof -
  let ?t = "am_table s"
  have t: "ht_good ?t" "\<not> ht_locked ?t" using admission_okD(1) [OF assms(1)] by (simp_all add: ht_inv_def)
  have key: "key_ok (sin6_port addr, sin6_addr addr)" using assms(2) by (simp add: addr_key_def)
  obtain j where j: "ht_probe (ht_items ?t) (ht_size ?t) (sin6_port addr) (sin6_addr addr) (ht_hash ?t (sin6_port addr)) = Some (word_of_nat j)"
    "unat (word_of_nat j :: u16) = j" "slot_for (ht_items ?t) (sin6_port addr, sin6_addr addr) j"
    by (rule ht_good_probe [OF t(1) key])
  then have "j < length (ht_items ?t)" "j < ht_size ?t" using t(1) by (simp_all add: slot_for_def ht_good_def ht_weak_def)
  then have "search_client i addr s = Some (Some (at_pc i (if it_used (ht_items ?t ! j) then Located addr (word_of_nat j) else Missing addr) s))"
    "pc_ok ?t (am_clients s) (if it_used (ht_items ?t ! j) then Located addr (word_of_nat j) else Missing addr)"
    using j t(2) assms(2) by (simp_all add: search_client_def Let_def)
  then show ?thesis using at_pc_ok [OF assms(1)] by simp
qed

text \<open>A value in the table is a client, even where the mutex is not held.\<close>

lemma item_client:
  assumes "ht_inv t" "keyed t clients" "j < ht_size t" "it_value (ht_items t ! j) = Some a"
  shows "\<exists>c. clients a = Some c"
proof -
  have t: "items_distinct (ht_items t)" "items_values (ht_items t)" "length (ht_items t) = ht_size t"
    using assms(1) by (simp_all add: ht_inv_def ht_good_def ht_weak_def)
  have "it_used (ht_items t ! j)" using t(2,3) assms(3,4) nth_mem [of j "ht_items t"] by (auto simp: items_values_def)
  then have "has_key (item_key (ht_items t ! j)) (ht_items t ! j)" by (simp add: has_key_def)
  then have "ht_entries t (item_key (ht_items t ! j)) = Some a"
    using entries_at [OF t(1)] t(3) assms(3,4) by (simp add: ht_entries_def)
  then show ?thesis using assms(2) unfolding keyed_def by blast
qed

lemma read_ok:
  assumes "admission_ok cfg n s" "am_pc s i = Located addr index"
  shows "\<exists>s'. read_client i addr index s = Some s' \<and> admission_ok cfg n s'"
proof -
  note s = admission_okD [OF assms(1)]
  have j: "key_ok (addr_key addr)" "unat index < ht_size (am_table s)" using s(5) [of i] assms(2) by simp_all
  then have "unat index < length (ht_items (am_table s))" using s(1) by (simp add: ht_inv_def ht_good_def ht_weak_def)
  then have "read_client i addr index s = Some (at_pc i (case it_value (ht_items (am_table s) ! unat index) of
      None \<Rightarrow> Missing addr | Some a \<Rightarrow> Settled Proceed (Some a)) s)" by (simp add: read_client_def)
  moreover have "admission_ok cfg n (at_pc i (case it_value (ht_items (am_table s) ! unat index) of
      None \<Rightarrow> Missing addr | Some a \<Rightarrow> Settled Proceed (Some a)) s)"
    using item_client [OF s(1,2) j(2)] j(1) by (intro at_pc_ok [OF assms(1)]) (auto split: option.splits)
  ultimately show ?thesis by simp
qed

text \<open>The creation of a client, when there is room.\<close>

lemma create_room:
  assumes "admission_ok cfg n s" "i < n" "key_ok (addr_key addr)" "admit_granted env i s" "ht_len (am_table s) < rc_max_clients cfg"
    and "am_pc s i = Missing addr"
  obtains a mem c where "ad_memory env = Some (a, mem)" "new_client addr c" "create_client (ad_memory env) (ad_client env) cfg i addr s =
      Some (at_pc i (Created addr a) (s\<lparr>am_idx := am_idx s + 1, am_clients := (am_clients s)(a \<mapsto> c)\<rparr>))"
    "admission_ok cfg n (at_pc i (Created addr a) (s\<lparr>am_idx := am_idx s + 1, am_clients := (am_clients s)(a \<mapsto> c)\<rparr>))"
proof -
  note s = admission_okD [OF assms(1)]
  obtain a mem where a: "ad_memory env = Some (a, mem)" "am_clients s a = None" "env_ok (ad_client env)"
    "\<forall>mem. e_window_mem (ad_client env) = Some mem \<longrightarrow> length (nodes mem) = MAX_BUFFER_SIZE"
    using assms(4,6) by (auto simp: admit_granted_def split: option.splits)
  obtain c where c: "fst (initialize_client (ad_client env) mem (am_idx s) addr addr_len) = Inr c" "new_client addr c"
    using initialize_client_new [OF a(4,3)] by blast
  let ?s = "at_pc i (Created addr a) (s\<lparr>am_idx := am_idx s + 1, am_clients := (am_clients s)(a \<mapsto> c)\<rparr>)"
  have le: "am_clients s \<subseteq>\<^sub>m (am_clients s)(a \<mapsto> c)" using a(2) by (auto simp: map_le_def)
  have cr: "creators ?s = insert i (creators s)" by (auto simp: creators_at_pc) (auto simp: creators_def)
  have "creators ?s \<subseteq> {..<n}" using s(3) assms(2) cr by simp
  moreover have "card (creators ?s) \<le> n" using card_mono [of "{..<n}" "creators ?s"] calculation by simp
  moreover have "keyed (am_table s) ((am_clients s)(a \<mapsto> c))" using s(2) le unfolding keyed_def by (metis map_leD)
  moreover have "pc_ok (am_table s) ((am_clients s)(a \<mapsto> c)) (am_pc s j)" for j using pc_ok_mono [OF s(5) order_refl le] .
  moreover have "c_address c = addr" using c(2) by (simp add: new_client_def)
  ultimately have "admission_ok cfg n ?s" using s(1) assms(2,3,5) by (simp add: admission_ok_def at_pc_def)
  moreover have "create_client (ad_memory env) (ad_client env) cfg i addr s = Some ?s"
    using assms(5) a(1) c(1) s(1) by (simp add: create_client_def Let_def ht_inv_def)
  ultimately show thesis using that a(1) c(2) by blast
qed

lemma create_ok:
  assumes "admission_ok cfg n s" "i < n" "admit_granted env i s" "am_pc s i = Missing addr"
  shows "\<exists>s'. create_client (ad_memory env) (ad_client env) cfg i addr s = Some s' \<and> admission_ok cfg n s'"
proof (cases "ht_len (am_table s) < rc_max_clients cfg")
  case True
  have "key_ok (addr_key addr)" using admission_okD(5) [OF assms(1), of i] assms(4) by simp
  then show ?thesis using create_room [OF assms(1,2) _ assms(3) True assms(4)] by metis
next
  case False
  then have "create_client (ad_memory env) (ad_client env) cfg i addr s = Some (at_pc i (Settled Continue None) s)"
    using admission_okD(1) [OF assms(1)] by (simp add: create_client_def Let_def ht_inv_def)
  then show ?thesis using at_pc_ok [OF assms(1), of "Settled Continue None"] by simp
qed

text \<open>A client that is put into the table.\<close>

lemma insert_ok:
  assumes "admission_ok cfg n s" "am_pc s i = Created addr a" "rc_max_clients cfg + n \<le> 32770"
  obtains t' where "insert_client True i addr a s = Some (Some (at_pc i (Settled Proceed (Some a)) (s\<lparr>am_table := t'\<rparr>)))"
    "ht_update (am_table s) (addr_key addr) a = Some (ht_entries (am_table s) (addr_key addr), t')"
    "ht_entries t' = (ht_entries (am_table s))(addr_key addr \<mapsto> a)"
    "ht_len t' = (if ht_entries (am_table s) (addr_key addr) = None then ht_len (am_table s) + 1 else ht_len (am_table s))"
    "admission_ok cfg n (at_pc i (Settled Proceed (Some a)) (s\<lparr>am_table := t'\<rparr>))"
proof -
  note s = admission_okD [OF assms(1)]
  let ?t = "am_table s"
  obtain c where c: "key_ok (addr_key addr)" "am_clients s a = Some c" "addr_key (c_address c) = addr_key addr"
    using s(5) [of i] assms(2) by auto
  have i: "i \<in> creators s" "finite (creators s)" using assms(2) finite_subset [OF s(3)] by (auto simp: creators_def)
  then have pos: "0 < card (creators s)" by (auto simp: card_gt_0_iff)
  moreover have "0 < n" using i(1) s(3) by auto
  ultimately have "ht_fits ?t" using s(4) assms(3) by (simp add: ht_fits_def)
  from ht_put_update [OF s(1) this c(1) [unfolded addr_key_def], of a] obtain t' where t':
    "ht_put True ?t (sin6_port addr) (sin6_addr addr) (Some a) = Some (Inr (ht_entries ?t (addr_key addr), t'))" "ht_inv t'"
    "ht_entries t' = (ht_entries ?t)(addr_key addr \<mapsto> a)"
    "ht_len t' = (if ht_entries ?t (addr_key addr) = None then ht_len ?t + 1 else ht_len ?t)"
    unfolding addr_key_def by blast
  let ?s = "at_pc i (Settled Proceed (Some a)) (s\<lparr>am_table := t'\<rparr>)"
  have cr: "creators ?s = creators s - {i}" by (auto simp: creators_at_pc) (auto simp: creators_def)
  have "card (creators s - {i}) + 1 = card (creators s)" using i pos by simp
  then have "ht_len t' + card (creators ?s) \<le> rc_max_clients cfg + (n - 1)" using s(4) t'(4) cr by (simp split: if_splits)
  moreover have "creators ?s \<subseteq> {..<n}" using s(3) cr by blast
  moreover have "keyed t' (am_clients s)" using s(2) c(2,3) t'(3) by (auto simp: keyed_def)
  moreover have "pc_ok t' (am_clients s) (am_pc s j)" for j using pc_ok_mono [OF s(5) ht_put_size [OF t'(1)] map_le_refl] .
  ultimately have "admission_ok cfg n ?s" using t'(2) c(2) by (simp add: admission_ok_def at_pc_def)
  moreover have "insert_client True i addr a s = Some (Some ?s)" using t'(1) s(1) by (simp add: insert_client_def ht_inv_def)
  moreover have "ht_update ?t (addr_key addr) a = Some (ht_entries ?t (addr_key addr), t')"
    using t'(1) by (simp add: ht_update_def addr_key_def)
  ultimately show thesis using that t'(3,4) by blast
qed

lemma admit_ok:
  assumes "admission_ok cfg n s" "i < n" "rc_max_clients cfg + n \<le> 32770" "key_ok (addr_key next)" "admit_granted env i s"
  shows "\<exists>s'. admit env cfg i next s = Some (Some s') \<and> admission_ok cfg n s'"
proof (cases "am_pc s i")
  case Next_Datagram
  then show ?thesis using search_ok [OF assms(1,4)] by (simp add: admit_def)
next
  case (Settled flow client)
  then show ?thesis using search_ok [OF assms(1,4)] by (simp add: admit_def)
next
  case (Located addr index)
  then show ?thesis using read_ok [OF assms(1) Located] by (auto simp: admit_def)
next
  case (Missing addr)
  then show ?thesis using create_ok [OF assms(1,2,5) Missing] by (auto simp: admit_def)
next
  case (Created addr a)
  have "ad_calloc env" using assms(5) Created by (simp add: admit_granted_def)
  then show ?thesis using Created insert_ok [OF assms(1) Created assms(3)] by (simp add: admit_def) metis
qed

lemma admission_reachable_ok:
  assumes "admission_reachable cfg n s" "rc_max_clients cfg + n \<le> 32770"
  shows "admission_ok cfg n s"
  using assms
proof (induction rule: admission_reachable.induct)
  case (start idx)
  have "creators \<lparr>am_table = new_table, am_clients = Map.empty, am_idx = idx, am_pc = (\<lambda>i. Next_Datagram)\<rparr> = {}" by (simp add: creators_def)
  then show ?case by (simp add: admission_ok_def new_table_facts keyed_def)
next
  case (step s s')
  from step.hyps(2) show ?case
  proof cases
    case (admit i addr env)
    then show ?thesis using admit_ok [OF step.IH [OF step.prems] _ step.prems, of i addr env] by auto
  qed
qed

section \<open>Two receivers and new senders\<close>

lemma search_missing:
  assumes "admission_ok cfg n s" "key_ok (addr_key addr)" "ht_entries (am_table s) (addr_key addr) = None"
  shows "search_client i addr s = Some (Some (at_pc i (Missing addr) s))"
proof -
  let ?t = "am_table s" and ?k = "(sin6_port addr, sin6_addr addr)"
  have t: "ht_good ?t" "\<not> ht_locked ?t" "items_distinct (ht_items ?t)" "items_values (ht_items ?t)"
    using admission_okD(1) [OF assms(1)] by (simp_all add: ht_inv_def ht_good_def ht_weak_def)
  obtain j where j: "ht_probe (ht_items ?t) (ht_size ?t) (sin6_port addr) (sin6_addr addr) (ht_hash ?t (sin6_port addr)) = Some (word_of_nat j)"
    "unat (word_of_nat j :: u16) = j" "slot_for (ht_items ?t) ?k j"
    using assms(2) by (auto simp: addr_key_def intro: ht_good_probe [OF t(1), of "sin6_port addr" "sin6_addr addr"])
  have "j < length (ht_items ?t)" "\<not> it_used (ht_items ?t ! j)"
    using j(3) assms(3) entries_None_iff [OF t(3,4), of ?k] by (auto simp: slot_for_def ht_entries_def addr_key_def)
  then show ?thesis using j(1,2) t(2) by (simp add: search_client_def Let_def)
qed

lemma at_pc_simps [simp]:
  "am_table (at_pc i pc s) = am_table s" "am_clients (at_pc i pc s) = am_clients s" "am_pc (at_pc i pc s) i = pc"
  "j \<noteq> i \<Longrightarrow> am_pc (at_pc i pc s) j = am_pc s j"
  by (simp_all add: at_pc_def)

text \<open>Memory at address \<open>a\<close> for a client, and every step of its creation succeeds.\<close>

definition client_memory :: "nat \<Rightarrow> admit_env \<Rightarrow> bool" where
  "client_memory a env \<longleftrightarrow> (\<exists>mem. ad_memory env = Some (a, mem)) \<and> env_ok (ad_client env) \<and>
     (case e_window_mem (ad_client env) of None \<Rightarrow> False | Some mem \<Rightarrow> length (nodes mem) = MAX_BUFFER_SIZE) \<and> ad_calloc env"

lemma step_search:
  assumes "admission_ok cfg n s" "i < n" "am_pc s i \<in> {Next_Datagram, Settled flow client}" "key_ok (addr_key addr)"
    "ht_entries (am_table s) (addr_key addr) = None"
  shows "admission_step cfg n s (at_pc i (Missing addr) s)" "admission_ok cfg n (at_pc i (Missing addr) s)"
proof -
  have "admit env cfg i addr s = Some (Some (at_pc i (Missing addr) s))" "admit_granted env i s" for env
    using search_missing [OF assms(1,4,5), of i] assms(3) by (auto simp: admit_def admit_granted_def)
  then show "admission_step cfg n s (at_pc i (Missing addr) s)" using assms(2,4) by (intro admission_step.admit)
  show "admission_ok cfg n (at_pc i (Missing addr) s)" using assms(1,4) by (intro at_pc_ok) simp_all
qed

lemma step_create:
  assumes "admission_ok cfg n s" "i < n" "am_pc s i = Missing addr" "ht_len (am_table s) < rc_max_clients cfg"
    "client_memory a env" "am_clients s a = None"
  obtains c s' where "admission_step cfg n s s'" "admission_ok cfg n s'" "am_table s' = am_table s" "am_clients s' = (am_clients s)(a \<mapsto> c)"
    "am_pc s' = (am_pc s)(i := Created addr a)"
proof -
  have key: "key_ok (addr_key addr)" using admission_okD(5) [OF assms(1), of i] assms(3) by simp
  have g: "admit_granted env i s" using assms(3,5,6) by (auto simp: client_memory_def admit_granted_def)
  obtain a' mem c where c: "ad_memory env = Some (a', mem)" "new_client addr c" "create_client (ad_memory env) (ad_client env) cfg i addr s =
      Some (at_pc i (Created addr a') (s\<lparr>am_idx := am_idx s + 1, am_clients := (am_clients s)(a' \<mapsto> c)\<rparr>))"
    "admission_ok cfg n (at_pc i (Created addr a') (s\<lparr>am_idx := am_idx s + 1, am_clients := (am_clients s)(a' \<mapsto> c)\<rparr>))"
    by (rule create_room [OF assms(1,2) key g assms(4,3)])
  have "a' = a" using c(1) assms(5) by (auto simp: client_memory_def)
  moreover have "admission_step cfg n s (at_pc i (Created addr a') (s\<lparr>am_idx := am_idx s + 1, am_clients := (am_clients s)(a' \<mapsto> c)\<rparr>))"
    using assms(2,3) key g c(3) by (intro admission_step.admit [of i n addr env]) (simp_all add: admit_def)
  ultimately show thesis using that c(4) by (simp add: at_pc_def)
qed

lemma step_insert:
  assumes "admission_ok cfg n s" "i < n" "am_pc s i = Created addr a" "rc_max_clients cfg + n \<le> 32770"
  obtains s' where "admission_step cfg n s s'" "admission_ok cfg n s'" "am_clients s' = am_clients s"
    "am_pc s' = (am_pc s)(i := Settled Proceed (Some a))"
    "ht_entries (am_table s') = (ht_entries (am_table s))(addr_key addr \<mapsto> a)"
    "ht_len (am_table s') = (if ht_entries (am_table s) (addr_key addr) = None then ht_len (am_table s) + 1 else ht_len (am_table s))"
    "ht_update (am_table s) (addr_key addr) a = Some (ht_entries (am_table s) (addr_key addr), am_table s')"
proof -
  have key: "key_ok (addr_key addr)" using admission_okD(5) [OF assms(1), of i] assms(3) by simp
  obtain t' where t': "insert_client True i addr a s = Some (Some (at_pc i (Settled Proceed (Some a)) (s\<lparr>am_table := t'\<rparr>)))"
    "ht_update (am_table s) (addr_key addr) a = Some (ht_entries (am_table s) (addr_key addr), t')"
    "ht_entries t' = (ht_entries (am_table s))(addr_key addr \<mapsto> a)"
    "ht_len t' = (if ht_entries (am_table s) (addr_key addr) = None then ht_len (am_table s) + 1 else ht_len (am_table s))"
    "admission_ok cfg n (at_pc i (Settled Proceed (Some a)) (s\<lparr>am_table := t'\<rparr>))"
    by (rule insert_ok [OF assms(1,3,4)])
  obtain env :: admit_env where env: "ad_calloc env" using admit_env.select_convs(3) by metis
  have "admission_step cfg n s (at_pc i (Settled Proceed (Some a)) (s\<lparr>am_table := t'\<rparr>))"
    using assms(2,3) key t'(1) env by (intro admission_step.admit [of i n addr env]) (simp_all add: admit_def admit_granted_def)
  then show thesis using that t'(2-5) by (simp add: at_pc_def)
qed

text \<open>
  Two receivers that take the first datagrams of senders \<open>x\<close> and \<open>y\<close> at the same time. Both find no client, both find
  room, both create a client and both put it into the table.
\<close>

definition between_datagrams :: "rx_pc \<Rightarrow> bool" where
  "between_datagrams pc = (case pc of Next_Datagram \<Rightarrow> True | Settled _ _ \<Rightarrow> True | _ \<Rightarrow> False)"

definition racing :: "rx_cfg_t \<Rightarrow> nat \<Rightarrow> nat \<Rightarrow> sockaddr_in6 \<Rightarrow> nat \<Rightarrow> nat \<Rightarrow> sockaddr_in6 \<Rightarrow> nat \<Rightarrow> admission \<Rightarrow> bool" where
  "racing cfg n i x a j y b s \<longleftrightarrow> i < n \<and> j < n \<and> i \<noteq> j \<and> between_datagrams (am_pc s i) \<and> between_datagrams (am_pc s j) \<and>
     key_ok (addr_key x) \<and> key_ok (addr_key y) \<and> ht_entries (am_table s) (addr_key x) = None \<and> ht_entries (am_table s) (addr_key y) = None \<and>
     ht_len (am_table s) < rc_max_clients cfg \<and> a \<noteq> b \<and> am_clients s a = None \<and> am_clients s b = None"

lemma both_create:
  assumes "admission_ok cfg n s" "racing cfg n i x a j y b s" "client_memory a env" "client_memory b env'"
  obtains s' where "(admission_step cfg n)\<^sup>*\<^sup>* s s'" "admission_ok cfg n s'" "am_table s' = am_table s"
    "am_pc s' i = Created x a" "am_pc s' j = Created y b" "\<exists>c. am_clients s' a = Some c"
proof -
  note r = assms(2) [unfolded racing_def]
  have free: "between_datagrams pc \<Longrightarrow> \<exists>flow client. pc \<in> {Next_Datagram, Settled flow client}" for pc
    by (auto simp: between_datagrams_def split: rx_pc.splits)
  obtain flow client where fi: "am_pc s i \<in> {Next_Datagram, Settled flow client}" using free r by blast
  obtain flow' client' where fj: "am_pc s j \<in> {Next_Datagram, Settled flow' client'}" using free r by blast
  let ?s1 = "at_pc i (Missing x) s" and ?s2 = "at_pc j (Missing y) (at_pc i (Missing x) s)"
  have s1: "admission_step cfg n s ?s1" "admission_ok cfg n ?s1"
    using r by (blast intro: step_search [OF assms(1) _ fi])+
  have "am_pc ?s1 j \<in> {Next_Datagram, Settled flow' client'}" using fj r by auto
  then have s2: "admission_step cfg n ?s1 ?s2" "admission_ok cfg n ?s2"
    using r step_search [OF s1(2), of j flow' client' y] by simp_all
  have p2: "am_pc ?s2 i = Missing x" "am_pc ?s2 j = Missing y" "am_table ?s2 = am_table s" "am_clients ?s2 = am_clients s" using r by simp_all
  obtain c s3 where s3: "admission_step cfg n ?s2 s3" "admission_ok cfg n s3" "am_table s3 = am_table s" "am_clients s3 = (am_clients s)(a \<mapsto> c)"
    "am_pc s3 = (am_pc ?s2)(i := Created x a)"
    using step_create [OF s2(2) _ p2(1) _ assms(3)] r unfolding p2 by metis
  obtain d s4 where s4: "admission_step cfg n s3 s4" "admission_ok cfg n s4" "am_table s4 = am_table s" "am_clients s4 = (am_clients s)(a \<mapsto> c, b \<mapsto> d)"
    "am_pc s4 = (am_pc s3)(j := Created y b)"
  proof (rule step_create [OF s3(2), of j y b env'])
    show "j < n" "am_pc s3 j = Missing y" "ht_len (am_table s3) < rc_max_clients cfg" "client_memory b env'" "am_clients s3 b = None"
      using r p2(2) s3(3-5) assms(4) by auto
  qed (use s3 that in auto)
  have "(admission_step cfg n)\<^sup>*\<^sup>* s s4" using s1(1) s2(1) s3(1) s4(1) by (meson converse_rtranclp_into_rtranclp r_into_rtranclp)
  moreover have "am_pc s4 i = Created x a" "am_pc s4 j = Created y b" "\<exists>c. am_clients s4 a = Some c" using s3(5) s4(4,5) r by auto
  ultimately show thesis using that s4(2,3) by blast
qed

lemma racing_receivers:
  assumes "admission_ok cfg n s" "rc_max_clients cfg + n \<le> 32770" "racing cfg n i x a j y b s" "client_memory a env" "client_memory b env'"
  obtains s' where "(admission_step cfg n)\<^sup>*\<^sup>* s s'"
    "ht_entries (am_table s') = (ht_entries (am_table s))(addr_key x \<mapsto> a, addr_key y \<mapsto> b)"
    "ht_len (am_table s') = (if addr_key x = addr_key y then ht_len (am_table s) + 1 else ht_len (am_table s) + 2)"
    "am_pc s' i = Settled Proceed (Some a)" "am_pc s' j = Settled Proceed (Some b)" "\<exists>c. am_clients s' a = Some c"
proof -
  note r = assms(3) [unfolded racing_def]
  obtain s1 where s1: "(admission_step cfg n)\<^sup>*\<^sup>* s s1" "admission_ok cfg n s1" "am_table s1 = am_table s"
    "am_pc s1 i = Created x a" "am_pc s1 j = Created y b" "\<exists>c. am_clients s1 a = Some c" by (rule both_create [OF assms(1,3-5)])
  obtain s2 where s2: "admission_step cfg n s1 s2" "admission_ok cfg n s2" "am_clients s2 = am_clients s1"
    "am_pc s2 = (am_pc s1)(i := Settled Proceed (Some a))"
    "ht_entries (am_table s2) = (ht_entries (am_table s1))(addr_key x \<mapsto> a)"
    "ht_len (am_table s2) = (if ht_entries (am_table s1) (addr_key x) = None then ht_len (am_table s1) + 1 else ht_len (am_table s1))"
    by (rule step_insert [OF s1(2) _ s1(4) assms(2)]) (use r in blast)
  have pj: "am_pc s2 j = Created y b" using s2(4) s1(5) r by auto
  obtain s3 where s3: "admission_step cfg n s2 s3" "am_clients s3 = am_clients s2" "am_pc s3 = (am_pc s2)(j := Settled Proceed (Some b))"
    "ht_entries (am_table s3) = (ht_entries (am_table s2))(addr_key y \<mapsto> b)"
    "ht_len (am_table s3) = (if ht_entries (am_table s2) (addr_key y) = None then ht_len (am_table s2) + 1 else ht_len (am_table s2))"
    by (rule step_insert [OF s2(2) _ pj assms(2)]) (use r in blast)
  have "(admission_step cfg n)\<^sup>*\<^sup>* s s3" using s1(1) s2(1) s3(1) by (meson rtranclp.rtrancl_into_rtrancl)
  moreover have "ht_len (am_table s3) = (if addr_key x = addr_key y then ht_len (am_table s) + 1 else ht_len (am_table s) + 2)"
    using s3(5) s2(5,6) s1(3) r by auto
  moreover have "am_pc s3 i = Settled Proceed (Some a)" using s3(3) s2(4) r by simp
  ultimately show thesis using that s3(2-4) s2(3,5) s1(3,6) by simp
qed

section \<open>A table that grows during a search\<close>

text \<open>Nine clients in a table of sixteen items, with the ports 17 to 25; the next put makes the table larger.\<close>

definition port_address :: "u16 \<Rightarrow> sockaddr_in6" where
  "port_address port = \<lparr>sin6_port = port, sin6_addr = replicate 16 0\<rparr>"

primrec clients_table :: "nat \<Rightarrow> nat ht_t" where
  "clients_table 0 = new_table"
| "clients_table (Suc m) = snd (the (ht_update (clients_table m) (addr_key (port_address (17 + word_of_nat m))) m))"

definition nine_clients :: "nat ht_t" where
  "nine_clients = clients_table 9"

lemma nine_searched:
  "\<not> ht_locked nine_clients \<and> ht_probe (ht_items nine_clients) (ht_size nine_clients) 17 (replicate 16 0) (ht_hash nine_clients 17) = Some 1 \<and>
    map_option it_used (rd (ht_items nine_clients) 1) = Some True"
  by code_simp

lemma nine_grown:
  "(case ht_put True nine_clients 40 (replicate 16 0) (Some 9) of
      Some (Inr (_, t)) \<Rightarrow> map_option it_value (rd (ht_items t) 1) = Some None \<and> ht_entries t (17, replicate 16 0) = Some 0
    | _ \<Rightarrow> False)"
  by code_simp

text \<open>A receiver that is alone gives a new sender its client.\<close>

lemma reach_next:
  assumes "admission_reachable cfg n s" "rc_max_clients cfg + n \<le> 32770" "i < n" "am_pc s i \<in> {Next_Datagram, Settled flow client}"
    "key_ok (addr_key addr)" "ht_entries (am_table s) (addr_key addr) = None" "ht_len (am_table s) < rc_max_clients cfg"
    "client_memory a env" "am_clients s a = None"
  obtains c s' where "admission_reachable cfg n s'" "am_table s' = am_table s" "am_clients s' = (am_clients s)(a \<mapsto> c)"
    "am_pc s' = (am_pc s)(i := Created addr a)"
proof -
  let ?s = "at_pc i (Missing addr) s"
  note st = step_search [OF admission_reachable_ok [OF assms(1,2)] assms(3-6)]
  have "am_pc ?s i = Missing addr" "ht_len (am_table ?s) < rc_max_clients cfg" "am_clients ?s a = None" using assms(7,9) by simp_all
  then obtain c s' where s': "admission_step cfg n ?s s'" "am_table s' = am_table ?s" "am_clients s' = (am_clients ?s)(a \<mapsto> c)"
    "am_pc s' = (am_pc ?s)(i := Created addr a)" using step_create [OF st(2) assms(3) _ _ assms(8)] by metis
  from that [OF admission_reachable.step [OF admission_reachable.step [OF assms(1) st(1)] s'(1)]] s'(2-4) show thesis
    by (simp add: at_pc_def)
qed

lemma reach_inserted:
  assumes "admission_reachable cfg n s" "rc_max_clients cfg + n \<le> 32770" "i < n" "am_pc s i = Created addr a"
  obtains s' where "admission_reachable cfg n s'" "am_table s' = snd (the (ht_update (am_table s) (addr_key addr) a))" "am_clients s' = am_clients s"
    "am_pc s' = (am_pc s)(i := Settled Proceed (Some a))" "ht_entries (am_table s') = (ht_entries (am_table s))(addr_key addr \<mapsto> a)"
    "ht_len (am_table s') \<le> ht_len (am_table s) + 1"
proof -
  obtain s' where s': "admission_step cfg n s s'" "am_clients s' = am_clients s" "am_pc s' = (am_pc s)(i := Settled Proceed (Some a))"
    "ht_entries (am_table s') = (ht_entries (am_table s))(addr_key addr \<mapsto> a)"
    "ht_len (am_table s') = (if ht_entries (am_table s) (addr_key addr) = None then ht_len (am_table s) + 1 else ht_len (am_table s))"
    "ht_update (am_table s) (addr_key addr) a = Some (ht_entries (am_table s) (addr_key addr), am_table s')"
    by (rule step_insert [OF admission_reachable_ok [OF assms(1,2)] assms(3,4,2)])
  then show thesis using that [OF admission_reachable.step [OF assms(1) s'(1)]] by simp
qed

definition memory_at :: "nat \<Rightarrow> admit_env" where
  "memory_at a = \<lparr>ad_memory = Some (a, sample_client), ad_client = sample_env True, ad_calloc = True\<rparr>"

lemma memory_at: "client_memory a (memory_at a)"
  by (simp add: client_memory_def memory_at_def env_ok_def sample_env_def empty_window_def)

lemma reach_clients:
  assumes "m \<le> 9" "9 < rc_max_clients cfg" "rc_max_clients cfg + n \<le> 32770" "0 < n"
  shows "\<exists>s. admission_reachable cfg n s \<and> am_table s = clients_table m \<and> ht_len (am_table s) \<le> m \<and> dom (am_clients s) = {..<m} \<and>
    (\<exists>flow client. am_pc s 0 \<in> {Next_Datagram, Settled flow client}) \<and> (\<forall>i > 0. am_pc s i = Next_Datagram) \<and>
    (\<forall>k. ht_entries (am_table s) k \<noteq> None \<longrightarrow> (\<exists>a < m. k = addr_key (port_address (17 + word_of_nat a))))"
  using assms(1)
proof (induction m)
  case 0
  show ?case using admission_reachable.start [of cfg n 0] by (intro exI conjI) (assumption, simp_all add: new_table_facts)
next
  case (Suc m)
  then obtain s flow client where s: "admission_reachable cfg n s" "am_table s = clients_table m" "ht_len (am_table s) \<le> m" "dom (am_clients s) = {..<m}"
    "am_pc s 0 \<in> {Next_Datagram, Settled flow client}" "\<forall>i > 0. am_pc s i = Next_Datagram"
    "\<forall>k. ht_entries (am_table s) k \<noteq> None \<longrightarrow> (\<exists>a < m. k = addr_key (port_address (17 + word_of_nat a)))" by auto
  let ?addr = "port_address (17 + word_of_nat m)"
  have other: "17 + word_of_nat m \<noteq> (17 + word_of_nat a :: u16)" if "a < m" for a
  proof -
    have "unat (word_of_nat m :: u16) \<noteq> unat (word_of_nat a :: u16)" using that Suc.prems unat_index [of m] unat_index [of a] by simp
    then show ?thesis by (metis add_left_cancel)
  qed
  have none: "ht_entries (am_table s) (addr_key ?addr) = None"
  proof (rule ccontr)
    assume "ht_entries (am_table s) (addr_key ?addr) \<noteq> None"
    then obtain a where a: "a < m" "addr_key ?addr = addr_key (port_address (17 + word_of_nat a))" using s(7) by blast
    then show False using other [OF a(1)] by (simp add: addr_key_def port_address_def)
  qed
  have key: "key_ok (addr_key ?addr)" "ht_len (am_table s) < rc_max_clients cfg" "am_clients s m = None"
    using s(3,4) Suc.prems assms(2) by (auto simp: key_ok_def addr_key_def port_address_def)
  obtain c s1 where s1: "admission_reachable cfg n s1" "am_table s1 = am_table s" "am_clients s1 = (am_clients s)(m \<mapsto> c)"
    "am_pc s1 = (am_pc s)(0 := Created ?addr m)"
    by (rule reach_next [OF s(1) assms(3,4) s(5) key(1) none key(2) memory_at key(3)])
  have p: "am_pc s1 0 = Created ?addr m" using s1(4) by simp
  obtain s2 where s2: "admission_reachable cfg n s2" "am_table s2 = snd (the (ht_update (am_table s1) (addr_key ?addr) m))" "am_clients s2 = am_clients s1"
    "am_pc s2 = (am_pc s1)(0 := Settled Proceed (Some m))" "ht_entries (am_table s2) = (ht_entries (am_table s1))(addr_key ?addr \<mapsto> m)"
    "ht_len (am_table s2) \<le> ht_len (am_table s1) + 1"
    by (rule reach_inserted [OF s1(1) assms(3,4) p])
  show ?case
  proof (intro exI [of _ s2] conjI)
    show "dom (am_clients s2) = {..<Suc m}" using s2(3) s1(3) s(4) by auto
    show "\<forall>k. ht_entries (am_table s2) k \<noteq> None \<longrightarrow> (\<exists>a < Suc m. k = addr_key (port_address (17 + word_of_nat a)))"
      using s2(5) s1(2) s(7) by (metis fun_upd_apply less_Suc_eq)
    show "\<exists>flow client. am_pc s2 0 \<in> {Next_Datagram, Settled flow client}" using s2(4) by auto
  qed (use s2 s1 s in auto)
qed

text \<open>The nine clients, and a second receiver that has created the tenth.\<close>

lemma reach_nine:
  assumes "2 \<le> n" "10 \<le> rc_max_clients cfg" "rc_max_clients cfg + n \<le> 32770"
  shows "\<exists>s. admission_reachable cfg n s \<and> am_table s = nine_clients \<and> am_pc s 1 = Created (port_address 40) 9"
proof -
  obtain s where s: "admission_reachable cfg n s" "am_table s = nine_clients" "ht_len (am_table s) \<le> 9" "dom (am_clients s) = {..<9}"
    "\<forall>i > 0. am_pc s i = Next_Datagram"
    "\<forall>k. ht_entries (am_table s) k \<noteq> None \<longrightarrow> (\<exists>a < 9. k = addr_key (port_address (17 + word_of_nat a)))"
    using reach_clients [of 9 cfg n] assms by (auto simp: nine_clients_def)
  have "a < 9 \<Longrightarrow> (40::u16) \<noteq> 17 + word_of_nat a" for a by (simp add: numeral_eq_Suc less_Suc_eq) auto
  then have none: "ht_entries (am_table s) (addr_key (port_address 40)) = None"
    using s(6) by (metis addr_key_def fst_conv port_address_def sockaddr_in6.select_convs(1))
  have "am_pc s 1 \<in> {Next_Datagram, Settled Proceed None}" "key_ok (addr_key (port_address 40))" "ht_len (am_table s) < rc_max_clients cfg"
    "am_clients s 9 = None" "1 < n"
    using s(3-5) assms by (auto simp: key_ok_def addr_key_def port_address_def)
  then obtain c s' where "admission_reachable cfg n s'" "am_table s' = am_table s" "am_pc s' = (am_pc s)(1 := Created (port_address 40) 9)"
    using reach_next [OF s(1) assms(3) _ _ _ none _ memory_at] by metis
  then show ?thesis using s(2) by auto
qed

section \<open>Properties\<close>


text \<open>
  C38. Two receivers lose a client. The mutex is released between the search, the creation and the put, so that when the first datagrams of a
  new sender reach two receivers at once, each creates a client for it. The table then has only the second one; the first
  stays in memory and its receiver hands datagrams over to it, but no entry leads to it, so that neither the clean-up
  nor the end of the program, which go through the table, ever frees it or closes its file.
\<close>

theorem receivers_lose_client:
  assumes "admission_reachable cfg n s" "rc_max_clients cfg + n \<le> 32770" "racing cfg n i x a j x b s"
    "client_memory a env" "client_memory b env'"
  shows "\<exists>s'. admission_reachable cfg n s' \<and> am_pc s' i = Settled Proceed (Some a) \<and> am_pc s' j = Settled Proceed (Some b) \<and>
    ht_entries (am_table s') (addr_key x) = Some b \<and> (\<exists>c. am_clients s' a = Some c) \<and> (\<forall>k. ht_entries (am_table s') k \<noteq> Some a)"
proof -
  have ok: "admission_ok cfg n s" using admission_reachable_ok [OF assms(1,2)] .
  have r: "a \<noteq> b" "am_clients s a = None" using assms(3) by (simp_all add: racing_def)
  obtain s' where s': "(admission_step cfg n)\<^sup>*\<^sup>* s s'" "ht_entries (am_table s') = (ht_entries (am_table s))(addr_key x \<mapsto> a, addr_key x \<mapsto> b)"
    "am_pc s' i = Settled Proceed (Some a)" "am_pc s' j = Settled Proceed (Some b)" "\<exists>c. am_clients s' a = Some c"
    by (rule racing_receivers [OF ok assms(2-5)]) (rule that; assumption)
  have "admission_reachable cfg n s'" using s'(1) assms(1) by (induction rule: rtranclp_induct) (auto intro: admission_reachable.step)
  moreover have "ht_entries (am_table s) k \<noteq> Some a" for k using admission_okD(2) [OF ok] r(2) unfolding keyed_def by (metis option.distinct(1))
  ultimately show ?thesis using s' r(1) by (intro exI [of _ s']) auto
qed

text \<open>The same with two senders, when there is room for one: afterwards there is one client more than the limit.\<close>

theorem receivers_exceed_limit:
  assumes "admission_reachable cfg n s" "rc_max_clients cfg + n \<le> 32770" "racing cfg n i x a j y b s"
    "client_memory a env" "client_memory b env'" "addr_key x \<noteq> addr_key y" "ht_length (am_table s) + 1 = rc_max_clients cfg"
  shows "\<exists>s'. admission_reachable cfg n s' \<and> ht_length (am_table s') = rc_max_clients cfg + 1"
proof -
  obtain s' where s': "(admission_step cfg n)\<^sup>*\<^sup>* s s'"
    "ht_len (am_table s') = (if addr_key x = addr_key y then ht_len (am_table s) + 1 else ht_len (am_table s) + 2)"
    by (rule racing_receivers [OF admission_reachable_ok [OF assms(1,2)] assms(2-5)]) (rule that; assumption)
  have "admission_reachable cfg n s'" using s'(1) assms(1) by (induction rule: rtranclp_induct) (auto intro: admission_reachable.step)
  then show ?thesis using s'(2) assms(6,7) by (auto simp: ht_length_def)
qed

text \<open>
  C39. A receiver misses a client that is in the table. \<^verbatim>\<open>ht_get\<close> finds the item of the sender with port 17, releases the mutex, and then reads the
  value at the index it found. When another receiver makes the table larger in between, the item has moved: the receiver reads an
  empty item of the new array, takes the sender for unknown and goes on to create another client for it.
\<close>

theorem ht_get_misses_client:
  assumes "2 \<le> n" "10 \<le> rc_max_clients cfg" "rc_max_clients cfg + n \<le> 32770"
  shows "\<exists>s s1 s2 s3. admission_reachable cfg n s \<and> search_client 0 (port_address 17) s = Some (Some s1) \<and>
    insert_client True 1 (port_address 40) 9 s1 = Some (Some s2) \<and> read_client 0 (port_address 17) 1 s2 = Some s3 \<and>
    am_pc s1 0 = Located (port_address 17) 1 \<and> am_pc s3 0 = Missing (port_address 17) \<and>
    ht_entries (am_table s3) (addr_key (port_address 17)) = Some 0"
proof -
  obtain s where s: "admission_reachable cfg n s" "am_table s = nine_clients" "am_pc s 1 = Created (port_address 40) 9"
    using reach_nine [OF assms] by blast
  obtain old t where t: "ht_put True nine_clients 40 (replicate 16 0) (Some 9) = Some (Inr (old, t))"
    "map_option it_value (rd (ht_items t) 1) = Some None" "ht_entries t (17, replicate 16 0) = Some 0"
    using nine_grown by (auto split: option.splits sum.splits)
  let ?s1 = "at_pc 0 (Located (port_address 17) 1) s"
  let ?s2 = "at_pc 1 (Settled Proceed (Some 9)) (?s1\<lparr>am_table := t\<rparr>)"
  have "search_client 0 (port_address 17) s = Some (Some ?s1)"
    using nine_searched s(2) by (auto simp: search_client_def port_address_def)
  moreover have "insert_client True 1 (port_address 40) 9 ?s1 = Some (Some ?s2)"
    using t(1) nine_searched s(2) by (simp add: insert_client_def port_address_def)
  moreover have "read_client 0 (port_address 17) 1 ?s2 = Some (at_pc 0 (Missing (port_address 17)) ?s2)"
    using t(2) by (auto simp: read_client_def)
  moreover have "ht_entries (am_table (at_pc 0 (Missing (port_address 17)) ?s2)) (addr_key (port_address 17)) = Some 0"
    using t(3) by (simp add: addr_key_def port_address_def)
  ultimately show ?thesis using s(1) at_pc_simps(3) by blast
qed

section \<open>Witnesses\<close>

definition sample_limit :: rx_cfg_t where
  "sample_limit = \<lparr>rc_max_clients = 100, rc_window_size = 31\<rparr>"

abbreviation sample_admission :: admission where
  "sample_admission \<equiv> \<lparr>am_table = new_table, am_clients = Map.empty, am_idx = 0, am_pc = (\<lambda>i. Next_Datagram)\<rparr>"


theorem receivers_lose_client_witness:
  "\<exists>s'. admission_reachable sample_limit 2 s' \<and> am_pc s' 0 = Settled Proceed (Some 5) \<and> am_pc s' 1 = Settled Proceed (Some 6) \<and>
    ht_entries (am_table s') (addr_key (port_address 7)) = Some 6 \<and> (\<exists>c. am_clients s' 5 = Some c) \<and> (\<forall>k. ht_entries (am_table s') k \<noteq> Some 5)"
proof -
  have limit: "rc_max_clients sample_limit + 2 \<le> 32770" by (simp add: sample_limit_def)
  have race: "racing sample_limit 2 0 (port_address 7) 5 1 (port_address 7) 6 sample_admission"
    by (simp add: racing_def between_datagrams_def key_ok_def addr_key_def port_address_def new_table_facts sample_limit_def)
  show ?thesis using receivers_lose_client [OF admission_reachable.start limit race memory_at memory_at] by blast
qed

theorem ht_get_misses_client_witness:
  "\<exists>s (s3 :: admission). admission_reachable sample_limit 2 s \<and> am_pc s3 0 = Missing (port_address 17) \<and>
    ht_entries (am_table s3) (addr_key (port_address 17)) = Some 0"
proof -
  have "10 \<le> rc_max_clients sample_limit" "rc_max_clients sample_limit + 2 \<le> 32770" by (simp_all add: sample_limit_def)
  then show ?thesis using ht_get_misses_client [of 2 sample_limit] by blast
qed

end
