(* ===== verification/Stream_Threads.thy ===== *)
theory Stream_Threads
  imports Node_Stream
begin

text \<open>
  The stream of \<^verbatim>\<open>src/stream.c\<close> used by any number of threads at the same time. \<open>Node_Stream\<close> describes
  the calls one at a time; here every access to the shared memory is a step of its own and the
  threads interleave: the compare-and-swap on \<^verbatim>\<open>in_queue\<close>, the counters, the mutex and the condition
  variable, whose wait releases the mutex and whose waiters may also wake up without a signal.

  A thread is the place in \<^verbatim>\<open>stream_enqueue\<close> or \<^verbatim>\<open>stream_pop\<close> it has reached, with its local variables.
  The accesses of the thread that holds the mutex to \<^verbatim>\<open>out_queue\<close> and to the nodes it has taken are
  grouped into one step for each turn of the loop, since no other thread accesses them. Memory is
  sequentially consistent, as the atomic operations of the source are full barriers.
\<close>

section \<open>Threads and shared memory\<close>

datatype thread_pc =
    Idle
  | E_Load nat | E_Link nat ptr | E_Cas nat ptr | E_Count | E_Check | E_Signal
  | P_Lock bool | P_Enter bool | P_Test bool | P_Wait | P_Asleep | P_Woken | P_Leave
  | P_Out | P_Load | P_Take nat | P_Move ptr | P_Uncount | P_Head | P_Unlock "nat option" | P_Poison nat

text \<open>
  The stream, the \<^verbatim>\<open>next\<close> pointers of the nodes and the threads. \<open>ts_pushed\<close> and \<open>ts_popped\<close> record the nodes
  in the order of the successful exchanges and of the pops; no step depends on them, except that
  a node may only be enqueued by a thread when it is not in the stream and no thread works on it.
\<close>

record threads =
  ts_in :: ptr
  ts_out :: ptr
  ts_length :: int
  ts_waiting :: int
  ts_lock :: "nat option"
  ts_next :: "nat \<Rightarrow> ptr"
  ts_pc :: "nat \<Rightarrow> thread_pc"
  ts_pushed :: "nat list"
  ts_popped :: "nat list"

abbreviation goto :: "nat \<Rightarrow> thread_pc \<Rightarrow> threads \<Rightarrow> threads" where
  "goto t p s \<equiv> s\<lparr>ts_pc := (ts_pc s)(t := p)\<rparr>"

text \<open>The node a thread works on.\<close>

fun node_of :: "thread_pc \<Rightarrow> nat option" where
  "node_of (E_Load n) = Some n"
| "node_of (E_Link n old) = Some n"
| "node_of (E_Cas n old) = Some n"
| "node_of (P_Unlock h) = h"
| "node_of (P_Poison n) = Some n"
| "node_of _ = None"

definition idle_node :: "threads \<Rightarrow> nat \<Rightarrow> bool" where
  "idle_node s n \<longleftrightarrow> n \<notin> set (drop (length (ts_popped s)) (ts_pushed s)) \<and> (\<forall>t. node_of (ts_pc s t) \<noteq> Some n)"

section \<open>Steps\<close>

inductive enqueue_step :: "nat \<Rightarrow> threads \<Rightarrow> threads \<Rightarrow> bool" for t where
  e_start: "ts_pc s t = Idle \<Longrightarrow> idle_node s n \<Longrightarrow> enqueue_step t s (goto t (E_Load n) s)"
| e_load: "ts_pc s t = E_Load n \<Longrightarrow> enqueue_step t s (goto t (E_Link n (ts_in s)) s)"
| e_link: "ts_pc s t = E_Link n old \<Longrightarrow> enqueue_step t s (goto t (E_Cas n old) (s\<lparr>ts_next := (ts_next s)(n := old)\<rparr>))"
| e_cas: "ts_pc s t = E_Cas n old \<Longrightarrow> ts_in s = old \<Longrightarrow>
    enqueue_step t s (goto t E_Count (s\<lparr>ts_in := Ref n, ts_pushed := ts_pushed s @ [n]\<rparr>))"
| e_retry: "ts_pc s t = E_Cas n old \<Longrightarrow> ts_in s \<noteq> old \<Longrightarrow> enqueue_step t s (goto t (E_Load n) s)"
| e_count: "ts_pc s t = E_Count \<Longrightarrow> enqueue_step t s (goto t E_Check (s\<lparr>ts_length := ts_length s + 1\<rparr>))"
| e_check: "ts_pc s t = E_Check \<Longrightarrow> enqueue_step t s (goto t (if ts_waiting s > 0 then E_Signal else Idle) s)"
| e_signal: "ts_pc s t = E_Signal \<Longrightarrow> ts_pc s u = P_Asleep \<Longrightarrow> enqueue_step t s (goto t Idle (goto u P_Woken s))"
| e_unheard: "ts_pc s t = E_Signal \<Longrightarrow> \<forall>u. ts_pc s u \<noteq> P_Asleep \<Longrightarrow> enqueue_step t s (goto t Idle s)"

inductive pop_step :: "nat \<Rightarrow> threads \<Rightarrow> threads \<Rightarrow> bool" for t where
  p_start: "ts_pc s t = Idle \<Longrightarrow> pop_step t s (goto t (P_Lock wait) s)"
| p_lock: "ts_pc s t = P_Lock wait \<Longrightarrow> ts_lock s = None \<Longrightarrow> pop_step t s (goto t (P_Enter wait) (s\<lparr>ts_lock := Some t\<rparr>))"
| p_enter: "ts_pc s t = P_Enter wait \<Longrightarrow> pop_step t s (goto t (P_Test wait) (s\<lparr>ts_waiting := ts_waiting s + 1\<rparr>))"
| p_test: "ts_pc s t = P_Test wait \<Longrightarrow> pop_step t s (goto t (if wait \<and> ts_length s = 0 then P_Wait else P_Leave) s)"
| p_wait: "ts_pc s t = P_Wait \<Longrightarrow> pop_step t s (goto t P_Asleep (s\<lparr>ts_lock := None\<rparr>))"
| p_wake: "ts_pc s t = P_Asleep \<Longrightarrow> pop_step t s (goto t P_Woken s)"
| p_relock: "ts_pc s t = P_Woken \<Longrightarrow> ts_lock s = None \<Longrightarrow> pop_step t s (goto t (P_Test True) (s\<lparr>ts_lock := Some t\<rparr>))"
| p_leave: "ts_pc s t = P_Leave \<Longrightarrow> pop_step t s (goto t P_Out (s\<lparr>ts_waiting := ts_waiting s - 1\<rparr>))"
| p_out: "ts_pc s t = P_Out \<Longrightarrow> pop_step t s (goto t (if ts_out s = Null then P_Load else P_Uncount) s)"
| p_load: "ts_pc s t = P_Load \<Longrightarrow> ts_in s = Ref a \<Longrightarrow> pop_step t s (goto t (P_Take a) s)"
| p_none: "ts_pc s t = P_Load \<Longrightarrow> ts_in s = Null \<Longrightarrow> pop_step t s (goto t P_Uncount s)"
| p_take: "ts_pc s t = P_Take a \<Longrightarrow> ts_in s = Ref a \<Longrightarrow> pop_step t s (goto t (P_Move (Ref a)) (s\<lparr>ts_in := Null\<rparr>))"
| p_retry: "ts_pc s t = P_Take a \<Longrightarrow> ts_in s \<noteq> Ref a \<Longrightarrow> pop_step t s (goto t P_Load s)"
| p_move: "ts_pc s t = P_Move (Ref h) \<Longrightarrow> pop_step t s
    (goto t (P_Move (ts_next s h)) (s\<lparr>ts_next := (ts_next s)(h := ts_out s), ts_out := Ref h\<rparr>))"
| p_moved: "ts_pc s t = P_Move Null \<Longrightarrow> pop_step t s (goto t P_Uncount s)"
| p_uncount: "ts_pc s t = P_Uncount \<Longrightarrow> pop_step t s (goto t P_Head (s\<lparr>ts_length := ts_length s - 1\<rparr>))"
| p_head: "ts_pc s t = P_Head \<Longrightarrow> ts_out s = Ref h \<Longrightarrow> pop_step t s
    (goto t (P_Unlock (Some h)) (s\<lparr>ts_out := ts_next s h, ts_popped := ts_popped s @ [h]\<rparr>))"
| p_empty: "ts_pc s t = P_Head \<Longrightarrow> ts_out s = Null \<Longrightarrow> pop_step t s (goto t (P_Unlock None) s)"
| p_unlock: "ts_pc s t = P_Unlock h \<Longrightarrow> pop_step t s
    (goto t (case h of None \<Rightarrow> Idle | Some n \<Rightarrow> P_Poison n) (s\<lparr>ts_lock := None\<rparr>))"
| p_poison: "ts_pc s t = P_Poison n \<Longrightarrow> pop_step t s (goto t Idle (s\<lparr>ts_next := (ts_next s)(n := Poison)\<rparr>))"

text \<open>\<^verbatim>\<open>initialize_stream\<close>, with any nodes and with no thread in a call.\<close>

inductive stream_reachable :: "threads \<Rightarrow> bool" where
  initial: "stream_reachable \<lparr>ts_in = Null, ts_out = Null, ts_length = 0, ts_waiting = 0, ts_lock = None,
    ts_next = next, ts_pc = (\<lambda>t. Idle), ts_pushed = [], ts_popped = []\<rparr>"
| enqueues: "stream_reachable s \<Longrightarrow> enqueue_step t s s' \<Longrightarrow> stream_reachable s'"
| pops: "stream_reachable s \<Longrightarrow> pop_step t s s' \<Longrightarrow> stream_reachable s'"

section \<open>The invariant\<close>

fun linked :: "(nat \<Rightarrow> ptr) \<Rightarrow> ptr \<Rightarrow> nat list \<Rightarrow> bool" where
  "linked nx p [] \<longleftrightarrow> p = Null"
| "linked nx p (a # as) \<longleftrightarrow> p = Ref a \<and> linked nx (nx a) as"

lemma linked_frame [simp]: "a \<notin> set as \<Longrightarrow> linked (nx(a := q)) p as = linked nx p as"
  by (induction as arbitrary: p) auto

lemma linked_Null [simp]: "linked nx Null as \<longleftrightarrow> as = []"
  by (cases as) auto

lemma linked_Ref: "linked nx (Ref a) as \<longleftrightarrow> (\<exists>bs. as = a # bs \<and> linked nx (nx a) bs)"
  by (cases as) auto

text \<open>The places between taking and releasing the mutex.\<close>

fun critical :: "thread_pc \<Rightarrow> bool" where
  "critical (P_Enter w) = True"
| "critical (P_Test w) = True"
| "critical P_Wait = True"
| "critical P_Leave = True"
| "critical P_Out = True"
| "critical P_Load = True"
| "critical (P_Take a) = True"
| "critical (P_Move p) = True"
| "critical P_Uncount = True"
| "critical P_Head = True"
| "critical (P_Unlock h) = True"
| "critical _ = False"

fun moving :: "thread_pc \<Rightarrow> ptr" where
  "moving (P_Move p) = p"
| "moving _ = Null"

fun filling :: "thread_pc \<Rightarrow> bool" where
  "filling P_Load = True"
| "filling (P_Take a) = True"
| "filling _ = False"

text \<open>
  The chains behind the two pointers are \<open>ins\<close> and \<open>outs\<close>, the chain that the holder of the mutex is
  moving is \<open>mvs\<close>. Together they are the nodes that were pushed and not popped, oldest first. No node
  is in two places.
\<close>

definition mutex_ok :: "threads \<Rightarrow> bool" where
  "mutex_ok s \<longleftrightarrow> (\<forall>t. critical (ts_pc s t) \<longleftrightarrow> ts_lock s = Some t)"

definition holds :: "threads \<Rightarrow> nat list \<Rightarrow> nat list \<Rightarrow> nat list \<Rightarrow> bool" where
  "holds s ins outs mvs \<longleftrightarrow> linked (ts_next s) (ts_in s) ins \<and> linked (ts_next s) (ts_out s) outs \<and>
     (case ts_lock s of None \<Rightarrow> mvs = [] | Some t \<Rightarrow> linked (ts_next s) (moving (ts_pc s t)) mvs \<and> (filling (ts_pc s t) \<longrightarrow> outs = [])) \<and>
     ts_pushed s = ts_popped s @ rev mvs @ outs @ rev ins \<and> distinct (ins @ outs @ mvs)"

definition nodes_ok :: "threads \<Rightarrow> nat set \<Rightarrow> bool" where
  "nodes_ok s A \<longleftrightarrow> (\<forall>t n. node_of (ts_pc s t) = Some n \<longrightarrow> n \<notin> A \<and> (\<forall>u. node_of (ts_pc s u) = Some n \<longrightarrow> u = t)) \<and>
     (\<forall>t n old. ts_pc s t = E_Cas n old \<longrightarrow> ts_next s n = old)"

definition stream_inv :: "threads \<Rightarrow> bool" where
  "stream_inv s \<longleftrightarrow> mutex_ok s \<and> (\<exists>ins outs mvs. holds s ins outs mvs \<and> nodes_ok s (set (ins @ outs @ mvs)))"

lemma mutex_step:
  assumes "mutex_ok s" "ts_pc s' = (ts_pc s)(t := p)"
    and "ts_lock s' = ts_lock s \<and> critical p = critical (ts_pc s t) \<or> ts_lock s = None \<and> ts_lock s' = Some t \<and> critical p \<or>
      ts_lock s = Some t \<and> ts_lock s' = None \<and> \<not> critical p"
  shows "mutex_ok s'"
  unfolding mutex_ok_def
proof
  fix u
  have "critical (ts_pc s u) = (ts_lock s = Some u)" "critical (ts_pc s t) = (ts_lock s = Some t)"
    using assms(1) unfolding mutex_ok_def by blast+
  with assms(2,3) show "critical (ts_pc s' u) = (ts_lock s' = Some u)" by (cases "u = t") auto
qed

lemma mutex_lock: "mutex_ok s \<Longrightarrow> critical (ts_pc s t) \<longleftrightarrow> ts_lock s = Some t"
  unfolding mutex_ok_def by blast

lemma not_critical: "\<not> critical p \<Longrightarrow> moving p = Null \<and> \<not> filling p"
  by (cases p) simp_all

text \<open>A step that takes up no node keeps what is known of the nodes of the threads.\<close>

lemma nodes_step:
  assumes "nodes_ok s A" "ts_pc s' = (ts_pc s)(t := p)" "B \<subseteq> A"
    and "node_of p = None \<or> node_of p = node_of (ts_pc s t)" "\<forall>n old. p \<noteq> E_Cas n old"
    and "\<forall>u n. u \<noteq> t \<longrightarrow> node_of (ts_pc s u) = Some n \<longrightarrow> ts_next s' n = ts_next s n"
  shows "nodes_ok s' B"
proof -
  have n: "\<And>u n. node_of (ts_pc s u) = Some n \<Longrightarrow> n \<notin> A" "\<And>u v n. node_of (ts_pc s u) = Some n \<Longrightarrow> node_of (ts_pc s v) = Some n \<Longrightarrow> v = u"
    "\<And>u n old. ts_pc s u = E_Cas n old \<Longrightarrow> ts_next s n = old" using assms(1) unfolding nodes_ok_def by blast+
  have old: "node_of (ts_pc s' u) = Some x \<Longrightarrow> node_of (ts_pc s u) = Some x" for u x
    using assms(2,4) by (cases "u = t") auto
  have "ts_next s' x = o'" if "ts_pc s' u = E_Cas x o'" for u x o'
    using that n(3) [of u x o'] assms(2,5,6) by (cases "u = t") auto
  then show ?thesis using n(1,2) old assms(3) unfolding nodes_ok_def by (metis subsetD)
qed

text \<open>A step that leaves the chains alone.\<close>

lemma inv_quiet:
  assumes "stream_inv s" "ts_pc s' = (ts_pc s)(t := p)"
    and "ts_in s' = ts_in s" "ts_out s' = ts_out s" "ts_next s' = ts_next s" "ts_pushed s' = ts_pushed s" "ts_popped s' = ts_popped s"
    and lock: "ts_lock s' = ts_lock s \<and> critical p = critical (ts_pc s t) \<or> ts_lock s = None \<and> ts_lock s' = Some t \<and> critical p \<or>
      ts_lock s = Some t \<and> ts_lock s' = None \<and> \<not> critical p"
    and "node_of p = None \<or> node_of p = node_of (ts_pc s t)" "\<forall>n old. p \<noteq> E_Cas n old"
    and "moving p = moving (ts_pc s t)" "filling p \<longrightarrow> filling (ts_pc s t) \<or> ts_out s = Null"
  shows "stream_inv s'"
proof -
  obtain ins outs mvs where inv: "mutex_ok s" "holds s ins outs mvs" "nodes_ok s (set (ins @ outs @ mvs))"
    using assms(1) unfolding stream_inv_def by blast
  have m: "mutex_ok s'" by (rule mutex_step [OF inv(1) assms(2) lock])
  have chains: "linked (ts_next s) (ts_in s) ins" "linked (ts_next s) (ts_out s) outs"
    "ts_lock s = None \<Longrightarrow> mvs = []"
    "\<And>u. ts_lock s = Some u \<Longrightarrow> linked (ts_next s) (moving (ts_pc s u)) mvs \<and> (filling (ts_pc s u) \<longrightarrow> outs = [])"
    using inv(2) by (auto simp: holds_def)
  have "case ts_lock s' of None \<Rightarrow> mvs = []
    | Some u \<Rightarrow> linked (ts_next s) (moving (ts_pc s' u)) mvs \<and> (filling (ts_pc s' u) \<longrightarrow> outs = [])"
  proof (cases "ts_lock s")
    case None
    then have "\<not> critical (ts_pc s t)" using mutex_lock [OF inv(1)] by simp
    then have "moving p = Null" "\<not> filling (ts_pc s t)" using not_critical assms(11) by metis+
    then show ?thesis using None lock chains assms(2,12) by (auto split: option.split)
  next
    case (Some u)
    then show ?thesis
      using lock chains(2) chains(4) [of u] assms(2,11,12) not_critical [of p] by (cases "u = t") (auto split: option.split)
  qed
  then have "holds s' ins outs mvs" using inv(2) unfolding holds_def assms(3-7) by blast
  moreover have "nodes_ok s' (set (ins @ outs @ mvs))"
    using nodes_step [OF inv(3) assms(2) subset_refl assms(9,10)] assms(5) by simp
  ultimately show ?thesis using m unfolding stream_inv_def by blast
qed

lemma inv_enqueue:
  assumes "enqueue_step t s s'" "stream_inv s"
  shows "stream_inv s'"
proof -
  obtain ins outs mvs where inv: "mutex_ok s" "holds s ins outs mvs" "nodes_ok s (set (ins @ outs @ mvs))"
    using assms(2) unfolding stream_inv_def by blast
  note lock = mutex_lock [OF inv(1)]
  note quiet = inv_quiet [OF assms(2), of s' t "ts_pc s' t"]
  from assms(1) show ?thesis
  proof cases
    case (e_start n)
    have m: "mutex_ok s'" by (rule mutex_step [OF inv(1), of _ t "E_Load n"]) (use e_start in simp_all)
    have "n \<notin> set (ins @ outs @ mvs)" using e_start inv(2) by (auto simp: idle_node_def holds_def)
    then have "nodes_ok s' (set (ins @ outs @ mvs))"
      using e_start inv(3) by (auto simp: nodes_ok_def idle_node_def)
    moreover have "holds s' ins outs mvs"
      using inv(2) e_start lock [of t] by (auto simp: holds_def split: option.splits)
    ultimately show ?thesis using m unfolding stream_inv_def by blast
  next
    case (e_link n old)
    have m: "mutex_ok s'" by (rule mutex_step [OF inv(1), of _ t "E_Cas n old"]) (use e_link in simp_all)
    have n: "n \<notin> set (ins @ outs @ mvs)" "\<And>u. node_of (ts_pc s u) = Some n \<Longrightarrow> u = t"
      using inv(3) e_link(2) unfolding nodes_ok_def by (metis node_of.simps(2))+
    then have "holds s' ins outs mvs" using inv(2) e_link lock [of t] by (auto simp: holds_def split: option.splits)
    moreover have "nodes_ok s' (set (ins @ outs @ mvs))" using inv(3) e_link n by (auto simp: nodes_ok_def)
    ultimately show ?thesis using m unfolding stream_inv_def by blast
  next
    case (e_cas n old)
    have m: "mutex_ok s'" by (rule mutex_step [OF inv(1), of _ t E_Count]) (use e_cas in simp_all)
    have n: "n \<notin> set (ins @ outs @ mvs)" "\<And>u. node_of (ts_pc s u) = Some n \<Longrightarrow> u = t" "ts_next s n = ts_in s"
      using inv(3) e_cas(2,3) unfolding nodes_ok_def by (metis node_of.simps(3))+
    then have "holds s' (n # ins) outs mvs"
      using inv(2) e_cas lock [of t] by (auto simp: holds_def split: option.splits)
    moreover have "nodes_ok s' (set ((n # ins) @ outs @ mvs))"
      using inv(3) e_cas n(2) by (auto simp: nodes_ok_def)
    ultimately show ?thesis using m unfolding stream_inv_def by blast
  next
    case (e_signal u)
    have "stream_inv (goto u P_Woken s)" by (rule inv_quiet [OF assms(2), of _ u P_Woken]) (use e_signal in simp_all)
    from inv_quiet [OF this, of s' t Idle] show ?thesis using e_signal by auto
  qed (rule quiet; auto)+
qed

lemma inv_pop:
  assumes "pop_step t s s'" "stream_inv s"
  shows "stream_inv s'"
proof -
  obtain ins outs mvs where inv: "mutex_ok s" "holds s ins outs mvs" "nodes_ok s (set (ins @ outs @ mvs))"
    using assms(2) unfolding stream_inv_def by blast
  note lock = mutex_lock [OF inv(1)]
  note quiet = inv_quiet [OF assms(2), of s' t "ts_pc s' t"]
  from assms(1) show ?thesis
  proof cases
    case (p_take a)
    have m: "mutex_ok s'" by (rule mutex_step [OF inv(1), of _ t "P_Move (Ref a)"]) (use p_take in simp_all)
    have l: "ts_lock s = Some t" using lock [of t] p_take by simp
    then have "holds s' [] [] ins" "mvs = []" "outs = []" using inv(2) p_take by (auto simp: holds_def)
    moreover have "nodes_ok s' (set ins)"
      by (rule nodes_step [OF inv(3), of _ t "P_Move (Ref a)"]) (use p_take in auto)
    ultimately show ?thesis using m unfolding stream_inv_def by fastforce
  next
    case (p_move h)
    have m: "mutex_ok s'" by (rule mutex_step [OF inv(1), of _ t "P_Move (ts_next s h)"]) (use p_move in simp_all)
    have l: "ts_lock s = Some t" using lock [of t] p_move by simp
    then obtain mvs' where mvs: "mvs = h # mvs'" using inv(2) p_move by (auto simp: holds_def linked_Ref)
    then have "holds s' ins (h # outs) mvs'" using inv(2) p_move l by (auto simp: holds_def)
    moreover have "nodes_ok s' (set (ins @ (h # outs) @ mvs'))"
    proof (rule nodes_step [OF inv(3), of _ t "P_Move (ts_next s h)"])
      have "\<forall>u n. node_of (ts_pc s u) = Some n \<longrightarrow> n \<noteq> h" using inv(3) mvs unfolding nodes_ok_def by auto
      then show "\<forall>u n. u \<noteq> t \<longrightarrow> node_of (ts_pc s u) = Some n \<longrightarrow> ts_next s' n = ts_next s n" using p_move by auto
    qed (use p_move mvs in auto)
    ultimately show ?thesis using m unfolding stream_inv_def by blast
  next
    case (p_head h)
    have m: "mutex_ok s'" by (rule mutex_step [OF inv(1), of _ t "P_Unlock (Some h)"]) (use p_head in simp_all)
    have l: "ts_lock s = Some t" using lock [of t] p_head by simp
    then obtain outs' where outs: "outs = h # outs'" "mvs = []" using inv(2) p_head by (auto simp: holds_def linked_Ref)
    then have "holds s' ins outs' []" using inv(2) p_head l by (auto simp: holds_def)
    moreover have "nodes_ok s' (set (ins @ outs' @ []))"
    proof -
      have "\<forall>u. node_of (ts_pc s u) \<noteq> Some h" using inv(3) outs unfolding nodes_ok_def by auto
      moreover have "h \<notin> set (ins @ outs')" using inv(2) outs by (auto simp: holds_def)
      ultimately show ?thesis using inv(3) p_head outs by (auto simp: nodes_ok_def)
    qed
    ultimately show ?thesis using m unfolding stream_inv_def by blast
  next
    case (p_poison n)
    have m: "mutex_ok s'" by (rule mutex_step [OF inv(1), of _ t Idle]) (use p_poison in simp_all)
    have n: "n \<notin> set (ins @ outs @ mvs)" "\<And>u. node_of (ts_pc s u) = Some n \<Longrightarrow> u = t"
      using inv(3) p_poison(2) unfolding nodes_ok_def by (metis node_of.simps(5))+
    then have "holds s' ins outs mvs" using inv(2) p_poison lock [of t] by (auto simp: holds_def split: option.splits)
    moreover have "nodes_ok s' (set (ins @ outs @ mvs))"
      by (rule nodes_step [OF inv(3), of _ t Idle]) (use p_poison n(2) in auto)
    ultimately show ?thesis using m unfolding stream_inv_def by blast
  qed (rule quiet; auto simp: lock [symmetric] split: option.split)+
qed

lemma inv_reachable: "stream_reachable s \<Longrightarrow> stream_inv s"
proof (induction rule: stream_reachable.induct)
  case (initial nx)
  show ?case unfolding stream_inv_def
    by (intro conjI exI [of _ "[]"]) (simp_all add: mutex_ok_def holds_def nodes_ok_def)
qed (rule inv_enqueue inv_pop; assumption)+

text \<open>A chain of the invariant ends in a null pointer, so its first pointer is null or a node.\<close>

lemma linked_pointer: "linked nx p as \<Longrightarrow> p = Null \<or> (\<exists>a. p = Ref a)"
  by (cases as) auto

lemma critical_steps:
  assumes "stream_inv s" "critical (ts_pc s t)"
  shows "\<exists>s'. pop_step t s s'"
proof -
  obtain ins outs mvs where inv: "mutex_ok s" "holds s ins outs mvs" using assms(1) unfolding stream_inv_def by blast
  have "ts_lock s = Some t" using mutex_lock [OF inv(1)] assms(2) by simp
  then have "linked (ts_next s) (ts_in s) ins" "linked (ts_next s) (ts_out s) outs" "linked (ts_next s) (moving (ts_pc s t)) mvs"
    using inv(2) by (auto simp: holds_def)
  then have p: "ts_in s = Null \<or> (\<exists>a. ts_in s = Ref a)" "ts_out s = Null \<or> (\<exists>a. ts_out s = Ref a)"
    "moving (ts_pc s t) = Null \<or> (\<exists>a. moving (ts_pc s t) = Ref a)" by (blast dest: linked_pointer)+
  show ?thesis
  proof (cases "ts_pc s t")
    case P_Load
    then show ?thesis using p(1) by (blast intro: p_load p_none)
  next
    case (P_Take a)
    then show ?thesis by (blast intro: p_take p_retry)
  next
    case (P_Move q)
    then show ?thesis using p(3) by (auto intro: p_move p_moved)
  next
    case P_Head
    then show ?thesis using p(2) by (blast intro: p_head p_empty)
  qed (use assms(2) in \<open>auto intro: p_enter p_test p_wait p_leave p_out p_uncount p_unlock\<close>)
qed

lemma enqueue_steps:
  assumes "ts_pc s t \<in> {E_Load n, E_Link n old, E_Cas n old, E_Count, E_Check, E_Signal}"
  shows "\<exists>s'. enqueue_step t s s'"
proof (cases "ts_pc s t")
  case (E_Cas m q)
  then show ?thesis by (blast intro: e_cas e_retry)
next
  case E_Signal
  then show ?thesis by (blast intro: e_signal e_unheard)
qed (use assms in \<open>auto intro: e_load e_link e_count e_check\<close>)

text \<open>
  A consumer, thread 0, and a producer, thread 2, of the node \<open>n\<close>: the states up to the pop of the
  node, by their pointer, counters, mutex and places.
\<close>

definition race :: "ptr \<Rightarrow> int \<Rightarrow> nat option \<Rightarrow> int \<Rightarrow> thread_pc \<Rightarrow> thread_pc \<Rightarrow> nat list \<Rightarrow> threads" where
  "race i l k w p q ns = \<lparr>ts_in = i, ts_out = Null, ts_length = l, ts_waiting = w, ts_lock = k,
     ts_next = (\<lambda>a. Null), ts_pc = (\<lambda>t. Idle)(2 := q, 0 := p), ts_pushed = ns, ts_popped = []\<rparr>"

lemma race_simps [simp]:
  "ts_pc (race i l k w p q ns) 0 = p" "ts_pc (race i l k w p q ns) 2 = q" "ts_in (race i l k w p q ns) = i"
  "ts_length (race i l k w p q ns) = l" "ts_waiting (race i l k w p q ns) = w" "ts_lock (race i l k w p q ns) = k"
  "ts_next (race i l k w p q ns) = (\<lambda>a. Null)" "ts_pushed (race i l k w p q ns) = ns"
  "goto 0 p' (race i l k w p q ns) = race i l k w p' q ns" "goto 2 q' (race i l k w p q ns) = race i l k w p q' ns"
  "(race i l k w p q ns)\<lparr>ts_lock := k'\<rparr> = race i l k' w p q ns" "(race i l k w p q ns)\<lparr>ts_waiting := w'\<rparr> = race i l k w' p q ns"
  "(race i l k w p q ns)\<lparr>ts_length := l'\<rparr> = race i l' k w p q ns" "(race i l k w p q ns)\<lparr>ts_next := (\<lambda>a. Null)\<rparr> = race i l k w p q ns"
  "(race i l k w p q ns)\<lparr>ts_in := i', ts_pushed := ns'\<rparr> = race i' l k w p q ns'"
  by (simp_all add: race_def fun_upd_twist)

lemma race_consumer:
  assumes "stream_reachable (race i l k w p q ns)" "pop_step 0 (race i l k w p q ns) (goto 0 p' (race i' l' k' w' p q ns'))"
  shows "stream_reachable (race i' l' k' w' p' q ns')"
  using pops [OF assms] by (simp only: race_simps)

lemma race_producer:
  assumes "stream_reachable (race i l k w p q ns)" "enqueue_step 2 (race i l k w p q ns) (goto 2 q' (race i' l' k' w' p q ns'))"
  shows "stream_reachable (race i' l' k' w' p q' ns')"
  using enqueues [OF assms] by (simp only: race_simps)

lemma race_wait: "stream_reachable (race Null 0 (Some 0) 1 P_Wait Idle [])"
proof -
  let ?R = "\<lambda>i l k w p q ns. stream_reachable (race i l k w p q ns)"
  have start: "race Null 0 None 0 Idle Idle [] = \<lparr>ts_in = Null, ts_out = Null, ts_length = 0, ts_waiting = 0, ts_lock = None,
    ts_next = (\<lambda>a. Null), ts_pc = (\<lambda>t. Idle), ts_pushed = [], ts_popped = []\<rparr>" by (auto simp: race_def fun_eq_iff)
  have "?R Null 0 None 0 Idle Idle []" unfolding start by (rule initial)
  then have "?R Null 0 None 0 (P_Lock True) Idle []" by (rule race_consumer) (rule p_start, simp)
  then have "?R Null 0 (Some 0) 0 (P_Enter True) Idle []"
    by (rule race_consumer) (use p_lock [of "race Null 0 None 0 (P_Lock True) Idle []" 0 True] in simp)
  then have "?R Null 0 (Some 0) 1 (P_Test True) Idle []"
    by (rule race_consumer) (use p_enter [of "race Null 0 (Some 0) 0 (P_Enter True) Idle []" 0 True] in simp)
  then show "?R Null 0 (Some 0) 1 P_Wait Idle []"
    by (rule race_consumer) (use p_test [of "race Null 0 (Some 0) 1 (P_Test True) Idle []" 0 True] in simp)
qed

lemma race_lost: "stream_reachable (race (Ref n) 1 None 1 P_Asleep Idle [n])"
proof -
  let ?R = "\<lambda>i l k w p q ns. stream_reachable (race i l k w p q ns)"
  have idle: "idle_node (race Null 0 (Some 0) 1 P_Wait Idle []) n" by (simp add: idle_node_def race_def)
  from race_wait have "?R Null 0 (Some 0) 1 P_Wait (E_Load n) []" by (rule race_producer) (rule e_start, simp, rule idle)
  then have "?R Null 0 (Some 0) 1 P_Wait (E_Link n Null) []"
    by (rule race_producer) (use e_load [of "race Null 0 (Some 0) 1 P_Wait (E_Load n) []" 2 n] in simp)
  then have "?R Null 0 (Some 0) 1 P_Wait (E_Cas n Null) []"
    by (rule race_producer) (use e_link [of "race Null 0 (Some 0) 1 P_Wait (E_Link n Null) []" 2 n Null] in \<open>simp add: fun_upd_idem\<close>)
  then have "?R (Ref n) 0 (Some 0) 1 P_Wait E_Count [n]"
    by (rule race_producer) (use e_cas [of "race Null 0 (Some 0) 1 P_Wait (E_Cas n Null) []" 2 n Null] in simp)
  then have "?R (Ref n) 1 (Some 0) 1 P_Wait E_Check [n]"
    by (rule race_producer) (use e_count [of "race (Ref n) 0 (Some 0) 1 P_Wait E_Count [n]" 2] in simp)
  then have "?R (Ref n) 1 (Some 0) 1 P_Wait E_Signal [n]"
    by (rule race_producer) (use e_check [of "race (Ref n) 1 (Some 0) 1 P_Wait E_Check [n]" 2] in simp)
  then have "?R (Ref n) 1 (Some 0) 1 P_Wait Idle [n]"
    by (rule race_producer) (rule e_unheard, simp, simp add: race_def)
  then show "?R (Ref n) 1 None 1 P_Asleep Idle [n]"
    by (rule race_consumer) (use p_wait [of "race (Ref n) 1 (Some 0) 1 P_Wait Idle [n]" 0] in simp)
qed

section \<open>Properties\<close>



text \<open>
  C22. No thread is stuck in a call, in any interleaving: the thread that holds the mutex always has a
  next step, which includes that it never follows the poisoned pointer of a node that was taken out;
  a thread that enqueues always has one; and a thread that waits for the mutex has one or waits for a
  thread that has one. Only a thread that sleeps on the condition variable depends on a signal.
\<close>

theorem stream_threads_not_stuck:
  assumes "stream_reachable s"
  shows "(critical (ts_pc s t) \<longrightarrow> (\<exists>s'. pop_step t s s')) \<and>
    (ts_pc s t \<in> {E_Load n, E_Link n old, E_Cas n old, E_Count, E_Check, E_Signal} \<longrightarrow> (\<exists>s'. enqueue_step t s s')) \<and>
    (ts_pc s t \<in> {P_Lock wait, P_Woken} \<longrightarrow>
      (\<exists>s'. pop_step t s s') \<or> (\<exists>u. u \<noteq> t \<and> ts_lock s = Some u \<and> (\<exists>s'. pop_step u s s'))) \<and>
    (ts_pc s t = P_Poison n \<longrightarrow> (\<exists>s'. pop_step t s s'))"
proof -
  have inv: "stream_inv s" by (rule inv_reachable [OF assms])
  have lock: "critical (ts_pc s u) \<longleftrightarrow> ts_lock s = Some u" for u
    using inv mutex_lock unfolding stream_inv_def by blast
  have c: "critical (ts_pc s t) \<longrightarrow> (\<exists>s'. pop_step t s s')" using critical_steps [OF inv] by blast
  have e: "ts_pc s t \<in> {E_Load n, E_Link n old, E_Cas n old, E_Count, E_Check, E_Signal} \<longrightarrow> (\<exists>s'. enqueue_step t s s')"
    using enqueue_steps by blast
  have p: "ts_pc s t = P_Poison n \<longrightarrow> (\<exists>s'. pop_step t s s')" by (blast intro: p_poison)
  have w: "ts_pc s t \<in> {P_Lock wait, P_Woken} \<longrightarrow>
      (\<exists>s'. pop_step t s s') \<or> (\<exists>u. u \<noteq> t \<and> ts_lock s = Some u \<and> (\<exists>s'. pop_step u s s'))"
  proof (cases "ts_lock s")
    case None
    then show ?thesis by (blast intro: p_lock p_relock)
  next
    case (Some u)
    then have "critical (ts_pc s u)" using lock by simp
    then show ?thesis using Some critical_steps [OF inv, of u] by (cases "u = t") auto
  qed
  show ?thesis using c e w p by (intro conjI)
qed

theorem stream_threads_not_stuck_witness:
  "critical (ts_pc (race Null 0 (Some 0) 1 P_Wait Idle []) 0) \<and>
   (\<exists>s'. pop_step 0 (race Null 0 (Some 0) 1 P_Wait Idle []) s')"
  using stream_threads_not_stuck [OF race_wait, of 0] by simp

text \<open>
  C34. A wake-up can be lost, since the producer signals without the mutex: a consumer that has found
  the stream empty, but does not sleep yet, misses the signal for the node that is enqueued
  meanwhile. Then it sleeps although the stream has a node, its counter is 1, and no other thread
  is in a call: only a further node, or a wake-up without a signal, gets the node out.
\<close>

theorem stream_lost_wakeup:
  "\<exists>s. stream_reachable s \<and> ts_pc s = (\<lambda>t. Idle)(0 := P_Asleep) \<and>
    ts_pushed s = [n] \<and> ts_popped s = [] \<and> ts_length s = 1 \<and> ts_lock s = None"
proof (intro exI conjI)
  show "stream_reachable (race (Ref n) 1 None 1 P_Asleep Idle [n])" by (rule race_lost)
qed (simp_all add: race_def fun_eq_iff)

end
