(* ===== verification/Stream_Memory.thy ===== *)
theory Stream_Memory
  imports Node_Stream
begin

text \<open>
  The functions of \<^verbatim>\<open>src/stream.c\<close> that acquire and release: \<^verbatim>\<open>deallocate_node\<close>,
  \<^verbatim>\<open>initialize_stream\<close> with its failures, and \<^verbatim>\<open>dealloc_stream\<close>, on the linked representation.

  The memory has the nodes and the blocks their contents point to; freeing a block that is not
  allocated is the value \<open>None\<close>. A stream object also records whether its mutex and its condition
  are initialised; locking or destroying one that is not is undefined, and \<open>None\<close> too.
\<close>

section \<open>Memory and operations\<close>

record stream_mem =
  sm_nodes :: "nat node_heap"
  sm_contents :: "nat set"

record stream_obj =
  so_stream :: stream_h
  so_lock :: bool
  so_read_cond :: bool

definition free_content :: "nat option \<Rightarrow> stream_mem \<Rightarrow> stream_mem option" where
  "free_content content m = (case content of None \<Rightarrow> Some m
     | Some b \<Rightarrow> if b \<in> sm_contents m then Some (m\<lparr>sm_contents := sm_contents m - {b}\<rparr>) else None)"

definition deallocate_node :: "ptr \<Rightarrow> stream_mem \<Rightarrow> stream_mem option" where
  "deallocate_node node m = (case node of Null \<Rightarrow> Some m | Poison \<Rightarrow> None
     | Ref a \<Rightarrow> do {
         n \<leftarrow> sm_nodes m a;
         m \<leftarrow> free_content (sn_content n) m;
         Some (m\<lparr>sm_nodes := (sm_nodes m)(a := None)\<rparr>)
       })"

text \<open>The loop of \<^verbatim>\<open>dealloc_stream\<close>; one that does not end is \<open>None\<close> as well.\<close>

partial_function (option) dealloc_nodes ::
  "stream_mem \<Rightarrow> stream_h \<Rightarrow> (stream_mem \<times> stream_h) option" where
  "dealloc_nodes m s = (case stream_pop_h (sm_nodes m) s False of
     None \<Rightarrow> None
   | Some None \<Rightarrow> None
   | Some (Some (node, h, s)) \<Rightarrow>
       (if node = Null then Some (m\<lparr>sm_nodes := h\<rparr>, s)
        else (case deallocate_node node (m\<lparr>sm_nodes := h\<rparr>) of
            None \<Rightarrow> None
          | Some m \<Rightarrow> dealloc_nodes m s)))"

text \<open>The null stream is accepted. The first thing a pop does is to lock the mutex.\<close>

definition dealloc_stream_at ::
  "stream_obj option \<Rightarrow> stream_mem \<Rightarrow> (stream_obj option \<times> stream_mem) option" where
  "dealloc_stream_at stream m = (case stream of None \<Rightarrow> Some (None, m)
     | Some st \<Rightarrow>
         if \<not> so_lock st then None
         else do {
           (m, s) \<leftarrow> dealloc_nodes m (so_stream st);
           if \<not> so_read_cond st then None
           else Some (Some \<lparr>so_stream = s, so_lock = False, so_read_cond = False\<rparr>, m)
         })"

text \<open>
  \<^verbatim>\<open>initialize_stream\<close> on memory whose previous value does not matter; the parameters are whether
  \<^verbatim>\<open>pthread_mutex_init\<close> and \<^verbatim>\<open>pthread_cond_init\<close> succeed. The inner sum is the value returned.
\<close>

definition initialize_stream_at ::
  "bool \<Rightarrow> bool \<Rightarrow> stream_mem \<Rightarrow> ((errors_t + stream_obj) \<times> stream_mem) option" where
  "initialize_stream_at mutex_ok cond_ok m =
     (let s = \<lparr>h_in = Null, h_out = Null, h_length = 0, h_waiting = 0\<rparr> in
      if \<not> mutex_ok then do {
        (_, m) \<leftarrow> dealloc_stream_at (Some \<lparr>so_stream = s, so_lock = False, so_read_cond = False\<rparr>) m;
        Some (Inl FAILED_TO_ALLOCATE, m) }
      else if \<not> cond_ok then do {
        (_, m) \<leftarrow> dealloc_stream_at (Some \<lparr>so_stream = s, so_lock = True, so_read_cond = False\<rparr>) m;
        Some (Inl FAILED_TO_ALLOCATE, m) }
      else Some (Inr \<lparr>so_stream = s, so_lock = True, so_read_cond = True\<rparr>, m))"

section \<open>Freeing what a stream owns\<close>

text \<open>The blocks that the contents of some nodes point to.\<close>

definition owned_blocks :: "nat node_heap \<Rightarrow> nat list \<Rightarrow> nat list" where
  "owned_blocks h as = List.map_filter (\<lambda>a. Option.bind (h a) sn_content) as"

lemma owned_blocks_simps [simp]:
  "owned_blocks h [] = []"
  "owned_blocks h (a # as) = (case Option.bind (h a) sn_content of None \<Rightarrow> owned_blocks h as
     | Some b \<Rightarrow> b # owned_blocks h as)"
  unfolding owned_blocks_def by (simp_all add: map_filter_simps cong: option.case_cong)

text \<open>What a stream needs to be released: its nodes are there, and own distinct allocated blocks.\<close>

definition releasable :: "stream_mem \<Rightarrow> stream_h \<Rightarrow> nat stream_t \<Rightarrow> bool" where
  "releasable m s l \<longleftrightarrow> stream_rel (sm_nodes m) s l \<and>
     distinct (owned_blocks (sm_nodes m) (queue_of l)) \<and>
     set (owned_blocks (sm_nodes m) (queue_of l)) \<subseteq> sm_contents m"

text \<open>The memory without some nodes and their blocks, up to the links of the other nodes.\<close>

definition released :: "nat list \<Rightarrow> stream_mem \<Rightarrow> stream_mem \<Rightarrow> bool" where
  "released as m m' \<longleftrightarrow>
     (\<forall>a. map_option sn_content (sm_nodes m' a) =
        (if a \<in> set as then None else map_option sn_content (sm_nodes m a))) \<and>
     sm_contents m' = sm_contents m - set (owned_blocks (sm_nodes m) as)"

lemma same_contents_bind: "same_contents h h' \<Longrightarrow> Option.bind (h' a) sn_content = Option.bind (h a) sn_content"
  unfolding same_contents_def by (drule spec [of _ a]) (cases "h a"; cases "h' a"; simp)

lemma owned_blocks_cong:
  "(\<And>a. a \<in> set as \<Longrightarrow> Option.bind (h' a) sn_content = Option.bind (h a) sn_content) \<Longrightarrow>
   owned_blocks h' as = owned_blocks h as"
  by (induction as) (simp_all split: option.splits)

lemma stream_rel_distinct: "stream_rel h s l \<Longrightarrow> distinct (queue_of l)"
  by (auto simp: stream_rel_def queue_of_def)

lemma stream_rel_frame: "stream_rel h s l \<Longrightarrow> a \<notin> set (queue_of l) \<Longrightarrow> stream_rel (h(a := x)) s l"
  by (simp add: stream_rel_def queue_of_def chain_frame)

text \<open>One round of the loop: the oldest node is popped, then it and its block are freed.\<close>

lemma dealloc_round:
  assumes "releasable m s l" and q: "queue_of l = a # as"
  shows "\<exists>h s' m' l'. stream_pop_h (sm_nodes m) s False = Some (Some (Ref a, h, s')) \<and>
    deallocate_node (Ref a) (m\<lparr>sm_nodes := h\<rparr>) = Some m' \<and> releasable m' s' l' \<and> queue_of l' = as \<and>
    released [a] m m' \<and> owned_blocks (sm_nodes m') as = owned_blocks (sm_nodes m) as"
proof -
  have rel: "stream_rel (sm_nodes m) s l" using assms(1) by (simp add: releasable_def)
  obtain l' where l': "stream_pop l False = Some (Some a, l')" "queue_of l' = as"
    using pop_locked_nonempty [OF q] by (cases "pop_locked l") (auto simp: stream_pop_def)
  from stream_rel_pop [OF rel l'(1)] obtain h s' where
    pop: "stream_pop_h (sm_nodes m) s False = Some (Some (Ref a, h, s'))" and rel': "stream_rel h s' l'"
    and same: "same_contents (sm_nodes m) h" and "map_option sn_next (h a) = Some Poison" by auto
  then obtain n where n: "h a = Some n" by (cases "h a") auto
  have content: "Option.bind (sm_nodes m a) sn_content = sn_content n"
    using same_contents_bind [OF same, of a] n by simp
  obtain C where C: "free_content (sn_content n) (m\<lparr>sm_nodes := h\<rparr>) = Some (m\<lparr>sm_nodes := h, sm_contents := C\<rparr>)"
    and C_eq: "C = sm_contents m - set (owned_blocks (sm_nodes m) [a])"
    using assms(1) q content by (cases "sn_content n") (auto simp: free_content_def releasable_def)
  define m' where "m' = m\<lparr>sm_nodes := h(a := None), sm_contents := C\<rparr>"
  have "deallocate_node (Ref a) (m\<lparr>sm_nodes := h\<rparr>) = Some m'"
    using n C by (simp add: deallocate_node_def m'_def)
  moreover have a: "a \<notin> set as" using stream_rel_distinct [OF rel] q by simp
  then have blocks: "owned_blocks (sm_nodes m') as = owned_blocks (sm_nodes m) as"
    by (intro owned_blocks_cong) (auto simp: m'_def same_contents_bind [OF same])
  moreover have "releasable m' s' l'"
    using assms(1) q content blocks l'(2) a stream_rel_frame [OF rel', of a None]
    by (auto simp: releasable_def C_eq m'_def split: option.splits)
  moreover have "released [a] m m'"
    using same by (simp add: released_def same_contents_def m'_def C_eq)
  ultimately show ?thesis using pop l'(2) by blast
qed

lemma released_trans:
  assumes "released [a] m m1" "released as m1 m2" "owned_blocks (sm_nodes m1) as = owned_blocks (sm_nodes m) as"
  shows "released (a # as) m m2"
  using assms by (auto simp: released_def split: option.splits)

lemma dealloc_nodes_ok:
  assumes "releasable m s l"
  shows "\<exists>m' s'. dealloc_nodes m s = Some (m', s') \<and> released (queue_of l) m m' \<and>
    h_in s' = Null \<and> h_out s' = Null"
  using assms
proof (induction "queue_of l" arbitrary: m s l)
  case Nil
  then have rel: "stream_rel (sm_nodes m) s l" by (simp add: releasable_def)
  have "stream_pop l False = Some (None, l\<lparr>st_length := st_length l - 1\<rparr>)"
    using Nil(1) by (simp add: stream_pop_def pop_locked_empty)
  from stream_rel_pop [OF rel this] obtain h s' where
    "stream_pop_h (sm_nodes m) s False = Some (Some (Null, h, s'))" "same_contents (sm_nodes m) h"
    "stream_rel h s' (l\<lparr>st_length := st_length l - 1\<rparr>)" by auto
  moreover have "in_queue l = []" "out_queue l = []" using Nil(1) by (simp_all add: queue_of_def)
  ultimately show ?case using Nil(1) [symmetric]
    by (subst dealloc_nodes.simps) (simp add: released_def same_contents_def stream_rel_def)
next
  case (Cons a as)
  from dealloc_round [OF Cons.prems Cons.hyps(2) [symmetric]] obtain h s1 m1 l1 where
    step: "stream_pop_h (sm_nodes m) s False = Some (Some (Ref a, h, s1))"
      "deallocate_node (Ref a) (m\<lparr>sm_nodes := h\<rparr>) = Some m1"
    and next1: "releasable m1 s1 l1" "queue_of l1 = as" "released [a] m m1"
      "owned_blocks (sm_nodes m1) as = owned_blocks (sm_nodes m) as" by blast
  from Cons.hyps(1) [OF next1(2) [symmetric] next1(1)] obtain m2 s2 where
    rest: "dealloc_nodes m1 s1 = Some (m2, s2)" "released as m1 m2" "h_in s2 = Null" "h_out s2 = Null"
    using next1(2) by auto
  have "dealloc_nodes m s = Some (m2, s2)"
    using step rest(1) by (subst dealloc_nodes.simps) simp
  moreover have "released (queue_of l) m m2"
    using released_trans [OF next1(3) rest(2) next1(4)] Cons.hyps(2) by simp
  ultimately show ?case using rest(3,4) by blast
qed

section \<open>Properties\<close>

text \<open>
  C20. \<^verbatim>\<open>dealloc_stream\<close> ends on every initialised stream whose nodes own distinct allocated blocks, and
  frees each node of the queue and the block of its content exactly once: none of them is left,
  nothing else is freed, no dangling or poisoned pointer is followed. The mutex and the condition
  are destroyed. A null pointer is accepted and nothing is done.
\<close>

theorem dealloc_stream_releases:
  assumes "releasable m (so_stream st) l" and "so_lock st" and "so_read_cond st"
  shows "\<exists>st' m'. dealloc_stream_at (Some st) m = Some (Some st', m') \<and> released (queue_of l) m m' \<and>
    h_in (so_stream st') = Null \<and> h_out (so_stream st') = Null \<and> \<not> so_lock st' \<and> \<not> so_read_cond st' \<and>
    dealloc_stream_at None m = Some (None, m)"
  using dealloc_nodes_ok [OF assms(1)] assms(2,3) by (auto simp: dealloc_stream_at_def)

text \<open>
  \<^verbatim>\<open>initialize_stream\<close> gives an empty stream when both initialisations succeed. Its error paths do
  not return the documented \<open>-1\<close> by defined steps: they call \<^verbatim>\<open>dealloc_stream\<close>, which locks the
  mutex that could not be initialised, or destroys the condition that could not be.
\<close>

theorem initialize_stream_failure:
  "initialize_stream_at mutex_ok cond_ok m =
     (if mutex_ok \<and> cond_ok
      then Some (Inr \<lparr>so_stream = \<lparr>h_in = Null, h_out = Null, h_length = 0, h_waiting = 0\<rparr>,
                      so_lock = True, so_read_cond = True\<rparr>, m)
      else None)"
proof -
  have "dealloc_nodes m \<lparr>h_in = Null, h_out = Null, h_length = 0, h_waiting = 0\<rparr>
      = Some (m, \<lparr>h_in = Null, h_out = Null, h_length = - 1, h_waiting = 0\<rparr>)"
    by (subst dealloc_nodes.simps) (simp add: stream_pop_h_def)
  then show ?thesis by (simp add: initialize_stream_at_def dealloc_stream_at_def Let_def)
qed

section \<open>Witnesses\<close>

text \<open>Two nodes were pushed; the content of node 8 is block 1, node 5 has block 2, node 9 is in no queue.\<close>

definition sample_mem :: stream_mem where
  "sample_mem = \<lparr>sm_nodes = [5 \<mapsto> \<lparr>sn_content = Some 2, sn_next = Null\<rparr>,
       8 \<mapsto> \<lparr>sn_content = Some 1, sn_next = Ref 5\<rparr>, 9 \<mapsto> \<lparr>sn_content = Some 3, sn_next = Poison\<rparr>],
     sm_contents = {1, 2, 3}\<rparr>"

definition sample_obj :: stream_obj where
  "sample_obj = \<lparr>so_stream = sample_stream_h, so_lock = True, so_read_cond = True\<rparr>"

theorem dealloc_stream_releases_witness:
  "\<exists>st' m'. dealloc_stream_at (Some sample_obj) sample_mem = Some (Some st', m') \<and>
     sm_nodes m' 5 = None \<and> sm_nodes m' 8 = None \<and> sm_nodes m' 9 \<noteq> None \<and> sm_contents m' = {3}"
proof -
  have "releasable sample_mem (so_stream sample_obj) sample_stream"
    by (simp add: releasable_def stream_rel_def queue_of_def sample_mem_def sample_obj_def
        sample_stream_def sample_stream_h_def)
  from dealloc_stream_releases [OF this] obtain st' m' where
    m': "dealloc_stream_at (Some sample_obj) sample_mem = Some (Some st', m')"
      "released (queue_of sample_stream) sample_mem m'"
    by (auto simp: sample_obj_def)
  have q: "queue_of sample_stream = [5, 8]" by (simp add: sample_stream_def queue_of_def)
  from m'(2) have c: "map_option sn_content (sm_nodes m' a) =
      (if a \<in> {5, 8} then None else map_option sn_content (sm_nodes sample_mem a))" for a
    by (simp add: released_def q)
  have "sm_nodes m' 5 = None" "sm_nodes m' 8 = None" "sm_nodes m' 9 \<noteq> None"
    using c [of 5] c [of 8] c [of 9] by (auto simp: sample_mem_def)
  moreover have "sm_contents m' = {3}"
    using m'(2) by (simp add: released_def q) (auto simp: sample_mem_def)
  ultimately show ?thesis using m'(1) by blast
qed

end
