(* ===== verification/Packet_Print.thy ===== *)
theory Packet_Print
  imports Packet Cli
begin

text \<open>
  What \<^verbatim>\<open>src/packet.c\<close> prints: \<^verbatim>\<open>packet_to_string\<close>, the table \<^verbatim>\<open>ascii\<close> of \<^verbatim>\<open>src/lookup.c\<close> it names the
  characters with, and \<^verbatim>\<open>ip_to_string\<close>. The text written to \<^verbatim>\<open>stderr\<close> is a list of bytes; a read outside
  the payload is \<open>None\<close>. The dump of a payload is shown to be readable back.
\<close>

section \<open>The table of character names\<close>

text \<open>The names that are not ASCII are encoded in UTF-8, as in the source file. Letters and digits
  are their own names.\<close>

definition regular_ascii :: "string list" where
  "regular_ascii =
    [''NUL'', ''SOH'', ''STX'', ''ETX'', ''EOT'', ''ENQ'', ''ACK'', ''BEL'', [CHR 0x5C, CHR 0x62],
    [CHR 0x5C, CHR 0x74], [CHR 0x5C, CHR 0x6E], ''VT'', ''FF'', [CHR 0x5C, CHR 0x72], ''SO'',
    ''SI'', ''DLE'', ''DC1'', ''DC2'', ''DC3'', ''DC4'', ''NAK'', ''SYN'', ''ETB'', ''CAN'',
    ''EM'', ''SUB'', ''ESC'', ''FS'', ''GS'', ''RS'', ''US'', '' '', ''!'', [CHR 0x22], ''#'',
    ''$'', ''%%'', ''&'', [CHR 0x27], ''('', '')'', ''*'', ''+'', '','', ''-'', ''.'', ''/'']
    @ map (\<lambda>c. [c]) ''0123456789'' @ ['':'', '';'', ''<'', ''='', ''>'', ''?'', ''@'']
    @ map (\<lambda>c. [c]) ''ABCDEFGHIJKLMNOPQRSTUVWXYZ'' @ [''['', [CHR 0x5C], '']'', ''^'',
    ''_'', [CHR 0x60]] @ map (\<lambda>c. [c]) ''abcdefghijklmnopqrstuvwxyz'' @ [''{'', ''|'',
    ''}'', ''~'', ''DEL'']"

definition extended_ascii :: "string list" where
  "extended_ascii =
    [[CHR 0xE2, CHR 0x82, CHR 0xAC], [], [CHR 0xE2, CHR 0x80, CHR 0x9A], [CHR 0xC6, CHR 0x92],
    [CHR 0xE2, CHR 0x80, CHR 0x9E], [CHR 0xE2, CHR 0x80, CHR 0xA6],
    [CHR 0xE2, CHR 0x80, CHR 0xA0], [CHR 0xE2, CHR 0x80, CHR 0xA1], [CHR 0xCB, CHR 0x86],
    [CHR 0xE2, CHR 0x80, CHR 0xB0], [CHR 0xC5, CHR 0xA0], [CHR 0xE2, CHR 0x80, CHR 0xB9],
    [CHR 0xC5, CHR 0x92], [], [CHR 0xC5, CHR 0xBD], [], [], [CHR 0xE2, CHR 0x80, CHR 0x98],
    [CHR 0xE2, CHR 0x80, CHR 0x99], [CHR 0xE2, CHR 0x80, CHR 0x9C],
    [CHR 0xE2, CHR 0x80, CHR 0x9D], [CHR 0xE2, CHR 0x80, CHR 0xA2],
    [CHR 0xE2, CHR 0x80, CHR 0x93], [CHR 0xE2, CHR 0x80, CHR 0x94], [CHR 0xCB, CHR 0x9C],
    [CHR 0xE2, CHR 0x84, CHR 0xA2], [CHR 0xC5, CHR 0xA1], [CHR 0xE2, CHR 0x80, CHR 0xBA],
    [CHR 0xC5, CHR 0x93], [], [CHR 0xC5, CHR 0xBE], [CHR 0xC5, CHR 0xB8], [],
    [CHR 0xC2, CHR 0xA1], [CHR 0xC2, CHR 0xA2], [CHR 0xC2, CHR 0xA3], [CHR 0xC2, CHR 0xA4],
    [CHR 0xC2, CHR 0xA5], [CHR 0xC2, CHR 0xA6], [CHR 0xC2, CHR 0xA7], [CHR 0xC2, CHR 0xA8],
    [CHR 0xC2, CHR 0xA9], [CHR 0xC2, CHR 0xAA], [CHR 0xC2, CHR 0xAB], [CHR 0xC2, CHR 0xAC],
    [CHR 0xC2, CHR 0xAD], [CHR 0xC2, CHR 0xAE], [CHR 0xC2, CHR 0xAF], [CHR 0xC2, CHR 0xB0],
    [CHR 0xC2, CHR 0xB1], [CHR 0xC2, CHR 0xB2], [CHR 0xC2, CHR 0xB3], [CHR 0xC2, CHR 0xB4],
    [CHR 0xC2, CHR 0xB5], [CHR 0xC2, CHR 0xB6], [CHR 0xC2, CHR 0xB7], [CHR 0xC2, CHR 0xB8],
    [CHR 0xC2, CHR 0xB9], [CHR 0xC2, CHR 0xBA], [CHR 0xC2, CHR 0xBB], [CHR 0xC2, CHR 0xBC],
    [CHR 0xC2, CHR 0xBD], [CHR 0xC2, CHR 0xBE], [CHR 0xC2, CHR 0xBF], [CHR 0xC3, CHR 0x80],
    [CHR 0xC3, CHR 0x81], [CHR 0xC3, CHR 0x82], [CHR 0xC3, CHR 0x83], [CHR 0xC3, CHR 0x84],
    [CHR 0xC3, CHR 0x85], [CHR 0xC3, CHR 0x86], [CHR 0xC3, CHR 0x87], [CHR 0xC3, CHR 0x88],
    [CHR 0xC3, CHR 0x89], [CHR 0xC3, CHR 0x8A], [CHR 0xC3, CHR 0x8B], [CHR 0xC3, CHR 0x8C],
    [CHR 0xC3, CHR 0x8D], [CHR 0xC3, CHR 0x8E], [CHR 0xC3, CHR 0x8F], [CHR 0xC3, CHR 0x90],
    [CHR 0xC3, CHR 0x91], [CHR 0xC3, CHR 0x92], [CHR 0xC3, CHR 0x93], [CHR 0xC3, CHR 0x94],
    [CHR 0xC3, CHR 0x95], [CHR 0xC3, CHR 0x96], [CHR 0xC3, CHR 0x97], [CHR 0xC3, CHR 0x98],
    [CHR 0xC3, CHR 0x99], [CHR 0xC3, CHR 0x9A], [CHR 0xC3, CHR 0x9B], [CHR 0xC3, CHR 0x9C],
    [CHR 0xC3, CHR 0x9D], [CHR 0xC3, CHR 0x9E], [CHR 0xC3, CHR 0x9F], [CHR 0xC3, CHR 0xA0],
    [CHR 0xC3, CHR 0xA1], [CHR 0xC3, CHR 0xA2], [CHR 0xC3, CHR 0xA3], [CHR 0xC3, CHR 0xA4],
    [CHR 0xC3, CHR 0xA5], [CHR 0xC3, CHR 0xA6], [CHR 0xC3, CHR 0xA7], [CHR 0xC3, CHR 0xA8],
    [CHR 0xC3, CHR 0xA9], [CHR 0xC3, CHR 0xAA], [CHR 0xC3, CHR 0xAB], [CHR 0xC3, CHR 0xAC],
    [CHR 0xC3, CHR 0xAD], [CHR 0xC3, CHR 0xAE], [CHR 0xC3, CHR 0xAF], [CHR 0xC3, CHR 0xB0],
    [CHR 0xC3, CHR 0xB1], [CHR 0xC3, CHR 0xB2], [CHR 0xC3, CHR 0xB3], [CHR 0xC3, CHR 0xB4],
    [CHR 0xC3, CHR 0xB5], [CHR 0xC3, CHR 0xB6], [CHR 0xC3, CHR 0xB7], [CHR 0xC3, CHR 0xB8],
    [CHR 0xC3, CHR 0xB9], [CHR 0xC3, CHR 0xBA], [CHR 0xC3, CHR 0xBB], [CHR 0xC3, CHR 0xBC],
    [CHR 0xC3, CHR 0xBD], [CHR 0xC3, CHR 0xBE], [CHR 0xC3, CHR 0xBF]]"

definition ascii :: "string list" where
  "ascii = regular_ascii @ extended_ascii"

section \<open>Printing\<close>

abbreviation newline :: char where "newline \<equiv> CHR 0x0A"

definition hex_digit :: "nat \<Rightarrow> char" where
  "hex_digit n = (if n < 10 then char_of (48 + n) else char_of (87 + n))"

text \<open>The conversions \<^verbatim>\<open>%02x\<close> and \<^verbatim>\<open>%3s\<close>.\<close>

definition print_02x :: "u8 \<Rightarrow> string" where
  "print_02x b = [hex_digit (unat b div 16), hex_digit (unat b mod 16)]"

definition print_3s :: "string \<Rightarrow> string" where
  "print_3s s = replicate (3 - length s) (CHR '' '') @ s"

fun type_name :: "ptype_t \<Rightarrow> string" where
  "type_name IGNORE = ''IGNORE (00)''"
| "type_name DATA = ''DATA (01)''"
| "type_name ACK = ''ACK (10)''"
| "type_name NACK = ''NACK (11)''"

definition print_bool :: "bool \<Rightarrow> string" where
  "print_bool b = (if b then ''true'' else ''false'')"

definition print_u :: "'a::len word \<Rightarrow> string" where
  "print_u w = decimal (unat w)"

definition header_lines :: "packet_t \<Rightarrow> string list" where
  "header_lines packet =
    ['' - - - - - - - - PACKET - - - - - - - - '',
     ''TYPE:       '' @ type_name (pk_type packet),
     ''TRUNCATED:  '' @ print_bool (pk_truncated packet),
     ''WINDOW:     '' @ print_u (pk_window packet),
     ''SEQNUM:     '' @ print_u (pk_seqnum packet),
     ''LENGTH (L): '' @ print_u (pk_length packet) @ '' ('' @ print_bool (pk_long_length packet) @ '')'',
     ''TIMESTAMP:  '' @ print_u (pk_timestamp packet)]"

definition row_line :: "bytes \<Rightarrow> string" where
  "row_line bs = join (CHR '' '') (map print_02x bs) @ '' | '' @
     join (CHR '' '') (map (\<lambda>b. print_3s (ascii ! unat b)) bs)"

text \<open>
  The loop over the payload, eight bytes at a time. The counter of the source has 16 bits; it cannot
  wrap around, because the array ends first.
\<close>

function dump_lines :: "bytes \<Rightarrow> nat \<Rightarrow> nat \<Rightarrow> string list option" where
  "dump_lines payload len i =
     (if i < len then
        (if length payload < i + 8 then None
         else map_option ((#) (row_line (take 8 (drop i payload)))) (dump_lines payload len (i + 8)))
      else Some [])"
  by pat_completeness auto

termination
  by (relation "measure (\<lambda>(payload, len, i). len - i)") auto

declare dump_lines.simps [simp del]

definition print_lines :: "string list \<Rightarrow> string" where
  "print_lines ls = concat (map (\<lambda>l. l @ [newline]) ls)"

definition packet_to_string :: "packet_t option \<Rightarrow> bool \<Rightarrow> (errors_t + string) option" where
  "packet_to_string packet print_payload = (case packet of
     None \<Rightarrow> Some (Inl NULL_ARGUMENT)
   | Some p \<Rightarrow> do {
       rows \<leftarrow> (if print_payload
         then map_option ((#) []) (dump_lines (pk_payload p) (unat (pk_length p)) 0) else Some []);
       Some (Inr (print_lines (header_lines p @ rows @ ['' - - - - - - - - - - - - - - - - - - - -''])))
     })"

text \<open>The parameter \<open>inet_ntop\<close> is the text of the address, or \<open>None\<close> when the call fails.\<close>

definition ip_to_string :: "(bytes \<Rightarrow> string option) \<Rightarrow> bytes \<Rightarrow> string option \<Rightarrow> errors_t + string" where
  "ip_to_string inet_ntop ip target = (case target of None \<Rightarrow> Inl NULL_ARGUMENT
     | Some _ \<Rightarrow> (case inet_ntop ip of None \<Rightarrow> Inl FAILED_TO_COPY | Some s \<Rightarrow> Inr s))"

section \<open>Reading a dump\<close>

definition hex_value :: "char \<Rightarrow> nat" where
  "hex_value c = (if of_char c < (58::nat) then of_char c - 48 else of_char c - 87)"

text \<open>The first eight columns of a row: two digits each, one space between them.\<close>

fun read_columns :: "nat \<Rightarrow> string \<Rightarrow> bytes" where
  "read_columns 0 s = []"
| "read_columns (Suc n) s = (case s of
     c # d # s \<Rightarrow> word_of_nat (16 * hex_value c + hex_value d) # read_columns n (drop 1 s) | _ \<Rightarrow> [])"

text \<open>The rows are the lines between the eight of the head and the last one.\<close>

definition read_dump :: "string \<Rightarrow> bytes" where
  "read_dump out = concat (map (read_columns 8) (butlast (butlast (drop 8 (strsep newline out)))))"

lemma hex_value_digit:
  assumes "n < 16" shows "hex_value (hex_digit n) = n"
proof -
  have "(of_char (char_of (48 + n) :: char) :: nat) = 48 + n" "(of_char (char_of (87 + n) :: char) :: nat) = 87 + n"
    using assms by simp_all
  then show ?thesis using assms by (auto simp: hex_value_def hex_digit_def)
qed

lemma read_byte: "(word_of_nat (16 * hex_value (hex_digit (unat b div 16)) + hex_value (hex_digit (unat b mod 16))) :: u8) = b"
proof -
  have "unat b div 16 < 16" using unat_u8_less [of b] by simp
  then have "16 * hex_value (hex_digit (unat b div 16)) + hex_value (hex_digit (unat b mod 16)) = unat b"
    by (simp add: hex_value_digit)
  then show ?thesis by simp
qed

lemma read_columns_row: "read_columns (length bs) (join (CHR '' '') (map print_02x bs) @ r) = bs"
proof (induction bs)
  case (Cons b bs)
  then show ?case
    by (cases bs) (simp_all add: print_02x_def read_byte del: of_nat_add of_nat_mult)
qed simp

lemma ascii_length: "length ascii = 256"
  by (simp add: ascii_def regular_ascii_def extended_ascii_def)

lemma ascii_no_newline: "list_all (\<lambda>s. newline \<notin> set s) ascii"
  by (simp add: ascii_def regular_ascii_def extended_ascii_def)

lemma hex_digit_no_newline:
  assumes "n < 16" shows "hex_digit n \<noteq> newline"
proof
  assume "hex_digit n = newline"
  then have "(of_char (hex_digit n) :: nat) = 10" by simp
  with assms show False by (auto simp: hex_digit_def split: if_splits)
qed

lemma row_no_newline: "newline \<notin> set (row_line bs)"
proof -
  have "newline \<notin> set (print_02x b)" for b
  proof -
    have "unat b div 16 < 16" using unat_u8_less [of b] by simp
    then show ?thesis
      using hex_digit_no_newline [of "unat b div 16"] hex_digit_no_newline [of "unat b mod 16"]
      by (simp add: print_02x_def eq_commute)
  qed
  moreover have "newline \<notin> set (print_3s (ascii ! unat (b::u8)))" for b
    using ascii_no_newline unat_u8_less [of b] by (simp add: print_3s_def list_all_length ascii_length)
  ultimately show ?thesis
    using join_chars [of "CHR '' ''" "map print_02x bs"]
      join_chars [of "CHR '' ''" "map (\<lambda>b. print_3s (ascii ! unat b)) bs"]
    by (auto simp: row_line_def)
qed

lemma print_u_no_newline: "newline \<notin> set (print_u w)"
proof
  assume "newline \<in> set (print_u w)"
  then have "is_digit newline" using decimal_digits(2) [of "unat w"] by (auto simp: print_u_def)
  then show False by (simp add: is_digit_def)
qed

lemma print_bool_no_newline: "newline \<notin> set (print_bool b)"
  by (simp add: print_bool_def)

lemma header_length: "length (header_lines p) = 7"
  by (simp add: header_lines_def)

lemma header_no_newline: "l \<in> set (header_lines p) \<Longrightarrow> newline \<notin> set l"
  by (cases "pk_type p") (auto simp: header_lines_def print_bool_no_newline print_u_no_newline)

lemma strsep_print_lines: "\<forall>l \<in> set ls. newline \<notin> set l \<Longrightarrow> strsep newline (print_lines ls) = ls @ [[]]"
proof (induction ls)
  case (Cons l ls)
  then show ?case using strsep_prefix [of newline l "newline # print_lines ls"] by (simp add: print_lines_def)
qed (simp add: print_lines_def)

lemma dump_lines_ok:
  assumes "8 dvd length payload" "8 dvd i" "len \<le> length payload"
  shows "\<exists>css. dump_lines payload len i = Some (map row_line css) \<and> (\<forall>cs \<in> set css. length cs = 8) \<and>
    concat css = take (8 * ((len - i + 7) div 8)) (drop i payload)"
  using assms
proof (induction payload len i rule: dump_lines.induct)
  case (1 payload len i)
  note IH = 1(1)
  consider "len \<le> i" | "i < len" by linarith
  then show ?case
  proof cases
    case 1
    then show ?thesis by (subst dump_lines.simps) simp
  next
    case 2
    have fits: "i + 8 \<le> length payload"
      using "1.prems" 2 by (elim dvdE) (simp, presburger)
    have rows: "8 * ((len - i + 7) div 8) = 8 + 8 * ((len - (i + 8) + 7) div 8)"
    proof (cases "i + 8 \<le> len")
      case True
      then have "len - i + 7 = len - (i + 8) + 7 + 8" by simp
      then show ?thesis by (simp only: div_add_self2) simp
    qed (use 2 in auto)
    obtain css where css: "dump_lines payload len (i + 8) = Some (map row_line css)"
      "\<forall>cs \<in> set css. length cs = 8"
      "concat css = take (8 * ((len - (i + 8) + 7) div 8)) (drop (i + 8) payload)"
      using IH [OF 2] fits "1.prems" by auto
    have "dump_lines payload len i = Some (map row_line (take 8 (drop i payload) # css))"
      using 2 fits css(1) by (subst dump_lines.simps) simp
    then show ?thesis
      using css(2,3) fits by (intro exI [of _ "take 8 (drop i payload) # css"]) (simp add: rows take_add add.commute)
  qed
qed

lemma read_dump_rows:
  assumes "\<forall>cs \<in> set css. length cs = 8"
  shows "concat (map (read_columns 8) (map row_line css)) = concat css"
proof -
  have "read_columns 8 (row_line cs) = cs" if "cs \<in> set css" for cs
    using read_columns_row [of cs] assms that by (simp add: row_line_def)
  then show ?thesis by (induction css) auto
qed

text \<open>
  Printing a packet with its payload never reads outside the payload array, and nothing is lost: the
  hexadecimal columns of the dump, read back, are the bytes of the payload up to its length, rounded up
  to whole rows of eight. No name of a character breaks a line.
\<close>

theorem packet_to_string_readable:
  assumes "length (pk_payload p) = 512" and "unat (pk_length p) \<le> 512"
  shows "\<exists>out. packet_to_string (Some p) True = Some (Inr out) \<and>
    read_dump out = take (8 * ((unat (pk_length p) + 7) div 8)) (pk_payload p)"
proof -
  let ?foot = "'' - - - - - - - - - - - - - - - - - - - -''"
  obtain css where css: "dump_lines (pk_payload p) (unat (pk_length p)) 0 = Some (map row_line css)"
    "\<forall>cs \<in> set css. length cs = 8" "concat css = take (8 * ((unat (pk_length p) + 7) div 8)) (pk_payload p)"
    using dump_lines_ok [of "pk_payload p" 0 "unat (pk_length p)"] assms by auto
  let ?ls = "header_lines p @ ([] # map row_line css) @ [?foot]"
  have "packet_to_string (Some p) True = Some (Inr (print_lines ?ls))"
    using css(1) by (simp add: packet_to_string_def)
  moreover have "strsep newline (print_lines ?ls) = ?ls @ [[]]"
    by (rule strsep_print_lines) (auto simp: row_no_newline dest: header_no_newline)
  then have "read_dump (print_lines ?ls) = concat css"
    using read_dump_rows [OF css(2)] by (simp add: read_dump_def header_length butlast_append)
  ultimately show ?thesis using css(3) by auto
qed

section \<open>Witness\<close>

theorem packet_to_string_readable_witness:
  "\<exists>out. packet_to_string (Some (fresh_packet\<lparr>pk_length := 3, pk_payload := [0x25, 0x0A, 0xFF] @ replicate 509 0\<rparr>)) True
       = Some (Inr out) \<and> read_dump out = [0x25, 0x0A, 0xFF] @ replicate 5 0"
proof -
  let ?p = "fresh_packet\<lparr>pk_length := 3, pk_payload := [0x25, 0x0A, 0xFF] @ replicate 509 0\<rparr>"
  have "length (pk_payload ?p) = 512" "unat (pk_length ?p) \<le> 512" by simp_all
  from packet_to_string_readable [OF this] show ?thesis by simp
qed

end
