(* ===== verification/Crc32_Variants.thy ===== *)
theory Crc32_Variants
  imports Crc32
begin

text \<open>
  The rest of \<^verbatim>\<open>lib/Crc32.cpp\<close>: the routines the receiver does not call itself (half bytes,
  one byte at a time with and without a table, slicing by 4, slicing by 8 unrolled, slicing by
  16 with prefetching), the choice made by \<^verbatim>\<open>crc32_fast\<close>, and the code for big-endian hosts
  of every routine that reads its data in words. All of them are shown to compute
  \<^verbatim>\<open>crc32_bitwise\<close>.

  The parameter \<open>host\<close> is \<^verbatim>\<open>__BYTE_ORDER\<close>. A \<^verbatim>\<open>size_t\<close> is a 64-bit word where its sum may
  wrap around (\<^verbatim>\<open>prefetchAhead\<close>), and a read past the end of the data is the value \<open>None\<close>.
\<close>

section \<open>Byte at a time\<close>

definition Crc32Lookup16 :: "u32 list" where
  "Crc32Lookup16 = [
    0x00000000, 0x1DB71064, 0x3B6E20C8, 0x26D930AC, 0x76DC4190, 0x6B6B51F4, 0x4DB26158, 0x5005713C,
    0xEDB88320, 0xF00F9344, 0xD6D6A3E8, 0xCB61B38C, 0x9B64C2B0, 0x86D3D2D4, 0xA00AE278, 0xBDBDF21C]"

definition halfbyte_step :: "u32 \<Rightarrow> u8 \<Rightarrow> u32" where
  "halfbyte_step crc b =
     (let crc = Crc32Lookup16 ! unat ((crc XOR ucast b) AND 0x0F) XOR drop_bit 4 crc
      in Crc32Lookup16 ! unat ((crc XOR ucast (drop_bit 4 b)) AND 0x0F) XOR drop_bit 4 crc)"

definition crc32_halfbyte :: "bytes \<Rightarrow> u32 \<Rightarrow> u32" where
  "crc32_halfbyte data previousCrc32 = NOT (foldl halfbyte_step (NOT previousCrc32) data)"

definition crc32_1byte :: "bytes \<Rightarrow> u32 \<Rightarrow> u32" where
  "crc32_1byte data previousCrc32 = NOT (foldl crc_tail_step (NOT previousCrc32) data)"

text \<open>
  \<^verbatim>\<open>s\<close> is a byte, promoted to \<^verbatim>\<open>int\<close> before the shift; the products are those of \<^verbatim>\<open>uint32_t\<close>.
\<close>

definition tableless_step :: "u32 \<Rightarrow> u8 \<Rightarrow> u32" where
  "tableless_step crc b =
     (let s = ucast (ucast crc XOR b :: u8) :: u32;
          low = (s XOR push_bit 6 s) AND 0xFF;
          a = low * (2 ^ 23 + 2 ^ 14 + 2 ^ 2)
      in drop_bit 8 crc XOR (low * (2 ^ 24 + 2 ^ 16 + 2 ^ 8)) XOR a XOR drop_bit 1 a
         XOR (low * (2 ^ 20 + 2 ^ 12)) XOR push_bit 19 low XOR push_bit 17 low XOR drop_bit 2 low)"

definition crc32_1byte_tableless :: "bytes \<Rightarrow> u32 \<Rightarrow> u32" where
  "crc32_1byte_tableless data previousCrc32 = NOT (foldl tableless_step (NOT previousCrc32) data)"

text \<open>
  \<^verbatim>\<open>((crc << k) >> 31)\<close> on an \<^verbatim>\<open>int32_t\<close>: the shift to the right is arithmetic.
\<close>

definition sign_fill :: "nat \<Rightarrow> u32 \<Rightarrow> u32" where
  "sign_fill k crc = signed_drop_bit 31 (push_bit k crc)"

definition tableless2_step :: "u32 \<Rightarrow> u8 \<Rightarrow> u32" where
  "tableless2_step crc b =
     (let crc = crc XOR ucast b;
          c = (sign_fill 31 crc AND (drop_bit 7 Polynomial XOR drop_bit 1 Polynomial)) XOR
              (sign_fill 30 crc AND (drop_bit 6 Polynomial XOR Polynomial)) XOR
              (sign_fill 29 crc AND drop_bit 5 Polynomial) XOR
              (sign_fill 28 crc AND drop_bit 4 Polynomial) XOR
              (sign_fill 27 crc AND drop_bit 3 Polynomial) XOR
              (sign_fill 26 crc AND drop_bit 2 Polynomial) XOR
              (sign_fill 25 crc AND drop_bit 1 Polynomial) XOR
              (sign_fill 24 crc AND Polynomial)
      in drop_bit 8 crc XOR c)"

definition crc32_1byte_tableless2 :: "bytes \<Rightarrow> u32 \<Rightarrow> u32" where
  "crc32_1byte_tableless2 data previousCrc32 = NOT (foldl tableless2_step (NOT previousCrc32) data)"

section \<open>Words at a time\<close>

datatype host_order = Little_endian | Big_endian

definition swap32 :: "u32 \<Rightarrow> u32" where
  "swap32 x = drop_bit 24 x OR (drop_bit 8 x AND 0xFF00) OR (push_bit 8 x AND 0xFF0000) OR push_bit 24 x"

text \<open>A 32-bit read at byte offset \<open>i\<close>, most significant byte first.\<close>

definition be32_at :: "bytes \<Rightarrow> nat \<Rightarrow> u32" where
  "be32_at d i = of_be32 (d ! i) (d ! (i + 1)) (d ! (i + 2)) (d ! (i + 3))"

definition crc4_block :: "host_order \<Rightarrow> u32 \<Rightarrow> bytes \<Rightarrow> u32" where
  "crc4_block host crc d = (case host of
     Big_endian \<Rightarrow> (let one = be32_at d 0 XOR swap32 crc in
       lookup 0 one XOR lookup 1 (drop_bit 8 one) XOR
       lookup 2 (drop_bit 16 one) XOR lookup 3 (drop_bit 24 one))
   | Little_endian \<Rightarrow> (let one = le32_at d 0 XOR crc in
       lookup 0 (drop_bit 24 one) XOR lookup 1 (drop_bit 16 one) XOR
       lookup 2 (drop_bit 8 one) XOR lookup 3 one))"

definition crc8_block_on :: "host_order \<Rightarrow> u32 \<Rightarrow> bytes \<Rightarrow> u32" where
  "crc8_block_on host crc d = (case host of
     Big_endian \<Rightarrow> (let one = be32_at d 0 XOR swap32 crc; two = be32_at d 4 in
       lookup 0 two XOR lookup 1 (drop_bit 8 two) XOR
       lookup 2 (drop_bit 16 two) XOR lookup 3 (drop_bit 24 two) XOR
       lookup 4 one XOR lookup 5 (drop_bit 8 one) XOR
       lookup 6 (drop_bit 16 one) XOR lookup 7 (drop_bit 24 one))
   | Little_endian \<Rightarrow> crc8_block crc d)"

definition crc16_block_on :: "host_order \<Rightarrow> u32 \<Rightarrow> bytes \<Rightarrow> u32" where
  "crc16_block_on host crc d = (case host of
     Big_endian \<Rightarrow> (let one = be32_at d 0 XOR swap32 crc; two = be32_at d 4;
         three = be32_at d 8; four = be32_at d 12 in
       lookup 0 four XOR lookup 1 (drop_bit 8 four) XOR
       lookup 2 (drop_bit 16 four) XOR lookup 3 (drop_bit 24 four) XOR
       lookup 4 three XOR lookup 5 (drop_bit 8 three) XOR
       lookup 6 (drop_bit 16 three) XOR lookup 7 (drop_bit 24 three) XOR
       lookup 8 two XOR lookup 9 (drop_bit 8 two) XOR
       lookup 10 (drop_bit 16 two) XOR lookup 11 (drop_bit 24 two) XOR
       lookup 12 one XOR lookup 13 (drop_bit 8 one) XOR
       lookup 14 (drop_bit 16 one) XOR lookup 15 (drop_bit 24 one))
   | Little_endian \<Rightarrow> crc16_block crc d)"

fun crc4_loop :: "host_order \<Rightarrow> u32 \<Rightarrow> bytes \<Rightarrow> u32" where
  "crc4_loop host crc data =
     (if 4 \<le> length data then crc4_loop host (crc4_block host crc data) (drop 4 data)
      else foldl crc_tail_step crc data)"

definition crc32_4bytes :: "host_order \<Rightarrow> bytes \<Rightarrow> u32 \<Rightarrow> u32" where
  "crc32_4bytes host data previousCrc32 = NOT (crc4_loop host (NOT previousCrc32) data)"

fun crc8_loop_on :: "host_order \<Rightarrow> u32 \<Rightarrow> bytes \<Rightarrow> u32" where
  "crc8_loop_on host crc data =
     (if 8 \<le> length data then crc8_loop_on host (crc8_block_on host crc data) (drop 8 data)
      else foldl crc_tail_step crc data)"

definition crc32_8bytes_on :: "host_order \<Rightarrow> bytes \<Rightarrow> u32 \<Rightarrow> u32" where
  "crc32_8bytes_on host data previousCrc32 = NOT (crc8_loop_on host (NOT previousCrc32) data)"

text \<open>The inner loop of the unrolled routines: four blocks, one after the other.\<close>

definition four_blocks :: "nat \<Rightarrow> (u32 \<Rightarrow> bytes \<Rightarrow> u32) \<Rightarrow> u32 \<Rightarrow> bytes \<Rightarrow> u32" where
  "four_blocks n block crc data =
     foldl (\<lambda>c unrolling. block c (drop (n * unrolling) data)) crc [0, 1, 2, 3]"

fun crc4x8_loop :: "host_order \<Rightarrow> u32 \<Rightarrow> bytes \<Rightarrow> u32" where
  "crc4x8_loop host crc data =
     (if 32 \<le> length data then
        crc4x8_loop host (four_blocks 8 (crc8_block_on host) crc data) (drop 32 data)
      else foldl crc_tail_step crc data)"

definition crc32_4x8bytes :: "host_order \<Rightarrow> bytes \<Rightarrow> u32 \<Rightarrow> u32" where
  "crc32_4x8bytes host data previousCrc32 = NOT (crc4x8_loop host (NOT previousCrc32) data)"

fun crc16_loop_on :: "host_order \<Rightarrow> u32 \<Rightarrow> bytes \<Rightarrow> u32" where
  "crc16_loop_on host crc data =
     (if 64 \<le> length data then
        crc16_loop_on host (four_blocks 16 (crc16_block_on host) crc data) (drop 64 data)
      else foldl crc_tail_step crc data)"

definition crc32_16bytes_on :: "host_order \<Rightarrow> bytes \<Rightarrow> u32 \<Rightarrow> u32" where
  "crc32_16bytes_on host data previousCrc32 = NOT (crc16_loop_on host (NOT previousCrc32) data)"

text \<open>
  The guard of the prefetching loop is \<^verbatim>\<open>length >= BytesAtOnce + prefetchAhead\<close> in \<^verbatim>\<open>size_t\<close>:
  the sum may wrap around below the 64 bytes that the body reads.
\<close>

fun prefetch_loop :: "host_order \<Rightarrow> u64 \<Rightarrow> u32 \<Rightarrow> bytes \<Rightarrow> u32 option" where
  "prefetch_loop host prefetchAhead crc data =
     (if unat (64 + prefetchAhead) \<le> length data then
        (if length data < 64 then None
         else prefetch_loop host prefetchAhead
                (four_blocks 16 (crc16_block_on host) crc data) (drop 64 data))
      else Some (foldl crc_tail_step crc data))"

definition crc32_16bytes_prefetch :: "host_order \<Rightarrow> bytes \<Rightarrow> u32 \<Rightarrow> u64 \<Rightarrow> u32 option" where
  "crc32_16bytes_prefetch host data previousCrc32 prefetchAhead =
     map_option NOT (prefetch_loop host prefetchAhead (NOT previousCrc32) data)"

text \<open>
  The macros of \<^verbatim>\<open>Crc32.h\<close>, in the order in which \<^verbatim>\<open>crc32_fast\<close> and \<^verbatim>\<open>MaxSlice\<close> test them.
  As the header stands the first one is defined.
\<close>

datatype lookup_macro =
    SLICING_BY_16 | SLICING_BY_8 | SLICING_BY_4 | LOOKUP_TABLE_BYTE | NO_LUT

fun MaxSlice :: "lookup_macro \<Rightarrow> nat" where
  "MaxSlice SLICING_BY_16 = 16"
| "MaxSlice SLICING_BY_8 = 8"
| "MaxSlice SLICING_BY_4 = 4"
| "MaxSlice LOOKUP_TABLE_BYTE = 1"
| "MaxSlice NO_LUT = 0"

fun crc32_fast :: "lookup_macro \<Rightarrow> host_order \<Rightarrow> bytes \<Rightarrow> u32 \<Rightarrow> u32" where
  "crc32_fast SLICING_BY_16 host data previousCrc32 = crc32_16bytes_on host data previousCrc32"
| "crc32_fast SLICING_BY_8 host data previousCrc32 = crc32_8bytes_on host data previousCrc32"
| "crc32_fast SLICING_BY_4 host data previousCrc32 = crc32_4bytes host data previousCrc32"
| "crc32_fast LOOKUP_TABLE_BYTE host data previousCrc32 = crc32_1byte data previousCrc32"
| "crc32_fast NO_LUT host data previousCrc32 = crc32_halfbyte data previousCrc32"

declare crc4_loop.simps [simp del] crc8_loop_on.simps [simp del] crc4x8_loop.simps [simp del]
  crc16_loop_on.simps [simp del] prefetch_loop.simps [simp del]

section \<open>Byte at a time: every step is a byte of the register\<close>

text \<open>What the routines that take a byte at a time share.\<close>

locale byte_step =
  fixes step :: "u32 \<Rightarrow> u8 \<Rightarrow> u32"
  assumes step_eq: "step c b = crc_byte (c XOR ucast b)"
begin

lemma steps_feed: "foldl step c d = feed c d"
  by (induction d arbitrary: c) (simp_all add: step_eq)

lemma routine: "NOT (foldl step (NOT prev) d) = crc32_bitwise d prev"
  by (simp add: steps_feed crc32_bitwise_def)

end

interpretation one_byte: byte_step crc_tail_step
  by unfold_locales (rule crc_tail_step_eq)

text \<open>Half a byte: the low four bits are fed back, the rest moves down.\<close>

lemma mask_F: "(0xF :: u32) = mask 4"
  by (simp add: mask_eq_exp_minus_1)

lemma low_nibble: "(x::u32) = push_bit 4 (drop_bit 4 x) XOR (x AND 0xF)"
  unfolding mask_F by (rule bit_word_eqI) (auto simp: bit_simps)

lemma crc_nibble_split: "(crc_bit ^^ 4) x = drop_bit 4 x XOR (crc_bit ^^ 4) (x AND 0xF)"
proof -
  have "(crc_bit ^^ 4) x = (crc_bit ^^ 4) (push_bit 4 (drop_bit 4 x) XOR (x AND 0xF))"
    by (subst low_nibble [of x]) (rule refl)
  then show ?thesis by (simp only: crc_bit_pow_xor crc_bit_pow_push [OF order_refl])
qed

lemma crc_nibble_unfold: "(crc_bit ^^ 4) x = crc_bit (crc_bit (crc_bit (crc_bit x)))"
  by (simp add: numeral_eq_Suc)

lemma Crc32Lookup16_eq: "Crc32Lookup16 = map (\<lambda>i. (crc_bit ^^ 4) (word_of_nat i)) [0..<16]"
  by (simp add: Crc32Lookup16_def upt_16 crc_nibble_unfold crc_bit_literal Polynomial_def)

lemma Crc32Lookup16_nth: "Crc32Lookup16 ! unat (x AND 0xF) = (crc_bit ^^ 4) (x AND 0xF)"
proof -
  have "unat (x AND 0xF) \<le> unat (0xF :: u32)"
    by (rule word_and_le1 [THEN word_le_nat_alt [THEN iffD1]])
  then show ?thesis by (simp add: Crc32Lookup16_eq del: funpow.simps)
qed

lemma crc_byte_nibbles: "crc_byte x = (crc_bit ^^ 4) ((crc_bit ^^ 4) x)"
  by (simp add: crc_byte_unfold crc_nibble_unfold)

lemma halfbyte_step_eq: "halfbyte_step c b = crc_byte (c XOR ucast b)"
proof -
  define c1 where "c1 = Crc32Lookup16 ! unat ((c XOR ucast b) AND 0x0F) XOR drop_bit 4 c"
  define h :: u32 where "h = ucast (drop_bit 4 b)"
  have high: "drop_bit 4 (ucast b) = h" "drop_bit 4 h = 0"
    unfolding h_def by (rule u32_eqI, simp add: bit_by_bit)+
  have first: "(crc_bit ^^ 4) (c XOR ucast b) = c1 XOR h"
    unfolding c1_def Crc32Lookup16_nth crc_nibble_split [of "c XOR ucast b"]
    by (simp only: drop_bit_xor high ac_simps)
  have "halfbyte_step c b = (crc_bit ^^ 4) ((c1 XOR h) AND 0xF) XOR drop_bit 4 c1"
    by (simp add: halfbyte_step_def Let_def c1_def h_def Crc32Lookup16_nth del: funpow.simps)
  also have "\<dots> = (crc_bit ^^ 4) (c1 XOR h)"
    unfolding crc_nibble_split [of "c1 XOR h"] by (simp add: drop_bit_xor high xor.commute)
  finally show ?thesis by (simp only: crc_byte_nibbles first)
qed

interpretation half_byte: byte_step halfbyte_step
  by unfold_locales (rule halfbyte_step_eq)

text \<open>Two linear maps agree on the bytes when they agree on the eight powers of two.\<close>

lemma byte_linear_eq:
  fixes L M :: "u32 \<Rightarrow> u32"
  assumes "\<And>a b. L (a XOR b) = L a XOR L b" and "\<And>a b. M (a XOR b) = M a XOR M b"
    and powers: "map L [1, 2, 4, 8, 16, 32, 64, 128] = map M [1, 2, 4, 8, 16, 32, 64, 128]"
  shows "L (x AND 0xFF) = M (x AND 0xFF)"
proof -
  have "map (\<lambda>j. L (2 ^ j)) [0..<8] = map (\<lambda>j. M (2 ^ j)) [0..<8]"
    using powers by (simp add: upt_8)
  then have "map (\<lambda>i. L (word_of_nat i)) [0..<2 ^ 8] = map (\<lambda>i. M (word_of_nat i)) [0..<2 ^ 8]"
    by (simp only: xor_span_linear [of L, OF assms(1), symmetric]
        xor_span_linear [of M, OF assms(2), symmetric])
  then have "L (word_of_nat i) = M (word_of_nat i)" if "i < 256" for i
    using that by simp
  from this [OF unat_low_byte_less [of x]] show ?thesis by simp
qed

text \<open>
  The first routine without a table: each product is the exclusive or of copies of \<open>low\<close> that
  do not overlap, so the whole expression is linear in the byte.
\<close>

definition tableless_image :: "u32 \<Rightarrow> u32" where
  "tableless_image s = (let low = (s XOR push_bit 6 s) AND 0xFF;
       a = push_bit 23 low XOR push_bit 14 low XOR push_bit 2 low
     in push_bit 24 low XOR push_bit 16 low XOR push_bit 8 low XOR a XOR drop_bit 1 a
        XOR push_bit 20 low XOR push_bit 12 low XOR push_bit 19 low XOR push_bit 17 low
        XOR drop_bit 2 low)"

lemma products_disjoint:
  fixes x :: u32
  defines "low \<equiv> x AND 0xFF"
  shows "low * (2 ^ 24 + 2 ^ 16 + 2 ^ 8) = push_bit 24 low XOR push_bit 16 low XOR push_bit 8 low"
    and "low * (2 ^ 23 + 2 ^ 14 + 2 ^ 2) = push_bit 23 low XOR push_bit 14 low XOR push_bit 2 low"
    and "low * (2 ^ 20 + 2 ^ 12) = push_bit 20 low XOR push_bit 12 low"
proof -
  have disjoint: "push_bit 16 low AND push_bit 8 low = 0" "push_bit 14 low AND push_bit 2 low = 0"
    "push_bit 20 low AND push_bit 12 low = 0"
    "push_bit 24 low AND (push_bit 16 low XOR push_bit 8 low) = 0"
    "push_bit 23 low AND (push_bit 14 low XOR push_bit 2 low) = 0"
    unfolding low_def mask_numerals_u32 by (rule u32_eqI, simp add: bit_by_bit)+
  note add = disjoint [THEN disjunctive_add_eq_xor]
  have sums: "low * (2 ^ i + 2 ^ j) = push_bit i low + push_bit j low"
    "low * (2 ^ i + 2 ^ j + 2 ^ k) = push_bit i low + (push_bit j low + push_bit k low)" for i j k
    by (simp_all only: push_bit_eq_mult distrib_left add.assoc)
  show "low * (2 ^ 24 + 2 ^ 16 + 2 ^ 8) = push_bit 24 low XOR push_bit 16 low XOR push_bit 8 low"
    by (simp only: sums add xor.assoc)
  show "low * (2 ^ 23 + 2 ^ 14 + 2 ^ 2) = push_bit 23 low XOR push_bit 14 low XOR push_bit 2 low"
    by (simp only: sums add xor.assoc)
  show "low * (2 ^ 20 + 2 ^ 12) = push_bit 20 low XOR push_bit 12 low"
    by (simp only: sums add)
qed

lemma tableless_image_xor: "tableless_image (a XOR b) = tableless_image a XOR tableless_image b"
proof -
  have "((a XOR b) XOR push_bit 6 (a XOR b)) AND 0xFF
      = (a XOR push_bit 6 a) AND 0xFF XOR (b XOR push_bit 6 b) AND 0xFF"
    unfolding mask_numerals_u32 by (rule bit_word_eqI) (auto simp: bit_simps)
  then show ?thesis
    by (simp only: tableless_image_def Let_def push_bit_xor drop_bit_xor ac_simps)
qed

lemma tableless_step_eq: "tableless_step c b = crc_byte (c XOR ucast b)"
proof -
  let ?x = "c XOR ucast b"
  have byte: "ucast (ucast c XOR b :: u8) = ?x AND 0xFF" "drop_bit 8 c = drop_bit 8 ?x"
    unfolding mask_numerals_u32 by (rule u32_eqI, simp add: bit_by_bit)+
  have "tableless_step c b = drop_bit 8 c XOR tableless_image (?x AND 0xFF)"
    unfolding tableless_step_def byte(1) Let_def products_disjoint
    by (simp only: tableless_image_def Let_def ac_simps)
  also have "tableless_image (?x AND 0xFF) = crc_byte (?x AND 0xFF)"
    by (rule byte_linear_eq [OF tableless_image_xor crc_byte_xor])
      (simp add: tableless_image_def crc_byte_eval)
  finally show ?thesis
    unfolding byte(2) crc_byte_split [of ?x] .
qed

interpretation tableless: byte_step tableless_step
  by unfold_locales (rule tableless_step_eq)

text \<open>
  The second one: \<open>sign_fill k\<close> spreads bit \<open>31 - k\<close> over the word, so each term adds the image
  of one bit.
\<close>

lemma sign_fill_eq: "k \<le> 31 \<Longrightarrow> sign_fill k c = (if bit c (31 - k) then NOT 0 else 0)"
  unfolding sign_fill_def
  by (rule bit_word_eqI) (auto simp: bit_signed_drop_bit_iff bit_simps Suc_le_eq)

definition tableless2_image :: "u32 \<Rightarrow> u32" where
  "tableless2_image c =
     (if bit c 0 then drop_bit 7 Polynomial XOR drop_bit 1 Polynomial else 0) XOR
     (if bit c 1 then drop_bit 6 Polynomial XOR Polynomial else 0) XOR
     (if bit c 2 then drop_bit 5 Polynomial else 0) XOR
     (if bit c 3 then drop_bit 4 Polynomial else 0) XOR
     (if bit c 4 then drop_bit 3 Polynomial else 0) XOR
     (if bit c 5 then drop_bit 2 Polynomial else 0) XOR
     (if bit c 6 then drop_bit 1 Polynomial else 0) XOR
     (if bit c 7 then Polynomial else 0)"

lemma if_bit_xor:
  "(if bit (a XOR b) n then p else 0) = (if bit a n then p else 0) XOR (if bit b n then p else (0::u32))"
  by (simp add: bit_xor_iff)

lemma tableless2_image_xor: "tableless2_image (a XOR b) = tableless2_image a XOR tableless2_image b"
  by (simp only: tableless2_image_def if_bit_xor ac_simps)

lemma tableless2_image_low: "tableless2_image (c AND 0xFF) = tableless2_image c"
  unfolding mask_numerals_u32 by (simp add: tableless2_image_def bit_simps)

lemma tableless2_image_eq: "tableless2_image c = crc_byte (c AND 0xFF)"
  unfolding tableless2_image_low [of c, symmetric]
  by (rule byte_linear_eq [OF tableless2_image_xor crc_byte_xor])
    (simp add: tableless2_image_def crc_byte_eval)

lemma tableless2_step_eq: "tableless2_step c b = crc_byte (c XOR ucast b)"
proof -
  have "tableless2_step c b = drop_bit 8 (c XOR ucast b) XOR tableless2_image (c XOR ucast b)"
    by (simp add: tableless2_step_def tableless2_image_def sign_fill_eq Let_def if_distrib [of "\<lambda>x. x AND _"] cong: if_cong)
  then show ?thesis
    unfolding tableless2_image_eq crc_byte_split [of "c XOR ucast b"] .
qed

interpretation tableless2: byte_step tableless2_step
  by unfold_locales (rule tableless2_step_eq)

section \<open>Words at a time\<close>

lemma swap32_bytes:
  "swap32 x AND 0xFF = drop_bit 24 x AND 0xFF" "drop_bit 8 (swap32 x) AND 0xFF = drop_bit 16 x AND 0xFF"
  "drop_bit 16 (swap32 x) AND 0xFF = drop_bit 8 x AND 0xFF" "drop_bit 24 (swap32 x) AND 0xFF = x AND 0xFF"
  unfolding swap32_def mask_numerals_u32 by (rule u32_eqI, simp add: bit_by_bit)+

lemma be32_at_bytes:
  "be32_at d i AND 0xFF = drop_bit 24 (le32_at d i) AND 0xFF"
  "drop_bit 8 (be32_at d i) AND 0xFF = drop_bit 16 (le32_at d i) AND 0xFF"
  "drop_bit 16 (be32_at d i) AND 0xFF = drop_bit 8 (le32_at d i) AND 0xFF"
  "drop_bit 24 (be32_at d i) AND 0xFF = le32_at d i AND 0xFF"
  unfolding be32_at_def of_be32_def le32_at_def mask_numerals_u32 by (rule u32_eqI, simp add: bit_by_bit)+

text \<open>The big-endian code looks up the same bytes.\<close>

lemma crc8_block_on_eq: "crc8_block_on host c d = crc8_block c d"
  by (cases host) (simp_all add: crc8_block_on_def crc8_block_def Let_def lookup_def
      and_xor_FF drop_bit_xor be32_at_bytes swap32_bytes)

lemma crc16_block_on_eq: "crc16_block_on host c d = crc16_block c d"
  by (cases host) (simp_all add: crc16_block_on_def crc16_block_def Let_def lookup_def
      and_xor_FF drop_bit_xor be32_at_bytes swap32_bytes)

lemma crc4_block_on_eq: "crc4_block host c d = crc4_block Little_endian c d"
  by (cases host) (simp_all add: crc4_block_def Let_def lookup_def
      and_xor_FF drop_bit_xor be32_at_bytes swap32_bytes)

lemma take_4_bytes: "4 \<le> length d \<Longrightarrow> take 4 d = [d ! 0, d ! 1, d ! 2, d ! 3]"
  by (rule nth_equalityI) (auto simp: less_Suc_eq numeral_eq_Suc)

lemma crc4_block_eq:
  assumes "4 \<le> length d" shows "crc4_block host c d = feed c (take 4 d)"
proof -
  have "feed c (take 4 d) = (crc_byte ^^ 4) c XOR feed 0 (take 4 d)"
    using feed_split [of c "take 4 d"] assms by simp
  also have "\<dots> = crc4_block Little_endian c d"
    unfolding take_4_bytes [OF assms] feed_0_Cons crc_byte_pow_register [of 4 c, simplified]
    by (simp add: crc4_block_def block_simps del: funpow.simps)
      (simp add: numeral_eq_Suc crc_byte_xor xor.assoc xor.commute xor.left_commute)
  finally show ?thesis by (simp only: crc4_block_on_eq [of host])
qed

lemma four_blocks_8: "32 \<le> length d \<Longrightarrow> four_blocks 8 (crc8_block_on host) c d = feed c (take 32 d)"
  using four_blocks_feed [of 8 "crc8_block_on host" d c]
  by (simp add: four_blocks_def crc8_block_on_eq crc8_block_eq)

lemma four_blocks_16: "64 \<le> length d \<Longrightarrow> four_blocks 16 (crc16_block_on host) c d = feed c (take 64 d)"
  using four_blocks_feed [of 16 "crc16_block_on host" d c]
  by (simp add: four_blocks_def crc16_block_on_eq crc16_block_eq)

interpretation crc4: sliced_loop 4 "crc4_block host" "crc4_loop host" for host
  by unfold_locales (simp_all add: crc4_block_eq crc4_loop.simps [symmetric])

interpretation crc8_on: sliced_loop 8 "crc8_block_on host" "crc8_loop_on host" for host
  by unfold_locales (simp_all add: crc8_block_on_eq crc8_block_eq crc8_loop_on.simps [of host, symmetric])

interpretation crc4x8: sliced_loop 32 "four_blocks 8 (crc8_block_on host)" "crc4x8_loop host" for host
  by unfold_locales (simp_all add: four_blocks_8 crc4x8_loop.simps [symmetric])

interpretation crc16_on: sliced_loop 64 "four_blocks 16 (crc16_block_on host)" "crc16_loop_on host" for host
  by unfold_locales (simp_all add: four_blocks_16 crc16_loop_on.simps [symmetric])

text \<open>
  The prefetching loop ends at the first length below its guard: it reads past the data when the
  guard has wrapped around below a block and what is left after the whole blocks reaches it.
\<close>

lemma prefetch_loop_eq:
  "prefetch_loop host ahead c d =
     (if unat (64 + ahead) \<le> length d mod 64 then None else Some (feed c d))"
proof (induction host ahead c d rule: prefetch_loop.induct)
  case (1 host ahead c d)
  consider "length d < unat (64 + ahead)" | "unat (64 + ahead) \<le> length d" "length d < 64"
    | "unat (64 + ahead) \<le> length d" "64 \<le> length d" by linarith
  then show ?case
  proof cases
    case 1
    then have "\<not> unat (64 + ahead) \<le> length d mod 64"
      using mod_less_eq_dividend [of "length d" 64] by linarith
    with 1 show ?thesis by (simp add: prefetch_loop.simps [of host ahead c d] crc_tail_eq)
  next
    case 2
    then show ?thesis by (simp add: prefetch_loop.simps [of host ahead c d])
  next
    case 3
    then show ?thesis using "1"
      by (simp add: prefetch_loop.simps [of host ahead c d] four_blocks_16 feed_take_drop le_mod_geq)
  qed
qed

section \<open>All routines\<close>

lemma crc32_blocks_bitwise:
  "crc32_4bytes host d prev = crc32_bitwise d prev"
  "crc32_8bytes_on host d prev = crc32_bitwise d prev"
  "crc32_4x8bytes host d prev = crc32_bitwise d prev"
  "crc32_16bytes_on host d prev = crc32_bitwise d prev"
  by (simp_all add: crc32_4bytes_def crc32_8bytes_on_def crc32_4x8bytes_def crc32_16bytes_on_def
      crc4.loop_feeds crc8_on.loop_feeds crc4x8.loop_feeds crc16_on.loop_feeds crc32_bitwise_def)

lemma crc32_bytes_bitwise:
  "crc32_halfbyte d prev = crc32_bitwise d prev"
  "crc32_1byte d prev = crc32_bitwise d prev"
  "crc32_1byte_tableless d prev = crc32_bitwise d prev"
  "crc32_1byte_tableless2 d prev = crc32_bitwise d prev"
  by (simp_all add: crc32_halfbyte_def crc32_1byte_def crc32_1byte_tableless_def
      crc32_1byte_tableless2_def half_byte.routine one_byte.routine tableless.routine tableless2.routine)

lemma crc32_fast_bitwise: "crc32_fast macro host d prev = crc32_bitwise d prev"
  by (cases macro) (simp_all add: crc32_blocks_bitwise crc32_bytes_bitwise)

lemma crc32_prefetch_bitwise:
  "crc32_16bytes_prefetch host d prev ahead =
     (if unat (64 + ahead) \<le> length d mod 64 then None else Some (crc32_bitwise d prev))"
  by (simp add: crc32_16bytes_prefetch_def prefetch_loop_eq crc32_bitwise_def)

text \<open>
  C23. Every checksum routine of the library computes the bit-serial CRC-32 of its data, whatever
  the data, its length and the previous checksum: the two the receiver calls (slicing by 8 over
  headers, slicing by 16 over payloads), the routines by half bytes and by bytes with and
  without a table, slicing by 4 and by 8 unrolled, on hosts of either byte order, and the one
  that \<^verbatim>\<open>crc32_fast\<close> selects under each macro. The prefetching routine does too, except when
  the sum in its guard wraps around below what is left of the data after the whole blocks of 64
  bytes: then, and only then, it reads past the end.
\<close>

theorem crc32_routines_agree:
  "crc32_8bytes data prev = crc32_bitwise data prev \<and>
   crc32_16bytes data prev = crc32_bitwise data prev \<and>
   crc32_halfbyte data prev = crc32_bitwise data prev \<and>
   crc32_1byte data prev = crc32_bitwise data prev \<and>
   crc32_1byte_tableless data prev = crc32_bitwise data prev \<and>
   crc32_1byte_tableless2 data prev = crc32_bitwise data prev \<and>
   crc32_4bytes host data prev = crc32_bitwise data prev \<and>
   crc32_8bytes_on host data prev = crc32_bitwise data prev \<and>
   crc32_4x8bytes host data prev = crc32_bitwise data prev \<and>
   crc32_16bytes_on host data prev = crc32_bitwise data prev \<and>
   crc32_fast macro host data prev = crc32_bitwise data prev \<and>
   crc32_16bytes_prefetch host data prev ahead =
     (if unat (64 + ahead) \<le> length data mod 64 then None else Some (crc32_bitwise data prev))"
  by (simp add: crc32_8bytes_bitwise crc32_16bytes_bitwise crc32_blocks_bitwise
      crc32_bytes_bitwise crc32_fast_bitwise crc32_prefetch_bitwise)

end
